(* ===== verification/Prelude.thy ===== *)
theory Prelude
  imports Complex_Main "HOL-Library.Word" "HOL-Library.Sublist"
begin

text \<open>
  What the components share: ECMAScript strings as lists of UTF-16 code units, ECMAScript
  values (the \<open>unknown\<close> of the TypeScript sources) with the tests and reads the sources make
  of them, and the array operations \<open>slice\<close>, \<open>at\<close>, \<open>find\<close> and \<open>indexOf\<close>.

  An object of type \<open>jsval\<close> is the list of its own properties in property order. The sources
  read fixed property names only, none of which is a name of \<open>Object.prototype\<close>, so a read
  of an own property is a read of the property. Numbers are the finite values as rationals, the two
  infinities and NaN; \<open>-0\<close> is identified with \<open>0\<close>, which no operation of the sources tells
  apart.
\<close>

named_theorems js_simps \<open>evaluation of tests and reads on ECMAScript values\<close>

section \<open>Strings\<close>

type_synonym code_unit = "16 word"
type_synonym jstring = "code_unit list"

text \<open>A literal of the source, whose characters are all below 256.\<close>

definition lit :: "string \<Rightarrow> jstring" where
  "lit s = map of_char s"

lemma unat_of_char: "unat (of_char c :: code_unit) = of_char c"
proof -
  have "(of_char c :: code_unit) = word_of_nat (of_char c)"
    by (metis of_nat_of_char)
  moreover have "(of_char c :: nat) < 2 ^ 16"
    by (rule less_trans [of _ 256]) simp_all
  ultimately show ?thesis
    by (simp add: unat_of_nat take_bit_eq_mod)
qed

lemma of_char_unit_eq_iff [simp]: "(of_char c :: code_unit) = of_char d \<longleftrightarrow> c = d"
  by (metis unat_of_char of_char_eq_iff)

lemma lit_eq_iff [simp]: "lit s = lit t \<longleftrightarrow> s = t"
  unfolding lit_def
  by (rule inj_eq) (simp add: inj_map inj_def)

lemma lit_Nil [simp]: "lit [] = []"
  by (simp add: lit_def)

lemma lit_eq_Nil_iff [simp]: "lit s = [] \<longleftrightarrow> s = []" "[] = lit s \<longleftrightarrow> s = []"
  by (simp_all add: lit_def)

lemma length_lit [simp]: "length (lit s) = length s"
  by (simp add: lit_def)

lemma lit_append: "lit (s @ t) = lit s @ lit t"
  by (simp add: lit_def)

lemma prefix_lit [simp]: "prefix (lit s) (lit t) \<longleftrightarrow> prefix s t"
proof (induction s arbitrary: t)
  case (Cons c s)
  then show ?case by (cases t) (auto simp: lit_def)
qed simp

lemma suffix_lit [simp]: "suffix (lit s) (lit t) \<longleftrightarrow> suffix s t"
proof -
  have "suffix (lit s) (lit t) \<longleftrightarrow> prefix (lit (rev s)) (lit (rev t))"
    by (simp add: suffix_to_prefix lit_def rev_map)
  then show ?thesis by (simp add: suffix_to_prefix)
qed

text \<open>
  \<open>startsWith\<close>, \<open>endsWith\<close> and \<open>includes\<close>: the argument first, as in \<open>prefix\<close>.
  The white space of \<open>trim\<close> and of the class \<open>\\s\<close> is that of the language's
  \<open>WhiteSpace\<close> and \<open>LineTerminator\<close>.
\<close>

definition starts_with :: "string \<Rightarrow> jstring \<Rightarrow> bool" where
  "starts_with p s = prefix (lit p) s"

definition ends_with :: "string \<Rightarrow> jstring \<Rightarrow> bool" where
  "ends_with p s = suffix (lit p) s"

definition is_space :: "nat \<Rightarrow> bool" where
  "is_space u \<longleftrightarrow> 9 \<le> u \<and> u \<le> 13 \<or> u = 32 \<or> u = 160 \<or> u = 5760 \<or> 8192 \<le> u \<and> u \<le> 8202 \<or>
     u = 8232 \<or> u = 8233 \<or> u = 8239 \<or> u = 8287 \<or> u = 12288 \<or> u = 65279"

definition trim_start :: "jstring \<Rightarrow> jstring" where
  "trim_start s = dropWhile (\<lambda>u. is_space (unat u)) s"

definition trim :: "jstring \<Rightarrow> jstring" where
  "trim s = rev (trim_start (rev (trim_start s)))"

text \<open>
  \<open>toLowerCase\<close> and \<open>toUpperCase\<close> on the letters of ASCII. The other cased letters of
  Unicode are left alone: no string the sources compare the result with contains one, and the two
  code points above ASCII whose lower case is an ASCII letter (U+0130 and U+212A) map to \<open>i\<close> and
  \<open>k\<close>.
\<close>

definition lower_unit :: "code_unit \<Rightarrow> code_unit" where
  "lower_unit u = (if 65 \<le> unat u \<and> unat u \<le> 90 then u + 32 else u)"

text \<open>A word at the start of a text, whatever the case of its letters, and what follows it.\<close>

fun strip_word :: "string \<Rightarrow> jstring \<Rightarrow> jstring option" where
  "strip_word [] s = Some s"
| "strip_word (c # w) [] = None"
| "strip_word (c # w) (u # s) = (if lower_unit u = of_char c then strip_word w s else None)"

definition blank :: "code_unit \<Rightarrow> bool" where
  "blank u = is_space (unat u)"

definition upper_unit :: "code_unit \<Rightarrow> code_unit" where
  "upper_unit u = (if 97 \<le> unat u \<and> unat u \<le> 122 then u - 32 else u)"

definition to_lower :: "jstring \<Rightarrow> jstring" where
  "to_lower s = map lower_unit s"

text \<open>\<open>value.replaceAll('_', ' ')\<close>, the only replacement of one character the sources make.\<close>

definition underscores_to_spaces :: "jstring \<Rightarrow> jstring" where
  "underscores_to_spaces s = map (\<lambda>u. if u = 95 then 32 else u) s"

fun join :: "jstring \<Rightarrow> jstring list \<Rightarrow> jstring" where
  "join sep [] = []"
| "join sep [x] = x"
| "join sep (x # xs) = x @ sep @ join sep xs"

text \<open>A table of the source keyed by string literals, and a test against a set of literals.\<close>

fun table_get :: "(string \<times> 'a) list \<Rightarrow> jstring \<Rightarrow> 'a option" where
  "table_get [] s = None"
| "table_get ((t, a) # ts) s = (if s = lit t then Some a else table_get ts s)"

fun one_of :: "string list \<Rightarrow> jstring \<Rightarrow> bool" where
  "one_of [] s = False"
| "one_of (t # ts) s = (if s = lit t then True else one_of ts s)"

lemma one_of_append: "one_of (ts @ us) s = (if one_of ts s then True else one_of us s)"
  by (induction ts) auto

lemma table_get_append:
  "table_get (ts @ us) s = (case table_get ts s of None \<Rightarrow> table_get us s | Some a \<Rightarrow> Some a)"
  by (induction ts) auto

lemma one_of_iff: "one_of ts s \<longleftrightarrow> s \<in> lit ` set ts"
  by (induction ts) auto

lemma table_get_None_iff: "table_get ts s = None \<longleftrightarrow> \<not> one_of (map fst ts) s"
  by (induction ts) auto

lemma table_get_Some: "table_get ts s = Some a \<Longrightarrow> \<exists>t. s = lit t \<and> (t, a) \<in> set ts"
  by (induction ts) (auto split: if_splits)

text \<open>The tables are long: evaluate a lookup without simplifying the rest of the table.\<close>

lemma table_get_weak_cong [cong]: "s = s' \<Longrightarrow> table_get ts s = table_get ts s'"
  by simp

lemma one_of_weak_cong [cong]: "s = s' \<Longrightarrow> one_of ts s = one_of ts s'"
  by simp

section \<open>Arrays\<close>

text \<open>
  \<open>xs.slice(-n)\<close> for a positive \<open>n\<close>, \<open>xs.at(-1)\<close>, \<open>xs[i]\<close> (which is
  \<open>undefined\<close> out of range) and \<open>xs.indexOf(x)\<close> (\<open>None\<close> for \<open>-1\<close>).
\<close>

definition slice_last :: "nat \<Rightarrow> 'a list \<Rightarrow> 'a list" where
  "slice_last n xs = drop (length xs - n) xs"

definition at_last :: "'a list \<Rightarrow> 'a option" where
  "at_last xs = (if xs = [] then None else Some (last xs))"

definition array_get :: "'a list \<Rightarrow> int \<Rightarrow> 'a option" where
  "array_get xs i = (if 0 \<le> i \<and> i < int (length xs) then Some (xs ! nat i) else None)"

fun index_of :: "'a \<Rightarrow> 'a list \<Rightarrow> nat option" where
  "index_of x [] = None"
| "index_of x (y # ys) = (if y = x then Some 0 else map_option Suc (index_of x ys))"

lemma length_slice_last [simp]: "length (slice_last n xs) = min n (length xs)"
  by (simp add: slice_last_def)

lemma set_slice_last: "set (slice_last n xs) \<subseteq> set xs"
  by (simp add: slice_last_def set_drop_subset)

lemma slice_last_all: "length xs \<le> n \<Longrightarrow> slice_last n xs = xs"
  by (simp add: slice_last_def)

lemma distinct_slice_last: "distinct xs \<Longrightarrow> distinct (slice_last n xs)"
  by (simp add: slice_last_def)

lemma sorted_wrt_slice_last: "sorted_wrt R xs \<Longrightarrow> sorted_wrt R (slice_last n xs)"
  by (simp add: slice_last_def sorted_wrt_drop)

lemma index_of_None: "index_of x xs = None \<longleftrightarrow> x \<notin> set xs"
  by (induction xs) auto

lemma index_of_Some:
  "index_of x xs = Some i \<Longrightarrow> i < length xs \<and> xs ! i = x \<and> x \<notin> set (take i xs)"
proof (induction xs arbitrary: i)
  case (Cons y ys)
  then show ?case by (cases i) (auto split: if_splits)
qed simp

lemma index_of_append:
  "index_of x (xs @ ys) =
     (if x \<in> set xs then index_of x xs
      else case index_of x ys of None \<Rightarrow> None | Some i \<Rightarrow> Some (length xs + i))"
  by (induction xs) (auto split: option.splits)

lemma set_map_filter_Some: "y \<in> set (List.map_filter f xs) \<longleftrightarrow> (\<exists>x \<in> set xs. f x = Some y)"
  by (force simp: map_filter_def)

lemma keys_map_filter:
  "k \<in> fst ` set (List.map_filter f xs) \<longleftrightarrow> (\<exists>x \<in> set xs. \<exists>v. f x = Some (k, v))"
  by (force simp: image_iff set_map_filter_Some)

section \<open>Values\<close>

datatype jsnum = Fin rat | PosInf | NegInf | NaN

datatype jsval =
    JUndef
  | JNull
  | JBool bool
  | JNum jsnum
  | JStr jstring
  | JArr "jsval list"
  | JObj "(jstring \<times> jsval) list"

abbreviation JInt :: "int \<Rightarrow> jsval" where
  "JInt n \<equiv> JNum (Fin (of_int n))"

text \<open>The read of a property, and the own-property test.\<close>

fun fld :: "jsval \<Rightarrow> string \<Rightarrow> jsval" where
  "fld (JObj ps) k = (case map_of ps (lit k) of None \<Rightarrow> JUndef | Some v \<Rightarrow> v)"
| "fld _ k = JUndef"

fun has_own :: "jsval \<Rightarrow> string \<Rightarrow> bool" where
  "has_own (JObj ps) k = (lit k \<in> fst ` set ps)"
| "has_own _ k = False"

fun is_array :: "jsval \<Rightarrow> bool" where
  "is_array (JArr _) = True"
| "is_array _ = False"

fun is_string :: "jsval \<Rightarrow> bool" where
  "is_string (JStr _) = True"
| "is_string _ = False"

fun is_boolean :: "jsval \<Rightarrow> bool" where
  "is_boolean (JBool _) = True"
| "is_boolean _ = False"

fun is_number :: "jsval \<Rightarrow> bool" where
  "is_number (JNum _) = True"
| "is_number _ = False"

fun as_str :: "jsval \<Rightarrow> jstring option" where
  "as_str (JStr s) = Some s"
| "as_str _ = None"

fun str_of :: "jsval \<Rightarrow> jstring" where
  "str_of (JStr s) = s"
| "str_of _ = []"

fun elems :: "jsval \<Rightarrow> jsval list" where
  "elems (JArr xs) = xs"
| "elems _ = []"

lemma is_string_iff: "is_string v \<longleftrightarrow> (\<exists>s. v = JStr s)"
  by (cases v) auto

lemma is_array_iff: "is_array v \<longleftrightarrow> (\<exists>xs. v = JArr xs)"
  by (cases v) auto

lemma as_str_Some_iff [simp]: "as_str v = Some s \<longleftrightarrow> v = JStr s"
  by (cases v) auto

lemma as_str_None_iff: "as_str v = None \<longleftrightarrow> \<not> is_string v"
  by (cases v) auto

lemma fld_has_own: "fld v k \<noteq> JUndef \<Longrightarrow> has_own v k"
proof (cases v)
  case (JObj ps)
  assume "fld v k \<noteq> JUndef"
  with JObj obtain w where "map_of ps (lit k) = Some w"
    by (auto split: option.splits)
  then have "(lit k, w) \<in> set ps" by (rule map_of_SomeD)
  then show ?thesis using JObj by force
qed simp_all

text \<open>\<open>Number.isSafeInteger\<close>.\<close>

definition max_safe_integer :: int where
  "max_safe_integer = 9007199254740991"

fun safe_int :: "jsval \<Rightarrow> int option" where
  "safe_int (JNum (Fin q)) =
     (if of_int \<lfloor>q\<rfloor> = q \<and> \<bar>\<lfloor>q\<rfloor>\<bar> \<le> max_safe_integer then Some \<lfloor>q\<rfloor> else None)"
| "safe_int _ = None"

lemma safe_int_Some:
  "safe_int v = Some n \<longleftrightarrow> v = JInt n \<and> \<bar>n\<bar> \<le> max_safe_integer"
  by (cases v rule: safe_int.cases) auto

lemma safe_int_JInt [simp]:
  "safe_int (JInt n) = (if \<bar>n\<bar> \<le> max_safe_integer then Some n else None)"
  by simp

end
