(* ===== verification/Catalog.thy ===== *)
theory Catalog
  imports Prelude
begin

text \<open>
  The operation catalogue and the event types of \<open>ui/shared/src/generated/protocol.ts\<close>, in the
  order of the source. The two tables over the operations are each written in two parts, split after
  \<open>project.import\<close>.
\<close>

definition PROTOCOL_VERSION :: jstring where
  "PROTOCOL_VERSION = lit ''ion.controlplane.v1''"

datatype request_kind = Query | Command

definition operations_head :: "string list" where
  "operations_head = [
   ''approval.respond'', ''artifact.list'', ''artifact.record'', ''artifact.verify'',
   ''automatrix.approve'', ''automatrix.list'', ''automatrix.reject'', ''autonomy.get'',
   ''autonomy.update'', ''browser.credential.list'', ''browser.workflow.cancel'',
   ''browser.workflow.handoff'', ''browser.workflow.list'', ''browser.workflow.pause'',
   ''browser.workflow.resume'', ''channel.health'', ''channel.list'', ''channel.retry'',
   ''channel.skip'', ''citation.verify'', ''commands.catalog'', ''computer.browser.interact'',
   ''computer.browser.navigate'', ''computer.browser.observe'', ''computer.browser.submit'',
   ''computer.control.acquire'', ''computer.control.get'', ''computer.control.release'',
   ''computer.control.renew'', ''config.get'', ''config.patch'', ''continuity.brief'',
   ''curiosity.targets'', ''dreamweaver.beliefs'', ''events.acknowledge'', ''events.replay'',
   ''integrity.latest'', ''integrity.run'', ''integrity.verify'', ''liveness.get'',
   ''logs.query'', ''mcp.reload'', ''mcp.servers'', ''mcp.tools'', ''memory.activation'',
   ''memory.get'', ''memory.graph'', ''memory.pin'', ''memory.recover'', ''memory.search'',
   ''plugin.lifecycle'', ''plugin.list'', ''policy.events'', ''policy.explain'',
   ''prediction.list'', ''premise.list'', ''project.attach'', ''project.ci.patch.plan'',
   ''project.citation.verify'', ''project.clone'', ''project.create'', ''project.delivery.get'',
   ''project.dependencies.install'', ''project.dependencies.plan'', ''project.deployment.apply'',
   ''project.deployment.plan'', ''project.deployment.reconcile'',
   ''project.deployment.rollback'', ''project.environment.put'', ''project.get'',
   ''project.git.blame'', ''project.git.branch.create'', ''project.git.checkpoint'',
   ''project.git.commit'', ''project.git.diff'', ''project.git.force-with-lease'',
   ''project.git.get'', ''project.git.merge'', ''project.git.preview.close'',
   ''project.git.preview.start'', ''project.git.provider.changes'',
   ''project.git.provider.checks'', ''project.git.provider.draft'',
   ''project.git.provider.grant'', ''project.git.provider.issues'',
   ''project.git.provider.mergeability'', ''project.git.provider.repositories'',
   ''project.git.provider.review'', ''project.git.pull'', ''project.git.push'',
   ''project.git.restore.plan'', ''project.git.review.comment'', ''project.git.review.comments'',
   ''project.git.review.get'', ''project.git.review.resolve'', ''project.git.stage'',
   ''project.git.stage.hunks'', ''project.git.sync'', ''project.git.tag.create'',
   ''project.import'']"

definition operations_tail :: "string list" where
  "operations_tail = [
   ''project.index.get'', ''project.index.refresh'', ''project.list'',
   ''project.migration.apply'', ''project.migration.plan'', ''project.migration.rollback'',
   ''project.patch.apply'', ''project.patch.history'', ''project.patch.rollback'',
   ''project.portable.export'', ''project.process.start'', ''project.release.prepare'',
   ''project.resource.apply'', ''project.resource.plan'', ''project.runtime.annotate'',
   ''project.runtime.get'', ''project.runtime.inspect'', ''project.runtime.list'',
   ''project.runtime.phase'', ''project.runtime.plan'', ''project.runtime.problems'',
   ''project.runtime.reload'', ''project.runtime.report'', ''project.runtime.restart'',
   ''project.runtime.start'', ''project.runtime.stop'', ''project.runtime.style.propose'',
   ''project.search'', ''project.terminal.cancel'', ''project.terminal.input'',
   ''project.terminal.replay'', ''project.terminal.resize'', ''project.terminal.signal'',
   ''project.toolchain.get'', ''project.verification.manifest.derive'',
   ''project.verification.manifest.get'', ''project.verification.run'',
   ''project.verification.runs'', ''project.verification.waiver.create'',
   ''project.verification.waivers'', ''provider.list'', ''provider.usage'', ''receipt.list'',
   ''receipt.verify'', ''relationship.update'', ''review.plan'', ''schedule.list'',
   ''schedule.update'', ''session.archive'', ''session.branch'', ''session.close'',
   ''session.create'', ''session.delete'', ''session.export'', ''session.list'',
   ''session.rename'', ''session.resume'', ''skill.get'', ''skill.lifecycle'', ''skill.list'',
   ''skill.refine'', ''skill.rollback'', ''skill.save'', ''soul.get'', ''soul.propose'',
   ''studio.completion.check'', ''studio.context.plan'', ''studio.correlation.record'',
   ''studio.drift.get'', ''studio.intent.compile'', ''studio.intent.get'',
   ''studio.intent.list'', ''studio.proposal.apply'', ''studio.proposal.decide'',
   ''studio.scope.propose'', ''supervisor.cancel'', ''supervisor.get'', ''supervisor.list'',
   ''supervisor.start'', ''supervisor.steer'', ''swarm.abort'', ''swarm.list'',
   ''system.health'', ''system.metrics'', ''system.snapshot'', ''taskgraph.get'',
   ''taskgraph.todo'', ''tool.invoke'', ''tool.readiness'', ''tool.surface'', ''turn.cancel'',
   ''turn.retry'', ''turn.steer'', ''turn.submit'', ''work.brief'', ''work.contract.complete'',
   ''work.contract.put'', ''workflow.advance'', ''workflow.list'', ''workflow.start'',
   ''workspace.capabilities'', ''workspace.lifecycle'']"

definition OPERATIONS :: "string list" where
  "OPERATIONS = operations_head @ operations_tail"

definition operation_kinds_head :: "(string \<times> request_kind) list" where
  "operation_kinds_head = [
   (''approval.respond'', Command), (''artifact.list'', Query), (''artifact.record'', Command),
   (''artifact.verify'', Command), (''automatrix.approve'', Command),
   (''automatrix.list'', Query), (''automatrix.reject'', Command), (''autonomy.get'', Query),
   (''autonomy.update'', Command), (''browser.credential.list'', Query),
   (''browser.workflow.cancel'', Command), (''browser.workflow.handoff'', Command),
   (''browser.workflow.list'', Query), (''browser.workflow.pause'', Command),
   (''browser.workflow.resume'', Command), (''channel.health'', Query),
   (''channel.list'', Query), (''channel.retry'', Command), (''channel.skip'', Command),
   (''citation.verify'', Query), (''commands.catalog'', Query),
   (''computer.browser.interact'', Command), (''computer.browser.navigate'', Command),
   (''computer.browser.observe'', Query), (''computer.browser.submit'', Command),
   (''computer.control.acquire'', Command), (''computer.control.get'', Query),
   (''computer.control.release'', Command), (''computer.control.renew'', Command),
   (''config.get'', Query), (''config.patch'', Command), (''continuity.brief'', Query),
   (''curiosity.targets'', Query), (''dreamweaver.beliefs'', Query),
   (''events.acknowledge'', Command), (''events.replay'', Query), (''integrity.latest'', Query),
   (''integrity.run'', Command), (''integrity.verify'', Query), (''liveness.get'', Query),
   (''logs.query'', Query), (''mcp.reload'', Command), (''mcp.servers'', Query),
   (''mcp.tools'', Query), (''memory.activation'', Query), (''memory.get'', Query),
   (''memory.graph'', Query), (''memory.pin'', Command), (''memory.recover'', Command),
   (''memory.search'', Query), (''plugin.lifecycle'', Command), (''plugin.list'', Query),
   (''policy.events'', Query), (''policy.explain'', Query), (''prediction.list'', Query),
   (''premise.list'', Query), (''project.attach'', Command), (''project.ci.patch.plan'', Query),
   (''project.citation.verify'', Query), (''project.clone'', Command),
   (''project.create'', Command), (''project.delivery.get'', Query),
   (''project.dependencies.install'', Command), (''project.dependencies.plan'', Query),
   (''project.deployment.apply'', Command), (''project.deployment.plan'', Command),
   (''project.deployment.reconcile'', Command), (''project.deployment.rollback'', Command),
   (''project.environment.put'', Command), (''project.get'', Query),
   (''project.git.blame'', Query), (''project.git.branch.create'', Command),
   (''project.git.checkpoint'', Command), (''project.git.commit'', Command),
   (''project.git.diff'', Query), (''project.git.force-with-lease'', Command),
   (''project.git.get'', Query), (''project.git.merge'', Command),
   (''project.git.preview.close'', Command), (''project.git.preview.start'', Command),
   (''project.git.provider.changes'', Query), (''project.git.provider.checks'', Query),
   (''project.git.provider.draft'', Command), (''project.git.provider.grant'', Command),
   (''project.git.provider.issues'', Query), (''project.git.provider.mergeability'', Query),
   (''project.git.provider.repositories'', Query), (''project.git.provider.review'', Query),
   (''project.git.pull'', Command), (''project.git.push'', Command),
   (''project.git.restore.plan'', Query), (''project.git.review.comment'', Command),
   (''project.git.review.comments'', Query), (''project.git.review.get'', Query),
   (''project.git.review.resolve'', Command), (''project.git.stage'', Command),
   (''project.git.stage.hunks'', Command), (''project.git.sync'', Command),
   (''project.git.tag.create'', Command), (''project.import'', Command)]"

definition operation_kinds_tail :: "(string \<times> request_kind) list" where
  "operation_kinds_tail = [
   (''project.index.get'', Query), (''project.index.refresh'', Command),
   (''project.list'', Query), (''project.migration.apply'', Command),
   (''project.migration.plan'', Command), (''project.migration.rollback'', Command),
   (''project.patch.apply'', Command), (''project.patch.history'', Query),
   (''project.patch.rollback'', Command), (''project.portable.export'', Command),
   (''project.process.start'', Command), (''project.release.prepare'', Command),
   (''project.resource.apply'', Command), (''project.resource.plan'', Command),
   (''project.runtime.annotate'', Command), (''project.runtime.get'', Query),
   (''project.runtime.inspect'', Query), (''project.runtime.list'', Query),
   (''project.runtime.phase'', Command), (''project.runtime.plan'', Query),
   (''project.runtime.problems'', Query), (''project.runtime.reload'', Command),
   (''project.runtime.report'', Command), (''project.runtime.restart'', Command),
   (''project.runtime.start'', Command), (''project.runtime.stop'', Command),
   (''project.runtime.style.propose'', Command), (''project.search'', Query),
   (''project.terminal.cancel'', Command), (''project.terminal.input'', Command),
   (''project.terminal.replay'', Query), (''project.terminal.resize'', Command),
   (''project.terminal.signal'', Command), (''project.toolchain.get'', Query),
   (''project.verification.manifest.derive'', Command),
   (''project.verification.manifest.get'', Query), (''project.verification.run'', Command),
   (''project.verification.runs'', Query), (''project.verification.waiver.create'', Command),
   (''project.verification.waivers'', Query), (''provider.list'', Query),
   (''provider.usage'', Query), (''receipt.list'', Query), (''receipt.verify'', Query),
   (''relationship.update'', Command), (''review.plan'', Query), (''schedule.list'', Query),
   (''schedule.update'', Command), (''session.archive'', Command), (''session.branch'', Command),
   (''session.close'', Command), (''session.create'', Command), (''session.delete'', Command),
   (''session.export'', Query), (''session.list'', Query), (''session.rename'', Command),
   (''session.resume'', Command), (''skill.get'', Query), (''skill.lifecycle'', Query),
   (''skill.list'', Query), (''skill.refine'', Command), (''skill.rollback'', Command),
   (''skill.save'', Command), (''soul.get'', Query), (''soul.propose'', Command),
   (''studio.completion.check'', Query), (''studio.context.plan'', Query),
   (''studio.correlation.record'', Command), (''studio.drift.get'', Query),
   (''studio.intent.compile'', Command), (''studio.intent.get'', Query),
   (''studio.intent.list'', Query), (''studio.proposal.apply'', Command),
   (''studio.proposal.decide'', Command), (''studio.scope.propose'', Command),
   (''supervisor.cancel'', Command), (''supervisor.get'', Query), (''supervisor.list'', Query),
   (''supervisor.start'', Command), (''supervisor.steer'', Command), (''swarm.abort'', Command),
   (''swarm.list'', Query), (''system.health'', Query), (''system.metrics'', Query),
   (''system.snapshot'', Query), (''taskgraph.get'', Query), (''taskgraph.todo'', Query),
   (''tool.invoke'', Command), (''tool.readiness'', Query), (''tool.surface'', Query),
   (''turn.cancel'', Command), (''turn.retry'', Command), (''turn.steer'', Command),
   (''turn.submit'', Command), (''work.brief'', Query), (''work.contract.complete'', Command),
   (''work.contract.put'', Command), (''workflow.advance'', Command), (''workflow.list'', Query),
   (''workflow.start'', Command), (''workspace.capabilities'', Query),
   (''workspace.lifecycle'', Command)]"

definition OPERATION_KINDS :: "(string \<times> request_kind) list" where
  "OPERATION_KINDS = operation_kinds_head @ operation_kinds_tail"

definition EVENT_TYPES :: "string list" where
  "EVENT_TYPES = [
   ''connection.ready'', ''connection.degraded'', ''connection.recovered'', ''turn.started'',
   ''turn.delta'', ''turn.completed'', ''turn.incomplete'', ''turn.recovery'', ''turn.failed'',
   ''reasoning.summary'', ''tool.requested'', ''tool.awaiting_approval'', ''tool.started'',
   ''tool.delta'', ''tool.completed'', ''tool.failed'', ''tool.denied'', ''tool.interrupted'',
   ''tool.outcome_unknown'', ''computer.control.acquired'', ''computer.control.renewed'',
   ''computer.control.released'', ''approval.requested'', ''approval.resolved'',
   ''approval.expired'', ''premise.created'', ''premise.cited'', ''premise.refuted'',
   ''prediction.created'', ''prediction.matched'', ''prediction.mismatched'', ''task.changed'',
   ''convergence.warning'', ''agent.spawned'', ''agent.progress'', ''agent.completed'',
   ''agent.aborted'', ''memory.committed'', ''memory.tombstoned'', ''memory.recovered'',
   ''emotional.changed'', ''relationship.changed'', ''temporal.changed'', ''liveness.decision'',
   ''repair.learned'', ''aesthetic.changed'', ''soul.changed'', ''circuit.opened'',
   ''circuit.closed'', ''heartbeat.pulse'', ''automatrix.queued'', ''automatrix.completed'',
   ''curiosity.targeted'', ''dreamweaver.derived'', ''policy.decision'', ''security.alert'',
   ''integrity.generated'', ''workspace.operation.queued'', ''workspace.operation.started'',
   ''workspace.operation.progress'', ''workspace.operation.completed'',
   ''workspace.operation.failed'', ''workspace.operation.cancelled'', ''journal.gap'']"

text \<open>\<open>OPERATION_KINDS[operation]\<close>, and membership in \<open>operationSet\<close> and \<open>eventTypeSet\<close>.\<close>

definition operation_kind :: "jstring \<Rightarrow> request_kind option" where
  "operation_kind op = table_get OPERATION_KINDS op"

definition operation_set :: "jstring \<Rightarrow> bool" where
  "operation_set op = one_of OPERATIONS op"

definition event_type_set :: "jstring \<Rightarrow> bool" where
  "event_type_set t = one_of EVENT_TYPES t"

end
