(* ===== verification/Regex.thy ===== *)
theory Regex
  imports Prelude
begin

text \<open>
  The regular expressions the sources test strings with: character classes, sequence, alternation,
  repetition, the word boundary \<open>\\b\<close> and the anchors, over the code points of a string (the \<open>u\<close>
  flag). The reference semantics is the inductive relation \<open>rmatch\<close>; the executable test is by
  derivatives, with the character before the current position kept for the boundary. The test is
  shown to decide whether some substring matches, which is what \<open>RegExp.prototype.test\<close> returns.
\<close>

section \<open>Code points\<close>

definition is_lead :: "code_unit \<Rightarrow> bool" where
  "is_lead u \<longleftrightarrow> 55296 \<le> unat u \<and> unat u \<le> 56319"

definition is_trail :: "code_unit \<Rightarrow> bool" where
  "is_trail u \<longleftrightarrow> 56320 \<le> unat u \<and> unat u \<le> 57343"

fun code_points :: "jstring \<Rightarrow> nat list" where
  "code_points [] = []"
| "code_points [u] = [unat u]"
| "code_points (u # v # s) =
     (if is_lead u \<and> is_trail v
      then (65536 + 1024 * (unat u - 55296) + (unat v - 56320)) # code_points s
      else unat u # code_points (v # s))"

section \<open>Syntax and reference semantics\<close>

datatype regex =
    RNone
  | REps
  | RCls "nat \<Rightarrow> bool"
  | RSeq regex regex
  | RAlt regex regex
  | RStar regex
  | RBound
  | RBegin
  | REnd

text \<open>
  The word characters of \<open>\\b\<close> under the flags \<open>iu\<close>, which add the two code points that fold to
  an ASCII letter.
\<close>

definition is_word :: "nat \<Rightarrow> bool" where
  "is_word c \<longleftrightarrow> 48 \<le> c \<and> c \<le> 57 \<or> 65 \<le> c \<and> c \<le> 90 \<or> 97 \<le> c \<and> c \<le> 122 \<or> c = 95 \<or>
     c = 383 \<or> c = 8490"

fun word_at :: "nat option \<Rightarrow> bool" where
  "word_at None = False"
| "word_at (Some c) = is_word c"

fun next_of :: "nat list \<Rightarrow> nat option \<Rightarrow> nat option" where
  "next_of [] n = n"
| "next_of (c # s) n = Some c"

fun prev_of :: "nat option \<Rightarrow> nat list \<Rightarrow> nat option" where
  "prev_of p [] = p"
| "prev_of p (c # s) = prev_of (Some c) s"

text \<open>\<open>rmatch p r s n\<close>: \<open>r\<close> matches \<open>s\<close> between the neighbours \<open>p\<close> and \<open>n\<close>.\<close>

inductive rmatch :: "nat option \<Rightarrow> regex \<Rightarrow> nat list \<Rightarrow> nat option \<Rightarrow> bool" where
  m_eps: "rmatch p REps [] n"
| m_cls: "f c \<Longrightarrow> rmatch p (RCls f) [c] n"
| m_seq: "rmatch p r s (next_of t n) \<Longrightarrow> rmatch (prev_of p s) q t n \<Longrightarrow>
     rmatch p (RSeq r q) (s @ t) n"
| m_alt1: "rmatch p r s n \<Longrightarrow> rmatch p (RAlt r q) s n"
| m_alt2: "rmatch p q s n \<Longrightarrow> rmatch p (RAlt r q) s n"
| m_star0: "rmatch p (RStar r) [] n"
| m_star: "rmatch p r s (next_of t n) \<Longrightarrow> s \<noteq> [] \<Longrightarrow> rmatch (prev_of p s) (RStar r) t n \<Longrightarrow>
     rmatch p (RStar r) (s @ t) n"
| m_bound: "word_at p \<noteq> word_at n \<Longrightarrow> rmatch p RBound [] n"
| m_begin: "rmatch None RBegin [] n"
| m_end: "rmatch p REnd [] None"

inductive_cases rmatch_NoneE [elim!]: "rmatch p RNone s n"
inductive_cases rmatch_EpsE [elim!]: "rmatch p REps s n"
inductive_cases rmatch_ClsE [elim!]: "rmatch p (RCls f) s n"
inductive_cases rmatch_SeqE [elim!]: "rmatch p (RSeq r q) s n"
inductive_cases rmatch_AltE [elim!]: "rmatch p (RAlt r q) s n"
inductive_cases rmatch_StarE: "rmatch p (RStar r) s n"
inductive_cases rmatch_BoundE [elim!]: "rmatch p RBound s n"
inductive_cases rmatch_BeginE [elim!]: "rmatch p RBegin s n"
inductive_cases rmatch_EndE [elim!]: "rmatch p REnd s n"

text \<open>Some substring of \<open>s\<close> matches.\<close>

definition occurs :: "regex \<Rightarrow> nat list \<Rightarrow> bool" where
  "occurs r s \<longleftrightarrow> (\<exists>a b c. s = a @ b @ c \<and> rmatch (prev_of None a) r b (next_of c None))"

section \<open>The executable test\<close>

fun nullable :: "nat option \<Rightarrow> regex \<Rightarrow> nat option \<Rightarrow> bool" where
  "nullable p RNone n = False"
| "nullable p REps n = True"
| "nullable p (RCls f) n = False"
| "nullable p (RSeq r q) n = (nullable p r n \<and> nullable p q n)"
| "nullable p (RAlt r q) n = (nullable p r n \<or> nullable p q n)"
| "nullable p (RStar r) n = True"
| "nullable p RBound n = (word_at p \<noteq> word_at n)"
| "nullable p RBegin n = (p = None)"
| "nullable p REnd n = (n = None)"

fun mk_seq :: "regex \<Rightarrow> regex \<Rightarrow> regex" where
  "mk_seq RNone q = RNone"
| "mk_seq REps q = q"
| "mk_seq r q = RSeq r q"

fun mk_alt :: "regex \<Rightarrow> regex \<Rightarrow> regex" where
  "mk_alt RNone q = q"
| "mk_alt r RNone = r"
| "mk_alt r q = RAlt r q"

fun deriv :: "nat option \<Rightarrow> nat \<Rightarrow> regex \<Rightarrow> regex" where
  "deriv p c RNone = RNone"
| "deriv p c REps = RNone"
| "deriv p c (RCls f) = (if f c then REps else RNone)"
| "deriv p c (RSeq r q) =
     mk_alt (mk_seq (deriv p c r) q) (if nullable p r (Some c) then deriv p c q else RNone)"
| "deriv p c (RAlt r q) = mk_alt (deriv p c r) (deriv p c q)"
| "deriv p c (RStar r) = mk_seq (deriv p c r) (RStar r)"
| "deriv p c RBound = RNone"
| "deriv p c RBegin = RNone"
| "deriv p c REnd = RNone"

fun is_none :: "regex \<Rightarrow> bool" where
  "is_none RNone = True"
| "is_none _ = False"

text \<open>Some prefix of the rest of the string matches; some substring does.\<close>

fun prefix_test :: "nat option \<Rightarrow> regex \<Rightarrow> nat list \<Rightarrow> bool" where
  "prefix_test p r [] = nullable p r None"
| "prefix_test p r (c # s) =
     (if is_none r then False
      else if nullable p r (Some c) then True else prefix_test (Some c) (deriv p c r) s)"

fun search_from :: "nat option \<Rightarrow> regex \<Rightarrow> nat list \<Rightarrow> bool" where
  "search_from p r [] = prefix_test p r []"
| "search_from p r (c # s) = (if prefix_test p r (c # s) then True else search_from (Some c) r s)"

definition regex_test :: "regex \<Rightarrow> jstring \<Rightarrow> bool" where
  "regex_test r s = search_from None r (code_points s)"

section \<open>The test decides the semantics\<close>

lemma prev_of_append [simp]: "prev_of p (s @ t) = prev_of (prev_of p s) t"
  by (induction s arbitrary: p) auto

lemma next_of_append [simp]: "next_of (s @ t) n = next_of s (next_of t n)"
  by (cases s) auto

lemma rmatch_Nil_Seq: "rmatch p (RSeq r q) [] n \<longleftrightarrow> rmatch p r [] n \<and> rmatch p q [] n"
  using m_seq [of p r "[]" "[]" n q] by auto

lemma nullable_iff: "nullable p r n \<longleftrightarrow> rmatch p r [] n"
  by (induction r)
    (auto simp: rmatch_Nil_Seq intro: rmatch.intros)

lemma rmatch_mk_seq [simp]: "rmatch p (mk_seq r q) s n \<longleftrightarrow> rmatch p (RSeq r q) s n"
proof (cases r)
  case REps
  have "rmatch p (RSeq REps q) s n" if "rmatch p q s n"
    using m_seq [OF m_eps, of p q s n] that by simp
  with REps show ?thesis by auto
qed auto

lemma rmatch_mk_alt [simp]: "rmatch p (mk_alt r q) s n \<longleftrightarrow> rmatch p (RAlt r q) s n"
  by (cases "(r, q)" rule: mk_alt.cases) (auto intro: rmatch.intros)

lemma rmatch_Alt: "rmatch p (RAlt r q) s n \<longleftrightarrow> rmatch p r s n \<or> rmatch p q s n"
  by (auto intro: rmatch.intros)

lemma is_none_iff: "is_none r \<longleftrightarrow> r = RNone"
  by (cases r) auto

lemma rmatch_Star_Cons:
  "rmatch p (RStar r) (c # s) n \<longleftrightarrow>
     (\<exists>t u. s = t @ u \<and> rmatch p r (c # t) (next_of u n) \<and>
        rmatch (prev_of (Some c) t) (RStar r) u n)"
proof
  assume "rmatch p (RStar r) (c # s) n"
  then obtain t u where "c # s = t @ u" "t \<noteq> []" "rmatch p r t (next_of u n)"
    "rmatch (prev_of p t) (RStar r) u n"
    by (rule rmatch_StarE) (simp, blast)
  then show "\<exists>t u. s = t @ u \<and> rmatch p r (c # t) (next_of u n) \<and>
      rmatch (prev_of (Some c) t) (RStar r) u n"
    by (cases t) (simp_all, blast)
next
  assume "\<exists>t u. s = t @ u \<and> rmatch p r (c # t) (next_of u n) \<and>
      rmatch (prev_of (Some c) t) (RStar r) u n"
  then obtain t u where "s = t @ u" "rmatch p r (c # t) (next_of u n)"
    "rmatch (prev_of (Some c) t) (RStar r) u n" by blast
  then show "rmatch p (RStar r) (c # s) n"
    using m_star [of p r "c # t" u n] by simp
qed

lemma rmatch_Seq_iff:
  "rmatch p (RSeq r q) s n \<longleftrightarrow>
     (\<exists>t u. s = t @ u \<and> rmatch p r t (next_of u n) \<and> rmatch (prev_of p t) q u n)"
  by (auto intro: m_seq)

lemma rmatch_Seq_Cons:
  "rmatch p (RSeq r q) (c # s) n \<longleftrightarrow>
     (\<exists>t u. s = t @ u \<and> rmatch p r (c # t) (next_of u n) \<and> rmatch (prev_of (Some c) t) q u n) \<or>
     rmatch p r [] (Some c) \<and> rmatch p q (c # s) n"
proof
  assume "rmatch p (RSeq r q) (c # s) n"
  then obtain t u where "c # s = t @ u" "rmatch p r t (next_of u n)" "rmatch (prev_of p t) q u n"
    by auto
  then show "(\<exists>t u. s = t @ u \<and> rmatch p r (c # t) (next_of u n) \<and>
      rmatch (prev_of (Some c) t) q u n) \<or> rmatch p r [] (Some c) \<and> rmatch p q (c # s) n"
    by (cases t) auto
next
  assume "(\<exists>t u. s = t @ u \<and> rmatch p r (c # t) (next_of u n) \<and>
      rmatch (prev_of (Some c) t) q u n) \<or> rmatch p r [] (Some c) \<and> rmatch p q (c # s) n"
  then show "rmatch p (RSeq r q) (c # s) n"
  proof
    assume "\<exists>t u. s = t @ u \<and> rmatch p r (c # t) (next_of u n) \<and>
      rmatch (prev_of (Some c) t) q u n"
    then obtain t u where "s = t @ u" "rmatch p r (c # t) (next_of u n)"
      "rmatch (prev_of (Some c) t) q u n" by blast
    then show ?thesis using m_seq [of p r "c # t" u n q] by simp
  next
    assume "rmatch p r [] (Some c) \<and> rmatch p q (c # s) n"
    then show ?thesis using m_seq [of p r "[]" "c # s" n q] by simp
  qed
qed

lemma deriv_iff: "rmatch (Some c) (deriv p c r) s n \<longleftrightarrow> rmatch p r (c # s) n"
proof (induction r arbitrary: s n)
  case (RCls f)
  show ?case by (auto intro: rmatch.intros)
next
  case (RSeq r q)
  have "rmatch (Some c) (RSeq (deriv p c r) q) s n \<longleftrightarrow>
      (\<exists>t u. s = t @ u \<and> rmatch p r (c # t) (next_of u n) \<and> rmatch (prev_of (Some c) t) q u n)"
    using RSeq.IH(1) by (simp add: rmatch_Seq_iff)
  then show ?case
    using RSeq.IH(2) by (auto simp: rmatch_Seq_Cons rmatch_Alt nullable_iff)
next
  case (RStar r)
  then show ?case by (simp add: rmatch_Star_Cons rmatch_Seq_iff)
qed (auto simp: rmatch_Alt)

lemma prefix_test_iff:
  "prefix_test p r s \<longleftrightarrow> (\<exists>b c. s = b @ c \<and> rmatch p r b (next_of c None))"
proof (induction p r s rule: prefix_test.induct)
  case (1 p r)
  show ?case by (auto simp: nullable_iff)
next
  case (2 p r x s)
  show ?case
  proof (cases "is_none r \<or> nullable p r (Some x)")
    case True
    moreover have "\<exists>b c. x # s = b @ c \<and> rmatch p r b (next_of c None)"
      if "nullable p r (Some x)"
      using that by (intro exI [of _ "[]"] exI [of _ "x # s"]) (simp add: nullable_iff)
    ultimately show ?thesis by (auto simp: is_none_iff)
  next
    case False
    then have "(\<exists>b c. x # s = b @ c \<and> rmatch p r b (next_of c None)) \<longleftrightarrow>
        (\<exists>b c. s = b @ c \<and> rmatch p r (x # b) (next_of c None))"
      by (auto simp: nullable_iff Cons_eq_append_conv)
    with False 2 show ?thesis by (simp add: deriv_iff)
  qed
qed

lemma search_from_iff:
  "search_from p r s \<longleftrightarrow> (\<exists>a b c. s = a @ b @ c \<and> rmatch (prev_of p a) r b (next_of c None))"
proof (induction s arbitrary: p)
  case Nil
  show ?case by (auto simp: nullable_iff)
next
  case (Cons x s)
  have "(\<exists>a b c. x # s = a @ b @ c \<and> rmatch (prev_of p a) r b (next_of c None)) \<longleftrightarrow>
      (\<exists>b c. x # s = b @ c \<and> rmatch p r b (next_of c None)) \<or>
      (\<exists>a b c. s = a @ b @ c \<and> rmatch (prev_of (Some x) a) r b (next_of c None))"
    (is "?L \<longleftrightarrow> ?A \<or> ?B")
  proof
    assume ?L
    then obtain a b c where "x # s = a @ b @ c" "rmatch (prev_of p a) r b (next_of c None)" by blast
    then show "?A \<or> ?B" by (cases a) auto
  next
    assume "?A \<or> ?B"
    then show ?L
    proof
      assume ?A
      then show ?L by (metis append_Nil prev_of.simps(1))
    next
      assume ?B
      then show ?L by (metis append_Cons prev_of.simps(2))
    qed
  qed
  then show ?case
    unfolding prefix_test_iff [symmetric] Cons.IH [symmetric]
    by (simp del: prefix_test.simps)
qed

lemma regex_test_iff: "regex_test r s \<longleftrightarrow> occurs r (code_points s)"
  by (simp add: regex_test_def occurs_def search_from_iff)

section \<open>Building expressions\<close>

text \<open>
  A literal under the flag \<open>i\<close>: a letter stands for both cases, and under \<open>iu\<close> also for the
  code point above ASCII that folds to it (U+017F for \<open>s\<close>, U+212A for \<open>k\<close>).
\<close>

definition fold_case :: "nat \<Rightarrow> nat" where
  "fold_case c = (if 65 \<le> c \<and> c \<le> 90 then c + 32 else if c = 383 then 115
     else if c = 8490 then 107 else c)"

definition r_char :: "nat \<Rightarrow> regex" where
  "r_char d = RCls (\<lambda>c. fold_case c = fold_case d)"

fun r_lit :: "string \<Rightarrow> regex" where
  "r_lit [] = REps"
| "r_lit [x] = r_char (of_char x)"
| "r_lit (x # xs) = RSeq (r_char (of_char x)) (r_lit xs)"

fun r_alts :: "regex list \<Rightarrow> regex" where
  "r_alts [] = RNone"
| "r_alts [r] = r"
| "r_alts (r # rs) = RAlt r (r_alts rs)"

fun r_seqs :: "regex list \<Rightarrow> regex" where
  "r_seqs [] = REps"
| "r_seqs [r] = r"
| "r_seqs (r # rs) = RSeq r (r_seqs rs)"

definition r_opt :: "regex \<Rightarrow> regex" where
  "r_opt r = RAlt r REps"

definition r_plus :: "regex \<Rightarrow> regex" where
  "r_plus r = RSeq r (RStar r)"

fun r_at_least :: "nat \<Rightarrow> regex \<Rightarrow> regex" where
  "r_at_least 0 r = RStar r"
| "r_at_least (Suc n) r = RSeq r (r_at_least n r)"

definition r_space :: regex where
  "r_space = RCls is_space"

definition is_ascii_letter :: "nat \<Rightarrow> bool" where
  "is_ascii_letter c \<longleftrightarrow> 97 \<le> fold_case c \<and> fold_case c \<le> 122"

definition is_ascii_digit :: "nat \<Rightarrow> bool" where
  "is_ascii_digit c \<longleftrightarrow> 48 \<le> c \<and> c \<le> 57"

section \<open>What the built expressions match\<close>

lemma rmatch_star_cls: "list_all f cs \<Longrightarrow> rmatch p (RStar (RCls f)) cs n"
proof (induction cs arbitrary: p)
  case (Cons c cs)
  then have "rmatch p (RCls f) [c] (next_of cs n)" "rmatch (prev_of p [c]) (RStar (RCls f)) cs n"
    by (auto intro: m_cls)
  then show ?case using m_star [of p "RCls f" "[c]" cs n] by simp
qed (rule m_star0)

lemma rmatch_at_least_cls: "k \<le> length cs \<Longrightarrow> list_all f cs \<Longrightarrow> rmatch p (r_at_least k (RCls f)) cs n"
proof (induction k arbitrary: p cs)
  case 0
  then show ?case by (simp add: rmatch_star_cls)
next
  case (Suc k)
  then obtain c ds where cs: "cs = c # ds" by (cases cs) auto
  with Suc have "rmatch p (RCls f) [c] (next_of ds n)"
    "rmatch (prev_of p [c]) (r_at_least k (RCls f)) ds n"
    by (auto intro: m_cls)
  then show ?case using cs m_seq [of p "RCls f" "[c]" ds n] by simp
qed

lemma rmatch_plus_cls: "cs \<noteq> [] \<Longrightarrow> list_all f cs \<Longrightarrow> rmatch p (r_plus (RCls f)) cs n"
  using rmatch_at_least_cls [of 1 cs f p n] by (cases cs) (simp_all add: r_plus_def)

lemma rmatch_lit:
  "map fold_case cs = map (\<lambda>x. fold_case (of_char x)) w \<Longrightarrow> rmatch p (r_lit w) cs n"
proof (induction w arbitrary: p cs rule: r_lit.induct)
  case 1
  then show ?case by (simp add: m_eps)
next
  case (2 x)
  then show ?case by (auto simp: r_char_def intro: m_cls)
next
  case (3 x y w)
  then obtain c ds where cs: "cs = c # ds" by (cases cs) auto
  with 3 have "rmatch p (r_char (of_char x)) [c] (next_of ds n)"
    "rmatch (prev_of p [c]) (r_lit (y # w)) ds n"
    by (auto simp: r_char_def intro: m_cls)
  then show ?case using cs m_seq [of p "r_char (of_char x)" "[c]" ds n] by simp
qed

lemma rmatch_opt: "cs = [] \<or> rmatch p r cs n \<Longrightarrow> rmatch p (r_opt r) cs n"
  by (auto simp: r_opt_def intro: m_alt1 m_alt2 m_eps)

lemma rmatch_char: "rmatch p (r_char d) [d] n"
  by (simp add: r_char_def m_cls)

lemma rmatch_alts: "r \<in> set rs \<Longrightarrow> rmatch p r cs n \<Longrightarrow> rmatch p (r_alts rs) cs n"
  by (induction rs rule: r_alts.induct) (auto intro: m_alt1 m_alt2)

text \<open>The facts that evaluate a test of a built expression on a concrete string.\<close>

lemmas regex_eval = regex_test_def r_opt_def r_space_def r_plus_def r_char_def fold_case_def
  is_ascii_letter_def is_ascii_digit_def is_space_def is_word_def is_lead_def is_trail_def

end
