(* ===== verification/Json.thy ===== *)
theory Json
  imports Prelude Regex
begin

text \<open>
  The part of the run-time environment that is not ECMAScript with a fixed meaning, as a record of
  functions (\<open>platform\<close>), and the library functions the sources use to turn values into text:
  \<open>JSON.stringify\<close> with and without indentation, \<open>String(value)\<close> and the byte length of
  the UTF-8 encoding (\<open>TextEncoder\<close>).
\<close>

section \<open>The platform\<close>

text \<open>
  The WHATWG URL parser (\<open>new URL(s)\<close>, \<open>None\<close> when it throws), \<open>Date.parse\<close>, whose
  fallback formats are implementation-defined (here: whether the result is a number), and the shortest
  decimal of a number that is not an integer below \<open>10\<^sup>2\<^sup>1\<close>.
\<close>

record url =
  url_protocol :: jstring
  url_username :: jstring
  url_password :: jstring
  url_hostname :: jstring
  url_search_params :: "(jstring \<times> jstring) list"

record platform =
  parse_url :: "jstring \<Rightarrow> url option"
  date_parses :: "jstring \<Rightarrow> bool"
  format_number :: "rat \<Rightarrow> jstring"

text \<open>A platform to evaluate examples on.\<close>

definition example_platform :: platform where
  "example_platform = \<lparr>parse_url = (\<lambda>_. None), date_parses = (\<lambda>_. True), format_number = (\<lambda>_. [])\<rparr>"

section \<open>Numbers as text\<close>

fun nat_text :: "nat \<Rightarrow> jstring" where
  "nat_text n = (if n < 10 then [word_of_nat (48 + n)]
     else nat_text (n div 10) @ [word_of_nat (48 + n mod 10)])"

declare nat_text.simps [simp del]

definition int_text :: "int \<Rightarrow> jstring" where
  "int_text i = (if i < 0 then [45] @ nat_text (nat (- i)) else nat_text (nat i))"

fun number_text :: "platform \<Rightarrow> jsnum \<Rightarrow> jstring" where
  "number_text pf (Fin q) =
     (if of_int \<lfloor>q\<rfloor> = q \<and> \<bar>\<lfloor>q\<rfloor>\<bar> < 10 ^ 21 then int_text \<lfloor>q\<rfloor> else format_number pf q)"
| "number_text pf PosInf = lit ''Infinity''"
| "number_text pf NegInf = lit ''-Infinity''"
| "number_text pf NaN = lit ''NaN''"

section \<open>JSON text\<close>

definition hex_digit :: "nat \<Rightarrow> code_unit" where
  "hex_digit n = (if n < 10 then word_of_nat (48 + n) else word_of_nat (87 + n))"

definition unicode_escape :: "code_unit \<Rightarrow> jstring" where
  "unicode_escape u = (let n = unat u in
     [92, 117, hex_digit (n div 4096), hex_digit (n div 256 mod 16), hex_digit (n div 16 mod 16),
      hex_digit (n mod 16)])"

definition escape_unit :: "code_unit \<Rightarrow> jstring" where
  "escape_unit u = (if u = 34 then [92, 34] else if u = 92 then [92, 92] else if u = 8 then [92, 98]
     else if u = 12 then [92, 102] else if u = 10 then [92, 110] else if u = 13 then [92, 114]
     else if u = 9 then [92, 116] else if unat u < 32 then unicode_escape u else [u])"

text \<open>Surrogates are kept in pairs and escaped alone.\<close>

fun json_escape :: "jstring \<Rightarrow> jstring" where
  "json_escape [] = []"
| "json_escape [u] = (if is_lead u \<or> is_trail u then unicode_escape u else escape_unit u)"
| "json_escape (u # v # s) =
     (if is_lead u \<and> is_trail v then u # v # json_escape s
      else (if is_lead u \<or> is_trail u then unicode_escape u else escape_unit u)
        @ json_escape (v # s))"

definition json_quote :: "jstring \<Rightarrow> jstring" where
  "json_quote s = [34] @ json_escape s @ [34]"

text \<open>The brackets, separators and line breaks of arrays and objects, for a given gap.\<close>

definition json_wrap ::
    "code_unit \<Rightarrow> code_unit \<Rightarrow> jstring \<Rightarrow> jstring \<Rightarrow> jstring list \<Rightarrow> jstring" where
  "json_wrap b e gap ind parts =
     (if parts = [] then [b, e]
      else if gap = [] then [b] @ join [44] parts @ [e]
      else [b, 10] @ ind @ gap @ join ([44, 10] @ ind @ gap) parts @ [10] @ ind @ [e])"

fun json_text :: "platform \<Rightarrow> jstring \<Rightarrow> jstring \<Rightarrow> jsval \<Rightarrow> jstring option" where
  "json_text pf gap ind JUndef = None"
| "json_text pf gap ind JNull = Some (lit ''null'')"
| "json_text pf gap ind (JBool b) = Some (if b then lit ''true'' else lit ''false'')"
| "json_text pf gap ind (JNum n) =
     Some (case n of Fin q \<Rightarrow> number_text pf (Fin q) | _ \<Rightarrow> lit ''null'')"
| "json_text pf gap ind (JStr s) = Some (json_quote s)"
| "json_text pf gap ind (JArr xs) = Some (json_wrap 91 93 gap ind
     (map (\<lambda>x. case json_text pf gap (ind @ gap) x of None \<Rightarrow> lit ''null'' | Some t \<Rightarrow> t) xs))"
| "json_text pf gap ind (JObj ps) = Some (json_wrap 123 125 gap ind
     (concat (map (\<lambda>(k, x). case json_text pf gap (ind @ gap) x of
          None \<Rightarrow> []
        | Some t \<Rightarrow> [json_quote k @ (if gap = [] then [58] else [58, 32]) @ t]) ps)))"

text \<open>\<open>JSON.stringify(v)\<close> and \<open>JSON.stringify(v, null, 2)\<close>.\<close>

definition json_stringify :: "platform \<Rightarrow> jsval \<Rightarrow> jstring option" where
  "json_stringify pf v = json_text pf [] [] v"

definition json_pretty :: "platform \<Rightarrow> jsval \<Rightarrow> jstring option" where
  "json_pretty pf v = json_text pf [32, 32] [] v"

lemma json_stringify_defined: "v \<noteq> JUndef \<Longrightarrow> \<exists>t. json_stringify pf v = Some t"
  by (cases v) (auto simp: json_stringify_def)

section \<open>Other conversions\<close>

text \<open>\<open>String(value)\<close>; an element of an array that is \<open>null\<close> or \<open>undefined\<close> is empty.\<close>

fun to_string :: "platform \<Rightarrow> jsval \<Rightarrow> jstring" where
  "to_string pf JUndef = lit ''undefined''"
| "to_string pf JNull = lit ''null''"
| "to_string pf (JBool b) = (if b then lit ''true'' else lit ''false'')"
| "to_string pf (JNum n) = number_text pf n"
| "to_string pf (JStr s) = s"
| "to_string pf (JArr xs) =
     join [44] (map (\<lambda>x. case x of JUndef \<Rightarrow> [] | JNull \<Rightarrow> [] | _ \<Rightarrow> to_string pf x) xs)"
| "to_string pf (JObj ps) = lit ''[object Object]''"

text \<open>The length of the UTF-8 encoding; a lone surrogate is encoded as U+FFFD.\<close>

definition utf8_width :: "nat \<Rightarrow> nat" where
  "utf8_width c = (if c < 128 then 1 else if c < 2048 then 2 else if c < 65536 then 3 else 4)"

definition utf8_length :: "jstring \<Rightarrow> nat" where
  "utf8_length s = sum_list (map utf8_width (code_points s))"

lemma length_le_utf8_length: "length (code_points s) \<le> utf8_length s"
proof -
  have "1 \<le> utf8_width c" for c by (simp add: utf8_width_def)
  then have "length cs \<le> sum_list (map utf8_width cs)" for cs
    by (induction cs) (simp, metis One_nat_def add_mono_thms_linordered_semiring(1) length_Cons
        list.simps(9) plus_1_eq_Suc sum_list.Cons)
  then show ?thesis by (simp add: utf8_length_def)
qed

section \<open>The length of JSON text\<close>

lemma utf8_length_Nil [simp]: "utf8_length [] = 0"
  by (simp add: utf8_length_def)

lemma utf8_length_Cons:
  "\<not> (is_lead u \<and> s \<noteq> [] \<and> is_trail (hd s)) \<Longrightarrow>
     utf8_length (u # s) = utf8_width (unat u) + utf8_length s"
  by (cases s) (auto simp: utf8_length_def)

lemma utf8_length_pair:
  "is_lead u \<Longrightarrow> is_trail v \<Longrightarrow> utf8_length (u # v # s) = 4 + utf8_length s"
  by (simp add: utf8_length_def utf8_width_def)

lemma utf8_width_surrogate [simp]:
  "is_lead u \<Longrightarrow> utf8_width (unat u) = 3" "is_trail u \<Longrightarrow> utf8_width (unat u) = 3"
  by (simp_all add: is_lead_def is_trail_def utf8_width_def)

lemma is_trail_not_lead [simp]: "is_trail u \<Longrightarrow> \<not> is_lead u"
  by (simp add: is_lead_def is_trail_def)

lemma utf8_length_Cons_le: "utf8_length (u # s) \<le> utf8_width (unat u) + utf8_length s"
proof (cases "is_lead u \<and> s \<noteq> [] \<and> is_trail (hd s)")
  case True
  then obtain v t where "s = v # t" "is_lead u" "is_trail v" by (cases s) auto
  then show ?thesis by (simp add: utf8_length_pair utf8_length_Cons)
qed (simp add: utf8_length_Cons)

lemma utf8_length_append_le: "utf8_length (s @ t) \<le> utf8_length s + utf8_length t"
proof (induction s rule: length_induct)
  case (1 s)
  show ?case
  proof (cases s)
    case Nil
    then show ?thesis by simp
  next
    case (Cons u s')
    show ?thesis
    proof (cases "is_lead u \<and> s' \<noteq> [] \<and> is_trail (hd s')")
      case True
      then obtain v r where "s' = v # r" "is_lead u" "is_trail v" by (cases s') auto
      moreover have "utf8_length (r @ t) \<le> utf8_length r + utf8_length t"
        using 1 Cons \<open>s' = v # r\<close> by simp
      ultimately show ?thesis using Cons by (simp add: utf8_length_pair)
    next
      case False
      then have "utf8_length s = utf8_width (unat u) + utf8_length s'"
        using Cons by (simp add: utf8_length_Cons)
      moreover have "utf8_length (s' @ t) \<le> utf8_length s' + utf8_length t"
        using 1 Cons by simp
      ultimately show ?thesis using Cons utf8_length_Cons_le [of u "s' @ t"] by simp
    qed
  qed
qed

text \<open>The bytes of an ASCII string are its characters.\<close>

lemma utf8_length_ascii: "list_all (\<lambda>u. unat u < 128) s \<Longrightarrow> utf8_length s = length s"
proof (induction s)
  case (Cons u s)
  moreover from Cons have "\<not> is_lead u" by (simp add: is_lead_def)
  ultimately show ?case by (simp add: utf8_length_Cons utf8_width_def)
qed simp

lemma hex_digit_ascii: "n < 16 \<Longrightarrow> unat (hex_digit n) < 128"
  by (simp add: hex_digit_def unat_of_nat take_bit_eq_mod del: of_nat_add)

lemma unicode_escape_length: "utf8_length (unicode_escape u) = 6"
proof -
  have "unat u < 65536" using unsigned_less [of u] by simp
  then have "unat u div 4096 < 16" by simp
  then show ?thesis
    by (subst utf8_length_ascii) (simp_all add: unicode_escape_def Let_def hex_digit_ascii)
qed

text \<open>A string without control characters other than tab, line feed and return at most doubles.\<close>

definition plain_unit :: "code_unit \<Rightarrow> bool" where
  "plain_unit u \<longleftrightarrow> 32 \<le> unat u \<or> u = 9 \<or> u = 10 \<or> u = 13"

lemma escape_unit_length:
  assumes "plain_unit u" "\<not> is_lead u"
  shows "utf8_length (escape_unit u) \<le> 2 * utf8_width (unat u)"
proof -
  have w: "1 \<le> utf8_width c" for c by (simp add: utf8_width_def)
  have "length (escape_unit u) = 2 \<and> list_all (\<lambda>u. unat u < 128) (escape_unit u) \<or>
      escape_unit u = [u]"
    using assms(1) by (auto simp: plain_unit_def escape_unit_def)
  then consider "length (escape_unit u) = 2" "list_all (\<lambda>u. unat u < 128) (escape_unit u)"
    | "escape_unit u = [u]" by blast
  then show ?thesis
  proof cases
    case 1
    then show ?thesis using w [of "unat u"] by (simp add: utf8_length_ascii)
  next
    case 2
    then show ?thesis using assms by (simp add: utf8_length_Cons)
  qed
qed

definition lone_escape :: "code_unit \<Rightarrow> jstring" where
  "lone_escape u = (if is_lead u \<or> is_trail u then unicode_escape u else escape_unit u)"

lemma lone_escape_length: "plain_unit u \<Longrightarrow> utf8_length (lone_escape u) \<le> 2 * utf8_width (unat u)"
  using escape_unit_length [of u] by (auto simp: lone_escape_def unicode_escape_length)

lemma json_escape_length: "list_all plain_unit s \<Longrightarrow> utf8_length (json_escape s) \<le> 2 * utf8_length s"
proof (induction s rule: json_escape.induct)
  case (2 u)
  then show ?case
    using lone_escape_length [of u] by (simp add: lone_escape_def utf8_length_Cons)
next
  case (3 u v s)
  show ?case
  proof (cases "is_lead u \<and> is_trail v")
    case True
    with 3 show ?thesis by (simp add: utf8_length_pair)
  next
    case False
    then have eq: "json_escape (u # v # s) = lone_escape u @ json_escape (v # s)"
      unfolding json_escape.simps lone_escape_def by (simp only: if_False)
    have len: "utf8_length (u # v # s) = utf8_width (unat u) + utf8_length (v # s)"
      by (rule utf8_length_Cons) (use False in simp)
    have ih: "utf8_length (json_escape (v # s)) \<le> 2 * utf8_length (v # s)"
      using 3 False by simp
    have "utf8_length (lone_escape u) \<le> 2 * utf8_width (unat u)"
      using 3 by (intro lone_escape_length) simp
    with ih show ?thesis
      unfolding eq len add_mult_distrib2
      by (intro order_trans [OF utf8_length_append_le] add_mono)
  qed
qed simp

lemma json_quote_length: "list_all plain_unit s \<Longrightarrow> utf8_length (json_quote s) \<le> 2 * utf8_length s + 2"
proof -
  assume "list_all plain_unit s"
  moreover have "utf8_length (json_quote s) \<le>
      utf8_length [34] + (utf8_length (json_escape s) + utf8_length [34])"
    unfolding json_quote_def
    by (rule order_trans [OF utf8_length_append_le add_left_mono [OF utf8_length_append_le]])
  ultimately show ?thesis
    using json_escape_length [of s] by (simp add: utf8_length_ascii)
qed

text \<open>Decimal digits.\<close>

lemma nat_text_ascii: "list_all (\<lambda>u. unat u < 128) (nat_text n)"
proof (induction n rule: nat_text.induct)
  case (1 n)
  have "unat (word_of_nat (48 + k) :: code_unit) < 128" if "k < 10" for k
    using that by (simp add: unat_of_nat take_bit_eq_mod del: of_nat_add)
  then show ?case using 1 by (subst nat_text.simps) auto
qed

lemma length_nat_text: "n < 10 ^ Suc k \<Longrightarrow> length (nat_text n) \<le> Suc k"
proof (induction k arbitrary: n)
  case 0
  then show ?case by (simp add: nat_text.simps)
next
  case (Suc k)
  show ?case
  proof (cases "n < 10")
    case True
    then show ?thesis by (simp add: nat_text.simps)
  next
    case False
    then have "nat_text n = nat_text (n div 10) @ [word_of_nat (48 + n mod 10)]"
      by (subst nat_text.simps) simp
    moreover have "n div 10 < 10 ^ Suc k" using Suc.prems by (simp add: less_mult_imp_div_less)
    ultimately show ?thesis using Suc.IH [of "n div 10"] by simp
  qed
qed


end
