(* ===== verification/Envelope.thy ===== *)
theory Envelope
  imports Catalog Json
begin

text \<open>
  The envelopes of the control-plane protocol and their validators, from
  \<open>ui/shared/src/generated/protocol.ts\<close>. A validator takes the parsed value; the typed view of a
  value that passed it (the cast of the source) is a record.
\<close>

section \<open>Errors\<close>

datatype js_error = Error jstring | TypeError jstring | SyntaxError

section \<open>Data of the protocol\<close>

record protocol_error =
  pe_code :: jstring
  pe_message :: jstring
  pe_retryable :: bool

text \<open>\<open>Omit<Scope, 'actor_id'>\<close>, which a request merges with the actor.\<close>

record request_scope =
  sc_session_id :: "jstring option"
  sc_profile :: "jstring option"
  sc_channel :: "jstring option"

definition no_scope :: request_scope where
  "no_scope = \<lparr>sc_session_id = None, sc_profile = None, sc_channel = None\<rparr>"

record request_envelope =
  rq_protocol_version :: jstring
  rq_request_id :: jstring
  rq_kind :: request_kind
  rq_operation :: jstring
  rq_actor_id :: jstring
  rq_scope :: request_scope
  rq_idempotency_key :: "jstring option"
  rq_expected_revision :: "int option"
  rq_payload :: jsval

record response_envelope =
  rs_request_id :: jstring
  rs_revision :: int
  rs_result :: jsval
  rs_error :: "protocol_error option"

record correlation =
  c_actor_id :: jstring
  c_session_id :: "jstring option"
  c_turn_id :: "jstring option"
  c_task_id :: "jstring option"
  c_tool_id :: "jstring option"

record event_envelope =
  sequence :: int
  event_id :: jstring
  ev_type :: jstring
  occurred_at :: jstring
  correlation :: correlation
  payload :: jsval

record replay_envelope =
  after_sequence :: int
  earliest_sequence :: int
  latest_sequence :: int
  head_sequence :: int
  replay_gap :: bool
  events :: "event_envelope list"

record gap_marker =
  requested_after :: int
  available_from :: int
  latest :: int

record recovery_envelope =
  replay :: replay_envelope
  gap_marker :: "gap_marker option"
  snapshot :: "jsval option"

record command_descriptor =
  cd_operation :: jstring
  cd_kind :: request_kind
  cd_available :: bool
  cd_description :: jstring

section \<open>Scalars\<close>

fun isRecord :: "jsval \<Rightarrow> bool" where
  "isRecord (JObj _) = True"
| "isRecord _ = False"

definition is_hex :: "code_unit \<Rightarrow> bool" where
  "is_hex u \<longleftrightarrow> 48 \<le> unat u \<and> unat u \<le> 57 \<or> 65 \<le> unat u \<and> unat u \<le> 70 \<or>
     97 \<le> unat u \<and> unat u \<le> 102"

definition is_version_digit :: "code_unit \<Rightarrow> bool" where
  "is_version_digit u \<longleftrightarrow> 49 \<le> unat u \<and> unat u \<le> 56"

definition is_variant_digit :: "code_unit \<Rightarrow> bool" where
  "is_variant_digit u \<longleftrightarrow> u = 56 \<or> u = 57 \<or> u = 65 \<or> u = 66 \<or> u = 97 \<or> u = 98"

definition is_dash :: "code_unit \<Rightarrow> bool" where
  "is_dash u \<longleftrightarrow> u = 45"

text \<open>The pattern \<open>UUID_PATTERN\<close>, one test per character.\<close>

definition UUID_PATTERN :: "(code_unit \<Rightarrow> bool) list" where
  "UUID_PATTERN = replicate 8 is_hex @ [is_dash] @ replicate 4 is_hex @ [is_dash] @
     [is_version_digit] @ replicate 3 is_hex @ [is_dash] @
     [is_variant_digit] @ replicate 3 is_hex @ [is_dash] @ replicate 12 is_hex"

fun matches_classes :: "(code_unit \<Rightarrow> bool) list \<Rightarrow> jstring \<Rightarrow> bool" where
  "matches_classes [] [] = True"
| "matches_classes (f # fs) (u # us) = (f u \<and> matches_classes fs us)"
| "matches_classes _ _ = False"

fun isUUID :: "jsval \<Rightarrow> bool" where
  "isUUID (JStr s) = matches_classes UUID_PATTERN s"
| "isUUID _ = False"

definition isNonNegativeSafeInteger :: "jsval \<Rightarrow> bool" where
  "isNonNegativeSafeInteger v = (case safe_int v of None \<Rightarrow> False | Some n \<Rightarrow> 0 \<le> n)"

text \<open>\<open>value.key === undefined || test(value.key)\<close>.\<close>

fun undefined_or :: "(jsval \<Rightarrow> bool) \<Rightarrow> jsval \<Rightarrow> bool" where
  "undefined_or f JUndef = True"
| "undefined_or f v = f v"

text \<open>\<open>typeof value.key === 'string' && value.key.length > 0\<close>.\<close>

fun nonempty_string :: "jsval \<Rightarrow> bool" where
  "nonempty_string (JStr s) = (s \<noteq> [])"
| "nonempty_string _ = False"

fun valid_date :: "platform \<Rightarrow> jsval \<Rightarrow> bool" where
  "valid_date pf (JStr s) = date_parses pf s"
| "valid_date pf _ = False"

definition isScope :: "jsval \<Rightarrow> bool" where
  "isScope v \<longleftrightarrow> isRecord v \<and> isUUID (fld v ''actor_id'') \<and>
     undefined_or isUUID (fld v ''session_id'') \<and>
     undefined_or is_string (fld v ''profile'') \<and> undefined_or is_string (fld v ''channel'')"

definition isCorrelation :: "jsval \<Rightarrow> bool" where
  "isCorrelation v \<longleftrightarrow> isRecord v \<and> isUUID (fld v ''actor_id'') \<and>
     list_all (\<lambda>key. undefined_or isUUID (fld v key))
       [''session_id'', ''turn_id'', ''task_id'', ''tool_id'']"

section \<open>Requests and responses\<close>

definition kind_value :: "request_kind \<Rightarrow> jsval" where
  "kind_value k = JStr (case k of Query \<Rightarrow> lit ''query'' | Command \<Rightarrow> lit ''command'')"

definition isRequestEnvelope :: "jsval \<Rightarrow> bool" where
  "isRequestEnvelope v \<longleftrightarrow>
     isRecord v \<and> fld v ''protocol_version'' = JStr PROTOCOL_VERSION \<and>
     isUUID (fld v ''request_id'') \<and> isScope (fld v ''scope'') \<and>
     (fld v ''kind'' = kind_value Query \<or> fld v ''kind'' = kind_value Command) \<and>
     (case fld v ''operation'' of
        JStr op \<Rightarrow> operation_set op \<and>
          (case operation_kind op of None \<Rightarrow> False | Some k \<Rightarrow> fld v ''kind'' = kind_value k)
      | _ \<Rightarrow> False) \<and>
     (fld v ''kind'' = kind_value Command \<longrightarrow> nonempty_string (fld v ''idempotency_key'')) \<and>
     undefined_or isNonNegativeSafeInteger (fld v ''expected_revision'') \<and>
     has_own v ''payload''"

definition validCodes :: "string list" where
  "validCodes = [''invalid'', ''unauthorized'', ''forbidden'', ''not_found'', ''conflict'',
     ''rate_limited'', ''unavailable'', ''internal'']"

definition isResponseEnvelope :: "jsval \<Rightarrow> bool" where
  "isResponseEnvelope v \<longleftrightarrow>
     isRecord v \<and> fld v ''protocol_version'' = JStr PROTOCOL_VERSION \<and>
     isUUID (fld v ''request_id'') \<and> isNonNegativeSafeInteger (fld v ''revision'') \<and>
     (let e = fld v ''error'' in
      if e = JUndef then has_own v ''result''
      else isRecord e \<and>
        (case fld e ''code'' of JStr c \<Rightarrow> one_of validCodes c | _ \<Rightarrow> False) \<and>
        is_string (fld e ''message'') \<and> is_boolean (fld e ''retryable''))"

section \<open>Workspace operations\<close>

definition WORKSPACE_HOST_VERSION :: jstring where
  "WORKSPACE_HOST_VERSION = lit ''ion.workspace-host.v1''"

definition workspace_operations :: "string list" where
  "workspace_operations = [''workspace.provision'', ''workspace.readiness'', ''workspace.pause'',
     ''workspace.resume'', ''workspace.stop'', ''workspace.archive'', ''workspace.destroy'']"

definition risk_classes :: "string list" where
  "risk_classes = [''GREEN'', ''YELLOW'', ''RED'']"

definition isSecretGrant :: "platform \<Rightarrow> jsval \<Rightarrow> bool" where
  "isSecretGrant pf g \<longleftrightarrow> isRecord g \<and> isUUID (fld g ''id'') \<and>
     nonempty_string (fld g ''reference'') \<and> nonempty_string (fld g ''grant_token'') \<and>
     valid_date pf (fld g ''expires_at'')"

definition isWorkspaceOperationEnvelope :: "platform \<Rightarrow> jsval \<Rightarrow> bool" where
  "isWorkspaceOperationEnvelope pf v \<longleftrightarrow>
     isRecord v \<and> fld v ''version'' = JStr WORKSPACE_HOST_VERSION \<and>
     (case fld v ''operation'' of JStr op \<Rightarrow> one_of workspace_operations op | _ \<Rightarrow> False) \<and>
     isUUID (fld v ''actor_id'') \<and> isUUID (fld v ''project_id'') \<and> isUUID (fld v ''request_id'') \<and>
     isUUID (fld v ''correlation_id'') \<and> isNonNegativeSafeInteger (fld v ''workspace_revision'') \<and>
     nonempty_string (fld v ''idempotency_key'') \<and>
     one_of risk_classes (to_string pf (fld v ''policy_classification'')) \<and>
     valid_date pf (fld v ''deadline'') \<and>
     undefined_or (\<lambda>gs. is_array gs \<and> list_all (isSecretGrant pf) (elems gs))
       (fld v ''secret_grants'')"

definition assertRequestEnvelope :: "jsval \<Rightarrow> js_error + unit" where
  "assertRequestEnvelope v =
     (if isRequestEnvelope v then Inr () else Inl (TypeError (lit ''invalid control-plane request'')))"

definition assertResponseEnvelope :: "jsval \<Rightarrow> js_error + unit" where
  "assertResponseEnvelope v =
     (if isResponseEnvelope v then Inr () else Inl (TypeError (lit ''invalid control-plane response'')))"

section \<open>Typed views\<close>

definition int_of :: "jsval \<Rightarrow> int" where
  "int_of v = (case safe_int v of None \<Rightarrow> 0 | Some n \<Rightarrow> n)"

definition correlation_of :: "jsval \<Rightarrow> correlation" where
  "correlation_of v =
     \<lparr>c_actor_id = str_of (fld v ''actor_id''), c_session_id = as_str (fld v ''session_id''),
      c_turn_id = as_str (fld v ''turn_id''), c_task_id = as_str (fld v ''task_id''),
      c_tool_id = as_str (fld v ''tool_id'')\<rparr>"

definition protocol_error_of :: "jsval \<Rightarrow> protocol_error option" where
  "protocol_error_of e = (if isRecord e then
     Some \<lparr>pe_code = str_of (fld e ''code''), pe_message = str_of (fld e ''message''),
       pe_retryable = (fld e ''retryable'' = JBool True)\<rparr> else None)"

definition response_of :: "jsval \<Rightarrow> response_envelope" where
  "response_of v =
     \<lparr>rs_request_id = str_of (fld v ''request_id''), rs_revision = int_of (fld v ''revision''),
      rs_result = fld v ''result'', rs_error = protocol_error_of (fld v ''error'')\<rparr>"

section \<open>Lemmas\<close>

lemma isRecord_iff: "isRecord v \<longleftrightarrow> (\<exists>ps. v = JObj ps)"
  by (cases v) auto

lemma isUUID_string: "isUUID v \<Longrightarrow> \<exists>s. v = JStr s"
  by (cases v) auto

lemma matches_classes_length: "matches_classes fs s \<Longrightarrow> length s = length fs"
  by (induction fs s rule: matches_classes.induct) auto

lemma matches_classes_nth: "matches_classes fs s \<Longrightarrow> i < length fs \<Longrightarrow> (fs ! i) (s ! i)"
  by (induction fs s arbitrary: i rule: matches_classes.induct) (auto simp: nth_Cons split: nat.splits)

lemma length_UUID_PATTERN [simp]: "length UUID_PATTERN = 36"
  by (simp add: UUID_PATTERN_def)

lemma isUUID_length: "isUUID (JStr s) \<Longrightarrow> length s = 36"
  by (auto dest: matches_classes_length)

text \<open>An identifier that passed \<open>isUUID\<close> is not an array index, so it orders by insertion.\<close>

lemma isUUID_dash: "isUUID (JStr s) \<Longrightarrow> s ! 8 = 45"
proof -
  assume "isUUID (JStr s)"
  then have "(UUID_PATTERN ! 8) (s ! 8)" using matches_classes_nth [of UUID_PATTERN s 8] by simp
  then show ?thesis by (simp add: UUID_PATTERN_def nth_append is_dash_def)
qed

lemma undefined_or_iff: "undefined_or f v \<longleftrightarrow> v = JUndef \<or> f v"
  by (cases v) auto

lemma isNonNegativeSafeInteger_iff:
  "isNonNegativeSafeInteger v \<longleftrightarrow> (\<exists>n. v = JInt n \<and> 0 \<le> n \<and> n \<le> max_safe_integer)"
  by (auto simp: isNonNegativeSafeInteger_def safe_int_Some split: option.splits)

lemma int_of_JInt: "\<bar>n\<bar> \<le> max_safe_integer \<Longrightarrow> int_of (JInt n) = n"
  by (simp add: int_of_def)

end
