(* ===== verification/Display.thy ===== *)
theory Display
  imports Envelope
begin

text \<open>
  The validators of display models in \<open>ui/shared/src/generated/protocol.ts\<close>: the text, URL and
  path filters, the nested structure with its bounds, the version check and the migration of the
  version-0 form. \<open>JSON.stringify\<close> does not throw on a parsed value, so the \<open>catch\<close> branches
  around it are not taken; its result is \<open>undefined\<close> for no record.
\<close>

section \<open>Vocabulary\<close>

definition DISPLAY_MODEL_VERSION :: jstring where
  "DISPLAY_MODEL_VERSION = lit ''ion.display-model.v1''"

definition displayKinds :: "string list" where
  "displayKinds = [''search'', ''reader'', ''navigation'', ''repository'', ''code'', ''terminal'',
     ''diff'', ''process'', ''table'', ''chart'', ''document'', ''artifact'', ''task'', ''agent'',
     ''approval'', ''error'', ''degraded'']"

definition displayTruths :: "string list" where
  "displayTruths = [''observed'', ''generated'', ''summarized'', ''inferred'', ''unavailable'']"

definition displayFormats :: "string list" where
  "displayFormats = [''text'', ''url'', ''path'', ''integer'', ''number'', ''boolean'',
     ''timestamp'', ''status'', ''code'', ''terminal'', ''diff'']"

definition displayBlockKinds :: "string list" where
  "displayBlockKinds = [''text'', ''list'', ''code'', ''terminal'', ''diff'', ''table'', ''chart'',
     ''document'', ''empty'']"

section \<open>Text\<close>

text \<open>\<open>value.replaceAll(pattern, '')\<close> for a non-empty pattern.\<close>

function remove_all :: "jstring \<Rightarrow> jstring \<Rightarrow> jstring" where
  "remove_all pat [] = []"
| "remove_all pat (u # s) =
     (if pat \<noteq> [] \<and> prefix pat (u # s) then remove_all pat (drop (length pat) (u # s))
      else u # remove_all pat s)"
  by pat_completeness auto
termination
  by (relation "measure (\<lambda>(pat, s). length s)") (auto simp: Suc_le_eq)

definition is_display_control :: "code_unit \<Rightarrow> bool" where
  "is_display_control u \<longleftrightarrow> (let n = unat u in
     n \<le> 8 \<or> n = 11 \<or> n = 12 \<or> 14 \<le> n \<and> n \<le> 31 \<or> n = 127)"

definition markup_pattern :: regex where
  "markup_pattern = r_seqs [r_char 60, RStar r_space,
     r_alts [r_lit ''script'', r_lit ''style'', r_lit ''iframe'', r_lit ''object'', r_lit ''embed'',
       r_lit ''link'', r_lit ''meta'',
       RSeq (RCls is_ascii_letter)
         (RStar (RCls (\<lambda>c. is_ascii_letter c \<or> is_ascii_digit c \<or> c = 58 \<or> c = 45)))],
     r_opt (RSeq r_space (RStar (RCls (\<lambda>c. c \<noteq> 62)))),
     r_char 62]"

definition private_key_pattern :: regex where
  "private_key_pattern = r_seqs [r_lit ''-----BEGIN '',
     RStar (RCls (\<lambda>c. is_ascii_letter c \<or> is_ascii_digit c \<or> c = 32)),
     r_lit ''PRIVATE KEY-----'']"

definition bearer_pattern :: regex where
  "bearer_pattern = r_seqs [RBound, r_lit ''bearer'', r_plus r_space,
     r_at_least 8 (RCls (\<lambda>c. is_ascii_letter c \<or> is_ascii_digit c \<or>
       c = 46 \<or> c = 95 \<or> c = 126 \<or> c = 43 \<or> c = 47 \<or> c = 45)),
     RStar (r_char 61)]"

definition underscore_or_dash :: regex where
  "underscore_or_dash = RCls (\<lambda>c. c = 95 \<or> c = 45)"

definition credential_pattern :: regex where
  "credential_pattern = r_seqs [RBound,
     r_alts [r_seqs [r_lit ''api'', r_opt underscore_or_dash, r_lit ''key''],
       r_seqs [r_lit ''access'', r_opt underscore_or_dash, r_lit ''token''],
       r_seqs [r_lit ''auth'', r_opt underscore_or_dash, r_lit ''token''],
       r_lit ''password'', r_lit ''passwd'', r_lit ''secret''],
     RBound, RStar r_space, RCls (\<lambda>c. c = 58 \<or> c = 61), RStar r_space,
     r_opt (RCls (\<lambda>c. c = 34 \<or> c = 39)),
     r_at_least 4 (RCls (\<lambda>c. \<not> is_space c \<and> c \<noteq> 34 \<and> c \<noteq> 39 \<and> c \<noteq> 44 \<and> c \<noteq> 59))]"

definition displayTextIsSafe :: "nat \<Rightarrow> jstring \<Rightarrow> bool" where
  "displayTextIsSafe maximum value \<longleftrightarrow>
     (let credentialCheck = remove_all (lit ''[REDACTED]'') value in
      trim value \<noteq> [] \<and> utf8_length value \<le> maximum \<and>
      \<not> list_ex is_display_control value \<and>
      \<not> regex_test markup_pattern value \<and> \<not> regex_test private_key_pattern value \<and>
      \<not> regex_test bearer_pattern credentialCheck \<and>
      \<not> regex_test credential_pattern credentialCheck)"

section \<open>URLs and paths\<close>

definition sensitive_key_pattern :: regex where
  "sensitive_key_pattern = r_seqs [RAlt RBegin (r_char 95),
     r_alts [r_seqs [r_lit ''api'', r_opt (r_char 95), r_lit ''key''], r_lit ''access_token'',
       r_lit ''token'', r_lit ''secret'', r_lit ''password'', r_lit ''passwd'',
       r_lit ''authorization'', r_lit ''signature'', r_lit ''sig''],
     REnd]"

text \<open>\<open>value.slice(0, value.indexOf(':'))\<close>; \<open>slice(0, -1)\<close> when there is no colon.\<close>

definition before_colon :: "jstring \<Rightarrow> jstring" where
  "before_colon value = (case index_of 58 value of None \<Rightarrow> butlast value | Some i \<Rightarrow> take i value)"

definition displayURLIsSafe :: "platform \<Rightarrow> jstring \<Rightarrow> bool" where
  "displayURLIsSafe pf value \<longleftrightarrow>
     length value \<le> 2048 \<and> \<not> List.member value 35 \<and>
     (case parse_url pf value of
        None \<Rightarrow> False
      | Some parsed \<Rightarrow>
          (url_protocol parsed = lit ''http:'' \<or> url_protocol parsed = lit ''https:'') \<and>
          url_username parsed = [] \<and> url_password parsed = [] \<and>
          url_hostname parsed = to_lower (url_hostname parsed) \<and>
          before_colon value = to_lower (before_colon value) \<and>
          \<not> list_ex (\<lambda>(key, queryValue).
              regex_test sensitive_key_pattern key \<and> queryValue \<noteq> lit ''[REDACTED]'')
            (url_search_params parsed))"

text \<open>\<open>value.split('/')\<close>.\<close>

fun split_on :: "code_unit \<Rightarrow> jstring \<Rightarrow> jstring list" where
  "split_on c [] = [[]]"
| "split_on c (u # s) =
     (if u = c then [] # split_on c s
      else case split_on c s of [] \<Rightarrow> [[u]] | p # ps \<Rightarrow> (u # p) # ps)"

lemma split_on_absent: "c \<notin> set s \<Longrightarrow> split_on c s = [s]"
  by (induction s) auto

definition displayPathIsSafe :: "jstring \<Rightarrow> bool" where
  "displayPathIsSafe value \<longleftrightarrow>
     value \<noteq> [] \<and> \<not> starts_with ''/'' value \<and> \<not> List.member value 92 \<and>
     (list_all (\<lambda>part. part \<noteq> lit ''..'' \<and> part \<noteq> [] \<and> part \<noteq> lit ''.'') (split_on 47 value) \<or>
      value = lit ''.'')"

section \<open>Structure\<close>

fun string_with :: "(jstring \<Rightarrow> bool) \<Rightarrow> jsval \<Rightarrow> bool" where
  "string_with f (JStr s) = f s"
| "string_with f _ = False"

text \<open>A source index of a datum: a safe integer in \<open>[0, sourceCount)\<close>.\<close>

definition source_in_range :: "nat \<Rightarrow> jsval \<Rightarrow> bool" where
  "source_in_range n v = (case safe_int v of None \<Rightarrow> False | Some i \<Rightarrow> 0 \<le> i \<and> i < int n)"

definition isDisplayDatum :: "platform \<Rightarrow> nat \<Rightarrow> jsval \<Rightarrow> bool" where
  "isDisplayDatum pf sourceCount v \<longleftrightarrow>
     isRecord v \<and> string_with (displayTextIsSafe 16384) (fld v ''value'') \<and>
     string_with (one_of displayTruths) (fld v ''truth'') \<and>
     string_with (one_of displayFormats) (fld v ''format'') \<and>
     is_array (fld v ''sources'') \<and> elems (fld v ''sources'') \<noteq> [] \<and>
     length (elems (fld v ''sources'')) \<le> 8 \<and>
     list_all (source_in_range sourceCount) (elems (fld v ''sources'')) \<and>
     distinct (elems (fld v ''sources'')) \<and>
     (fld v ''format'' = JStr (lit ''url'') \<longrightarrow> displayURLIsSafe pf (str_of (fld v ''value''))) \<and>
     (fld v ''format'' = JStr (lit ''path'') \<longrightarrow> displayPathIsSafe (str_of (fld v ''value'')))"

definition isDisplayField :: "platform \<Rightarrow> nat \<Rightarrow> jsval \<Rightarrow> bool" where
  "isDisplayField pf sourceCount v \<longleftrightarrow>
     isRecord v \<and> string_with (displayTextIsSafe 128) (fld v ''label'') \<and>
     isDisplayDatum pf sourceCount (fld v ''value'')"

text \<open>An array of at most \<open>n\<close> elements that each pass a test.\<close>

definition bounded_array :: "nat \<Rightarrow> (jsval \<Rightarrow> bool) \<Rightarrow> jsval \<Rightarrow> bool" where
  "bounded_array n f v \<longleftrightarrow> is_array v \<and> length (elems v) \<le> n \<and> list_all f (elems v)"

definition isDisplayItem :: "platform \<Rightarrow> nat \<Rightarrow> jsval \<Rightarrow> bool" where
  "isDisplayItem pf sourceCount v \<longleftrightarrow>
     isRecord v \<and> elems (fld v ''fields'') \<noteq> [] \<and>
     bounded_array 32 (isDisplayField pf sourceCount) (fld v ''fields'')"

definition isDisplayRow :: "platform \<Rightarrow> nat \<Rightarrow> jsval \<Rightarrow> jsval \<Rightarrow> bool" where
  "isDisplayRow pf sourceCount columns row \<longleftrightarrow>
     elems row \<noteq> [] \<and> bounded_array 16 (isDisplayDatum pf sourceCount) row \<and>
     (columns = JUndef \<or> length (elems row) = length (elems columns))"

definition isDisplayBlock :: "platform \<Rightarrow> nat \<Rightarrow> jsval \<Rightarrow> bool" where
  "isDisplayBlock pf sourceCount v \<longleftrightarrow>
     isRecord v \<and> string_with (one_of displayBlockKinds) (fld v ''kind'') \<and>
     undefined_or (string_with (\<lambda>s. s = [] \<or> displayTextIsSafe 128 s)) (fld v ''label'') \<and>
     undefined_or (string_with (\<lambda>s. s = [] \<or> displayTextIsSafe 64 s)) (fld v ''language'') \<and>
     undefined_or (isDisplayDatum pf sourceCount) (fld v ''content'') \<and>
     undefined_or (bounded_array 32 (isDisplayField pf sourceCount)) (fld v ''fields'') \<and>
     undefined_or (bounded_array 64 (isDisplayItem pf sourceCount)) (fld v ''items'') \<and>
     undefined_or (bounded_array 16 (string_with (displayTextIsSafe 128))) (fld v ''columns'') \<and>
     undefined_or (bounded_array 64 (isDisplayRow pf sourceCount (fld v ''columns'')))
       (fld v ''rows'')"

text \<open>\<open>new TextEncoder().encode(JSON.stringify(value)).length\<close>.\<close>

definition encoded_length :: "platform \<Rightarrow> jsval \<Rightarrow> nat" where
  "encoded_length pf v = (case json_stringify pf v of None \<Rightarrow> 0 | Some t \<Rightarrow> utf8_length t)"

definition isDisplayModel :: "platform \<Rightarrow> nat \<Rightarrow> jsval \<Rightarrow> bool" where
  "isDisplayModel pf sourceCount v \<longleftrightarrow>
     isRecord v \<and> fld v ''protocol_version'' = JStr DISPLAY_MODEL_VERSION \<and>
     string_with (one_of displayKinds) (fld v ''kind'') \<and>
     isDisplayDatum pf sourceCount (fld v ''title'') \<and>
     undefined_or (bounded_array 32 (isDisplayField pf sourceCount)) (fld v ''fields'') \<and>
     undefined_or (bounded_array 16 (isDisplayBlock pf sourceCount)) (fld v ''blocks'') \<and>
     encoded_length pf v \<le> 65536"

section \<open>Versions\<close>

text \<open>The version-1 model built from a version-0 one.\<close>

definition display_datum :: "jsval \<Rightarrow> string \<Rightarrow> int \<Rightarrow> jsval" where
  "display_datum value truth source = JObj [
     (lit ''value'', value), (lit ''truth'', JStr (lit truth)), (lit ''format'', JStr (lit ''text'')),
     (lit ''sources'', JArr [JInt source])]"

definition migrated_model :: "jsval \<Rightarrow> int \<Rightarrow> jsval" where
  "migrated_model v source = JObj ([
     (lit ''protocol_version'', JStr DISPLAY_MODEL_VERSION), (lit ''kind'', fld v ''kind''),
     (lit ''title'', display_datum (fld v ''title'') ''observed'' source)] @
     (if is_string (fld v ''summary'')
      then [(lit ''blocks'', JArr [JObj [(lit ''kind'', JStr (lit ''text'')),
        (lit ''content'', display_datum (fld v ''summary'') ''summarized'' source)]])]
      else []))"

definition migrateDisplayModel :: "platform \<Rightarrow> nat \<Rightarrow> jsval \<Rightarrow> jsval option" where
  "migrateDisplayModel pf sourceCount v =
     (if isDisplayModel pf sourceCount v then Some v
      else if \<not> (isRecord v \<and> fld v ''protocol_version'' = JStr (lit ''ion.display-model.v0'') \<and>
        string_with (one_of displayKinds) (fld v ''kind'') \<and>
        string_with (displayTextIsSafe 16384) (fld v ''title'') \<and>
        undefined_or (string_with (displayTextIsSafe 16384)) (fld v ''summary'') \<and>
        source_in_range sourceCount (fld v ''source'')) then None
      else let migrated = migrated_model v (int_of (fld v ''source'')) in
        if isDisplayModel pf sourceCount migrated then Some migrated else None)"

datatype display_compatibility = Current | Migrated | Unsupported | Invalid

definition displayModelCompatibility ::
    "platform \<Rightarrow> nat \<Rightarrow> jsval \<Rightarrow> display_compatibility" where
  "displayModelCompatibility pf sourceCount v =
     (if \<not> (isRecord v \<and>
          string_with (\<lambda>s. s \<noteq> [] \<and> length s \<le> 128) (fld v ''protocol_version'')) then Invalid
      else if encoded_length pf v > 65536 then Invalid
      else if fld v ''protocol_version'' = JStr DISPLAY_MODEL_VERSION
        then if isDisplayModel pf sourceCount v then Current else Invalid
      else if fld v ''protocol_version'' = JStr (lit ''ion.display-model.v0'')
        then if migrateDisplayModel pf sourceCount v = None then Invalid else Migrated
      else Unsupported)"

end
