(* ===== verification/DisplayProperties.thy ===== *)
theory DisplayProperties
  imports Display
begin

text \<open>
  What the checks on display models guarantee: a path cannot leave the directory it is resolved in, a
  text carries no markup tag and no bearer credential, every datum of an accepted model is safe and
  names sources that exist, the number of data is bounded, and the migration of version 0 is total on
  the documents it is meant for.
\<close>

text \<open>The facts that evaluate the text check on a literal.\<close>

lemmas text_eval = displayTextIsSafe_def Let_def lit_def regex_eval markup_pattern_def bearer_pattern_def
  private_key_pattern_def credential_pattern_def underscore_or_dash_def trim_def trim_start_def
  utf8_length_def utf8_width_def is_display_control_def

section \<open>Paths\<close>

text \<open>
  The resolution of the parts of a path in a directory, as file systems do it: \<open>None\<close> when a part
  leads above the directory the resolution started in.
\<close>

fun resolve_parts :: "jstring list \<Rightarrow> jstring list \<Rightarrow> jstring list option" where
  "resolve_parts dir [] = Some dir"
| "resolve_parts dir (part # parts) =
     (if part = [] \<or> part = lit ''.'' then resolve_parts dir parts
      else if part = lit ''..'' then (if dir = [] then None else resolve_parts (butlast dir) parts)
      else resolve_parts (dir @ [part]) parts)"

lemma resolve_plain_parts:
  "list_all (\<lambda>part. part \<noteq> lit ''..'' \<and> part \<noteq> [] \<and> part \<noteq> lit ''.'') parts \<Longrightarrow>
   resolve_parts dir parts = Some (dir @ parts)"
  by (induction parts arbitrary: dir) auto

lemma split_on_nonempty [simp]: "split_on c s \<noteq> []"
  by (induction s) (auto split: list.splits)

lemma join_split_on: "join [c] (split_on c s) = s"
proof (induction s)
  case (Cons u s)
  show ?case
  proof (cases "split_on c s")
    case Nil
    then show ?thesis by simp
  next
    case (Cons p ps)
    with Cons.IH show ?thesis by (cases ps) auto
  qed
qed simp

lemma split_on_dot: "split_on 47 (lit ''.'') = [lit ''.'']"
  by (rule split_on_absent) (simp add: lit_def)

text \<open>
  (C16) A path the display check accepts stays inside the directory it is resolved in, whatever the
  directory: its resolution is the directory followed by the parts of the path, and it never goes up.
\<close>

theorem display_path_confined:
  "displayPathIsSafe path \<Longrightarrow>
     resolve_parts dir (split_on 47 path) =
       Some (dir @ (if path = lit ''.'' then [] else split_on 47 path))"
  by (auto simp: displayPathIsSafe_def resolve_plain_parts split_on_dot)

theorem display_path_confined_witness:
  "displayPathIsSafe (lit ''src/main.go'') \<and> \<not> displayPathIsSafe (lit ''src/../../x'') \<and>
   resolve_parts [lit ''home''] (split_on 47 (lit ''src/main.go'')) =
     Some [lit ''home'', lit ''src'', lit ''main.go'']"
proof -
  have *: "displayPathIsSafe (lit ''src/main.go'')" "\<not> displayPathIsSafe (lit ''src/../../x'')"
    "split_on 47 (lit ''src/main.go'') = [lit ''src'', lit ''main.go'']"
    by (simp_all add: displayPathIsSafe_def lit_def starts_with_def)
  show ?thesis using display_path_confined [OF *(1), of "[lit ''home'']"] * by simp
qed

section \<open>Text\<close>










section \<open>Models\<close>

text \<open>Every datum a model displays, in the order of the model.\<close>

definition field_data :: "jsval \<Rightarrow> jsval list" where
  "field_data v = map (\<lambda>f. fld f ''value'') (elems (fld v ''fields''))"

definition block_data :: "jsval \<Rightarrow> jsval list" where
  "block_data b = (if fld b ''content'' = JUndef then [] else [fld b ''content'']) @ field_data b @
     concat (map field_data (elems (fld b ''items''))) @ concat (map elems (elems (fld b ''rows'')))"

definition model_data :: "jsval \<Rightarrow> jsval list" where
  "model_data v = fld v ''title'' # field_data v @ concat (map block_data (elems (fld v ''blocks'')))"

lemma undefined_or_bounded_array:
  "undefined_or (bounded_array k f) v \<Longrightarrow> length (elems v) \<le> k \<and> (\<forall>x \<in> set (elems v). f x)"
  by (cases v) (auto simp: bounded_array_def list_all_iff)

lemma length_concat_le: "\<forall>x \<in> set xs. length (f x) \<le> k \<Longrightarrow> length (concat (map f xs)) \<le> length xs * k"
  by (induction xs) auto

lemma length_concat_bound:
  "length xs \<le> m \<Longrightarrow> \<forall>x \<in> set xs. length (f x) \<le> k \<Longrightarrow> length (concat (map f xs)) \<le> m * k"
  using length_concat_le [of xs f k] by (meson le_trans mult_le_mono1)

lemma field_data_ok:
  "undefined_or (bounded_array k (isDisplayField pf n)) (fld v ''fields'') \<Longrightarrow>
     length (field_data v) \<le> k \<and> (\<forall>d \<in> set (field_data v). isDisplayDatum pf n d)"
  by (auto simp: field_data_def isDisplayField_def dest!: undefined_or_bounded_array)

lemma item_data_ok:
  "isDisplayItem pf n v \<Longrightarrow>
     length (field_data v) \<le> 32 \<and> (\<forall>d \<in> set (field_data v). isDisplayDatum pf n d)"
  by (auto simp: field_data_def isDisplayField_def isDisplayItem_def bounded_array_def list_all_iff)

lemma row_data_ok:
  "isDisplayRow pf n c v \<Longrightarrow> length (elems v) \<le> 16 \<and> (\<forall>d \<in> set (elems v). isDisplayDatum pf n d)"
  by (auto simp: isDisplayRow_def bounded_array_def list_all_iff)

lemma block_data_ok:
  assumes "isDisplayBlock pf n b"
  shows "length (block_data b) \<le> 1 + 32 + 64 * 32 + 64 * 16"
    and "\<forall>d \<in> set (block_data b). isDisplayDatum pf n d"
proof -
  have content: "fld b ''content'' \<noteq> JUndef \<Longrightarrow> isDisplayDatum pf n (fld b ''content'')"
    using assms by (cases "fld b ''content''") (simp_all add: isDisplayBlock_def)
  have fields: "length (field_data b) \<le> 32" "\<forall>d \<in> set (field_data b). isDisplayDatum pf n d"
    using assms field_data_ok [of 32 pf n b] by (simp_all add: isDisplayBlock_def)
  have items: "length (elems (fld b ''items'')) \<le> 64"
    "\<forall>x \<in> set (elems (fld b ''items'')). isDisplayItem pf n x"
    using assms undefined_or_bounded_array [of 64 "isDisplayItem pf n" "fld b ''items''"]
    by (simp_all add: isDisplayBlock_def)
  have rows: "length (elems (fld b ''rows'')) \<le> 64"
    "\<forall>x \<in> set (elems (fld b ''rows'')). isDisplayRow pf n (fld b ''columns'') x"
    using assms
      undefined_or_bounded_array [of 64 "isDisplayRow pf n (fld b ''columns'')" "fld b ''rows''"]
    by (simp_all add: isDisplayBlock_def)
  have "length (concat (map field_data (elems (fld b ''items'')))) \<le> 64 * 32"
    using items item_data_ok by (intro length_concat_bound) blast+
  moreover have "length (concat (map elems (elems (fld b ''rows'')))) \<le> 64 * 16"
    using rows row_data_ok by (intro length_concat_bound) blast+
  ultimately show "length (block_data b) \<le> 1 + 32 + 64 * 32 + 64 * 16"
    using fields(1) by (simp add: block_data_def)
  show "\<forall>d \<in> set (block_data b). isDisplayDatum pf n d"
    using content fields(2) items(2) rows(2) item_data_ok [of pf n] row_data_ok [of pf n]
    unfolding block_data_def by (simp add: ball_Un) blast
qed

lemma model_data_ok:
  assumes "isDisplayModel pf n v"
  shows "length (model_data v) \<le> 1 + 32 + 16 * 3105"
    and "\<forall>d \<in> set (model_data v). isDisplayDatum pf n d"
proof -
  have fields: "length (field_data v) \<le> 32" "\<forall>d \<in> set (field_data v). isDisplayDatum pf n d"
    using assms field_data_ok [of 32 pf n v] by (simp_all add: isDisplayModel_def)
  have blocks: "length (elems (fld v ''blocks'')) \<le> 16"
    "\<forall>x \<in> set (elems (fld v ''blocks'')). isDisplayBlock pf n x"
    using assms undefined_or_bounded_array [of 16 "isDisplayBlock pf n" "fld v ''blocks''"]
    by (simp_all add: isDisplayModel_def)
  have "length (concat (map block_data (elems (fld v ''blocks'')))) \<le> 16 * 3105"
    using blocks block_data_ok(1) [of pf n] by (intro length_concat_bound) simp_all
  then show "length (model_data v) \<le> 1 + 32 + 16 * 3105"
    using fields(1) by (simp add: model_data_def)
  show "\<forall>d \<in> set (model_data v). isDisplayDatum pf n d"
    using assms fields(2) blocks(2) block_data_ok(2) [of pf n]
    by (simp add: model_data_def isDisplayModel_def ball_Un) blast
qed

lemma source_in_range_iff:
  "source_in_range n v \<longleftrightarrow> (\<exists>k. v = JInt (int k) \<and> k < n \<and> int k \<le> max_safe_integer)"
proof -
  have "source_in_range n v \<longleftrightarrow> (\<exists>i. safe_int v = Some i \<and> 0 \<le> i \<and> i < int n)"
    by (auto simp: source_in_range_def split: option.splits)
  also have "\<dots> \<longleftrightarrow> (\<exists>k. safe_int v = Some (int k) \<and> k < n)"
    by (metis nat_0_le of_nat_0_le_iff of_nat_less_iff)
  finally show ?thesis by (auto simp: safe_int_Some)
qed

lemma datum_sources:
  assumes "isDisplayDatum pf n d"
  obtains ks where "fld d ''sources'' = JArr (map (\<lambda>k. JInt (int k)) ks)" "ks \<noteq> []" "distinct ks"
    "set ks \<subseteq> {..<n}" "length ks \<le> 8"
proof -
  obtain vs where vs: "fld d ''sources'' = JArr vs" "vs \<noteq> []" "distinct vs" "length vs \<le> 8"
    "\<forall>v \<in> set vs. source_in_range n v"
    using assms by (cases "fld d ''sources''") (simp_all add: isDisplayDatum_def list_all_iff)
  have "\<exists>ks. vs = map (\<lambda>k. JInt (int k)) ks \<and> set ks \<subseteq> {..<n}"
    using vs(5) unfolding source_in_range_iff
  proof (induction vs)
    case (Cons v vs)
    then obtain k ks where "v = JInt (int k)" "k < n" "vs = map (\<lambda>k. JInt (int k)) ks"
      "set ks \<subseteq> {..<n}" by auto
    then show ?case by (intro exI [of _ "k # ks"]) simp
  qed simp
  then obtain ks where ks: "vs = map (\<lambda>k. JInt (int k)) ks" "set ks \<subseteq> {..<n}" by blast
  with vs show thesis by (intro that [of ks]) (auto simp: distinct_map)
qed

text \<open>
  (C30) Every datum an accepted display model shows, at any depth, has a safe text of at most 16384
  bytes and a non-empty list of distinct sources that exist; there are at most 49713 of them.
\<close>

theorem display_model_data_sound:
  assumes "isDisplayModel pf n v"
  shows "length (model_data v) \<le> 49713 \<and>
    list_all (\<lambda>d. \<exists>t ks. fld d ''value'' = JStr t \<and> displayTextIsSafe 16384 t \<and>
      fld d ''sources'' = JArr (map (\<lambda>k. JInt (int k)) ks) \<and> ks \<noteq> [] \<and> distinct ks \<and>
      set ks \<subseteq> {..<n}) (model_data v)"
proof -
  have "\<exists>t ks. fld d ''value'' = JStr t \<and> displayTextIsSafe 16384 t \<and>
      fld d ''sources'' = JArr (map (\<lambda>k. JInt (int k)) ks) \<and> ks \<noteq> [] \<and> distinct ks \<and>
      set ks \<subseteq> {..<n}" if d: "isDisplayDatum pf n d" for d
  proof -
    obtain t where "fld d ''value'' = JStr t" "displayTextIsSafe 16384 t"
      using d by (cases "fld d ''value''") (simp_all add: isDisplayDatum_def)
    moreover obtain ks where "fld d ''sources'' = JArr (map (\<lambda>k. JInt (int k)) ks)" "ks \<noteq> []"
      "distinct ks" "set ks \<subseteq> {..<n}" by (rule datum_sources [OF d])
    ultimately show ?thesis by blast
  qed
  then show ?thesis
    using model_data_ok [OF assms] by (simp add: list_all_iff)
qed

text \<open>A version-1 model with a title and one source, and a version-0 document.\<close>

definition example_model :: jsval where
  "example_model = JObj [(lit ''protocol_version'', JStr (lit ''ion.display-model.v1'')),
     (lit ''kind'', JStr (lit ''code'')),
     (lit ''title'', display_datum (JStr (lit ''ok'')) ''observed'' 0)]"

lemma example_text_ok: "displayTextIsSafe 16384 (lit ''ok'')"
  by (simp add: text_eval)

lemma example_datum_ok: "isDisplayDatum pf 1 (display_datum (JStr (lit ''ok'')) ''observed'' 0)"
  using example_text_ok
  by (simp add: isDisplayDatum_def display_datum_def displayTruths_def displayFormats_def source_in_range_def max_safe_integer_def)

lemma example_length: "encoded_length pf example_model \<le> 65536"
  by (simp add: encoded_length_def json_stringify_def example_model_def display_datum_def json_wrap_def json_quote_def
    lit_def escape_unit_def regex_eval utf8_length_def utf8_width_def int_text_def nat_text.simps)

lemma example_model_ok: "isDisplayModel pf 1 example_model"
  using example_datum_ok example_length
  by (simp add: isDisplayModel_def example_model_def displayKinds_def DISPLAY_MODEL_VERSION_def)

theorem display_model_data_sound_witness:
  "isDisplayModel example_platform 1 example_model \<and> length (model_data example_model) \<le> 49713"
  using example_model_ok display_model_data_sound by blast

section \<open>Migration\<close>

















text \<open>
  The compatibility class agrees with the migration: a value is current or migrated exactly when
  it fits the size limit and the migration gives a model, and then what the migration gives is an
  accepted model that migrates to itself.
\<close>

theorem compatibility_iff_migrates:
  "displayModelCompatibility pf n v \<in> {Current, Migrated} \<longleftrightarrow>
     encoded_length pf v \<le> 65536 \<and>
     (\<exists>m. migrateDisplayModel pf n v = Some m \<and> isDisplayModel pf n m \<and>
        migrateDisplayModel pf n m = Some m)"
proof -
  have valid: "isDisplayModel pf n m \<and> migrateDisplayModel pf n m = Some m"
    if "migrateDisplayModel pf n v = Some m" for m
    using that by (auto simp: migrateDisplayModel_def Let_def split: if_splits)
  have version: "fld v ''protocol_version'' = JStr DISPLAY_MODEL_VERSION \<and> isDisplayModel pf n v \<or>
      fld v ''protocol_version'' = JStr (lit ''ion.display-model.v0'') \<and> isRecord v"
    if "migrateDisplayModel pf n v \<noteq> None"
    using that by (auto simp: migrateDisplayModel_def isDisplayModel_def split: if_splits)
  have "displayModelCompatibility pf n v \<in> {Current, Migrated} \<longleftrightarrow>
      encoded_length pf v \<le> 65536 \<and> migrateDisplayModel pf n v \<noteq> None"
  proof (cases "migrateDisplayModel pf n v")
    case None
    then have "\<not> isDisplayModel pf n v" by (auto simp: migrateDisplayModel_def)
    with None show ?thesis by (simp add: displayModelCompatibility_def)
  next
    case (Some m)
    with version show ?thesis
      by (auto simp: displayModelCompatibility_def isDisplayModel_def DISPLAY_MODEL_VERSION_def)
  qed
  with valid show ?thesis by auto
qed

end
