(* ===== verification/Dict.thy ===== *)
theory Dict
  imports Prelude
begin

text \<open>
  The ordinary objects the sources use as dictionaries (\<open>Record<UUID, T>\<close>), kept in the
  property order of the language: array-index keys first, in ascending order, then the other keys in
  the order of their insertion. \<open>Object.values\<close>, \<open>Object.keys\<close> and \<open>Object.entries\<close> follow
  this order, so which entry is first is part of the behaviour.

  The locale \<open>js_record\<close> is the contract the reducers rely on (what a read returns after an
  assignment or a \<open>delete\<close>, and the invariant each keeps); it is interpreted on the model below.
\<close>

type_synonym 'v dict = "(jstring \<times> 'v) list"

section \<open>Array-index keys\<close>

definition is_digit_unit :: "code_unit \<Rightarrow> bool" where
  "is_digit_unit u \<longleftrightarrow> 48 \<le> unat u \<and> unat u \<le> 57"

definition decimal_value :: "jstring \<Rightarrow> nat" where
  "decimal_value s = foldl (\<lambda>n u. 10 * n + (unat u - 48)) 0 s"

text \<open>The canonical decimal numeral of a number below \<open>2\<^sup>3\<^sup>2 - 1\<close>.\<close>

definition is_index_key :: "jstring \<Rightarrow> bool" where
  "is_index_key s \<longleftrightarrow> s \<noteq> [] \<and> list_all is_digit_unit s \<and>
     (hd s \<noteq> 48 \<or> length s = 1) \<and> decimal_value s < 4294967295"

text \<open>The order of two different keys of one object, the first inserted earlier.\<close>

definition key_before :: "jstring \<Rightarrow> jstring \<Rightarrow> bool" where
  "key_before j k \<longleftrightarrow> is_index_key j \<and> (is_index_key k \<longrightarrow> decimal_value j \<le> decimal_value k)"

section \<open>Operations\<close>

fun dict_insert :: "jstring \<Rightarrow> 'v \<Rightarrow> 'v dict \<Rightarrow> 'v dict" where
  "dict_insert k v [] = [(k, v)]"
| "dict_insert k v ((j, w) # d) =
     (if is_index_key k \<and> \<not> key_before j k then (k, v) # (j, w) # d
      else (j, w) # dict_insert k v d)"

fun dict_replace :: "jstring \<Rightarrow> 'v \<Rightarrow> 'v dict \<Rightarrow> 'v dict" where
  "dict_replace k v [] = []"
| "dict_replace k v ((j, w) # d) = (if j = k then (k, v) # d else (j, w) # dict_replace k v d)"

definition dict_get :: "'v dict \<Rightarrow> jstring \<Rightarrow> 'v option" where
  "dict_get d k = map_of d k"

definition dict_keys :: "'v dict \<Rightarrow> jstring list" where
  "dict_keys d = map fst d"

definition dict_values :: "'v dict \<Rightarrow> 'v list" where
  "dict_values d = map snd d"

definition dict_put :: "jstring \<Rightarrow> 'v \<Rightarrow> 'v dict \<Rightarrow> 'v dict" where
  "dict_put k v d = (if k \<in> set (dict_keys d) then dict_replace k v d else dict_insert k v d)"

definition dict_del :: "jstring \<Rightarrow> 'v dict \<Rightarrow> 'v dict" where
  "dict_del k d = filter (\<lambda>(j, _). j \<noteq> k) d"

text \<open>The invariant: no key twice, and the keys in property order.\<close>

definition dict_ok :: "'v dict \<Rightarrow> bool" where
  "dict_ok d \<longleftrightarrow> distinct (dict_keys d) \<and>
     sorted_wrt (\<lambda>j k. is_index_key k \<longrightarrow> key_before j k) (dict_keys d)"

section \<open>The contract\<close>

locale js_record =
  fixes empty :: "'m"
    and put :: "'k \<Rightarrow> 'v \<Rightarrow> 'm \<Rightarrow> 'm"
    and del :: "'k \<Rightarrow> 'm \<Rightarrow> 'm"
    and get :: "'m \<Rightarrow> 'k \<Rightarrow> 'v option"
    and ok :: "'m \<Rightarrow> bool"
  assumes get_empty: "get empty k = None"
    and get_put: "get (put k v m) j = (if j = k then Some v else get m j)"
    and get_del: "ok m \<Longrightarrow> get (del k m) j = (if j = k then None else get m j)"
    and ok_empty: "ok empty"
    and ok_put: "ok m \<Longrightarrow> ok (put k v m)"
    and ok_del: "ok m \<Longrightarrow> ok (del k m)"
begin

text \<open>A loop that assigns one entry per element of an array: the last assignment wins.\<close>

definition put_all :: "('k \<times> 'v) list \<Rightarrow> 'm \<Rightarrow> 'm" where
  "put_all kvs m = foldl (\<lambda>m (k, v). put k v m) m kvs"

lemma put_all_Nil [simp]: "put_all [] m = m"
  by (simp add: put_all_def)

lemma put_all_Cons [simp]: "put_all ((k, v) # kvs) m = put_all kvs (put k v m)"
  by (simp add: put_all_def)

lemma ok_put_all: "ok m \<Longrightarrow> ok (put_all kvs m)"
  by (induction kvs arbitrary: m) (auto simp: ok_put)

lemma get_put_all:
  "get (put_all kvs m) k = (case map_of (rev kvs) k of None \<Rightarrow> get m k | Some v \<Rightarrow> Some v)"
  by (induction kvs arbitrary: m)
    (auto simp: get_put map_add_def split: option.splits)

lemma get_put_all_notin: "k \<notin> fst ` set kvs \<Longrightarrow> get (put_all kvs m) k = get m k"
  by (induction kvs arbitrary: m) (auto simp: get_put)

lemma get_put_all_in:
  "k \<in> fst ` set kvs \<Longrightarrow> \<exists>v. (k, v) \<in> set kvs \<and> get (put_all kvs m) k = Some v"
proof -
  assume "k \<in> fst ` set kvs"
  then obtain v where v: "map_of (rev kvs) k = Some v"
    by (metis (no_types, lifting) map_of_eq_None_iff not_None_eq set_rev)
  then have "(k, v) \<in> set kvs"
    using map_of_SomeD by fastforce
  with v show ?thesis by (auto simp: get_put_all)
qed

end

section \<open>The model keeps the contract\<close>

lemma map_of_dict_insert:
  "k \<notin> fst ` set d \<Longrightarrow> map_of (dict_insert k v d) = (map_of d)(k \<mapsto> v)"
  by (induction d) (auto simp: fun_eq_iff)

lemma map_of_dict_replace:
  "map_of (dict_replace k v d) j = (if j = k \<and> k \<in> fst ` set d then Some v else map_of d j)"
  by (induction d) force+

lemma keys_dict_replace [simp]: "map fst (dict_replace k v d) = map fst d"
  by (induction d) auto

lemma set_dict_insert [simp]: "set (dict_insert k v d) = insert (k, v) (set d)"
  by (induction d) (auto split: if_splits)

lemma distinct_dict_insert:
  "k \<notin> fst ` set d \<Longrightarrow> distinct (map fst d) \<Longrightarrow> distinct (map fst (dict_insert k v d))"
  by (induction d) auto

lemma key_before_trans:
  "key_before i j \<Longrightarrow> is_index_key j \<Longrightarrow> is_index_key k \<longrightarrow> key_before j k \<Longrightarrow> is_index_key k \<Longrightarrow>
     key_before i k"
  by (auto simp: key_before_def)

lemma sorted_dict_insert:
  assumes "sorted_wrt (\<lambda>j k. is_index_key k \<longrightarrow> key_before j k) (map fst d)"
  shows "sorted_wrt (\<lambda>j k. is_index_key k \<longrightarrow> key_before j k) (map fst (dict_insert k v d))"
  using assms
proof (induction d)
  case (Cons p d)
  obtain j w where p: "p = (j, w)" by force
  show ?case
  proof (cases "is_index_key k \<and> \<not> key_before j k")
    case True
    then have "\<forall>i \<in> insert j (fst ` set d). is_index_key i \<longrightarrow> key_before k i"
      using Cons.prems p by (fastforce simp: key_before_def)
    with True Cons.prems p show ?thesis by auto
  next
    case False
    with Cons p show ?thesis by auto
  qed
qed simp

lemma dict_ok_put: "dict_ok d \<Longrightarrow> dict_ok (dict_put k v d)"
  by (auto simp: dict_ok_def dict_put_def dict_keys_def distinct_dict_insert sorted_dict_insert)

lemma dict_keys_del: "dict_keys (dict_del k d) = filter (\<lambda>j. j \<noteq> k) (dict_keys d)"
  by (induction d) (auto simp: dict_del_def dict_keys_def)

lemma dict_ok_del: "dict_ok d \<Longrightarrow> dict_ok (dict_del k d)"
  by (auto simp: dict_ok_def dict_keys_del sorted_wrt_filter)

lemma dict_get_del: "dict_get (dict_del k d) j = (if j = k then None else dict_get d j)"
  by (induction d) (auto simp: dict_get_def dict_del_def)

lemma dict_get_put: "dict_get (dict_put k v d) j = (if j = k then Some v else dict_get d j)"
  by (auto simp: dict_get_def dict_put_def dict_keys_def map_of_dict_insert map_of_dict_replace)

interpretation rec: js_record "[]" dict_put dict_del dict_get dict_ok
  by unfold_locales
    (auto simp: dict_get_put dict_get_del dict_ok_put dict_ok_del,
      simp_all add: dict_get_def dict_ok_def dict_keys_def)

lemmas dict_simps [simp] = rec.get_empty rec.get_put dict_get_del rec.ok_empty
lemmas dict_oks [intro] = rec.ok_put rec.ok_del

lemma set_dict_keys: "set (dict_keys d) = {k. dict_get d k \<noteq> None}"
  by (auto simp: dict_keys_def dict_get_def map_of_eq_None_iff)

lemma dict_keys_put:
  "set (dict_keys (dict_put k v d)) = insert k (set (dict_keys d))"
  by (auto simp: set_dict_keys)

text \<open>An entry that is not an array index and is new goes to the end.\<close>

lemma dict_put_new:
  "k \<notin> set (dict_keys d) \<Longrightarrow> \<not> is_index_key k \<Longrightarrow> dict_put k v d = d @ [(k, v)]"
proof -
  assume new: "k \<notin> set (dict_keys d)" and str: "\<not> is_index_key k"
  from str have "dict_insert k v d = d @ [(k, v)]" by (induction d) auto
  with new show ?thesis by (simp add: dict_put_def)
qed

lemma dict_get_values: "dict_get d k = Some v \<Longrightarrow> v \<in> set (dict_values d)"
  unfolding dict_get_def dict_values_def using map_of_SomeD by force

lemma dict_values_get: "dict_ok d \<Longrightarrow> v \<in> set (dict_values d) \<Longrightarrow> \<exists>k. dict_get d k = Some v"
  unfolding dict_get_def dict_values_def dict_ok_def dict_keys_def
  by (metis (no_types, lifting) imageE list.set_map map_of_is_SomeI prod.collapse)

lemma length_dict_del: "length (dict_del k d) \<le> length d"
  by (simp add: dict_del_def)

lemma length_dict_put:
  "length (dict_put k v d) = (if k \<in> set (dict_keys d) then length d else Suc (length d))"
proof -
  have "length (dict_insert k v d) = Suc (length d)" by (induction d) auto
  moreover have "length (dict_replace k v d) = length d" by (induction d) auto
  ultimately show ?thesis by (simp add: dict_put_def)
qed

text \<open>A loop that deletes the entries that fail a test.\<close>

lemma dict_ok_filter: "dict_ok d \<Longrightarrow> dict_ok (filter P d)"
proof -
  have "dict_keys (filter P d) = map fst (filter P d)" by (simp add: dict_keys_def)
  moreover assume "dict_ok d"
  ultimately show ?thesis
    by (auto simp: dict_ok_def dict_keys_def distinct_map_filter sorted_wrt_map
        intro: sorted_wrt_filter)
qed

lemma dict_get_filter:
  assumes "dict_ok d"
  shows "dict_get (filter (\<lambda>(k, v). P k v) d) k =
    (case dict_get d k of None \<Rightarrow> None | Some v \<Rightarrow> if P k v then Some v else None)"
proof -
  have "distinct (map fst d)" using assms by (simp add: dict_ok_def dict_keys_def)
  then show ?thesis
    unfolding dict_get_def
    by (induction d) (auto split: option.splits simp: map_of_eq_None_iff)
qed

end
