(* ===== verification/JsonParse.thy ===== *)
theory JsonParse
  imports Json Dict "HOL-Library.Log_Nat"
begin

text \<open>
  \<open>JSON.parse\<close> on strings of code units: the grammar of the language standard, the escapes, the
  rounding of decimal numbers to binary64, and objects built property by property (a repeated name
  keeps its place and takes the last value). The parser takes fuel, twice the length of the
  input, which is shown to be enough. Reading back what \<open>JSON.stringify\<close> writes gives the value that was written, and
  the compact text never contains a line feed.
\<close>

section \<open>Numbers\<close>

text \<open>Round half to even, and the nearest binary64 number; the exponent of the leading bit first.\<close>

definition round_even :: "rat \<Rightarrow> int" where
  "round_even q = (let f = \<lfloor>q\<rfloor>; d = q - of_int f in
     if d < 1 / 2 then f else if 1 / 2 < d then f + 1 else if even f then f else f + 1)"

definition leading_exponent :: "rat \<Rightarrow> int" where
  "leading_exponent q = (let (n, d) = quotient_of q; e = int (floorlog 2 (nat n)) - int (floorlog 2 (nat d)) in
     if q < (if 0 \<le> e then 2 ^ nat e else 1 / 2 ^ nat (- e)) then e - 1 else e)"

definition to_double :: "rat \<Rightarrow> jsnum" where
  "to_double q =
     (if q = 0 then Fin 0
      else let m = \<bar>q\<bar>; e = max (leading_exponent m) (- 1022) - 52;
               ulp = (if 0 \<le> e then 2 ^ nat e else 1 / 2 ^ nat (- e) :: rat);
               r = of_int (round_even (m / ulp)) * ulp
        in if 2 ^ 1024 \<le> r then (if 0 < q then PosInf else NegInf)
           else Fin (if 0 < q then r else - r))"

fun take_digits :: "jstring \<Rightarrow> jstring \<times> jstring" where
  "take_digits [] = ([], [])"
| "take_digits (u # s) =
     (if is_digit_unit u then (let (ds, r) = take_digits s in (u # ds, r)) else ([], u # s))"

text \<open>The integer part has no leading zero; a fraction and an exponent have at least one digit.\<close>

definition integer_part :: "jstring \<Rightarrow> (jstring \<times> jstring) option" where
  "integer_part s = (case s of
      [] \<Rightarrow> None
    | u # r \<Rightarrow> if u = 48 then Some ([48], r)
        else let (ds, r') = take_digits s in if ds = [] then None else Some (ds, r'))"

definition fraction_part :: "jstring \<Rightarrow> (jstring \<times> jstring) option" where
  "fraction_part s = (case s of
      [] \<Rightarrow> Some ([], [])
    | u # r \<Rightarrow> if u = 46
        then (let (ds, r') = take_digits r in if ds = [] then None else Some (ds, r'))
        else Some ([], s))"

definition exponent_part :: "jstring \<Rightarrow> (int \<times> jstring) option" where
  "exponent_part s = (case s of
      [] \<Rightarrow> Some (0, [])
    | u # r \<Rightarrow> if u = 101 \<or> u = 69
        then (let (neg, r1) = (case r of [] \<Rightarrow> (False, [])
                | w # r0 \<Rightarrow> if w = 45 then (True, r0) else if w = 43 then (False, r0) else (False, r));
                  (ds, r2) = take_digits r1 in
              if ds = [] then None
              else Some (if neg then - int (decimal_value ds) else int (decimal_value ds), r2))
        else Some (0, s))"

definition decimal_rat :: "bool \<Rightarrow> jstring \<Rightarrow> jstring \<Rightarrow> int \<Rightarrow> rat" where
  "decimal_rat neg ds fs e =
     (let m = of_nat (decimal_value (ds @ fs)); k = e - int (length fs);
          q = (if 0 \<le> k then m * 10 ^ nat k else m / 10 ^ nat (- k))
      in if neg then - q else q)"

definition parse_number :: "jstring \<Rightarrow> (jsnum \<times> jstring) option" where
  "parse_number s =
     (let (neg, s1) = (case s of [] \<Rightarrow> (False, []) | u # r \<Rightarrow> if u = 45 then (True, r) else (False, s)) in
      case integer_part s1 of None \<Rightarrow> None
      | Some (ds, s2) \<Rightarrow> (case fraction_part s2 of None \<Rightarrow> None
        | Some (fs, s3) \<Rightarrow> (case exponent_part s3 of None \<Rightarrow> None
          | Some (e, s4) \<Rightarrow> Some (to_double (decimal_rat neg ds fs e), s4))))"

section \<open>Strings\<close>

definition hex_value :: "code_unit \<Rightarrow> nat option" where
  "hex_value u = (let n = unat u in
     if 48 \<le> n \<and> n \<le> 57 then Some (n - 48)
     else if 97 \<le> n \<and> n \<le> 102 then Some (n - 87)
     else if 65 \<le> n \<and> n \<le> 70 then Some (n - 55) else None)"

definition hex_unit :: "code_unit \<Rightarrow> code_unit \<Rightarrow> code_unit \<Rightarrow> code_unit \<Rightarrow> code_unit option" where
  "hex_unit a b c d = (case (hex_value a, hex_value b, hex_value c, hex_value d) of
      (Some w, Some x, Some y, Some z) \<Rightarrow> Some (word_of_nat (4096 * w + 256 * x + 16 * y + z))
    | _ \<Rightarrow> None)"

definition simple_escape :: "code_unit \<Rightarrow> code_unit option" where
  "simple_escape u = (if u = 34 \<or> u = 92 \<or> u = 47 then Some u
     else if u = 98 then Some 8 else if u = 102 then Some 12 else if u = 110 then Some 10
     else if u = 114 then Some 13 else if u = 116 then Some 9 else None)"

text \<open>The rest of a string literal after its opening quote.\<close>

fun parse_string :: "jstring \<Rightarrow> (jstring \<times> jstring) option" where
  "parse_string [] = None"
| "parse_string (u # s) =
     (if u = 34 then Some ([], s)
      else if u = 92 then
        (case s of
           e # r \<Rightarrow>
             (if e = 117 then
                (case r of
                   a # b # c # d # r' \<Rightarrow>
                     (case hex_unit a b c d of None \<Rightarrow> None
                      | Some w \<Rightarrow> map_option (\<lambda>(t, q). (w # t, q)) (parse_string r'))
                 | _ \<Rightarrow> None)
              else (case simple_escape e of None \<Rightarrow> None
                    | Some w \<Rightarrow> map_option (\<lambda>(t, q). (w # t, q)) (parse_string r)))
         | [] \<Rightarrow> None)
      else if unat u < 32 then None
      else map_option (\<lambda>(t, q). (u # t, q)) (parse_string s))"

section \<open>Values\<close>

definition skip_ws :: "jstring \<Rightarrow> jstring" where
  "skip_ws s = dropWhile (\<lambda>u. u = 32 \<or> u = 9 \<or> u = 10 \<or> u = 13) s"

definition keyword :: "string \<Rightarrow> jsval \<Rightarrow> jstring \<Rightarrow> (jsval \<times> jstring) option" where
  "keyword w v s = (if prefix (lit w) s then Some (v, drop (length w) s) else None)"

text \<open>\<open>parse_elems\<close> reads from the first element, \<open>parse_members\<close> from the first name.\<close>

fun parse_value :: "nat \<Rightarrow> jstring \<Rightarrow> (jsval \<times> jstring) option"
  and parse_elems :: "nat \<Rightarrow> jstring \<Rightarrow> (jsval list \<times> jstring) option"
  and parse_members :: "nat \<Rightarrow> jsval dict \<Rightarrow> jstring \<Rightarrow> (jsval dict \<times> jstring) option" where
  "parse_value 0 s = None"
| "parse_value (Suc n) s =
     (case skip_ws s of
        [] \<Rightarrow> None
      | u # r \<Rightarrow>
          if u = 123 then
            (if prefix [125] (skip_ws r) then Some (JObj [], drop 1 (skip_ws r))
             else map_option (\<lambda>(ps, q). (JObj ps, q)) (parse_members n [] r))
          else if u = 91 then
            (if prefix [93] (skip_ws r) then Some (JArr [], drop 1 (skip_ws r))
             else map_option (\<lambda>(xs, q). (JArr xs, q)) (parse_elems n r))
          else if u = 34 then map_option (\<lambda>(t, q). (JStr t, q)) (parse_string r)
          else if u = 116 then keyword ''true'' (JBool True) (u # r)
          else if u = 102 then keyword ''false'' (JBool False) (u # r)
          else if u = 110 then keyword ''null'' JNull (u # r)
          else map_option (\<lambda>(x, q). (JNum x, q)) (parse_number (u # r)))"
| "parse_elems 0 s = None"
| "parse_elems (Suc n) s =
     (case parse_value n s of None \<Rightarrow> None
      | Some (v, q) \<Rightarrow>
          (case skip_ws q of
             [] \<Rightarrow> None
           | u # r \<Rightarrow>
               if u = 44 then map_option (\<lambda>(vs, q'). (v # vs, q')) (parse_elems n r)
               else if u = 93 then Some ([v], r) else None))"
| "parse_members 0 ps s = None"
| "parse_members (Suc n) ps s =
     (case skip_ws s of
        [] \<Rightarrow> None
      | u # r \<Rightarrow>
          if u \<noteq> 34 then None
          else (case parse_string r of None \<Rightarrow> None
            | Some (k, q) \<Rightarrow>
                (case skip_ws q of
                   [] \<Rightarrow> None
                 | w # q1 \<Rightarrow>
                     if w \<noteq> 58 then None
                     else (case parse_value n q1 of None \<Rightarrow> None
                       | Some (v, q2) \<Rightarrow>
                           (case skip_ws q2 of
                              [] \<Rightarrow> None
                            | x # q3 \<Rightarrow>
                                if x = 44 then parse_members n (dict_put k v ps) q3
                                else if x = 125 then Some (dict_put k v ps, q3) else None)))))"

text \<open>\<open>JSON.parse\<close>; \<open>None\<close> for the \<open>SyntaxError\<close>.\<close>

definition json_parse :: "jstring \<Rightarrow> jsval option" where
  "json_parse s = (case parse_value (2 * length s + 2) s of
      Some (v, r) \<Rightarrow> if skip_ws r = [] then Some v else None
    | None \<Rightarrow> None)"

section \<open>Reading back strings\<close>

lemma hex_value_digit: "n < 16 \<Longrightarrow> hex_value (hex_digit n) = Some n"
  by (auto simp: hex_value_def hex_digit_def Let_def unat_of_nat take_bit_eq_mod simp del: of_nat_add)

lemma hex_unit_digits:
  "hex_unit (hex_digit (unat u div 4096)) (hex_digit (unat u div 256 mod 16))
     (hex_digit (unat u div 16 mod 16)) (hex_digit (unat u mod 16)) = Some u"
proof -
  have lt: "unat u < 65536" using unsigned_less [of u] by simp
  define n where "n = unat u"
  have "4096 * (n div 4096) + 256 * (n div 256 mod 16) + 16 * (n div 16 mod 16) + n mod 16 = n"
  proof -
    have "16 * (n div 16) + n mod 16 = n" "16 * (n div 256) + n div 16 mod 16 = n div 16"
      "16 * (n div 4096) + n div 256 mod 16 = n div 256"
      using mult_div_mod_eq [of 16 n] mult_div_mod_eq [of 16 "n div 16"]
        mult_div_mod_eq [of 16 "n div 256"]
      by (simp_all only: div_mult2_eq [symmetric] numeral_times_numeral semiring_norm)
    then show ?thesis by linarith
  qed
  then have "word_of_nat (4096 * (n div 4096) + 256 * (n div 256 mod 16) + 16 * (n div 16 mod 16) + n mod 16) = u"
    unfolding n_def by simp
  moreover have "n div 4096 < 16" using lt n_def by simp
  ultimately show ?thesis
    unfolding hex_unit_def n_def [symmetric] by (simp add: hex_value_digit del: of_nat_add of_nat_mult)
qed

lemma parse_unicode_escape:
  "parse_string (unicode_escape u @ s) = map_option (\<lambda>(t, q). (u # t, q)) (parse_string s)"
  by (simp add: unicode_escape_def Let_def hex_unit_digits)

lemma parse_escape_unit:
  "parse_string (escape_unit u @ s) = map_option (\<lambda>(t, q). (u # t, q)) (parse_string s)"
proof (cases "unat u < 32 \<and> escape_unit u = unicode_escape u")
  case True
  then show ?thesis by (simp add: parse_unicode_escape)
next
  case False
  then show ?thesis
    by (auto simp: escape_unit_def simple_escape_def)
qed

lemma parse_plain_unit:
  "is_lead u \<or> is_trail u \<Longrightarrow> parse_string (u # s) = map_option (\<lambda>(t, q). (u # t, q)) (parse_string s)"
  by (auto simp: is_lead_def is_trail_def)

lemma parse_json_escape: "parse_string (json_escape s @ 34 # r) = Some (s, r)"
proof (induction s rule: json_escape.induct)
  case (2 u)
  then show ?case by (simp add: parse_unicode_escape parse_escape_unit)
next
  case (3 u v s)
  show ?case
  proof (cases "is_lead u \<and> is_trail v")
    case True
    then have "json_escape (u # v # s) @ 34 # r = u # v # json_escape s @ 34 # r" by simp
    with 3(1) True show ?thesis by (simp add: parse_plain_unit del: parse_string.simps(2))
  next
    case False
    then have "json_escape (u # v # s) @ 34 # r =
        (if is_lead u \<or> is_trail u then unicode_escape u else escape_unit u) @ json_escape (v # s) @ 34 # r"
      unfolding json_escape.simps by (simp only: if_False append_assoc)
    with 3(2) False show ?thesis
      by (simp add: parse_unicode_escape parse_escape_unit del: json_escape.simps)
  qed
qed simp

section \<open>Reading back integers\<close>

lemma round_even_int [simp]: "round_even (of_int n) = n"
  by (simp add: round_even_def)

lemma round_even_nat [simp]: "round_even (of_nat n) = int n"
  using round_even_int [of "int n"] by simp

lemma leading_exponent_nat:
  assumes "0 < k"
  shows "leading_exponent (of_nat k) = int (floorlog 2 k) - 1"
proof -
  have q: "quotient_of (of_nat k) = (int k, 1)"
    by simp
  have "2 ^ (floorlog 2 k - 1) \<le> k" using floorlog_bounds [of k 2] assms by simp
  then have "(2::rat) ^ (floorlog 2 k - 1) \<le> of_nat k"
    by (metis of_nat_le_iff of_nat_numeral of_nat_power)
  moreover have "0 < floorlog 2 k" using assms by (simp add: floorlog_def)
  moreover have "floorlog 2 1 = 1" by (simp add: floorlog_def)
  ultimately show ?thesis
    by (simp add: leading_exponent_def q nat_diff_distrib)
qed

lemma to_double_nat:
  assumes "int k \<le> max_safe_integer"
  shows "to_double (of_nat k) = Fin (of_nat k)"
proof (cases "k = 0")
  case True
  then show ?thesis by (simp add: to_double_def)
next
  case False
  let ?e = "int (floorlog 2 k) - 1"
  have lt: "k < 2 ^ 53" using assms by (simp add: max_safe_integer_def)
  have "floorlog 2 k \<le> 53" using lt by (simp add: floorlog_leI)
  moreover have "0 < floorlog 2 k" using False by (simp add: floorlog_def)
  ultimately have e: "0 \<le> ?e" "?e \<le> 52" by auto
  define j where "j = nat (52 - ?e)"
  have "\<not> (2::rat) ^ 1024 \<le> of_nat k"
  proof -
    have "(of_nat k :: rat) < 2 ^ 53" using lt by (metis of_nat_less_iff of_nat_numeral of_nat_power)
    also have "\<dots> \<le> 2 ^ 1024" by (rule power_increasing) simp_all
    finally show ?thesis by simp
  qed
  moreover have "of_int (round_even (of_nat k * 2 ^ j)) * (1 / 2 ^ j) = (of_nat k :: rat)"
    using round_even_int [of "int k * 2 ^ j"] by simp
  moreover have "max ?e (- 1022) - 52 = - int j" using e by (simp add: j_def)
  ultimately show ?thesis
    using False e by (simp add: to_double_def leading_exponent_nat Let_def)
qed

lemma to_double_neg_nat:
  assumes "int k \<le> max_safe_integer"
  shows "to_double (- of_nat k) = Fin (- of_nat k)"
proof (cases "k = 0")
  case False
  have "to_double (of_nat k) = Fin (of_nat k)" by (rule to_double_nat [OF assms])
  with False show ?thesis
    by (simp add: to_double_def Let_def split: if_splits)
qed (simp add: to_double_def)

lemma is_digit_unit_nat: "k < 10 \<Longrightarrow> is_digit_unit (word_of_nat (48 + k))"
  and unat_digit: "k < 10 \<Longrightarrow> unat (word_of_nat (48 + k) :: code_unit) = 48 + k"
  by (simp_all add: is_digit_unit_def unat_of_nat take_bit_eq_mod del: of_nat_add)

lemma digits_nat_text: "list_all is_digit_unit (nat_text n)"
proof (induction n rule: nat_text.induct)
  case (1 n)
  then show ?case by (subst nat_text.simps) (auto simp: is_digit_unit_nat simp del: of_nat_add)
qed

lemma decimal_value_snoc: "decimal_value (s @ [u]) = 10 * decimal_value s + (unat u - 48)"
  by (simp add: decimal_value_def)

lemma decimal_value_nat_text: "decimal_value (nat_text n) = n"
proof (induction n rule: nat_text.induct)
  case (1 n)
  then show ?case
  proof (cases "n < 10")
    case True
    then show ?thesis
      using decimal_value_snoc [of "[]" "word_of_nat (48 + n)"]
      by (subst nat_text.simps) (simp add: unat_digit decimal_value_def del: of_nat_add)
  next
    case False
    with 1 show ?thesis
      by (subst nat_text.simps) (simp add: decimal_value_snoc unat_digit del: of_nat_add)
  qed
qed

lemma nat_text_nonempty [simp]: "nat_text n \<noteq> []"
  by (subst nat_text.simps) simp

lemma hd_nat_text: "0 < n \<Longrightarrow> hd (nat_text n) \<noteq> 48"
proof (induction n rule: nat_text.induct)
  case (1 n)
  show ?case
  proof (cases "n < 10")
    case True
    have "(word_of_nat (48 + n) :: code_unit) \<noteq> 48"
    proof
      assume "(word_of_nat (48 + n) :: code_unit) = 48"
      then have "unat (word_of_nat (48 + n) :: code_unit) = 48" by simp
      with True 1 show False by (simp add: unat_digit del: of_nat_add)
    qed
    with True show ?thesis by (subst nat_text.simps) (simp del: of_nat_add)
  next
    case False
    with 1 show ?thesis by (subst nat_text.simps) simp
  qed
qed

definition number_stop :: "jstring \<Rightarrow> bool" where
  "number_stop r \<longleftrightarrow> (case r of [] \<Rightarrow> True | u # _ \<Rightarrow> \<not> is_digit_unit u \<and> u \<noteq> 46 \<and> u \<noteq> 101 \<and> u \<noteq> 69)"

lemma take_digits_stop:
  "list_all is_digit_unit ds \<Longrightarrow> number_stop r \<Longrightarrow> take_digits (ds @ r) = (ds, r)"
proof (induction ds)
  case Nil
  then show ?case by (cases r) (simp_all add: number_stop_def)
qed simp

lemma integer_part_text: "number_stop r \<Longrightarrow> integer_part (nat_text n @ r) = Some (nat_text n, r)"
proof (cases "n = 0")
  case True
  then show ?thesis by (simp add: nat_text.simps integer_part_def)
next
  case False
  assume r: "number_stop r"
  obtain u t where ut: "nat_text n = u # t" by (cases "nat_text n") simp_all
  then have "u \<noteq> 48" using hd_nat_text [of n] False by simp
  then show ?thesis
    using take_digits_stop [OF digits_nat_text r, of n] by (simp add: integer_part_def ut)
qed

lemma parse_nat_text:
  assumes "number_stop r" "int n \<le> max_safe_integer"
  shows "parse_number (nat_text n @ r) = Some (Fin (of_nat n), r)"
    and "parse_number (45 # nat_text n @ r) = Some (Fin (- of_nat n), r)"
proof -
  obtain u t where ut: "nat_text n = u # t" by (cases "nat_text n") simp_all
  have "is_digit_unit u" using digits_nat_text [of n] ut by simp
  then have u: "u \<noteq> 45" by (auto simp: is_digit_unit_def)
  have parts: "fraction_part r = Some ([], r)" "exponent_part r = Some (0, r)"
    using assms(1) by (cases r; simp add: fraction_part_def exponent_part_def number_stop_def)+
  note int = integer_part_text [OF assms(1), of n]
  have dec: "decimal_rat neg (nat_text n) [] 0 = (if neg then - of_nat n else of_nat n)" for neg
    by (simp add: decimal_rat_def decimal_value_nat_text)
  have sgn: "(case nat_text n @ r of [] \<Rightarrow> (False, []) | u # q \<Rightarrow> if u = 45 then (True, q) else (False, nat_text n @ r)) =
      (False, nat_text n @ r)"
    using u by (simp add: ut)
  show "parse_number (nat_text n @ r) = Some (Fin (of_nat n), r)"
    unfolding parse_number_def sgn by (simp add: int parts dec to_double_nat [OF assms(2)])
  show "parse_number (45 # nat_text n @ r) = Some (Fin (- of_nat n), r)"
    by (simp add: parse_number_def int parts dec to_double_neg_nat [OF assms(2)])
qed

lemma parse_int_text:
  assumes "number_stop r" "\<bar>n\<bar> \<le> max_safe_integer"
  shows "parse_number (int_text n @ r) = Some (Fin (of_int n), r)"
  using parse_nat_text [OF assms(1), of "nat \<bar>n\<bar>"] assms(2)
  by (auto simp: int_text_def of_nat_nat [symmetric] simp del: of_nat_nat)

section \<open>Fuel\<close>

lemma length_skip_ws: "length (skip_ws s) \<le> length s"
  by (simp add: skip_ws_def length_dropWhile_le)

lemma parse_string_shrinks: "parse_string s = Some (t, r) \<Longrightarrow> length r < length s"
  by (induction s arbitrary: t r rule: parse_string.induct)
    (fastforce split: if_splits list.splits option.splits)+

lemma take_digits_append: "take_digits s = (ds, r) \<Longrightarrow> s = ds @ r"
  by (induction s arbitrary: ds) (auto split: if_splits prod.splits)

lemma integer_part_shrinks: "integer_part s = Some (ds, r) \<Longrightarrow> length r < length s"
  using take_digits_append [of s ds r]
  by (auto simp: integer_part_def Let_def split: list.splits if_splits prod.splits)

lemma fraction_part_shrinks: "fraction_part s = Some (ds, r) \<Longrightarrow> length r \<le> length s"
  by (auto simp: fraction_part_def Let_def split: list.splits if_splits prod.splits
      dest!: take_digits_append)

lemma exponent_part_shrinks: "exponent_part s = Some (e, r) \<Longrightarrow> length r \<le> length s"
  by (auto simp: exponent_part_def Let_def split: list.splits if_splits prod.splits
      dest!: take_digits_append)

lemma parse_number_shrinks: "parse_number s = Some (x, r) \<Longrightarrow> length r < length s"
  by (auto simp: parse_number_def Let_def split: list.splits if_splits prod.splits option.splits
      dest!: integer_part_shrinks fraction_part_shrinks exponent_part_shrinks)

lemma keyword_shrinks: "keyword w v s = Some (x, r) \<Longrightarrow> w \<noteq> [] \<Longrightarrow> length r < length s"
  by (auto simp: keyword_def prefix_def split: if_splits)

lemma skip_ws_Cons: "skip_ws s = u # r \<Longrightarrow> length r < length s"
  using length_skip_ws [of s] by simp

lemma parse_shrinks:
  "parse_value n s = Some (v, r) \<Longrightarrow> length r < length s"
  "parse_elems n s = Some (vs, r) \<Longrightarrow> length r < length s"
  "parse_members n ps s = Some (qs, r) \<Longrightarrow> length r < length s"
proof (induction n s and n s and n ps s arbitrary: v r and vs r and qs r
    rule: parse_value_parse_elems_parse_members.induct)
  case (2 n s)
  then obtain u q where uq: "skip_ws s = u # q" by (auto split: list.splits)
  have ih: "u = 123 \<Longrightarrow> \<not> prefix [125] (skip_ws q) \<Longrightarrow> parse_members n [] q = Some (ps, t) \<Longrightarrow> length t < length q"
    "u = 91 \<Longrightarrow> \<not> prefix [93] (skip_ws q) \<Longrightarrow> parse_elems n q = Some (xs, t) \<Longrightarrow> length t < length q"
    for ps xs t using 2(1,2) [OF uq] by simp_all
  have "length r < length (u # q)"
    using 2(3) length_skip_ws [of q]
    by (auto simp: uq split: if_splits dest!: ih parse_string_shrinks keyword_shrinks parse_number_shrinks)
  with skip_ws_Cons [OF uq] show ?case by simp
next
  case (4 n s)
  then obtain v q u t where vq: "parse_value n s = Some (v, q)" "skip_ws q = u # t"
    by (auto split: list.splits option.splits)
  have "length q < length s" "length t < length q"
    using 4(1) [OF vq(1)] skip_ws_Cons [OF vq(2)] by simp_all
  with 4(2) [OF vq(1) refl vq(2)] 4(3) show ?case
    by (auto simp: vq split: if_splits)
next
  case (6 n ps s)
  from 6(3) obtain r1 k q q1 v q2 x q3 where
    p: "skip_ws s = 34 # r1" "parse_string r1 = Some (k, q)" "skip_ws q = 58 # q1"
      "parse_value n q1 = Some (v, q2)" "skip_ws q2 = x # q3"
    by (auto split: list.splits option.splits if_splits)
  have "length r1 < length s" "length q < length r1" "length q1 < length q" "length q2 < length q1"
    "length q3 < length q2"
    using skip_ws_Cons [OF p(1)] parse_string_shrinks [OF p(2)] skip_ws_Cons [OF p(3)]
      6(1) [OF p(1) _ p(2) refl p(3) _ p(4)] skip_ws_Cons [OF p(5)] by simp_all
  with 6(2) [OF p(1) _ p(2) refl p(3) _ p(4) refl p(5)] 6(3) show ?case
    by (auto simp: p split: if_splits)
qed simp_all

text \<open>More fuel than twice the length of the input changes nothing.\<close>

lemma parse_fuel:
  "2 * length s + 1 \<le> n \<Longrightarrow> n \<le> m \<Longrightarrow> parse_value m s = parse_value n s"
  "2 * length s + 2 \<le> n \<Longrightarrow> n \<le> m \<Longrightarrow> parse_elems m s = parse_elems n s"
  "2 * length s + 1 \<le> n \<Longrightarrow> n \<le> m \<Longrightarrow> parse_members m ps s = parse_members n ps s"
proof (induction n s and n s and n ps s arbitrary: m and m and m
    rule: parse_value_parse_elems_parse_members.induct)
  case (2 n s)
  obtain m' where m: "m = Suc m'" "n \<le> m'" using 2(4) by (cases m) auto
  show ?case
  proof (cases "skip_ws s")
    case (Cons u q)
    have "2 * length q + 2 \<le> n" using skip_ws_Cons [OF Cons] 2(3) by simp
    then show ?thesis
      using 2(1) [OF Cons _ _ _ m(2)] 2(2) [OF Cons _ _ _ _ m(2)] by (simp add: m Cons)
  qed (simp add: m)
next
  case (4 n s)
  obtain m' where m: "m = Suc m'" "n \<le> m'" using 4(4) by (cases m) auto
  have v: "parse_value m' s = parse_value n s" using 4(1) [OF _ m(2)] 4(3) by simp
  show ?case
  proof (cases "parse_value n s")
    case (Some vq)
    obtain w q where vq: "vq = (w, q)" by (cases vq)
    show ?thesis
    proof (cases "skip_ws q")
      case (Cons u t)
      have "2 * length t + 2 \<le> n"
        using skip_ws_Cons [OF Cons] parse_shrinks(1) [OF Some [unfolded vq]] 4(3) by simp
      then show ?thesis using 4(2) [OF Some vq [symmetric] Cons _ _ m(2)] by (simp add: m v Some vq Cons)
    qed (simp add: m v Some vq)
  qed (simp add: m v)
next
  case (6 n ps s)
  obtain m' where m: "m = Suc m'" "n \<le> m'" using 6(4) by (cases m) auto
  show ?case
  proof (cases "\<exists>r k q q1. skip_ws s = 34 # r \<and> parse_string r = Some (k, q) \<and> skip_ws q = 58 # q1")
    case False
    then show ?thesis by (auto simp: m split: list.splits option.splits)
  next
    case True
    then obtain r k q q1 where p: "skip_ws s = 34 # r" "parse_string r = Some (k, q)" "skip_ws q = 58 # q1"
      by blast
    have l1: "2 * length q1 + 1 \<le> n"
      using skip_ws_Cons [OF p(1)] parse_string_shrinks [OF p(2)] skip_ws_Cons [OF p(3)] 6(3) by simp
    have v: "parse_value m' q1 = parse_value n q1" using 6(1) [OF p(1) _ p(2) refl p(3) _ l1 m(2)] by simp
    show ?thesis
    proof (cases "\<exists>v q2 x q3. parse_value n q1 = Some (v, q2) \<and> skip_ws q2 = x # q3")
      case False
      then show ?thesis by (auto simp: m p v split: list.splits option.splits)
    next
      case True
      then obtain w q2 x q3 where p2: "parse_value n q1 = Some (w, q2)" "skip_ws q2 = x # q3" by blast
      have "2 * length q3 + 1 \<le> n"
        using l1 parse_shrinks(1) [OF p2(1)] skip_ws_Cons [OF p2(2)] by simp
      then show ?thesis
        using 6(2) [OF p(1) _ p(2) refl p(3) _ p2(1) refl p2(2) _ _ m(2)] by (simp add: m p v p2)
    qed
  qed
qed simp_all

section \<open>Reading back values\<close>

text \<open>
  The values JSON can carry without loss: no \<open>undefined\<close>, the numbers the protocol uses (safe
  integers), and objects in property order.
\<close>

fun json_ok :: "jsval \<Rightarrow> bool" where
  "json_ok JUndef = False"
| "json_ok JNull = True"
| "json_ok (JBool b) = True"
| "json_ok (JNum n) = (safe_int (JNum n) \<noteq> None)"
| "json_ok (JStr s) = True"
| "json_ok (JArr xs) = list_all json_ok xs"
| "json_ok (JObj ps) = (dict_ok ps \<and> list_all (\<lambda>(k, v). json_ok v) ps)"

definition text_of :: "platform \<Rightarrow> jsval \<Rightarrow> jstring" where
  "text_of pf v = (case json_text pf [] [] v of None \<Rightarrow> lit ''null'' | Some t \<Rightarrow> t)"

definition member_text :: "platform \<Rightarrow> jstring \<times> jsval \<Rightarrow> jstring" where
  "member_text pf p = json_quote (fst p) @ [58] @ text_of pf (snd p)"

lemma text_of_arr: "text_of pf (JArr xs) = [91] @ join [44] (map (text_of pf) xs) @ [93]"
  by (cases xs) (simp_all add: text_of_def [abs_def] json_wrap_def)

lemma text_of_obj:
  assumes "list_all (\<lambda>(k, v). v \<noteq> JUndef) ps"
  shows "text_of pf (JObj ps) = [123] @ join [44] (map (member_text pf) ps) @ [125]"
proof -
  have "map (\<lambda>(k, x). case json_text pf [] [] x of None \<Rightarrow> []
        | Some t \<Rightarrow> [json_quote k @ [58] @ t]) ps = map (\<lambda>p. [member_text pf p]) ps"
  proof (intro map_cong refl)
    fix p assume "p \<in> set ps"
    then obtain t where "json_text pf [] [] (snd p) = Some t"
      using assms json_stringify_defined [of "snd p" pf]
      by (fastforce simp: list_all_iff json_stringify_def)
    then show "(case p of (k, x) \<Rightarrow> case json_text pf [] [] x of None \<Rightarrow> []
        | Some t \<Rightarrow> [json_quote k @ [58] @ t]) = [member_text pf p]"
      by (cases p) (simp add: member_text_def text_of_def)
  qed
  then have eq: "concat (map (\<lambda>(k, x). case json_text pf [] [] x of None \<Rightarrow> []
        | Some t \<Rightarrow> [json_quote k @ [58] @ t]) ps) = map (member_text pf) ps"
    by (simp only: concat_map_singleton)
  have "json_text pf [] [] (JObj ps) = Some (json_wrap 123 125 [] [] (map (member_text pf) ps))"
    by (simp only: json_text.simps append_Nil if_True simp_thms eq)
  then show ?thesis
    by (cases "ps = []") (simp_all only: text_of_def json_wrap_def option.case list.map if_True
        if_False join.simps append.simps map_is_Nil_conv simp_thms)
qed

text \<open>The first character of a text.\<close>

definition starts_value :: "code_unit \<Rightarrow> bool" where
  "starts_value u \<longleftrightarrow> is_digit_unit u \<or> u = 45 \<or> u = 34 \<or> u = 91 \<or> u = 123 \<or> u = 110 \<or> u = 116 \<or> u = 102"

lemma text_of_num: "json_ok (JNum x) \<Longrightarrow> \<exists>n. x = Fin (of_int n) \<and> \<bar>n\<bar> \<le> max_safe_integer \<and>
    text_of pf (JNum x) = int_text n"
  by (auto simp: safe_int_Some text_of_def max_safe_integer_def)

lemma starts_int_text: "\<exists>u q. int_text n = u # q \<and> (is_digit_unit u \<or> u = 45)"
proof -
  have "\<exists>u q. nat_text k = u # q \<and> is_digit_unit u" for k
    using digits_nat_text [of k] by (cases "nat_text k") simp_all
  then show ?thesis by (simp add: int_text_def) blast
qed

lemma text_of_head: "json_ok v \<Longrightarrow> \<exists>u q. text_of pf v = u # q \<and> starts_value u"
proof (cases v)
  case (JNum x)
  assume "json_ok v"
  then obtain n where "text_of pf v = int_text n" using text_of_num JNum by blast
  then show ?thesis using starts_int_text [of n] by (auto simp: starts_value_def)
next
  case (JObj ps)
  assume "json_ok v"
  then have "list_all (\<lambda>(k, v). v \<noteq> JUndef) ps" using JObj by (auto simp: list_all_iff)
  then show ?thesis using JObj by (simp add: text_of_obj starts_value_def)
next
  case (JArr xs)
  then show ?thesis by (simp add: text_of_arr starts_value_def)
qed (auto simp: starts_value_def text_of_def json_quote_def lit_def)

lemma skip_ws_text: "json_ok v \<Longrightarrow> skip_ws (text_of pf v @ r) = text_of pf v @ r"
  using text_of_head [of v pf] by (auto simp: skip_ws_def starts_value_def is_digit_unit_def)

lemma skip_ws_sep [simp]: "skip_ws (44 # r) = 44 # r" "skip_ws (93 # r) = 93 # r"
    "skip_ws (125 # r) = 125 # r" "skip_ws (58 # r) = 58 # r" "skip_ws (34 # r) = 34 # r"
  by (simp_all add: skip_ws_def)

lemma number_stop_sep [simp]: "number_stop (44 # r)" "number_stop (93 # r)" "number_stop (125 # r)"
    "number_stop []"
  by (simp_all add: number_stop_def is_digit_unit_def)

text \<open>A value is read back from its text, whatever follows, with fuel for the text.\<close>

definition reads_back :: "platform \<Rightarrow> jsval \<Rightarrow> bool" where
  "reads_back pf v \<longleftrightarrow> (\<forall>n r. 2 * length (text_of pf v) + 1 \<le> n \<longrightarrow> number_stop r \<longrightarrow>
     parse_value n (text_of pf v @ r) = Some (v, r))"

lemma parse_elems_texts:
  "xs \<noteq> [] \<Longrightarrow> \<forall>x \<in> set xs. reads_back pf x \<Longrightarrow>
     2 * length (join [44] (map (text_of pf) xs)) + 2 \<le> n \<Longrightarrow>
     parse_elems n (join [44] (map (text_of pf) xs) @ 93 # r) = Some (xs, r)"
proof (induction xs arbitrary: n rule: list_nonempty_induct)
  case (single x)
  then obtain m where "n = Suc m" "2 * length (text_of pf x) + 1 \<le> m" by (cases n) auto
  with single show ?case by (simp add: reads_back_def)
next
  case (cons x xs)
  obtain y ys where xs: "xs = y # ys" using cons(1) by (cases xs) simp_all
  obtain m where m: "n = Suc m" "2 * length (text_of pf x) + 1 \<le> m"
      "2 * length (join [44] (map (text_of pf) xs)) + 2 \<le> m"
    using cons(4) xs by (cases n) auto
  have "parse_value m (text_of pf x @ 44 # join [44] (map (text_of pf) xs) @ 93 # r) =
      Some (x, 44 # join [44] (map (text_of pf) xs) @ 93 # r)"
    using cons(3) m(2) by (simp add: reads_back_def)
  moreover have "parse_elems m (join [44] (map (text_of pf) xs) @ 93 # r) = Some (xs, r)"
    using cons(2,3) m(3) by simp
  ultimately show ?case using m(1) xs by simp
qed

lemma parse_member:
  assumes "reads_back pf v" "2 * length (member_text pf (k, v)) + 1 \<le> Suc n"
    "x = 44 \<or> x = 125"
  shows "parse_members (Suc n) ps (member_text pf (k, v) @ x # r) =
    (if x = 44 then parse_members n (dict_put k v ps) r else Some (dict_put k v ps, r))"
proof -
  have len: "2 * length (text_of pf v) + 1 \<le> n"
    using assms(2) by (simp add: member_text_def json_quote_def)
  have "parse_value n (text_of pf v @ x # r) = Some (v, x # r)"
    using assms(1,3) len by (auto simp: reads_back_def)
  then show ?thesis
    using assms(3) parse_json_escape [of k "58 # text_of pf v @ x # r"]
    by (auto simp: member_text_def json_quote_def simp del: parse_string.simps)
qed

lemma parse_members_texts:
  "ps \<noteq> [] \<Longrightarrow> \<forall>p \<in> set ps. reads_back pf (snd p) \<Longrightarrow>
     2 * length (join [44] (map (member_text pf) ps)) + 2 \<le> n \<Longrightarrow>
     parse_members n acc (join [44] (map (member_text pf) ps) @ 125 # r) = Some (rec.put_all ps acc, r)"
proof (induction ps arbitrary: n acc rule: list_nonempty_induct)
  case (single p)
  obtain k v where p: "p = (k, v)" by (cases p)
  obtain m where m: "n = Suc m" using single by (cases n) auto
  with single p show ?case using parse_member [of pf v k m 125] by simp
next
  case (cons p ps)
  obtain k v where p: "p = (k, v)" by (cases p)
  obtain q qs where ps: "ps = q # qs" using cons(1) by (cases ps) simp_all
  obtain m where m: "n = Suc m" "2 * length (member_text pf p) + 1 \<le> Suc m"
      "2 * length (join [44] (map (member_text pf) ps)) + 2 \<le> m"
    using cons(4) ps by (cases n) auto
  have "parse_members (Suc m) acc (member_text pf (k, v) @ 44 # join [44] (map (member_text pf) ps) @ 125 # r) =
      parse_members m (dict_put k v acc) (join [44] (map (member_text pf) ps) @ 125 # r)"
    using parse_member [of pf v k m 44] cons(3) m(2) p by simp
  then show ?case using cons(2,3) m ps p by simp
qed

lemma dict_put_last:
  assumes "dict_ok (d @ [(k, v)])"
  shows "dict_put k v d = d @ [(k, v)]"
proof -
  have "k \<notin> set (dict_keys d)" and before: "\<forall>j \<in> set (dict_keys d). is_index_key k \<longrightarrow> key_before j k"
    using assms by (auto simp: dict_ok_def dict_keys_def sorted_wrt_append)
  moreover have "\<forall>j \<in> set (dict_keys d). is_index_key k \<longrightarrow> key_before j k \<Longrightarrow>
      dict_insert k v d = d @ [(k, v)]"
    by (induction d) (auto simp: dict_keys_def)
  ultimately show ?thesis by (simp add: dict_put_def)
qed

lemma put_all_ordered: "dict_ok (d @ ps) \<Longrightarrow> rec.put_all ps d = d @ ps"
proof (induction ps arbitrary: d)
  case (Cons p ps)
  obtain k v where p: "p = (k, v)" by (cases p)
  have "dict_ok (d @ [(k, v)])"
    using Cons(2) p by (auto simp: dict_ok_def dict_keys_def sorted_wrt_append)
  then have "dict_put k v d = d @ [(k, v)]" by (rule dict_put_last)
  then show ?case using Cons p by simp
qed simp

lemma reads_back_num: "json_ok (JNum x) \<Longrightarrow> reads_back pf (JNum x)"
  unfolding reads_back_def
proof (intro allI impI)
  fix n r assume ok: "json_ok (JNum x)" and n: "2 * length (text_of pf (JNum x)) + 1 \<le> n"
    and r: "number_stop r"
  obtain m where m: "n = Suc m" using n by (cases n) auto
  obtain i where i: "x = Fin (of_int i)" "\<bar>i\<bar> \<le> max_safe_integer" "text_of pf (JNum x) = int_text i"
    using text_of_num [OF ok] by blast
  obtain u q where uq: "int_text i = u # q" "is_digit_unit u \<or> u = 45"
    using starts_int_text by blast
  have u: "u \<noteq> 123" "u \<noteq> 91" "u \<noteq> 34" "u \<noteq> 116" "u \<noteq> 102" "u \<noteq> 110" "skip_ws (u # q @ r) = u # q @ r"
    using uq(2) by (auto simp: is_digit_unit_def skip_ws_def)
  have "parse_number (u # q @ r) = Some (x, r)"
    using parse_int_text [OF r i(2)] uq(1) i(1) by simp
  with u show "parse_value n (text_of pf (JNum x) @ r) = Some (JNum x, r)"
    by (simp add: i(3) uq(1) m)
qed

lemma reads_back_arr:
  assumes "\<forall>x \<in> set xs. reads_back pf x" "list_all json_ok xs"
  shows "reads_back pf (JArr xs)"
  unfolding reads_back_def
proof (intro allI impI)
  fix n r assume n: "2 * length (text_of pf (JArr xs)) + 1 \<le> n"
  show "parse_value n (text_of pf (JArr xs) @ r) = Some (JArr xs, r)"
  proof (cases xs)
    case Nil
    with n show ?thesis by (cases n) (simp_all add: text_of_arr skip_ws_def)
  next
    case (Cons y ys)
    let ?t = "join [44] (map (text_of pf) xs)"
    obtain m where m: "n = Suc m" "2 * length ?t + 2 \<le> m"
      using n by (cases n) (simp_all add: text_of_arr)
    obtain u q where uq: "text_of pf y = u # q" "starts_value u"
      using text_of_head [of y pf] assms(2) Cons by auto
    have "?t = text_of pf y @ (if ys = [] then [] else 44 # join [44] (map (text_of pf) ys))"
      using Cons by (cases ys) simp_all
    then have "\<not> prefix [93] (skip_ws (?t @ 93 # r))"
      using uq by (auto simp: skip_ws_def starts_value_def is_digit_unit_def)
    moreover have "parse_elems m (?t @ 93 # r) = Some (xs, r)"
      using parse_elems_texts [OF _ assms(1) m(2)] Cons by simp
    moreover have "text_of pf (JArr xs) @ r = 91 # ?t @ 93 # r" by (simp add: text_of_arr)
    moreover have "skip_ws (91 # ?t @ 93 # r) = 91 # ?t @ 93 # r" by (simp add: skip_ws_def)
    ultimately show ?thesis unfolding m(1) by simp
  qed
qed

lemma reads_back_obj:
  assumes "\<forall>p \<in> set ps. reads_back pf (snd p)" "json_ok (JObj ps)"
  shows "reads_back pf (JObj ps)"
  unfolding reads_back_def
proof (intro allI impI)
  fix n r assume n: "2 * length (text_of pf (JObj ps)) + 1 \<le> n"
  have "list_all (\<lambda>(k, v). v \<noteq> JUndef) ps" using assms(2) by (auto simp: list_all_iff)
  note obj = text_of_obj [OF this, of pf]
  show "parse_value n (text_of pf (JObj ps) @ r) = Some (JObj ps, r)"
  proof (cases ps)
    case Nil
    with n show ?thesis by (cases n) (simp_all add: text_of_def json_wrap_def skip_ws_def)
  next
    case (Cons y ys)
    let ?t = "join [44] (map (member_text pf) ps)"
    obtain m where m: "n = Suc m" "2 * length ?t + 2 \<le> m"
      using n by (cases n) (simp_all add: obj)
    have "?t = member_text pf y @ (if ys = [] then [] else 44 # join [44] (map (member_text pf) ys))"
      using Cons by (cases ys) simp_all
    then have "\<not> prefix [125] (skip_ws (?t @ 125 # r))"
      by (simp add: member_text_def json_quote_def)
    moreover have "parse_members m [] (?t @ 125 # r) = Some (ps, r)"
      using parse_members_texts [OF _ assms(1) m(2)] put_all_ordered [of "[]" ps] assms(2) Cons by simp
    moreover have "text_of pf (JObj ps) @ r = 123 # ?t @ 125 # r" by (simp add: obj)
    moreover have "skip_ws (123 # ?t @ 125 # r) = 123 # ?t @ 125 # r" by (simp add: skip_ws_def)
    ultimately show ?thesis unfolding m(1) by simp
  qed
qed

lemma reads_backI:
  "(\<And>n r. number_stop r \<Longrightarrow> 2 * length (text_of pf v) \<le> n \<Longrightarrow>
     parse_value (Suc n) (text_of pf v @ r) = Some (v, r)) \<Longrightarrow> reads_back pf v"
  unfolding reads_back_def by (metis Suc_eq_plus1 Suc_le_D Suc_le_mono)

lemma reads_back_scalar: "reads_back pf JNull" "reads_back pf (JBool b)" "reads_back pf (JStr s)"
proof -
  show "reads_back pf JNull" "reads_back pf (JBool b)"
    by (intro reads_backI, simp add: text_of_def lit_def skip_ws_def keyword_def)+
  show "reads_back pf (JStr s)"
    using parse_json_escape [of s]
    by (intro reads_backI) (simp add: text_of_def json_quote_def del: parse_string.simps)
qed

lemma json_ok_reads_back: "json_ok v \<Longrightarrow> reads_back pf v"
proof (induction v)
  case (JNum x)
  then show ?case by (rule reads_back_num)
next
  case (JArr xs)
  then show ?case by (intro reads_back_arr) (auto simp: list_all_iff)
next
  case (JObj ps)
  then have "\<forall>p \<in> set ps. reads_back pf (snd p)"
    by (force simp: list_all_iff snds.simps)
  then show ?case using JObj(2) by (rule reads_back_obj)
qed (simp_all add: reads_back_scalar)

lemma json_parse_stringify:
  assumes "json_ok v"
  obtains t where "json_stringify pf v = Some t" "json_parse t = Some v"
proof -
  have "v \<noteq> JUndef" using assms by auto
  then obtain t where t: "json_stringify pf v = Some t"
    using json_stringify_defined by blast
  then have "text_of pf v = t" by (simp add: text_of_def json_stringify_def)
  then have "parse_value (2 * length t + 2) t = Some (v, [])"
    using json_ok_reads_back [OF assms, of pf] unfolding reads_back_def
    by (metis append_Nil2 le_add1 nat_add_left_cancel_le number_stop_sep(4) one_le_numeral)
  then have "json_parse t = Some v"
    unfolding json_parse_def by (simp only: option.case prod.case) (simp add: skip_ws_def)
  with t that show thesis by blast
qed

section \<open>One line\<close>

text \<open>The compact text of any value is one line, as long as a decimal is.\<close>

lemma json_escape_line: "10 \<notin> set (json_escape s)"
proof -
  have hex: "hex_digit k \<noteq> 10" if "k < 16" for k
    using hex_value_digit [OF that] by (auto simp: hex_value_def)
  have "unat u < 65536" for u :: code_unit using unsigned_less [of u] by simp
  then have "unat u div 4096 < 16" for u :: code_unit by (simp add: less_mult_imp_div_less)
  then have uni: "10 \<notin> set (unicode_escape u)" for u
    using hex [THEN not_sym] by (auto simp: unicode_escape_def Let_def)
  then have unit: "10 \<notin> set (escape_unit u)" for u by (auto simp: escape_unit_def)
  show ?thesis
  proof (induction s rule: json_escape.induct)
    case (3 u v s)
    have "is_lead 10 = False" "is_trail 10 = False" by (simp_all add: is_lead_def is_trail_def)
    with 3 uni unit show ?case by (auto simp del: json_escape.simps(2))
  qed (use uni unit in auto)
qed

lemma nat_text_line: "10 \<notin> set (nat_text n)"
  using digits_nat_text [of n] by (auto simp: list_all_iff is_digit_unit_def)

lemma set_join: "set (join sep ts) \<subseteq> set sep \<union> (\<Union>t \<in> set ts. set t)"
  by (induction sep ts rule: join.induct) auto

lemma json_wrap_line:
  "10 \<notin> {b, e} \<Longrightarrow> \<forall>t \<in> set ts. 10 \<notin> set t \<Longrightarrow> 10 \<notin> set (json_wrap b e [] i ts)"
  using set_join [of "[44]" ts] by (auto simp: json_wrap_def)

lemma json_text_line:
  assumes "\<And>q. 10 \<notin> set (format_number pf q)"
  shows "json_text pf [] i v = Some t \<Longrightarrow> 10 \<notin> set t"
proof (induction v arbitrary: i t)
  case (JNum x)
  then show ?case
    using assms nat_text_line by (cases x) (auto simp: int_text_def lit_def split: if_splits)
next
  case (JStr s)
  then show ?case using json_escape_line by (auto simp: json_quote_def)
next
  case (JArr xs)
  have "10 \<notin> set (json_wrap 91 93 [] i
      (map (\<lambda>x. case json_text pf [] i x of None \<Rightarrow> lit ''null'' | Some t \<Rightarrow> t) xs))"
    using JArr(1) by (intro json_wrap_line) (auto simp: lit_def split: option.splits)
  then show ?case using JArr(2) by simp
next
  case (JObj ps)
  have "10 \<notin> set (json_wrap 123 125 [] i (concat (map (\<lambda>(k, x). case json_text pf [] i x of
      None \<Rightarrow> [] | Some t \<Rightarrow> [json_quote k @ [58] @ t]) ps)))"
    using JObj(1) json_escape_line
    by (intro json_wrap_line) (auto simp: json_quote_def snds.simps split: option.splits)
  then show ?case
    using JObj(2) by (simp only: json_text.simps append_Nil2 if_True simp_thms option.inject)
qed (auto simp: lit_def split: if_splits)

section \<open>Records\<close>

text \<open>The facts that show a record with the names of the sources carried without loss.\<close>

lemma not_index_key_lit: "\<not> is_digit_unit (of_char c) \<Longrightarrow> \<not> is_index_key (lit (c # cs))"
  by (simp add: is_index_key_def lit_def)

lemmas record_ok = dict_ok_def dict_keys_def not_index_key_lit is_digit_unit_def

lemma json_ok_text: "json_ok v \<Longrightarrow> json_text pf [] [] v = Some (text_of pf v)"
  using json_stringify_defined [of v pf] by (cases v) (auto simp: text_of_def json_stringify_def)

lemma text_of_platform: "json_ok v \<Longrightarrow> text_of pf v = text_of example_platform v"
proof (induction v)
  case (JNum x)
  then show ?case
    using text_of_num [of x pf] text_of_num [of x example_platform] by auto
next
  case (JArr xs)
  then have "map (text_of pf) xs = map (text_of example_platform) xs"
    by (intro map_cong) (auto simp: list_all_iff)
  then show ?case by (simp only: text_of_arr)
next
  case (JObj ps)
  then have ok: "list_all (\<lambda>(k, v). v \<noteq> JUndef) ps" by (auto simp: list_all_iff)
  have "text_of pf (snd p) = text_of example_platform (snd p)" if "p \<in> set ps" for p
    using JObj(1) [OF that] JObj(2) that by (cases p) (auto simp: list_all_iff snds.simps)
  then have "map (member_text pf) ps = map (member_text example_platform) ps"
    by (intro map_cong) (simp_all add: member_text_def)
  then show ?case by (simp only: text_of_obj [OF ok])
qed (simp_all add: text_of_def)

lemma text_of_line: "json_ok v \<Longrightarrow> 10 \<notin> set (text_of pf v)"
proof -
  assume ok: "json_ok v"
  have "10 \<notin> set (text_of example_platform v)"
    by (rule json_text_line [OF _ json_ok_text [OF ok]]) (simp add: example_platform_def)
  then show ?thesis by (simp add: text_of_platform [OF ok, of pf])
qed

lemma text_of_parses: "json_ok v \<Longrightarrow> json_parse (text_of pf v) = Some v"
  by (rule json_parse_stringify [of v pf]) (simp_all add: json_stringify_def json_ok_text)

end
