(* ===== verification/Client.thy ===== *)
theory Client
  imports Envelope JsonParse
begin

text \<open>
  The request builder both clients share, \<open>ui/shared/src/client/core.ts\<close>. A call takes the
  operation of the caller, the fresh identifier of \<open>crypto.randomUUID()\<close> and the rest of the
  request; it throws when the catalogue gives the operation another kind, and otherwise hands the
  transport a request object, of which \<open>request_value\<close> is the value the transport serialises.
\<close>

text \<open>The scope of a request: the actor, then what the caller adds.\<close>

definition opt_prop :: "string \<Rightarrow> jsval option \<Rightarrow> (jstring \<times> jsval) list" where
  "opt_prop k v = (case v of None \<Rightarrow> [] | Some w \<Rightarrow> [(lit k, w)])"

definition scope_value :: "jsval \<Rightarrow> request_scope \<Rightarrow> jsval" where
  "scope_value actor sc = JObj ([(lit ''actor_id'', actor)] @
     opt_prop ''session_id'' (map_option JStr (sc_session_id sc)) @
     opt_prop ''profile'' (map_option JStr (sc_profile sc)) @
     opt_prop ''channel'' (map_option JStr (sc_channel sc)))"

text \<open>The request objects, the same in both clients.\<close>

definition query_object :: "jsval \<Rightarrow> jstring \<Rightarrow> jstring \<Rightarrow> jsval \<Rightarrow> request_scope \<Rightarrow> jsval" where
  "query_object actor fresh operation content sc = JObj [
     (lit ''protocol_version'', JStr PROTOCOL_VERSION), (lit ''request_id'', JStr fresh),
     (lit ''kind'', kind_value Query), (lit ''operation'', JStr operation),
     (lit ''scope'', scope_value actor sc), (lit ''payload'', content)]"

definition command_object ::
    "jsval \<Rightarrow> jstring \<Rightarrow> jstring \<Rightarrow> jsval \<Rightarrow> jstring \<Rightarrow> request_scope \<Rightarrow> int option \<Rightarrow> jsval" where
  "command_object actor fresh operation content idempotencyKey sc expectedRevision = JObj ([
     (lit ''protocol_version'', JStr PROTOCOL_VERSION), (lit ''request_id'', JStr fresh),
     (lit ''kind'', kind_value Command), (lit ''operation'', JStr operation),
     (lit ''scope'', scope_value actor sc), (lit ''idempotency_key'', JStr idempotencyKey),
     (lit ''payload'', content)] @
     opt_prop ''expected_revision'' (map_option (\<lambda>n. JInt n) expectedRevision))"

definition query_request ::
    "jsval \<Rightarrow> jstring \<Rightarrow> jstring \<Rightarrow> jsval \<Rightarrow> request_scope \<Rightarrow> js_error + jsval" where
  "query_request actor fresh operation content sc =
     (if operation_kind operation \<noteq> Some Query
      then Inl (TypeError (operation @ lit '' is not a query''))
      else Inr (query_object actor fresh operation content sc))"

definition command_request ::
    "jsval \<Rightarrow> jstring \<Rightarrow> jstring \<Rightarrow> jsval \<Rightarrow> jstring \<Rightarrow> request_scope \<Rightarrow> int option \<Rightarrow> js_error + jsval" where
  "command_request actor fresh operation content idempotencyKey sc expectedRevision =
     (if operation_kind operation \<noteq> Some Command
      then Inl (TypeError (operation @ lit '' is not a command''))
      else Inr (command_object actor fresh operation content idempotencyKey sc expectedRevision))"

section \<open>The catalogue\<close>

lemma keys_OPERATION_KINDS: "map fst OPERATION_KINDS = OPERATIONS"
  by (simp add: OPERATION_KINDS_def OPERATIONS_def operations_head_def operations_tail_def
      operation_kinds_head_def operation_kinds_tail_def)

lemma operation_set_iff: "operation_set op \<longleftrightarrow> operation_kind op \<noteq> None"
  unfolding operation_set_def operation_kind_def table_get_None_iff keys_OPERATION_KINDS by simp

section \<open>Built requests are accepted\<close>

definition scope_ok :: "request_scope \<Rightarrow> bool" where
  "scope_ok sc \<longleftrightarrow> (case sc_session_id sc of None \<Rightarrow> True | Some s \<Rightarrow> isUUID (JStr s))"

lemma isScope_scope_value: "isUUID actor \<Longrightarrow> scope_ok sc \<Longrightarrow> isScope (scope_value actor sc)"
  by (auto simp: isScope_def scope_value_def opt_prop_def scope_ok_def split: option.splits)

lemma kind_value_eq_iff [simp]: "kind_value a = kind_value b \<longleftrightarrow> a = b"
  by (cases a; cases b) (simp_all add: kind_value_def)

lemma query_object_valid:
  assumes "operation_kind op = Some Query" "isUUID actor" "isUUID (JStr fresh)" "scope_ok sc"
  shows "isRequestEnvelope (query_object actor fresh op content sc)"
  using assms isScope_scope_value [OF assms(2,4)]
  by (simp add: query_object_def isRequestEnvelope_def operation_set_iff)

lemma command_object_valid:
  assumes "operation_kind op = Some Command" "isUUID actor" "isUUID (JStr fresh)" "scope_ok sc"
    "key \<noteq> []" "case revision of None \<Rightarrow> True | Some n \<Rightarrow> 0 \<le> n \<and> n \<le> max_safe_integer"
  shows "isRequestEnvelope (command_object actor fresh op content key sc revision)"
  using assms isScope_scope_value [OF assms(2,4)]
  by (cases revision) (simp_all add: command_object_def isRequestEnvelope_def operation_set_iff opt_prop_def
      isNonNegativeSafeInteger_def)

text \<open>
  (C14) The client and the request guard agree: a request the shared client sends is accepted by the
  guard for every operation of the catalogue, a query is built exactly for the operations of kind
  query and a command exactly for those of kind command, and no operation has both.
\<close>

theorem client_requests_valid:
  assumes "isUUID actor" "isUUID (JStr fresh)" "scope_ok sc" "key \<noteq> []"
    "case revision of None \<Rightarrow> True | Some n \<Rightarrow> 0 \<le> n \<and> n \<le> max_safe_integer"
  shows "(operation_set op \<longleftrightarrow>
      isRequestEnvelope (query_object actor fresh op content sc) \<noteq>
      isRequestEnvelope (command_object actor fresh op content key sc revision)) \<and>
    query_request actor fresh op content sc =
      (if isRequestEnvelope (query_object actor fresh op content sc)
       then Inr (query_object actor fresh op content sc)
       else Inl (TypeError (op @ lit '' is not a query''))) \<and>
    command_request actor fresh op content key sc revision =
      (if isRequestEnvelope (command_object actor fresh op content key sc revision)
       then Inr (command_object actor fresh op content key sc revision)
       else Inl (TypeError (op @ lit '' is not a command'')))"
proof -
  have q: "isRequestEnvelope (query_object actor fresh op content sc) \<longleftrightarrow> operation_kind op = Some Query"
    using query_object_valid [OF _ assms(1-3)]
    by (auto simp: query_object_def isRequestEnvelope_def split: option.splits)
  have c: "isRequestEnvelope (command_object actor fresh op content key sc revision) \<longleftrightarrow>
      operation_kind op = Some Command"
    using command_object_valid [OF _ assms]
    by (auto simp: command_object_def isRequestEnvelope_def split: option.splits)
  have "operation_set op \<longleftrightarrow> (operation_kind op = Some Query) \<noteq> (operation_kind op = Some Command)"
    unfolding operation_set_iff
    by (metis not_Some_eq option.inject request_kind.distinct(1) request_kind.exhaust)
  then show ?thesis
    unfolding q c by (simp add: query_request_def command_request_def)
qed

definition example_id :: jstring where
  "example_id = lit ''01234567-89ab-4cde-8f01-23456789abcd''"

lemma UUID_PATTERN_list:
  "UUID_PATTERN = [
     is_hex, is_hex, is_hex, is_hex, is_hex, is_hex, is_hex, is_hex, is_dash, is_hex,
     is_hex, is_hex, is_hex, is_dash, is_version_digit, is_hex, is_hex, is_hex, is_dash,
     is_variant_digit, is_hex, is_hex, is_hex, is_dash, is_hex, is_hex, is_hex, is_hex,
     is_hex, is_hex, is_hex, is_hex, is_hex, is_hex, is_hex, is_hex]"
  by (simp add: UUID_PATTERN_def numeral_eq_Suc)

lemma example_id_ok: "isUUID (JStr example_id)"
  by (simp add: example_id_def lit_def UUID_PATTERN_list is_hex_def is_dash_def is_version_digit_def
      is_variant_digit_def)

lemma example_kind: "operation_kind (lit ''system.health'') = Some Query"
  unfolding operation_kind_def OPERATION_KINDS_def operation_kinds_head_def operation_kinds_tail_def
  by (simp add: table_get_append)

theorem client_requests_valid_witness:
  "query_request (JStr example_id) example_id (lit ''system.health'') JNull no_scope =
     Inr (query_object (JStr example_id) example_id (lit ''system.health'') JNull no_scope)"
  using client_requests_valid [of "JStr example_id" example_id no_scope example_id None
      "lit ''system.health''" JNull] example_id_ok example_kind
    query_object_valid [OF example_kind, of "JStr example_id" example_id no_scope JNull]
  by (simp add: scope_ok_def no_scope_def query_request_def)

end
