(* ===== verification/ComputerEvent.thy ===== *)
theory ComputerEvent
  imports Display
begin

text \<open>
  The Computer lifecycle payload and the event envelope: \<open>isComputerEventPayload\<close> and
  \<open>isEventEnvelope\<close> of \<open>ui/shared/src/generated/protocol.ts\<close>, with the phases, terminal
  statuses and the event type each phase travels under.
\<close>

section \<open>Phases\<close>

definition COMPUTER_EVENT_VERSION :: jstring where
  "COMPUTER_EVENT_VERSION = lit ''ion.computer-event.v1''"

definition computerEventTypeByPhase :: "(string \<times> string) list" where
  "computerEventTypeByPhase = [
     (''requested'', ''tool.requested''), (''awaiting_approval'', ''tool.awaiting_approval''),
     (''started'', ''tool.started''), (''progress'', ''tool.delta''),
     (''completed'', ''tool.completed''), (''failed'', ''tool.failed''),
     (''denied'', ''tool.denied''), (''interrupted'', ''tool.interrupted''),
     (''outcome_unknown'', ''tool.outcome_unknown'')]"

definition computerPhases :: "string list" where
  "computerPhases = [''requested'', ''awaiting_approval'', ''started'', ''progress'', ''completed'',
     ''failed'', ''denied'', ''interrupted'', ''outcome_unknown'']"

definition computerTerminalStatuses :: "string list" where
  "computerTerminalStatuses = [''completed'', ''failed'', ''denied'', ''interrupted'',
     ''outcome_unknown'']"

text \<open>\<open>Object.values(computerEventTypeByPhase)\<close>.\<close>

definition computerEventTypes :: "string list" where
  "computerEventTypes = map snd computerEventTypeByPhase"

section \<open>The payload\<close>

definition isComputerScope :: "jsval \<Rightarrow> bool" where
  "isComputerScope s \<longleftrightarrow>
     isRecord s \<and> isUUID (fld s ''actor_id'') \<and> nonempty_string (fld s ''agent_id'') \<and>
     list_all (\<lambda>key. undefined_or isUUID (fld s key))
       [''session_id'', ''turn_id'', ''task_id'', ''outcome_id''] \<and>
     \<not> (fld s ''task_id'' = JUndef \<and> fld s ''outcome_id'' = JUndef)"

definition isSourceReference :: "jsval \<Rightarrow> bool" where
  "isSourceReference r \<longleftrightarrow>
     isRecord r \<and> nonempty_string (fld r ''kind'') \<and> nonempty_string (fld r ''id'')"

definition isComputerResult :: "jsval \<Rightarrow> bool" where
  "isComputerResult r \<longleftrightarrow>
     is_boolean (fld r ''available'') \<and> isNonNegativeSafeInteger (fld r ''bytes'') \<and>
     undefined_or is_string (fld r ''error_code'') \<and>
     undefined_or (string_with (\<lambda>s. length s \<le> 1024)) (fld r ''error'')"

definition is_terminal_status :: "jsval \<Rightarrow> bool" where
  "is_terminal_status v = string_with (one_of computerTerminalStatuses) v"

definition progress_ok :: "platform \<Rightarrow> jsval \<Rightarrow> bool" where
  "progress_ok pf v =
     (if fld v ''phase'' = JStr (lit ''progress'')
      then has_own v ''progress'' \<and>
        (case json_stringify pf (fld v ''progress'') of None \<Rightarrow> False | Some t \<Rightarrow> length t \<le> 16384)
      else fld v ''progress'' = JUndef)"

definition isComputerEventPayload :: "platform \<Rightarrow> jsval \<Rightarrow> bool" where
  "isComputerEventPayload pf v \<longleftrightarrow>
     isRecord v \<and> fld v ''protocol_version'' = JStr COMPUTER_EVENT_VERSION \<and>
     isUUID (fld v ''tool_event_id'') \<and> nonempty_string (fld v ''provider_tool_call_id'') \<and>
     nonempty_string (fld v ''tool'') \<and> nonempty_string (fld v ''operation'') \<and>
     isComputerScope (fld v ''scope'') \<and>
     one_of risk_classes (to_string pf (fld v ''risk_class'')) \<and>
     string_with (one_of computerPhases) (fld v ''phase'') \<and>
     valid_date pf (fld v ''timestamp'') \<and> nonempty_string (fld v ''display_kind'') \<and>
     elems (fld v ''source_references'') \<noteq> [] \<and>
     bounded_array 8 isSourceReference (fld v ''source_references'') \<and>
     list_ex (\<lambda>r. isRecord r \<and> fld r ''kind'' = JStr (lit ''tool_event'') \<and>
         fld r ''id'' = fld v ''tool_event_id'') (elems (fld v ''source_references'')) \<and>
     (let terminal = is_terminal_status (fld v ''phase'') in
      terminal = (fld v ''terminal_status'' = fld v ''phase'') \<and>
      terminal = isRecord (fld v ''result'')) \<and>
     (isRecord (fld v ''result'') \<longrightarrow> isComputerResult (fld v ''result'')) \<and>
     progress_ok pf v \<and>
     (fld v ''display_model'' \<noteq> JUndef \<longrightarrow>
        displayModelCompatibility pf (length (elems (fld v ''source_references'')))
          (fld v ''display_model'') \<noteq> Invalid)"

section \<open>The event envelope\<close>

definition isEventEnvelope :: "platform \<Rightarrow> jsval \<Rightarrow> bool" where
  "isEventEnvelope pf v \<longleftrightarrow>
     isRecord v \<and> isNonNegativeSafeInteger (fld v ''sequence'') \<and>
     isUUID (fld v ''event_id'') \<and> isCorrelation (fld v ''correlation'') \<and>
     string_with event_type_set (fld v ''type'') \<and> valid_date pf (fld v ''occurred_at'') \<and>
     has_own v ''payload'' \<and>
     (let p = fld v ''payload'' in
      one_of computerEventTypes (str_of (fld v ''type'')) \<longrightarrow>
      isRecord p \<and> fld p ''protocol_version'' = JStr COMPUTER_EVENT_VERSION \<longrightarrow>
      isComputerEventPayload pf p \<and>
      fld (fld v ''correlation'') ''tool_id'' = fld p ''tool_event_id'' \<and>
      fld (fld v ''correlation'') ''actor_id'' = fld (fld p ''scope'') ''actor_id'' \<and>
      map_option lit (table_get computerEventTypeByPhase (str_of (fld p ''phase''))) =
        Some (str_of (fld v ''type'')))"

definition assertEventEnvelope :: "platform \<Rightarrow> jsval \<Rightarrow> js_error + unit" where
  "assertEventEnvelope pf v =
     (if isEventEnvelope pf v then Inr () else Inl (TypeError (lit ''invalid control-plane event'')))"

definition event_of :: "jsval \<Rightarrow> event_envelope" where
  "event_of v =
     \<lparr>sequence = int_of (fld v ''sequence''), event_id = str_of (fld v ''event_id''),
      ev_type = str_of (fld v ''type''), occurred_at = str_of (fld v ''occurred_at''),
      correlation = correlation_of (fld v ''correlation''), payload = fld v ''payload''\<rparr>"

section \<open>What a valid payload guarantees\<close>

lemma isComputerEventPayloadD:
  assumes "isComputerEventPayload pf v"
  shows "\<exists>i. fld v ''tool_event_id'' = JStr i" "\<exists>t. fld v ''tool'' = JStr t"
    "\<exists>p. fld v ''phase'' = JStr p \<and> one_of computerPhases p"
    "\<exists>a. fld (fld v ''scope'') ''actor_id'' = JStr a"
  using assms
  by (auto simp: isComputerEventPayload_def isComputerScope_def dest!: isUUID_string
      elim!: nonempty_string.elims string_with.elims)

lemma phase_type_defined:
  "one_of computerPhases p \<longleftrightarrow> table_get computerEventTypeByPhase p \<noteq> None"
  by (simp add: table_get_None_iff one_of_iff computerPhases_def computerEventTypeByPhase_def)

end
