(* ===== verification/LocalClient.thy ===== *)
theory LocalClient
  imports Client ComputerEvent "HOL-Library.Multiset"
begin

text \<open>
  The terminal client's transport, \<open>ui/tui/src/local-client.ts\<close>: one socket with newline-framed
  JSON. The state is the class's fields; a promise handed to a caller of \<open>rpc\<close> is a number, given
  in the order of the calls. An operation returns the new state and what it did to the outside, in
  order: bytes written, promises settled, callbacks called. A handler that throws returns the error
  as well; an exception out of a socket handler ends the process.
\<close>

section \<open>The transport\<close>

datatype local_effect =
    Write jstring
  | EndSocket
  | DestroySocket
  | Resolve nat jsval
  | Reject nat js_error
  | OnRecovery jsval
  | OnEvent event_envelope
  | OnDegraded js_error

record local_transport =
  lt_actor :: jsval
  lt_pending :: "nat list"
  lt_buffer :: jstring
  lt_closed :: bool
  lt_issued :: nat

definition new_transport :: "jsval \<Rightarrow> local_transport" where
  "new_transport actor = \<lparr>lt_actor = actor, lt_pending = [], lt_buffer = [], lt_closed = False, lt_issued = 0\<rparr>"

text \<open>\<open>`${JSON.stringify(value)}\\n`\<close>.\<close>

definition frame_line :: "platform \<Rightarrow> jsval \<Rightarrow> jstring" where
  "frame_line pf v = (case json_stringify pf v of None \<Rightarrow> lit ''undefined'' | Some t \<Rightarrow> t) @ [10]"

definition rejectPending :: "js_error \<Rightarrow> local_transport \<Rightarrow> local_transport \<times> local_effect list" where
  "rejectPending err t = (t\<lparr>lt_pending := []\<rparr>, map (\<lambda>p. Reject p err) (lt_pending t))"

definition fail_transport :: "js_error \<Rightarrow> local_transport \<Rightarrow> local_transport \<times> local_effect list" where
  "fail_transport err t =
     (if lt_closed t then (t, [])
      else let (t', es) = rejectPending err (t\<lparr>lt_closed := True\<rparr>)
           in (t', [DestroySocket] @ es @ [OnDegraded err]))"

definition rpc :: "platform \<Rightarrow> jsval \<Rightarrow> local_transport \<Rightarrow> local_transport \<times> local_effect list" where
  "rpc pf request t =
     (let promise = lt_issued t; t = t\<lparr>lt_issued := Suc promise\<rparr> in
      if lt_closed t then (t, [Reject promise (Error (lit ''local transport is closed''))])
      else (t\<lparr>lt_pending := lt_pending t @ [promise]\<rparr>,
        [Write (frame_line pf (JObj [(lit ''type'', JStr (lit ''rpc'')), (lit ''request'', request)]))]))"

definition subscribe :: "platform \<Rightarrow> int \<Rightarrow> local_transport \<Rightarrow> local_transport \<times> local_effect list" where
  "subscribe pf afterSequence t =
     (t, [Write (frame_line pf (JObj [(lit ''type'', JStr (lit ''subscribe'')),
        (lit ''after_sequence'', JInt afterSequence)]))])"

definition acknowledge ::
    "platform \<Rightarrow> jstring \<Rightarrow> int \<Rightarrow> local_transport \<Rightarrow> local_transport \<times> local_effect list" where
  "acknowledge pf clientID n t =
     (t, [Write (frame_line pf (JObj [(lit ''type'', JStr (lit ''ack'')),
        (lit ''client_id'', JStr clientID), (lit ''sequence'', JInt n)]))])"

definition close_transport :: "local_transport \<Rightarrow> local_transport \<times> local_effect list" where
  "close_transport t =
     (let (t', es) = rejectPending (Error (lit ''local transport closed'')) (t\<lparr>lt_closed := True\<rparr>)
      in (t', [EndSocket] @ es))"

text \<open>The handlers of the socket's \<open>error\<close> and \<open>close\<close> events.\<close>

definition on_socket_error :: "js_error \<Rightarrow> local_transport \<Rightarrow> local_transport \<times> local_effect list" where
  "on_socket_error err t = fail_transport err t"

definition on_socket_close :: "local_transport \<Rightarrow> local_transport \<times> local_effect list" where
  "on_socket_close t =
     (if lt_closed t then (t, []) else fail_transport (Error (lit ''local control plane disconnected'')) t)"

section \<open>Frames\<close>

type_synonym 's handled = "'s \<times> local_effect list \<times> js_error option"

text \<open>\<open>frame.error?.message ?? fallback\<close>, as the message of an \<open>Error\<close>.\<close>

definition frame_error :: "platform \<Rightarrow> jsval \<Rightarrow> string \<Rightarrow> js_error" where
  "frame_error pf frame fallback = (let m = fld (fld frame ''error'') ''message'' in
     Error (if m = JUndef \<or> m = JNull then lit fallback else to_string pf m))"

definition handled :: "local_transport \<times> local_effect list \<Rightarrow> local_transport handled" where
  "handled r = (fst r, snd r, None)"

definition failed :: "string \<Rightarrow> local_transport \<Rightarrow> local_transport handled" where
  "failed message t = handled (fail_transport (Error (lit message)) t)"

definition accept_response :: "jsval \<Rightarrow> local_transport \<Rightarrow> local_transport handled" where
  "accept_response response t =
     (if assertResponseEnvelope response \<noteq> Inr () then failed ''invalid local RPC response'' t
      else case lt_pending t of
        [] \<Rightarrow> failed ''unsolicited local RPC response'' t
      | pending # rest \<Rightarrow> (t\<lparr>lt_pending := rest\<rparr>, [Resolve pending response], None))"

text \<open>Reading a property of \<open>null\<close>, which is a JSON text, throws.\<close>

definition null_read :: js_error where
  "null_read = TypeError (lit ''Cannot read properties of null (reading 'protocol_version')'')"

definition acceptFrame :: "platform \<Rightarrow> jstring \<Rightarrow> local_transport \<Rightarrow> local_transport handled" where
  "acceptFrame pf line t =
     (case json_parse line of
        None \<Rightarrow> failed ''malformed local control-plane frame'' t
      | Some frame \<Rightarrow>
          if frame = JNull then (t, [], Some null_read)
          else if fld frame ''protocol_version'' \<noteq> JStr PROTOCOL_VERSION
          then failed ''local control-plane protocol mismatch'' t
          else if fld frame ''type'' = JStr (lit ''rpc'') \<and> fld frame ''response'' \<noteq> JUndef
          then accept_response (fld frame ''response'') t
          else if fld frame ''type'' = JStr (lit ''recovery'') \<and> fld frame ''recovery'' \<noteq> JUndef
          then (t, [OnRecovery (fld frame ''recovery'')], None)
          else if fld frame ''type'' = JStr (lit ''event'') \<and> fld frame ''event'' \<noteq> JUndef
          then (if assertEventEnvelope pf (fld frame ''event'') \<noteq> Inr ()
                then failed ''invalid local event frame'' t
                else (t, [OnEvent (event_of (fld frame ''event''))], None))
          else if fld frame ''type'' = JStr (lit ''ack'') then (t, [], None)
          else if fld frame ''type'' = JStr (lit ''error'')
          then handled (fail_transport (frame_error pf frame ''local control-plane error'') t)
          else failed ''incomplete local control-plane frame'' t)"

lemma buffer_fail [simp]: "lt_buffer (fst (fail_transport err t)) = lt_buffer t"
  by (simp add: fail_transport_def rejectPending_def)

lemma buffer_acceptFrame [simp]: "lt_buffer (fst (acceptFrame pf line t)) = lt_buffer t"
  by (simp add: acceptFrame_def accept_response_def failed_def handled_def split: option.splits list.splits)

text \<open>The loop of \<open>accept\<close>.\<close>

function drain :: "platform \<Rightarrow> local_transport \<Rightarrow> local_transport handled" where
  "drain pf t =
     (case index_of 10 (lt_buffer t) of
        None \<Rightarrow> (t, [], None)
      | Some newline \<Rightarrow>
          (let line = take newline (lt_buffer t);
               t1 = t\<lparr>lt_buffer := drop (Suc newline) (lt_buffer t)\<rparr> in
           if trim line = [] then drain pf t1
           else case acceptFrame pf line t1 of
             (t2, es, Some err) \<Rightarrow> (t2, es, Some err)
           | (t2, es, None) \<Rightarrow> (case drain pf t2 of (t3, es', x) \<Rightarrow> (t3, es @ es', x))))"
  by pat_completeness auto
termination
proof (relation "measure (\<lambda>(pf, t). length (lt_buffer t))")
  fix pf :: platform and t newline line and t1 t2 :: local_transport
  assume found: "index_of 10 (lt_buffer t) = Some newline"
    and t1: "t1 = t\<lparr>lt_buffer := drop (Suc newline) (lt_buffer t)\<rparr>"
  have less: "length (lt_buffer t1) < length (lt_buffer t)"
    using index_of_Some [OF found] t1 by auto
  then show "((pf, t1), (pf, t)) \<in> measure (\<lambda>(pf, t). length (lt_buffer t))" by simp
  fix y
  assume "(t2, y) = acceptFrame pf line t1"
  then have "lt_buffer t2 = lt_buffer t1" by (metis buffer_acceptFrame fst_conv)
  with less show "((pf, t2), (pf, t)) \<in> measure (\<lambda>(pf, t). length (lt_buffer t))" by simp
qed simp

declare drain.simps [simp del]

definition accept_chunk :: "platform \<Rightarrow> jstring \<Rightarrow> local_transport \<Rightarrow> local_transport handled" where
  "accept_chunk pf chunk t = drain pf (t\<lparr>lt_buffer := lt_buffer t @ chunk\<rparr>)"

section \<open>The handshake\<close>

text \<open>
  \<open>connect\<close>: the listeners of the socket and the timer while the promise is pending. The outcome
  is the first settlement of the promise; the transport exists once a ready frame was read. Node
  emits no data after \<open>destroy\<close>.
\<close>

record handshake =
  hs_buffer :: jstring
  hs_outcome :: "(js_error + jsval) option"
  hs_timer :: bool
  hs_reading :: bool
  hs_transport :: "local_transport option"

definition new_handshake :: handshake where
  "new_handshake = \<lparr>hs_buffer = [], hs_outcome = None, hs_timer = True, hs_reading = True,
     hs_transport = None\<rparr>"

definition settle :: "js_error + jsval \<Rightarrow> handshake \<Rightarrow> handshake" where
  "settle outcome h = (if hs_outcome h = None then h\<lparr>hs_outcome := Some outcome\<rparr> else h)"

definition hs_fail :: "js_error \<Rightarrow> handshake \<Rightarrow> handshake" where
  "hs_fail err h = settle (Inl err) (h\<lparr>hs_timer := False\<rparr>)"

definition hs_connected :: "platform \<Rightarrow> jstring \<Rightarrow> local_effect list" where
  "hs_connected pf capability = [Write (frame_line pf (JObj [(lit ''capability'', JStr capability)]))]"

definition hs_timeout :: "handshake \<Rightarrow> handshake \<times> local_effect list" where
  "hs_timeout h =
     (if hs_timer h
      then (settle (Inl (Error (lit ''local control plane startup timed out'')))
          (h\<lparr>hs_timer := False, hs_reading := False\<rparr>), [DestroySocket])
      else (h, []))"

definition is_ready_frame :: "jsval \<Rightarrow> bool" where
  "is_ready_frame frame \<longleftrightarrow> fld frame ''type'' = JStr (lit ''ready'') \<and>
     fld frame ''protocol_version'' = JStr PROTOCOL_VERSION \<and> fld frame ''actor_id'' \<noteq> JUndef"

definition hs_data :: "platform \<Rightarrow> jstring \<Rightarrow> handshake \<Rightarrow> handshake handled" where
  "hs_data pf chunk h =
     (if \<not> hs_reading h then (h, [], None)
      else let h = h\<lparr>hs_buffer := hs_buffer h @ chunk\<rparr> in
        case index_of 10 (hs_buffer h) of
          None \<Rightarrow> (h, [], None)
        | Some newline \<Rightarrow>
            (let line = take newline (hs_buffer h); trailing = drop (Suc newline) (hs_buffer h) in
             case json_parse line of
               None \<Rightarrow> (hs_fail (Error (lit ''invalid local ready frame'')) h, [], None)
             | Some frame \<Rightarrow>
                 if frame = JNull then (h, [], Some null_read)
                 else if \<not> is_ready_frame frame
                 then (hs_fail (frame_error pf frame ''local capability rejected'') h, [], None)
                 else
                   let t = new_transport (fld frame ''actor_id'');
                       h = h\<lparr>hs_timer := False, hs_reading := False\<rparr> in
                   if trailing = []
                   then (settle (Inr (fld frame ''actor_id'')) (h\<lparr>hs_transport := Some t\<rparr>), [], None)
                   else case accept_chunk pf trailing t of
                     (t', es, Some err) \<Rightarrow> (h\<lparr>hs_transport := Some t'\<rparr>, es, Some err)
                   | (t', es, None) \<Rightarrow>
                       (settle (Inr (fld frame ''actor_id'')) (h\<lparr>hs_transport := Some t'\<rparr>), es, None)))"

section \<open>Line framing\<close>

text \<open>
  The contract of a reader of lines: a buffer, a handler of one line that neither reads nor changes
  the buffer, and a loop that hands the handler every complete line. It makes the result independent
  of how the stream is cut into chunks.
\<close>

locale line_reader =
  fixes buf :: "'s \<Rightarrow> jstring"
    and set_buf :: "jstring \<Rightarrow> 's \<Rightarrow> 's"
    and line_step :: "jstring \<Rightarrow> 's \<Rightarrow> 's \<times> 'e list \<times> 'x option"
    and read_lines :: "'s \<Rightarrow> 's \<times> 'e list \<times> 'x option"
  assumes buf_set: "buf (set_buf b s) = b"
    and set_set: "set_buf b (set_buf c s) = set_buf b s"
    and set_self: "set_buf (buf s) s = s"
    and step_set: "line_step l (set_buf b s) = (case line_step l s of (s', r) \<Rightarrow> (set_buf b s', r))"
    and read_eq: "read_lines s =
      (case index_of 10 (buf s) of
         None \<Rightarrow> (s, [], None)
       | Some i \<Rightarrow>
           (case line_step (take i (buf s)) (set_buf (drop (Suc i) (buf s)) s) of
              (s1, es, Some err) \<Rightarrow> (s1, es, Some err)
            | (s1, es, None) \<Rightarrow> (case read_lines s1 of (s2, es', x) \<Rightarrow> (s2, es @ es', x))))"
begin

definition feed :: "jstring \<Rightarrow> 's \<Rightarrow> 's \<times> 'e list \<times> 'x option" where
  "feed chunk s = read_lines (set_buf (buf s @ chunk) s)"

fun feeds :: "jstring list \<Rightarrow> 's \<Rightarrow> 's \<times> 'e list \<times> 'x option" where
  "feeds [] s = (s, [], None)"
| "feeds (c # cs) s =
     (case feed c s of
        (s1, es, Some err) \<Rightarrow> (s1, es, Some err)
      | (s1, es, None) \<Rightarrow> (case feeds cs s1 of (s2, es', x) \<Rightarrow> (s2, es @ es', x)))"

lemma step_buf: "line_step l (set_buf b s) = (s1, r) \<Longrightarrow> buf s1 = b"
  by (auto simp: step_set buf_set split: prod.splits)

lemma read_none: "index_of 10 (buf s) = None \<Longrightarrow> read_lines s = (s, [], None)"
  by (subst read_eq) simp

lemma index_of_append_Some: "index_of x xs = Some i \<Longrightarrow> index_of x (xs @ ys) = Some i"
  by (induction xs arbitrary: i) (auto split: if_splits)

text \<open>Reading a longer buffer is reading the shorter one and then what the rest adds.\<close>

lemma read_append:
  "read_lines s = (s1, es, x) \<Longrightarrow>
     read_lines (set_buf (buf s @ c) s) =
       (case x of
          Some err \<Rightarrow> (set_buf (buf s1 @ c) s1, es, Some err)
        | None \<Rightarrow> (case read_lines (set_buf (buf s1 @ c) s1) of (s2, es', y) \<Rightarrow> (s2, es @ es', y)))"
proof (induction "length (buf s)" arbitrary: s s1 es x rule: less_induct)
  case less
  show ?case
  proof (cases "index_of 10 (buf s)")
    case None
    then have "s1 = s" "es = []" "x = None" using less.prems read_none by auto
    then show ?thesis by (simp split: prod.splits)
  next
    case (Some i)
    have i: "i < length (buf s)" using index_of_Some [OF Some] by simp
    define l where "l = take i (buf s)"
    define b where "b = drop (Suc i) (buf s)"
    obtain s' es' x' where step: "line_step l (set_buf b s) = (s', es', x')" by (cases "line_step l (set_buf b s)")
    have buf': "buf s' = b" by (rule step_buf [OF step])
    have step': "line_step l (set_buf (b @ c) s) = (set_buf (b @ c) s', es', x')"
      using step_set [of l "b @ c" "set_buf b s"] step by (simp add: set_set)
    have long: "index_of 10 (buf s @ c) = Some i" "take i (buf s @ c) = l" "drop (Suc i) (buf s @ c) = b @ c"
      using Some i by (simp_all add: index_of_append_Some l_def b_def)
    note read = read_eq [of s, unfolded Some option.case, folded l_def b_def, unfolded step prod.case]
    note read_c = read_eq [of "set_buf (buf s @ c) s", unfolded buf_set long option.case set_set, unfolded step' prod.case]
    show ?thesis
    proof (cases x')
      case (Some err)
      then show ?thesis using read read_c less.prems buf' by auto
    next
      case None
      obtain s2 es2 y where rest: "read_lines s' = (s2, es2, y)" by (cases "read_lines s'")
      have eq: "s1 = s2" "es = es' @ es2" "x = y" using read less.prems None rest by auto
      have "length (buf s') < length (buf s)" using buf' i by (simp add: b_def)
      then have ih: "read_lines (set_buf (b @ c) s') =
          (case y of
             Some err \<Rightarrow> (set_buf (buf s2 @ c) s2, es2, Some err)
           | None \<Rightarrow> (case read_lines (set_buf (buf s2 @ c) s2) of (s3, es3, z) \<Rightarrow> (s3, es2 @ es3, z)))"
        using less.hyps [OF _ rest] buf' by simp
      show ?thesis
        unfolding read_c None option.case ih eq by (simp split: option.splits prod.splits)
    qed
  qed
qed

lemma feed_append:
  assumes "feed c s = (s1, es, x)"
  shows "feed (c @ d) s =
    (case x of
       Some err \<Rightarrow> (set_buf (buf s1 @ d) s1, es, Some err)
     | None \<Rightarrow> (case feed d s1 of (s2, es', y) \<Rightarrow> (s2, es @ es', y)))"
  using read_append [of "set_buf (buf s @ c) s" s1 es x d] assms
  by (cases x) (simp_all add: feed_def buf_set set_set)

text \<open>After a run without error no complete line is left.\<close>

lemma read_done: "read_lines s = (s1, es, None) \<Longrightarrow> index_of 10 (buf s1) = None"
proof (induction "length (buf s)" arbitrary: s s1 es rule: less_induct)
  case less
  show ?case
  proof (cases "index_of 10 (buf s)")
    case None
    then show ?thesis using less.prems read_none by auto
  next
    case (Some i)
    obtain s' es' x' where step: "line_step (take i (buf s)) (set_buf (drop (Suc i) (buf s)) s) = (s', es', x')"
      by (cases "line_step (take i (buf s)) (set_buf (drop (Suc i) (buf s)) s)")
    note read = read_eq [of s, unfolded Some option.case, unfolded step prod.case]
    have "x' = None" using read less.prems by (cases x') auto
    moreover obtain s2 es2 y where rest: "read_lines s' = (s2, es2, y)" by (cases "read_lines s'")
    ultimately have eq: "s2 = s1" "y = None" using read less.prems by auto
    have "length (buf s') < length (buf s)"
      using step_buf [OF step] index_of_Some [OF Some] by auto
    then show ?thesis using less.hyps [OF _ rest [unfolded eq]] by simp
  qed
qed

text \<open>However the stream is cut, the effects and the outcome are those of the whole stream.\<close>

lemma feeds_concat:
  "index_of 10 (buf s) = None \<Longrightarrow> feeds cs s = (s1, es, x) \<Longrightarrow>
     \<exists>b. feed (concat cs) s = (set_buf b s1, es, x) \<and> (x = None \<longrightarrow> b = buf s1)"
proof (induction cs arbitrary: s es)
  case Nil
  then show ?case by (auto simp: feed_def set_self read_none)
next
  case (Cons c cs)
  obtain s' es' x' where fed: "feed c s = (s', es', x')" by (cases "feed c s")
  show ?case
  proof (cases x')
    case (Some err)
    then show ?thesis using Cons.prems(2) feed_append [OF fed, of "concat cs"] fed by auto
  next
    case None
    obtain es2 where rest: "feeds cs s' = (s1, es2, x)" and es: "es = es' @ es2"
      using Cons.prems(2) fed None by (auto split: prod.splits)
    have "index_of 10 (buf s') = None"
      using fed None read_done by (simp add: feed_def)
    then obtain b where "feed (concat cs) s' = (set_buf b s1, es2, x)" "x = None \<longrightarrow> b = buf s1"
      using Cons.IH [OF _ rest] by blast
    then show ?thesis
      using feed_append [OF fed, of "concat cs"] None es by auto
  qed
qed

end

text \<open>The transport reads lines by this contract; a blank line is skipped.\<close>

definition line_handler :: "platform \<Rightarrow> jstring \<Rightarrow> local_transport \<Rightarrow> local_transport handled" where
  "line_handler pf line t = (if trim line = [] then (t, [], None) else acceptFrame pf line t)"

lemma fail_set_buffer:
  "fail_transport err (t\<lparr>lt_buffer := b\<rparr>) =
     (case fail_transport err t of (t', es) \<Rightarrow> (t'\<lparr>lt_buffer := b\<rparr>, es))"
  by (simp add: fail_transport_def rejectPending_def)

lemma line_handler_set_buffer:
  "line_handler pf line (t\<lparr>lt_buffer := b\<rparr>) =
     (case line_handler pf line t of (t', r) \<Rightarrow> (t'\<lparr>lt_buffer := b\<rparr>, r))"
  by (simp add: line_handler_def acceptFrame_def accept_response_def failed_def handled_def
      fail_set_buffer split: option.splits list.splits prod.splits)

interpretation lines: line_reader lt_buffer "\<lambda>b t. t\<lparr>lt_buffer := b\<rparr>" "line_handler pf" "drain pf" for pf
proof
  fix l b t
  show "line_handler pf l (t\<lparr>lt_buffer := b\<rparr>) = (case line_handler pf l t of (s', r) \<Rightarrow> (s'\<lparr>lt_buffer := b\<rparr>, r))"
    by (rule line_handler_set_buffer)
next
  fix t
  show "drain pf t = (case index_of 10 (lt_buffer t) of None \<Rightarrow> (t, [], None)
       | Some i \<Rightarrow> (case line_handler pf (take i (lt_buffer t)) (t\<lparr>lt_buffer := drop (Suc i) (lt_buffer t)\<rparr>) of
            (s1, es, Some err) \<Rightarrow> (s1, es, Some err)
          | (s1, es, None) \<Rightarrow> (case drain pf s1 of (s2, es', x) \<Rightarrow> (s2, es @ es', x))))"
    by (subst drain.simps) (simp add: Let_def line_handler_def split: option.splits prod.splits)
qed simp_all

lemma feed_is_accept: "lines.feed pf chunk t = accept_chunk pf chunk t"
  by (simp add: lines.feed_def accept_chunk_def)

end
