(* ===== verification/LocalProperties.thy ===== *)
theory LocalProperties
  imports LocalClient
begin

text \<open>
  What the terminal's transport guarantees: the chunks of the stream do not matter, every promise is
  settled at most once and in the order of the requests, the closed state is final, a frame that is
  written is read back as it was; and what it does not: a failed transport still delivers the frames
  that follow, and the frame \<open>null\<close> is not caught.
\<close>

section \<open>Runs\<close>

text \<open>What can happen to a transport: the calls of its client and the events of its socket.\<close>

datatype local_call =
    Rpc jsval
  | SubscribeFrom int
  | Acknowledge jstring int
  | Close
  | Data jstring
  | SocketError js_error
  | SocketClose

fun local_step :: "platform \<Rightarrow> local_call \<Rightarrow> local_transport \<Rightarrow> local_transport handled" where
  "local_step pf (Rpc request) t = handled (rpc pf request t)"
| "local_step pf (SubscribeFrom n) t = handled (subscribe pf n t)"
| "local_step pf (Acknowledge c n) t = handled (acknowledge pf c n t)"
| "local_step pf Close t = handled (close_transport t)"
| "local_step pf (Data chunk) t = accept_chunk pf chunk t"
| "local_step pf (SocketError err) t = handled (on_socket_error err t)"
| "local_step pf SocketClose t = handled (on_socket_close t)"

text \<open>A run of calls up to an exception, with the trace of its effects.\<close>

fun local_run :: "platform \<Rightarrow> local_call list \<Rightarrow> local_transport \<Rightarrow> local_transport handled" where
  "local_run pf [] t = (t, [], None)"
| "local_run pf (c # cs) t =
     (case local_step pf c t of
        (t1, es, Some err) \<Rightarrow> (t1, es, Some err)
      | (t1, es, None) \<Rightarrow> (case local_run pf cs t1 of (t2, es', x) \<Rightarrow> (t2, es @ es', x)))"

fun settled_promise :: "local_effect \<Rightarrow> nat option" where
  "settled_promise (Resolve p v) = Some p"
| "settled_promise (Reject p err) = Some p"
| "settled_promise _ = None"

fun resolved_promise :: "local_effect \<Rightarrow> nat option" where
  "resolved_promise (Resolve p v) = Some p"
| "resolved_promise _ = None"

definition settled :: "local_effect list \<Rightarrow> nat list" where
  "settled es = List.map_filter settled_promise es"

definition resolved :: "local_effect list \<Rightarrow> nat list" where
  "resolved es = List.map_filter resolved_promise es"

fun is_degraded :: "local_effect \<Rightarrow> bool" where
  "is_degraded (OnDegraded err) = True"
| "is_degraded _ = False"

lemma map_filter_append: "List.map_filter f (xs @ ys) = List.map_filter f xs @ List.map_filter f ys"
  by (simp add: map_filter_def)

lemma settled_append [simp]: "settled (es @ es') = settled es @ settled es'"
  by (simp add: settled_def map_filter_append)

lemma resolved_append [simp]: "resolved (es @ es') = resolved es @ resolved es'"
  by (simp add: resolved_def map_filter_append)

lemma settled_simps [simp]: "settled [] = []"
    "settled (e # es) = (case settled_promise e of None \<Rightarrow> settled es | Some p \<Rightarrow> p # settled es)"
    "settled (map (\<lambda>p. Reject p err) ps) = ps"
  by (simp_all add: settled_def map_filter_def comp_def split: option.splits)

lemma resolved_simps [simp]: "resolved [] = []"
    "resolved (e # es) = (case resolved_promise e of None \<Rightarrow> resolved es | Some p \<Rightarrow> p # resolved es)"
    "resolved (map (\<lambda>p. Reject p err) ps) = []"
  by (simp_all add: resolved_def map_filter_def comp_def split: option.splits)

section \<open>The invariant\<close>

text \<open>
  The promises issued so far are those settled in the trace and those pending; the pending ones are
  in the order of the requests and later than every resolved one; a closed transport has none pending
  and was degraded at most once, an open one never.
\<close>

definition accounted :: "local_transport \<Rightarrow> local_effect list \<Rightarrow> bool" where
  "accounted t es \<longleftrightarrow>
     mset (settled es) + mset (lt_pending t) = mset [0..<lt_issued t] \<and>
     sorted_wrt (<) (resolved es @ lt_pending t) \<and>
     (lt_closed t \<longrightarrow> lt_pending t = []) \<and>
     length (filter is_degraded es) \<le> (if lt_closed t then 1 else 0)"

text \<open>What one step may do, seen from the trace: settle from the front, or give up.\<close>

lemma accounted_resolve:
  assumes "accounted t es" "lt_pending t = p # ps"
  shows "accounted (t\<lparr>lt_pending := ps\<rparr>) (es @ [Resolve p v])"
  using assms by (auto simp: accounted_def)

lemma accounted_quiet:
  assumes "accounted t es" "settled fs = []" "resolved fs = []" "filter is_degraded fs = []"
  shows "accounted t (es @ fs)"
  using assms by (auto simp: accounted_def)

lemma accounted_fail: "accounted t es \<Longrightarrow> accounted (fst (fail_transport err t)) (es @ snd (fail_transport err t))"
  by (auto simp: accounted_def fail_transport_def rejectPending_def sorted_wrt_append filter_map comp_def)

lemma accounted_close: "accounted t es \<Longrightarrow> accounted (fst (close_transport t)) (es @ snd (close_transport t))"
  by (auto simp: accounted_def close_transport_def rejectPending_def sorted_wrt_append comp_def filter_map
      split: if_splits)

lemma resolved_settled: "resolved_promise e = Some p \<Longrightarrow> settled_promise e = Some p"
  by (cases e) simp_all

lemma accounted_issued:
  assumes "accounted t es"
  shows "\<forall>p \<in> set (resolved es) \<union> set (lt_pending t). p < lt_issued t"
proof -
  have "set_mset (mset (settled es) + mset (lt_pending t)) = set_mset (mset [0..<lt_issued t])"
    using assms by (simp add: accounted_def)
  then have "set (settled es) \<union> set (lt_pending t) = {0..<lt_issued t}" by simp
  moreover have "set (resolved es) \<subseteq> set (settled es)"
    using resolved_settled by (fastforce simp: resolved_def settled_def set_map_filter_Some)
  ultimately show ?thesis by auto
qed

lemma accounted_rpc:
  assumes "accounted t es"
  shows "accounted (fst (rpc pf request t)) (es @ snd (rpc pf request t))"
proof (cases "lt_closed t")
  case True
  then show ?thesis using assms by (auto simp: rpc_def Let_def accounted_def)
next
  case False
  then show ?thesis
    using assms accounted_issued [OF assms]
    by (simp add: rpc_def Let_def accounted_def sorted_wrt_append ball_Un)
qed

lemma accounted_buffer [simp]: "accounted (t\<lparr>lt_buffer := b\<rparr>) es = accounted t es"
  by (simp add: accounted_def)

section \<open>Invariants over runs\<close>

text \<open>
  A property of the state and the trace that the primitive actions keep is kept by every run: the
  handlers of frames, the loop over lines and the sequence of calls are composed of them.
\<close>

locale transport_invariant =
  fixes I :: "local_transport \<Rightarrow> local_effect list \<Rightarrow> bool"
  assumes I_buffer: "I (t\<lparr>lt_buffer := b\<rparr>) es = I t es"
    and I_fail: "I t es \<Longrightarrow> I (fst (fail_transport err t)) (es @ snd (fail_transport err t))"
    and I_close: "I t es \<Longrightarrow> I (fst (close_transport t)) (es @ snd (close_transport t))"
    and I_rpc: "I t es \<Longrightarrow> I (fst (rpc pf request t)) (es @ snd (rpc pf request t))"
    and I_resolve: "I t es \<Longrightarrow> lt_pending t = p # ps \<Longrightarrow> I (t\<lparr>lt_pending := ps\<rparr>) (es @ [Resolve p v])"
    and I_write: "I t es \<Longrightarrow> I t (es @ [Write w])"
    and I_recovery: "I t es \<Longrightarrow> I t (es @ [OnRecovery v])"
    and I_event: "I t es \<Longrightarrow> I t (es @ [OnEvent e])"
begin

definition keeps :: "(local_transport \<Rightarrow> local_transport handled) \<Rightarrow> bool" where
  "keeps f \<longleftrightarrow> (\<forall>t es. I t es \<longrightarrow> (case f t of (t', fs, x) \<Rightarrow> I t' (es @ fs)))"

lemma keepsD: "keeps f \<Longrightarrow> I t es \<Longrightarrow> f t = (t', fs, x) \<Longrightarrow> I t' (es @ fs)"
  by (fastforce simp: keeps_def)

lemma keepsI: "(\<And>t es t' fs x. I t es \<Longrightarrow> f t = (t', fs, x) \<Longrightarrow> I t' (es @ fs)) \<Longrightarrow> keeps f"
  by (fastforce simp: keeps_def split: prod.splits)

lemma keeps_fail: "keeps (\<lambda>t. handled (fail_transport err t))"
  using I_fail by (auto simp: keeps_def handled_def)

lemma keeps_failed: "keeps (failed m)"
  using keeps_fail by (simp add: failed_def [abs_def])

lemma keeps_quiet: "keeps (\<lambda>t. (t, [], x))" "keeps (\<lambda>t. (t, [OnRecovery v], x))"
    "keeps (\<lambda>t. (t, [OnEvent e], x))"
  by (simp_all add: keeps_def I_recovery I_event)

lemma keeps_accept_response: "keeps (accept_response v)"
proof (rule keepsI)
  fix t es t' fs x
  assume inv: "I t es" and step: "accept_response v t = (t', fs, x)"
  show "I t' (es @ fs)"
  proof (cases "assertResponseEnvelope v \<noteq> Inr () \<or> lt_pending t = []")
    case True
    then have "accept_response v t = failed ''invalid local RPC response'' t \<or>
        accept_response v t = failed ''unsolicited local RPC response'' t"
      by (auto simp: accept_response_def)
    then have "\<exists>m. failed m t = (t', fs, x)" using step by auto
    then show ?thesis using keepsD [OF keeps_failed inv] by blast
  next
    case False
    then obtain p ps where "lt_pending t = p # ps" by (cases "lt_pending t") auto
    with False inv step show ?thesis by (auto simp: accept_response_def intro: I_resolve)
  qed
qed

lemma keeps_if: "keeps f \<Longrightarrow> keeps g \<Longrightarrow> keeps (\<lambda>t. if b then f t else g t)"
  by (simp add: keeps_def)

lemma keeps_acceptFrame: "keeps (acceptFrame pf line)"
  unfolding acceptFrame_def [abs_def]
  by (cases "json_parse line")
    (auto intro!: keeps_if keeps_failed keeps_fail keeps_accept_response keeps_quiet)

lemma keeps_drain: "keeps (drain pf)"
proof (rule keepsI)
  fix t es t' fs x
  show "I t es \<Longrightarrow> drain pf t = (t', fs, x) \<Longrightarrow> I t' (es @ fs)"
  proof (induction pf t arbitrary: es t' fs x rule: drain.induct)
    case (1 pf t)
    show ?case
    proof (cases "index_of 10 (lt_buffer t)")
      case None
      then show ?thesis using 1(3,4) by (simp add: drain.simps [of pf t])
    next
      case (Some i)
      define line where "line = take i (lt_buffer t)"
      define t1 where "t1 = t\<lparr>lt_buffer := drop (Suc i) (lt_buffer t)\<rparr>"
      have inv1: "I t1 es" using 1(3) by (simp add: t1_def I_buffer)
      note drain_t = 1(4) [unfolded drain.simps [of pf t] Some option.case Let_def, folded line_def t1_def]
      show ?thesis
      proof (cases "trim line = []")
        case True
        then show ?thesis using 1(1) [OF Some line_def t1_def True inv1] drain_t by simp
      next
        case False
        obtain t2 es2 y where frame: "acceptFrame pf line t1 = (t2, es2, y)" by (cases "acceptFrame pf line t1")
        have inv2: "I t2 (es @ es2)" by (rule keepsD [OF keeps_acceptFrame inv1 frame])
        show ?thesis
        proof (cases y)
          case (Some err)
          then show ?thesis using drain_t False frame inv2 by simp
        next
          case None
          obtain t3 es3 z where rest: "drain pf t2 = (t3, es3, z)" by (cases "drain pf t2")
          have "I t3 ((es @ es2) @ es3)"
            by (rule 1(2) [OF Some line_def t1_def False frame [symmetric] refl None inv2 rest])
          then show ?thesis using drain_t False frame None rest by simp
        qed
      qed
    qed
  qed
qed

lemma keeps_local_step: "keeps (local_step pf c)"
proof (cases c)
  case (Data chunk)
  have "I (t\<lparr>lt_buffer := b\<rparr>) es" if "I t es" for t b es using that by (simp add: I_buffer)
  then show ?thesis
    using Data keepsD [OF keeps_drain] by (fastforce intro!: keepsI simp: accept_chunk_def)
qed (auto simp: keeps_def handled_def I_rpc I_close I_fail on_socket_error_def on_socket_close_def
    subscribe_def acknowledge_def I_write)

lemma I_run: "I t es \<Longrightarrow> local_run pf cs t = (t', fs, x) \<Longrightarrow> I t' (es @ fs)"
proof (induction cs arbitrary: t es fs)
  case (Cons c cs)
  obtain t1 es1 y where step: "local_step pf c t = (t1, es1, y)" by (cases "local_step pf c t")
  have inv: "I t1 (es @ es1)" by (rule keepsD [OF keeps_local_step Cons.prems(1) step])
  show ?case
  proof (cases y)
    case (Some err)
    then show ?thesis using Cons.prems(2) step inv by simp
  next
    case None
    obtain fs' where "local_run pf cs t1 = (t', fs', x)" "fs = es1 @ fs'"
      using Cons.prems(2) step None by (auto split: prod.splits)
    then show ?thesis using Cons.IH [OF inv] by simp
  qed
qed simp

end

text \<open>The account of promises is such an invariant, and so is that a transport is shut.\<close>

interpretation account: transport_invariant accounted
  by unfold_locales (simp_all add: accounted_fail accounted_close accounted_rpc accounted_resolve
      accounted_quiet accounted_buffer)

definition shut :: "local_transport \<Rightarrow> local_effect list \<Rightarrow> bool" where
  "shut t es \<longleftrightarrow> lt_closed t \<and> lt_pending t = [] \<and> resolved es = [] \<and> filter is_degraded es = []"

interpretation closing: transport_invariant shut
  by unfold_locales (simp_all add: shut_def fail_transport_def close_transport_def rejectPending_def
      rpc_def Let_def)

lemma accounted_new: "accounted (new_transport actor) []"
  by (simp add: accounted_def new_transport_def)

section \<open>Properties\<close>

text \<open>
  (C8) Over any run of a transport, calls of its client and events of its socket in any order, the
  promises handed out are exactly those settled so far and those still pending, each of them once; a
  closed transport has none pending; and the responses resolve the promises in the order of the
  requests.
\<close>

theorem promises_settle_once:
  "case local_run pf cs (new_transport actor) of (t, es, x) \<Rightarrow>
     mset (settled es) + mset (lt_pending t) = mset [0..<lt_issued t] \<and>
     (if lt_closed t then lt_pending t = [] else True) \<and> sorted_wrt (<) (resolved es @ lt_pending t)"
  using account.I_run [OF accounted_new] by (auto simp: accounted_def split: prod.splits)

text \<open>
  (C12) Closing is final and quiet: whatever is called or received after \<open>close\<close>, the transport
  stays closed, no promise is resolved any more, and the client is never told of a degradation; over a
  whole run it is told at most once.
\<close>

theorem close_final:
  "(case local_run pf cs (fst (close_transport t)) of (t', es, x) \<Rightarrow>
      lt_closed t' \<and> lt_pending t' = [] \<and> resolved es = [] \<and> filter is_degraded es = []) \<and>
   (case local_run pf cs (new_transport actor) of (t', es, x) \<Rightarrow>
      length (filter is_degraded es) \<le> (if lt_closed t' then 1 else 0))"
proof -
  have "shut (fst (close_transport t)) []"
    by (simp add: shut_def close_transport_def rejectPending_def)
  note closed = closing.I_run [OF this, of pf cs]
  note new = account.I_run [OF accounted_new [of actor], of pf cs]
  show ?thesis
    by (cases "local_run pf cs (fst (close_transport t))";
        cases "local_run pf cs (new_transport actor)";
        use closed new in \<open>auto simp: shut_def accounted_def\<close>)
qed

text \<open>The chunks a socket delivers, in order, up to an exception.\<close>

fun receive :: "platform \<Rightarrow> jstring list \<Rightarrow> local_transport \<Rightarrow> local_transport handled" where
  "receive pf [] t = (t, [], None)"
| "receive pf (c # cs) t =
     (case accept_chunk pf c t of
        (t1, es, Some err) \<Rightarrow> (t1, es, Some err)
      | (t1, es, None) \<Rightarrow> (case receive pf cs t1 of (t2, es', x) \<Rightarrow> (t2, es @ es', x)))"

lemma receive_is_feeds: "receive pf cs t = lines.feeds pf cs t"
  by (induction cs arbitrary: t) (simp_all add: feed_is_accept)

text \<open>
  (C9) How the socket cuts the stream does not matter: two ways to cut the same stream have the same
  effects in the same order and end in the same exception or none, and without an exception they leave
  the transport in the same state. A line may be cut anywhere, also inside a frame.
\<close>

theorem chunks_irrelevant:
  assumes "10 \<notin> set (lt_buffer t)" "concat cs = concat ds"
  shows "case (receive pf cs t, receive pf ds t) of ((t1, es1, x1), (t2, es2, x2)) \<Rightarrow>
    es1 = es2 \<and> x1 = x2 \<and> (if x1 = None then t1 = t2 else t1\<lparr>lt_buffer := []\<rparr> = t2\<lparr>lt_buffer := []\<rparr>)"
proof -
  obtain t1 es1 x1 t2 es2 x2 where
    r: "receive pf cs t = (t1, es1, x1)" "receive pf ds t = (t2, es2, x2)"
    by (cases "receive pf cs t", cases "receive pf ds t") auto
  have none: "index_of 10 (lt_buffer t) = None" using assms(1) by (simp add: index_of_None)
  obtain b1 b2 where
    "lines.feed pf (concat cs) t = (t1\<lparr>lt_buffer := b1\<rparr>, es1, x1)" "x1 = None \<longrightarrow> b1 = lt_buffer t1"
    "lines.feed pf (concat ds) t = (t2\<lparr>lt_buffer := b2\<rparr>, es2, x2)" "x2 = None \<longrightarrow> b2 = lt_buffer t2"
    using lines.feeds_concat [OF none r(1) [unfolded receive_is_feeds]]
      lines.feeds_concat [OF none r(2) [unfolded receive_is_feeds]] by blast
  then have eq: "t1\<lparr>lt_buffer := b1\<rparr> = t2\<lparr>lt_buffer := b2\<rparr>" "es1 = es2" "x1 = x2"
    "x1 = None \<longrightarrow> t1\<lparr>lt_buffer := b1\<rparr> = t1" "x1 = None \<longrightarrow> t2\<lparr>lt_buffer := b2\<rparr> = t2"
    using assms(2) by auto
  then have "t1\<lparr>lt_buffer := []\<rparr> = t2\<lparr>lt_buffer := []\<rparr>"
    by (cases t1; cases t2) simp
  with eq r show ?thesis by auto
qed

theorem chunks_irrelevant_witness:
  "fst (snd (receive example_platform [lit ''nu'', lit ''l'', lit ''l''] (new_transport JNull))) =
   fst (snd (receive example_platform [lit ''null''] (new_transport JNull)))"
  using chunks_irrelevant [of "new_transport JNull" "[lit ''nu'', lit ''l'', lit ''l'']" "[lit ''null'']"
      example_platform]
  by (auto simp: new_transport_def lit_append [symmetric] split: prod.splits)

section \<open>What is written is read back\<close>

lemma frame_line_text: "json_ok v \<Longrightarrow> frame_line pf v = text_of pf v @ [10]"
  by (simp add: frame_line_def json_stringify_def json_ok_text)

lemma json_ok_rpc_frame: "json_ok r \<Longrightarrow> json_ok (JObj [(lit ''type'', JStr (lit ''rpc'')), (lit ''request'', r)])"
  by (simp add: record_ok)

lemma json_ok_scope: "json_ok actor \<Longrightarrow> json_ok (scope_value actor sc)"
  by (auto simp: scope_value_def opt_prop_def record_ok split: option.splits)

lemma json_ok_query: "json_ok actor \<Longrightarrow> json_ok content \<Longrightarrow> json_ok (query_object actor fresh op content sc)"
  by (simp add: query_object_def record_ok json_ok_scope kind_value_def)

text \<open>
  (C11) What the terminal client asks arrives as it was asked: a query of the shared client, sent on an
  open transport, is written as one line, and the line parses to a frame whose request is the query and
  passes the request guard.
\<close>

theorem query_reaches_the_wire:
  assumes "query_request actor fresh op content sc = Inr r" "\<not> lt_closed t"
    and "isUUID actor" "isUUID (JStr fresh)" "scope_ok sc" "json_ok content"
  shows "\<exists>line frame. snd (rpc pf r t) = [Write (line @ [10])] \<and> 10 \<notin> set line \<and>
    json_parse line = Some frame \<and> fld frame ''type'' = JStr (lit ''rpc'') \<and>
    fld frame ''request'' = r \<and> isRequestEnvelope r"
proof -
  have op: "operation_kind op = Some Query" and r: "r = query_object actor fresh op content sc"
    using assms(1) by (simp_all add: query_request_def split: if_splits)
  have "json_ok actor" using isUUID_string [OF assms(3)] by auto
  then have ok: "json_ok (JObj [(lit ''type'', JStr (lit ''rpc'')), (lit ''request'', r)])"
    using r assms(6) by (intro json_ok_rpc_frame) (simp add: json_ok_query)
  then show ?thesis
    using assms(2) text_of_line [OF ok, of pf] text_of_parses [OF ok, of pf]
      query_object_valid [OF op assms(3-5), of content, folded r]
    by (intro exI [of _ "text_of pf (JObj [(lit ''type'', JStr (lit ''rpc'')), (lit ''request'', r)])"])
      (auto simp: rpc_def Let_def frame_line_text [OF ok])
qed

theorem query_reaches_the_wire_witness:
  "\<exists>line frame. snd (rpc example_platform
       (query_object (JStr example_id) example_id (lit ''system.health'') JNull no_scope)
       (new_transport JNull)) = [Write (line @ [10])] \<and> json_parse line = Some frame \<and>
     isRequestEnvelope (fld frame ''request'')"
  using query_reaches_the_wire [of "JStr example_id" example_id "lit ''system.health''" JNull no_scope
      "query_object (JStr example_id) example_id (lit ''system.health'') JNull no_scope"
      "new_transport JNull" example_platform] example_id_ok example_kind
  by (auto simp: query_request_def scope_ok_def no_scope_def new_transport_def)

section \<open>After a failure\<close>

lemma accept_one_line:
  assumes "10 \<notin> set line" "trim line \<noteq> []" "lt_buffer t = []"
    "acceptFrame pf line t = (t', es, None)"
  shows "accept_chunk pf (line @ [10] @ rest) t =
    (case accept_chunk pf rest t' of (t2, es', x) \<Rightarrow> (t2, es @ es', x))"
proof -
  have found: "index_of 10 (line @ 10 # rest) = Some (length line)"
    using assms(1) by (simp add: index_of_append index_of_None)
  have commute: "acceptFrame pf line (t\<lparr>lt_buffer := rest\<rparr>) = (t'\<lparr>lt_buffer := rest\<rparr>, es, None)"
    using line_handler_set_buffer [of pf line rest t] assms(2,4) by (simp add: line_handler_def)
  have "lt_buffer t' = []" using buffer_acceptFrame [of pf line t] assms(3,4) by simp
  then show ?thesis
    by (simp add: accept_chunk_def drain.simps [of pf "t\<lparr>lt_buffer := line @ 10 # rest\<rparr>"] assms(2,3)
        found commute Let_def)
qed

definition event_frame :: "jsval \<Rightarrow> jsval" where
  "event_frame e = JObj [(lit ''type'', JStr (lit ''event'')),
     (lit ''protocol_version'', JStr PROTOCOL_VERSION), (lit ''event'', e)]"

lemma json_ok_event_frame: "json_ok e \<Longrightarrow> json_ok (event_frame e)"
  by (simp add: event_frame_def record_ok)

lemma trim_text_of: "json_ok v \<Longrightarrow> trim (text_of pf v) \<noteq> []"
proof -
  assume "json_ok v"
  then obtain u q where uq: "text_of pf v = u # q" "starts_value u" using text_of_head by blast
  have "\<not> is_space (unat u)"
    using uq(2) by (auto simp: starts_value_def is_digit_unit_def is_space_def)
  then have "trim_start (text_of pf v) = u # q" "u \<in> set (u # q)" by (simp_all add: uq(1) trim_start_def)
  then show ?thesis
    using \<open>\<not> is_space (unat u)\<close> by (auto simp: trim_def trim_start_def dropWhile_eq_Nil_conv)
qed

lemma accept_event_frame:
  assumes "json_ok e" "isEventEnvelope pf e"
  shows "acceptFrame pf (text_of pf (event_frame e)) t = (t, [OnEvent (event_of e)], None)"
proof -
  have "e \<noteq> JUndef" using assms(1) by auto
  then show ?thesis
    using assms(2) text_of_parses [OF json_ok_event_frame [OF assms(1)], of pf]
    by (simp add: acceptFrame_def event_frame_def assertEventEnvelope_def)
qed

lemma accept_event_line:
  assumes "json_ok e" "isEventEnvelope pf e" "lt_buffer t = []"
  shows "accept_chunk pf (frame_line pf (event_frame e)) t = (t, [OnEvent (event_of e)], None)"
proof -
  note ok = json_ok_event_frame [OF assms(1)]
  show ?thesis
    using accept_one_line [OF text_of_line [OF ok] trim_text_of [OF ok] assms(3)
        accept_event_frame [OF assms(1,2)], of "[]"] assms(3)
    by (simp add: frame_line_text [OF ok] accept_chunk_def drain.simps)
qed

lemma junk_does_not_parse: "json_parse (lit ''!'') = None"
proof -
  have "parse_value (Suc n) [33] = None" for n
    by (simp add: skip_ws_def parse_number_def integer_part_def is_digit_unit_def)
  from this [of 3] show ?thesis by (simp add: json_parse_def lit_def)
qed

text \<open>
  A failed transport goes on delivering: when a malformed line is followed by an event in the
  same chunk, the client is told of the degradation, the socket is destroyed, and the event is
  delivered all the same, on the closed transport.
\<close>

theorem events_after_failure:
  assumes "\<not> lt_closed t" "lt_buffer t = []" "json_ok e" "isEventEnvelope pf e"
  shows "accept_chunk pf (lit ''!'' @ [10] @ frame_line pf (event_frame e)) t =
    (t\<lparr>lt_closed := True, lt_pending := []\<rparr>,
     [DestroySocket] @
     map (\<lambda>p. Reject p (Error (lit ''malformed local control-plane frame''))) (lt_pending t) @
     [OnDegraded (Error (lit ''malformed local control-plane frame'')), OnEvent (event_of e)], None)"
proof -
  let ?err = "Error (lit ''malformed local control-plane frame'')"
  let ?t = "t\<lparr>lt_closed := True, lt_pending := []\<rparr>"
  have junk: "acceptFrame pf (lit ''!'') t =
      (?t, [DestroySocket] @ map (\<lambda>p. Reject p ?err) (lt_pending t) @ [OnDegraded ?err], None)"
    using assms(1) junk_does_not_parse
    by (simp add: acceptFrame_def failed_def handled_def fail_transport_def rejectPending_def)
  have first: "10 \<notin> set (lit ''!'')" "trim (lit ''!'') \<noteq> []"
    by (simp_all add: lit_def trim_def trim_start_def is_space_def)
  show ?thesis
    using accept_one_line [OF first assms(2) junk] accept_event_line [OF assms(3,4), of ?t] assms(2) by simp
qed

definition example_event_value :: jsval where
  "example_event_value = JObj [(lit ''sequence'', JInt 1), (lit ''event_id'', JStr example_id),
     (lit ''type'', JStr (lit ''turn.started'')), (lit ''occurred_at'', JStr (lit ''2026-01-01'')),
     (lit ''correlation'', JObj [(lit ''actor_id'', JStr example_id)]), (lit ''payload'', JNull)]"

lemma example_event_ok: "json_ok example_event_value" "isEventEnvelope example_platform example_event_value"
proof -
  show "json_ok example_event_value"
    by (simp add: example_event_value_def record_ok max_safe_integer_def)
  have "event_type_set (lit ''turn.started'')"
    unfolding event_type_set_def EVENT_TYPES_def by simp
  moreover have "\<not> one_of computerEventTypes (lit ''turn.started'')"
    by (simp add: one_of_iff computerEventTypes_def computerEventTypeByPhase_def)
  ultimately show "isEventEnvelope example_platform example_event_value"
    using example_id_ok
    by (simp add: isEventEnvelope_def example_event_value_def isCorrelation_def example_platform_def
        isNonNegativeSafeInteger_def max_safe_integer_def)
qed

theorem events_after_failure_witness:
  "accept_chunk example_platform (lit ''!'' @ [10] @ frame_line example_platform (event_frame example_event_value))
     (new_transport JNull) =
   ((new_transport JNull)\<lparr>lt_closed := True\<rparr>,
    [DestroySocket, OnDegraded (Error (lit ''malformed local control-plane frame'')),
     OnEvent (event_of example_event_value)], None)"
  using events_after_failure [of "new_transport JNull" example_event_value example_platform] example_event_ok
  by (simp add: new_transport_def)

text \<open>
  The frame \<open>null\<close> is valid JSON and is not caught: the handler throws out of the socket's
  data event, the transport is not marked closed and its client is not told.
\<close>

theorem null_frame_throws:
  "accept_chunk pf (lit ''null'' @ [10]) (new_transport actor) = (new_transport actor, [], Some null_read)"
proof -
  have "json_parse (lit ''null'') = Some JNull"
    using text_of_parses [of JNull example_platform] by (simp add: text_of_def)
  moreover have "index_of 10 (lit ''null'' @ [10]) = Some 4" by (simp add: lit_def)
  moreover have "trim (lit ''null'') \<noteq> []" by (simp add: lit_def trim_def trim_start_def is_space_def)
  ultimately show ?thesis
    by (simp add: accept_chunk_def drain.simps acceptFrame_def new_transport_def)
qed

section \<open>The handshake\<close>













end
