(* ===== verification/TuiText.thy ===== *)
theory TuiText
  imports ComputerEvent "HOL-Library.Monad_Syntax"
begin

text \<open>
  The text functions of the terminal application, \<open>ui/tui/src/App.tsx\<close>: one-line descriptions of
  records, the summaries of the detail column, the software specification under review, the titles and
  summaries of events, and the suggestions for slash commands.

  The results of queries are unvalidated JSON, so they are \<open>jsval\<close>s here. A function that can
  throw on such a value, because it reads a property of \<open>null\<close> or calls a method the value does
  not have, returns an option, with \<open>None\<close> for the \<open>TypeError\<close>.
\<close>

section \<open>Reads that may throw\<close>

text \<open>\<open>v.k\<close>; \<open>v.replaceAll\<close> and other methods of strings and arrays are \<open>as_str\<close> and \<open>as_arr\<close>.\<close>

fun read_prop :: "jsval \<Rightarrow> string \<Rightarrow> jsval option" where
  "read_prop JUndef k = None"
| "read_prop JNull k = None"
| "read_prop (JArr xs) k = Some (if k = ''length'' then JInt (int (length xs)) else JUndef)"
| "read_prop (JStr s) k = Some (if k = ''length'' then JInt (int (length s)) else JUndef)"
| "read_prop v k = Some (fld v k)"

fun as_arr :: "jsval \<Rightarrow> jsval list option" where
  "as_arr (JArr xs) = Some xs"
| "as_arr _ = None"

fun truthy :: "jsval \<Rightarrow> bool" where
  "truthy JUndef = False"
| "truthy JNull = False"
| "truthy (JBool b) = b"
| "truthy (JNum n) = (n \<noteq> Fin 0 \<and> n \<noteq> NaN)"
| "truthy (JStr s) = (s \<noteq> [])"
| "truthy v = True"

text \<open>\<open>v ?? w\<close>, and \<open>typeof v === 'object' && v !== null\<close>, which arrays satisfy.\<close>

definition nullish :: "jsval \<Rightarrow> bool" where
  "nullish v \<longleftrightarrow> v = JUndef \<or> v = JNull"

definition or_else :: "jsval \<Rightarrow> jsval \<Rightarrow> jsval" where
  "or_else v w = (if nullish v then w else v)"

fun is_object :: "jsval \<Rightarrow> bool" where
  "is_object (JArr _) = True"
| "is_object (JObj _) = True"
| "is_object _ = False"

text \<open>\<open>Object.keys(v).length > 0\<close>.\<close>

fun has_keys :: "jsval \<Rightarrow> bool" where
  "has_keys (JObj ps) = (ps \<noteq> [])"
| "has_keys (JArr xs) = (xs \<noteq> [])"
| "has_keys (JStr s) = (s \<noteq> [])"
| "has_keys _ = False"

text \<open>\<open>filter\<close> and \<open>find\<close> with a test that may throw.\<close>

fun filter_try :: "('a \<Rightarrow> bool option) \<Rightarrow> 'a list \<Rightarrow> 'a list option" where
  "filter_try p [] = Some []"
| "filter_try p (x # xs) = do {
     b \<leftarrow> p x;
     ys \<leftarrow> filter_try p xs;
     Some (if b then x # ys else ys)
   }"

fun find_try :: "('a \<Rightarrow> bool option) \<Rightarrow> 'a list \<Rightarrow> 'a option option" where
  "find_try p [] = Some None"
| "find_try p (x # xs) = do {
     b \<leftarrow> p x;
     (if b then Some (Some x) else find_try p xs)
   }"

fun first_some :: "('a \<Rightarrow> 'b option) \<Rightarrow> 'a list \<Rightarrow> 'b option" where
  "first_some f [] = None"
| "first_some f (x # xs) = (case f x of None \<Rightarrow> first_some f xs | Some y \<Rightarrow> Some y)"

text \<open>The separator of the interface's phrases, the ellipsis and the dash.\<close>

definition middot :: jstring where
  "middot = [32, 183, 32]"

definition ellipsis :: jstring where
  "ellipsis = [8230]"

definition dash :: jstring where
  "dash = [8212]"

definition count_text :: "nat \<Rightarrow> jstring" where
  "count_text n = nat_text n"

section \<open>Sections\<close>

datatype tui_section =
  Chat | Tasks | Approvals | Projects | Schedules | Skills | Memory | Computer | System

definition sections :: "(tui_section \<times> string) list" where
  "sections = [(Chat, ''Chat''), (Tasks, ''Tasks''), (Approvals, ''Approvals''),
     (Projects, ''Projects''), (Schedules, ''Schedules''), (Skills, ''Skills''),
     (Memory, ''Memory''), (Computer, ''Computer''), (System, ''System'')]"

fun sectionTitle :: "tui_section \<Rightarrow> jstring" where
  "sectionTitle Chat = lit ''CHAT''"
| "sectionTitle Tasks = lit ''GOALS AND ACTIVE WORK''"
| "sectionTitle Approvals = lit ''APPROVALS''"
| "sectionTitle Projects = lit ''PROJECTS AND SOFTWARE STUDIO''"
| "sectionTitle Schedules = lit ''RECURRING TASKS''"
| "sectionTitle Skills = lit ''SKILLS''"
| "sectionTitle Memory = lit ''SAVED KNOWLEDGE AND SOURCES''"
| "sectionTitle Computer = lit ''COMPUTER''"
| "sectionTitle System = lit ''SESSIONS, PROVIDERS, CHANNELS, SAFETY, AND LOGS''"

fun section_prefixes :: "tui_section \<Rightarrow> string list" where
  "section_prefixes Chat = [''turn.'', ''session.'']"
| "section_prefixes Tasks = [''taskgraph.'', ''work.'']"
| "section_prefixes Approvals = [''approval.'']"
| "section_prefixes Projects = [''project.'', ''studio.'']"
| "section_prefixes Schedules = [''schedule.'']"
| "section_prefixes Skills = [''skill.'']"
| "section_prefixes Memory = [''memory.'']"
| "section_prefixes Computer = [''computer.'']"
| "section_prefixes System = [''system.'', ''provider.'', ''channel.'', ''policy.'', ''logs.'']"

text \<open>\<open>catalog.filter((item) => item.available)\<close>.\<close>

definition is_available :: "jsval \<Rightarrow> bool option" where
  "is_available item = map_option truthy (read_prop item ''available'')"

definition available_items :: "jsval \<Rightarrow> jsval list option" where
  "available_items catalog = do {
     items \<leftarrow> as_arr catalog;
     filter_try is_available items
   }"

definition in_section :: "tui_section \<Rightarrow> jsval \<Rightarrow> bool option" where
  "in_section section descriptor = do {
     available \<leftarrow> is_available descriptor;
     (if \<not> available then Some False
      else map_option (\<lambda>operation. list_ex (\<lambda>p. starts_with p operation) (section_prefixes section))
        (as_str (fld descriptor ''operation'')))
   }"

definition sectionSubtitle :: "tui_section \<Rightarrow> jsval \<Rightarrow> jstring option" where
  "sectionSubtitle section catalog =
     (if section = Computer
      then Some (lit ''Durable action history'' @ middot @ lit ''[ and ] inspect'' @ middot @
        lit ''p pause view'' @ middot @ lit ''l back to live'')
      else do {
        items \<leftarrow> as_arr catalog;
        matching \<leftarrow> filter_try (in_section section) items;
        Some (count_text (length matching) @ lit '' actions available'' @ middot @
          lit ''recent activity is kept within a safe limit'')
      })"

section \<open>Records on one line\<close>

definition arrayField :: "jsval \<Rightarrow> string \<Rightarrow> jsval list" where
  "arrayField value key = elems (fld value key)"

definition compactPayload :: "platform \<Rightarrow> jsval \<Rightarrow> jstring option" where
  "compactPayload pf value = do {
     encoded \<leftarrow> json_stringify pf value;
     Some (if length encoded > 96 then take 93 encoded @ ellipsis else encoded)
   }"

definition record_parts :: "jsval \<Rightarrow> string list \<Rightarrow> jstring list" where
  "record_parts value keys = concat (map (\<lambda>key. case fld value key of
       JStr field \<Rightarrow> if field \<noteq> [] then [underscores_to_spaces (lit key) @ lit '': '' @ field] else []
     | _ \<Rightarrow> []) keys)"

definition recordLine :: "platform \<Rightarrow> jsval \<Rightarrow> string list \<Rightarrow> jstring option" where
  "recordLine pf value keys =
     (if \<not> isRecord value then compactPayload pf value
      else let parts = record_parts value keys in
        if parts = [] then compactPayload pf value else Some (join middot parts))"

definition skill_lines :: "platform \<Rightarrow> jsval \<Rightarrow> string \<Rightarrow> jstring option list" where
  "skill_lines pf value status = map (\<lambda>item.
     map_option (\<lambda>line. lit status @ lit '': '' @ line)
       (recordLine pf item [''name'', ''skill_name'', ''status'', ''revision'']))
     (elems (fld value status))"

definition skillRows :: "platform \<Rightarrow> jsval \<Rightarrow> jstring list option" where
  "skillRows pf value = do {
     rows \<leftarrow> those (concat (map (skill_lines pf value)
       [''imported'', ''active'', ''proposed'', ''adopted'', ''rejected'', ''candidates'']));
     (if rows = [] \<and> has_keys value then map_option (\<lambda>t. [t]) (compactPayload pf value)
      else Some rows)
   }"

definition brief_item :: "jstring \<Rightarrow> jsval \<Rightarrow> jstring list" where
  "brief_item label item =
     (if \<not> isRecord item then []
      else case fld item ''summary'' of JStr summary \<Rightarrow> [label @ lit '': '' @ summary] | _ \<Rightarrow> [])"

definition brief_section :: "jsval \<Rightarrow> jstring list" where
  "brief_section section =
     (if \<not> isRecord section then []
      else concat (map (brief_item (case fld section ''label'' of JStr l \<Rightarrow> l | _ \<Rightarrow> lit ''Update''))
        (elems (fld section ''items''))))"

definition returnBriefRows :: "jsval \<Rightarrow> jstring list" where
  "returnBriefRows value = concat (map brief_section (elems (fld value ''sections'')))"

section \<open>Summaries\<close>

definition livingSummary :: "platform \<Rightarrow> jsval \<Rightarrow> jstring" where
  "livingSummary pf value =
     count_text (length (elems (fld value ''relationships''))) @ lit '' relationship contexts'' @ middot @
     lit ''task '' @ (case fld (fld value ''signals'') ''task_duration'' of
        JNum n \<Rightarrow> number_text pf n @ lit ''ns'' | _ \<Rightarrow> lit ''inactive'')"

definition soulSummary :: "platform \<Rightarrow> jsval \<Rightarrow> jstring" where
  "soulSummary pf value =
     lit ''SOUL v'' @ (case fld (fld value ''current'') ''number'' of JNum n \<Rightarrow> number_text pf n | _ \<Rightarrow> dash) @
     middot @ count_text (length (elems (fld value ''pending_proposals''))) @ lit '' proposals pending''"

definition workSummary :: "platform \<Rightarrow> jsval \<Rightarrow> jstring" where
  "workSummary pf value = (let contract = fld value ''contract'' in
     if \<not> is_object contract then lit ''Next: set an outcome contract''
     else let
       goal = (case fld contract ''goal'' of JStr s \<Rightarrow> s | _ \<Rightarrow> lit ''Current outcome'');
       following = (case fld value ''next_action'' of JStr s \<Rightarrow> s | _ \<Rightarrow> lit ''choose next action'');
       percent = (case fld value ''completion_percentage'' of JNum n \<Rightarrow> number_text pf n | _ \<Rightarrow> lit ''0'');
       summary = goal @ middot @ lit ''next: '' @ following @ middot @ percent @ lit ''% verified''
     in if length summary > 120 then take 117 summary @ ellipsis else summary)"

definition projectSummary :: "jsval \<Rightarrow> jstring" where
  "projectSummary value = (let projects = elems (fld value ''projects'') in
     count_text (length projects) @ lit '' software projects'' @ middot @
     count_text (length (filter (\<lambda>p. is_object p \<and> fld p ''lifecycle'' = JStr (lit ''ready'')) projects)) @
     lit '' ready'')"

section \<open>The specification under review\<close>

definition studioEntries :: "jsval \<Rightarrow> jsval list" where
  "studioEntries value = filter isRecord (elems (fld value ''intents''))"

text \<open>The first proposal of an intent that passes a test, as the pair of identifiers.\<close>

definition proposal_in :: "(jsval \<Rightarrow> bool) \<Rightarrow> jsval \<Rightarrow> (jstring \<times> jstring) option" where
  "proposal_in test intent = (case fld intent ''id'' of
      JStr intentID \<Rightarrow> first_some (\<lambda>proposal.
        if isRecord proposal \<and> test proposal
        then map_option (\<lambda>proposalID. (intentID, proposalID)) (as_str (fld proposal ''id'')) else None)
        (elems (fld intent ''proposals''))
    | _ \<Rightarrow> None)"

definition pendingStudioProposal :: "jsval \<Rightarrow> (jstring \<times> jstring) option" where
  "pendingStudioProposal value = first_some
     (proposal_in (\<lambda>r. fld r ''status'' = JStr (lit ''proposed''))) (studioEntries value)"

definition acceptedStudioProposal :: "jsval \<Rightarrow> (jstring \<times> jstring) option" where
  "acceptedStudioProposal value = first_some
     (proposal_in (\<lambda>r. fld r ''status'' = JStr (lit ''accepted'') \<and> fld r ''applied_at'' = JUndef))
     (studioEntries value)"

definition intent_goal :: "jsval \<Rightarrow> jstring" where
  "intent_goal intent = (case fld intent ''goal'' of JStr s \<Rightarrow> s | _ \<Rightarrow> lit ''Software change'')"

definition studioSummary :: "jsval \<Rightarrow> jstring" where
  "studioSummary value = (case studioEntries value of
      [] \<Rightarrow> lit ''No software specification is waiting''
    | intent # _ \<Rightarrow> intent_goal intent @ middot @
        (if pendingStudioProposal value \<noteq> None then lit ''decision needed''
         else if acceptedStudioProposal value \<noteq> None then lit ''accepted, ready to apply''
         else lit ''reviewed''))"

definition assumption_lines :: "platform \<Rightarrow> jsval \<Rightarrow> jstring list" where
  "assumption_lines pf item =
     (if \<not> isRecord item then []
      else let material = (fld item ''material'' = JBool True) in
        [(if material then lit ''Decision needed'' else lit ''Assumption'') @ lit '': '' @
         to_string pf (or_else (fld item ''statement'') (JStr []))] @
        (case (material, fld item ''decision_needed'') of
           (True, JStr d) \<Rightarrow> [lit ''  '' @ d] | _ \<Rightarrow> []))"

definition criterion_lines :: "platform \<Rightarrow> jsval \<Rightarrow> jstring list" where
  "criterion_lines pf item =
     (if isRecord item
      then [lit ''Success: '' @ to_string pf (or_else (fld item ''description'') (JStr []))] else [])"

definition proposal_lines :: "platform \<Rightarrow> jsval \<Rightarrow> jstring list" where
  "proposal_lines pf r = (let delta = (if isRecord (fld r ''delta'') then fld r ''delta'' else JObj []) in
     [lit ''Specification v'' @ to_string pf (or_else (fld r ''version'') (JStr dash)) @ middot @
      to_string pf (or_else (fld r ''status'') (JStr (lit ''proposed'')))] @
     (case fld r ''rationale'' of JStr s \<Rightarrow> [s] | _ \<Rightarrow> []) @
     map (\<lambda>behavior. lit ''Change: '' @ to_string pf behavior) (elems (fld delta ''user_visible_behavior'')) @
     concat (map (criterion_lines pf) (elems (fld delta ''acceptance_criteria''))))"

definition studioDetails :: "platform \<Rightarrow> jsval \<Rightarrow> jstring" where
  "studioDetails pf value = (case studioEntries value of
      [] \<Rightarrow> lit ''No software specification is waiting. Tell Ion what you want to build or change.''
    | intent # _ \<Rightarrow> join [10] ([intent_goal intent] @
        concat (map (assumption_lines pf) (elems (fld intent ''assumptions''))) @
        (case find isRecord (elems (fld intent ''proposals'')) of
           None \<Rightarrow> [] | Some r \<Rightarrow> proposal_lines pf r)))"

section \<open>Events\<close>

text \<open>\<open>value.source_references.length\<close> of an accepted payload.\<close>

definition source_count :: "jsval \<Rightarrow> nat" where
  "source_count value = length (elems (fld value ''source_references''))"

definition tool_summary :: "platform \<Rightarrow> jsval \<Rightarrow> jstring" where
  "tool_summary pf value =
     (if \<not> isComputerEventPayload pf value then lit ''Retained tool activity uses an unsupported version''
      else let plain = underscores_to_spaces (str_of (fld value ''tool'')) @ middot @ str_of (fld value ''phase'');
               dm = fld value ''display_model''
        in if dm = JUndef then plain
           else if displayModelCompatibility pf (source_count value) dm = Unsupported
           then lit ''Display version is not supported''
           else case migrateDisplayModel pf (source_count value) dm of
               None \<Rightarrow> plain
             | Some model \<Rightarrow> str_of (fld (fld model ''title'') ''value'') @ middot @
                 str_of (fld (fld model ''title'') ''truth''))"

definition detail_of :: "jsval \<Rightarrow> jstring" where
  "detail_of value = (case first_some (\<lambda>key. case fld value key of
         JStr d \<Rightarrow> if d \<noteq> [] then Some d else None | _ \<Rightarrow> None)
       [''content'', ''message'', ''consequence'', ''status'', ''name''] of
      None \<Rightarrow> lit ''Details recorded''
    | Some detail \<Rightarrow> if length detail > 96 then take 93 detail @ ellipsis else detail)"

definition eventSummary :: "platform \<Rightarrow> jstring \<Rightarrow> jsval \<Rightarrow> jstring" where
  "eventSummary pf type value =
     (if starts_with ''tool.'' type then tool_summary pf value
      else if \<not> isRecord value then (if nullish value then lit ''Details recorded'' else to_string pf value)
      else detail_of value)"

definition humanize :: "jstring \<Rightarrow> jstring" where
  "humanize value = (case underscores_to_spaces value of [] \<Rightarrow> [] | u # s \<Rightarrow> upper_unit u # s)"

definition event_labels :: "(string \<times> string) list" where
  "event_labels = [(''agent.started'', ''Helper started''), (''agent.completed'', ''Helper finished''),
     (''approval.requested'', ''Decision needed''), (''approval.responded'', ''Decision recorded''),
     (''memory.activated'', ''Saved knowledge used''), (''policy.allowed'', ''Safety checks passed''),
     (''policy.denied'', ''Action blocked''), (''prediction.created'', ''Forecast recorded''),
     (''premise.created'', ''Assumption recorded''), (''reasoning.summary'', ''Reasoning summary''),
     (''task.completed'', ''Task finished''), (''task.started'', ''Task started''),
     (''tool.completed'', ''Action finished''), (''tool.failed'', ''Action failed''),
     (''tool.started'', ''Action started''), (''turn.completed'', ''Response complete''),
     (''turn.incomplete'', ''Work paused with progress saved''), (''turn.recovery'', ''Work recovery started''),
     (''turn.failed'', ''Request failed''), (''turn.started'', ''Request started''),
     (''workspace.operation.queued'', ''Workspace operation queued''),
     (''workspace.operation.started'', ''Workspace operation started''),
     (''workspace.operation.progress'', ''Workspace operation progressing''),
     (''workspace.operation.completed'', ''Workspace operation completed''),
     (''workspace.operation.failed'', ''Workspace operation failed''),
     (''workspace.operation.cancelled'', ''Workspace operation cancelled'')]"

definition eventTitle :: "jstring \<Rightarrow> jstring" where
  "eventTitle type = (case table_get event_labels type of
      Some label \<Rightarrow> lit label
    | None \<Rightarrow> join middot (map humanize (split_on 46 type)))"

definition eventColor :: "jstring \<Rightarrow> string" where
  "eventColor type =
     (if starts_with ''approval.'' type \<or> starts_with ''policy.'' type then ''yellow''
      else if starts_with ''security.'' type \<or> ends_with ''.failed'' type then ''red''
      else if starts_with ''memory.'' type \<or> starts_with ''premise.'' type then ''magenta''
      else ''cyan'')"

section \<open>Slash commands\<close>

record suggestion =
  sg_operation :: jstring
  sg_description :: jsval

definition local_commands :: "suggestion list" where
  "local_commands = map (\<lambda>(operation, description).
       \<lparr>sg_operation = lit operation, sg_description = JStr (lit description)\<rparr>)
     [(''help'', ''Show slash command help''), (''settings'', ''Show current settings''),
      (''new'', ''Start a new conversation'')]"

text \<open>The operation of a catalogue entry is a string, or calling \<open>toLowerCase\<close> on it throws.\<close>

definition discovered_command :: "jsval \<Rightarrow> suggestion option" where
  "discovered_command item = map_option (\<lambda>operation.
       \<lparr>sg_operation = operation, sg_description = fld item ''description''\<rparr>)
     (as_str (fld item ''operation''))"

definition slashSuggestions :: "jsval \<Rightarrow> jstring \<Rightarrow> suggestion list option" where
  "slashSuggestions catalog draft =
     (if \<not> starts_with ''/'' draft \<or> 32 \<in> set draft then Some []
      else do {
        items \<leftarrow> available_items catalog;
        discovered \<leftarrow> those (map discovered_command items);
        Some (take 7 (filter (\<lambda>item. prefix (to_lower (drop 1 draft)) (to_lower (sg_operation item)))
          (local_commands @ discovered)))
      })"

end
