(* ===== verification/Numbers.thy ===== *)
theory Numbers
  imports JsonParse
begin

text \<open>
  Two conversions of the language that the terminal client uses: \<open>Number(s)\<close> of a string and the
  comparison of strings with \<open><=\<close>.
\<close>

section \<open>The number of a string\<close>

text \<open>A decimal literal with an optional sign; unlike JSON it may have leading zeros or miss a part.\<close>

definition point_digits :: "jstring \<Rightarrow> jstring \<times> jstring" where
  "point_digits s = (case s of
      [] \<Rightarrow> ([], [])
    | u # r \<Rightarrow> if u = 46 then take_digits r else ([], s))"

definition decimal_literal :: "jstring \<Rightarrow> jsnum option" where
  "decimal_literal t =
     (let (neg, s) = (case t of [] \<Rightarrow> (False, [])
        | u # r \<Rightarrow> if u = 45 then (True, r) else if u = 43 then (False, r) else (False, t)) in
      if s = lit ''Infinity'' then Some (if neg then NegInf else PosInf)
      else let (ds, r) = take_digits s; (fs, r') = point_digits r in
        if ds = [] \<and> fs = [] then None
        else case exponent_part r' of
            Some (e, []) \<Rightarrow> Some (to_double (decimal_rat neg ds fs e))
          | _ \<Rightarrow> None)"

fun radix_value :: "nat \<Rightarrow> nat \<Rightarrow> jstring \<Rightarrow> nat option" where
  "radix_value b acc [] = Some acc"
| "radix_value b acc (u # s) = (case hex_value u of
      Some d \<Rightarrow> if d < b then radix_value b (b * acc + d) s else None
    | None \<Rightarrow> None)"

definition radix_literal :: "jstring \<Rightarrow> jsnum option" where
  "radix_literal t = (case t of
      z # x # d # s \<Rightarrow>
        if z \<noteq> 48 then None
        else map_option (\<lambda>n. to_double (of_nat n))
          (if x = 120 \<or> x = 88 then radix_value 16 0 (d # s)
           else if x = 111 \<or> x = 79 then radix_value 8 0 (d # s)
           else if x = 98 \<or> x = 66 then radix_value 2 0 (d # s) else None)
    | _ \<Rightarrow> None)"

definition js_number :: "jstring \<Rightarrow> jsnum" where
  "js_number s = (let t = trim s in
     if t = [] then Fin 0
     else case radix_literal t of Some n \<Rightarrow> n
       | None \<Rightarrow> (case decimal_literal t of Some n \<Rightarrow> n | None \<Rightarrow> NaN))"

section \<open>The order of strings\<close>

fun string_le :: "jstring \<Rightarrow> jstring \<Rightarrow> bool" where
  "string_le [] t = True"
| "string_le (u # s) [] = False"
| "string_le (u # s) (v # t) = (u < v \<or> u = v \<and> string_le s t)"

end
