(* ===== verification/OperatorState.thy ===== *)
theory OperatorState
  imports ComputerEvent Dict
begin

text \<open>
  The operator state and its reducer, \<open>ui/shared/src/state/events.ts\<close>: the events applied one by
  one, the recovery of a connection from a snapshot and a replay, and the bounded list of Computer
  activities.

  \<open>applyEvent\<close> returns the object it was given when the event is stale and a new one otherwise;
  the store compares the two by identity, so the model returns a \<open>'a update\<close>. The dictionaries
  are \<open>'v dict\<close>, in property order.
\<close>

datatype 'a update = Same | Fresh 'a

fun updated :: "'a \<Rightarrow> 'a update \<Rightarrow> 'a" where
  "updated old Same = old"
| "updated old (Fresh new) = new"

section \<open>State\<close>

datatype turn_status =
  Running | Recovering | Incomplete | Completed | Failed | Cancelled | Interrupted

record turn_state =
  ts_id :: jstring
  ts_session_id :: "jstring option"
  ts_status :: turn_status
  ts_last_sequence :: int

record approval_state =
  ap_id :: jstring
  ap_session_id :: "jstring option"
  ap_turn_id :: "jstring option"
  ap_payload :: jsval
  ap_last_sequence :: int

text \<open>\<open>ca_phase\<close> is a phase of the protocol or \<open>unsupported\<close>.\<close>

record computer_activity =
  ca_id :: jstring
  ca_provider_tool_call_id :: "jstring option"
  ca_tool :: "jstring option"
  ca_operation :: "jstring option"
  ca_agent_id :: "jstring option"
  ca_phase :: jstring
  ca_terminal :: bool
  ca_unsupported :: bool
  ca_conflict :: bool
  ca_first_sequence :: int
  ca_last_sequence :: int
  ca_latest_event_id :: jstring
  ca_payload :: "jsval option"

record operator_state =
  last_sequence :: int
  gap :: bool
  os_snapshot :: "jsval option"
  recent_events :: "event_envelope list"
  turns :: "turn_state dict"
  pending_approvals :: "approval_state dict"
  computer_activities :: "computer_activity dict"
  computer_order :: "jstring list"

definition emptyOperatorState :: operator_state where
  "emptyOperatorState = \<lparr>last_sequence = 0, gap = False, os_snapshot = None, recent_events = [],
     turns = [], pending_approvals = [], computer_activities = [], computer_order = []\<rparr>"

section \<open>Computer activities\<close>

definition isTerminalComputerPhase :: "jstring \<Rightarrow> bool" where
  "isTerminalComputerPhase phase =
     one_of [''completed'', ''failed'', ''denied'', ''interrupted'', ''outcome_unknown''] phase"

text \<open>The order and the activities after \<open>toolID\<close> was recorded: at most 1000 entries are kept.\<close>

definition is_terminal_activity :: "computer_activity dict \<Rightarrow> jstring \<Rightarrow> bool" where
  "is_terminal_activity activities i =
     (case dict_get activities i of None \<Rightarrow> False | Some a \<Rightarrow> ca_terminal a)"

definition boundedComputerOrder ::
    "jstring list \<Rightarrow> computer_activity dict \<Rightarrow> jstring \<Rightarrow>
     jstring list \<times> computer_activity dict" where
  "boundedComputerOrder previous activities toolID =
     (let order = (if List.member previous toolID then previous else previous @ [toolID]) in
      if length order \<le> 1000 then (order, activities)
      else case find (is_terminal_activity activities) order of
        None \<Rightarrow> (slice_last 1000 order, activities)
      | Some removable \<Rightarrow>
          (filter (\<lambda>i. i \<noteq> removable) order, dict_del removable activities))"

definition record_activity ::
    "operator_state \<Rightarrow> jstring \<Rightarrow> computer_activity \<Rightarrow> operator_state" where
  "record_activity s toolID a =
     (let activities = dict_put toolID a (computer_activities s);
          (order, kept) = boundedComputerOrder (computer_order s) activities toolID
      in s\<lparr>computer_activities := kept, computer_order := order\<rparr>)"

definition unsupported_activity :: "jstring \<Rightarrow> event_envelope \<Rightarrow> computer_activity" where
  "unsupported_activity toolID event =
     \<lparr>ca_id = toolID, ca_provider_tool_call_id = None, ca_tool = None, ca_operation = None,
      ca_agent_id = None, ca_phase = lit ''unsupported'', ca_terminal = False, ca_unsupported = True,
      ca_conflict = False, ca_first_sequence = sequence event, ca_last_sequence = sequence event,
      ca_latest_event_id = event_id event, ca_payload = None\<rparr>"

definition supported_activity ::
    "jstring \<Rightarrow> event_envelope \<Rightarrow> computer_activity option \<Rightarrow> computer_activity" where
  "supported_activity toolID event existing = (let p = payload event in
     \<lparr>ca_id = toolID, ca_provider_tool_call_id = as_str (fld p ''provider_tool_call_id''),
      ca_tool = as_str (fld p ''tool''), ca_operation = as_str (fld p ''operation''),
      ca_agent_id = as_str (fld (fld p ''scope'') ''agent_id''),
      ca_phase = str_of (fld p ''phase''),
      ca_terminal = isTerminalComputerPhase (str_of (fld p ''phase'')), ca_unsupported = False,
      ca_conflict = (case existing of None \<Rightarrow> False | Some a \<Rightarrow> ca_conflict a),
      ca_first_sequence = (case existing of None \<Rightarrow> sequence event | Some a \<Rightarrow> ca_first_sequence a),
      ca_last_sequence = sequence event, ca_latest_event_id = event_id event,
      ca_payload = Some p\<rparr>)"

definition computer_event_types :: "string list" where
  "computer_event_types = [''tool.requested'', ''tool.awaiting_approval'', ''tool.started'',
     ''tool.delta'', ''tool.completed'', ''tool.failed'', ''tool.denied'', ''tool.interrupted'',
     ''tool.outcome_unknown'']"

definition applyComputerEvent ::
    "platform \<Rightarrow> operator_state \<Rightarrow> event_envelope \<Rightarrow> operator_state" where
  "applyComputerEvent pf s event =
     (if \<not> one_of computer_event_types (ev_type event) then s
      else case c_tool_id (correlation event) of
        None \<Rightarrow> s
      | Some toolID \<Rightarrow>
          (let p = payload event; existing = dict_get (computer_activities s) toolID in
           if \<not> isComputerEventPayload pf p
           then (case existing of
                Some _ \<Rightarrow> s
              | None \<Rightarrow> record_activity s toolID (unsupported_activity toolID event))
           else if fld p ''tool_event_id'' \<noteq> JStr toolID \<or>
               fld (fld p ''scope'') ''actor_id'' \<noteq> JStr (c_actor_id (correlation event))
           then s
           else (case existing of
                Some a \<Rightarrow>
                  if ca_terminal a
                  then if isTerminalComputerPhase (str_of (fld p ''phase'')) \<and>
                         ca_phase a \<noteq> str_of (fld p ''phase'')
                       then s\<lparr>computer_activities :=
                         dict_put toolID (a\<lparr>ca_conflict := True\<rparr>) (computer_activities s)\<rparr>
                       else s
                  else record_activity s toolID (supported_activity toolID event existing)
              | None \<Rightarrow> record_activity s toolID (supported_activity toolID event existing))))"

section \<open>Turns and approvals\<close>

definition incomplete_status :: "jsval \<Rightarrow> turn_status" where
  "incomplete_status p =
     (if fld p ''final_honest_partial'' = JBool False then Recovering else Incomplete)"

definition apply_turn_event :: "turn_state dict \<Rightarrow> event_envelope \<Rightarrow> turn_state dict" where
  "apply_turn_event ts event =
     (case c_turn_id (correlation event) of
        None \<Rightarrow> ts
      | Some turnID \<Rightarrow>
          if ev_type event = lit ''turn.started'' then
            dict_put turnID \<lparr>ts_id = turnID, ts_session_id = c_session_id (correlation event),
              ts_status = Running, ts_last_sequence = sequence event\<rparr> ts
          else if ev_type event = lit ''turn.recovery'' \<or> ev_type event = lit ''turn.incomplete'' \<or>
            ev_type event = lit ''turn.completed'' \<or> ev_type event = lit ''turn.failed'' then
            dict_put turnID
              \<lparr>ts_id = turnID,
               ts_session_id = Option.bind (dict_get ts turnID) ts_session_id,
               ts_status =
                 (if ev_type event = lit ''turn.recovery'' then Recovering
                  else if ev_type event = lit ''turn.incomplete'' then
                    incomplete_status (payload event)
                  else if ev_type event = lit ''turn.completed'' then Completed else Failed),
               ts_last_sequence = sequence event\<rparr> ts
          else ts)"

text \<open>\<open>asRecord\<close> and \<open>asUUID\<close>: reading a property of \<open>undefined\<close> through \<open>?.\<close> is \<open>fld\<close>.\<close>

definition asRecord :: "jsval \<Rightarrow> jsval option" where
  "asRecord v = (if isRecord v then Some v else None)"

definition asUUID :: "jsval \<Rightarrow> jstring option" where
  "asUUID v = as_str v"

definition apply_approval_event ::
    "approval_state dict \<Rightarrow> event_envelope \<Rightarrow> approval_state dict" where
  "apply_approval_event as event =
     (case asUUID (fld (payload event) ''approval_id'') of
        None \<Rightarrow> as
      | Some approvalID \<Rightarrow>
          if ev_type event = lit ''approval.requested'' then
            dict_put approvalID
              \<lparr>ap_id = approvalID, ap_session_id = c_session_id (correlation event),
               ap_turn_id = c_turn_id (correlation event), ap_payload = payload event,
               ap_last_sequence = sequence event\<rparr> as
          else if ev_type event = lit ''approval.resolved'' \<or> ev_type event = lit ''approval.expired''
          then dict_del approvalID as
          else as)"

section \<open>The reducer\<close>

definition applyEvent :: "platform \<Rightarrow> operator_state \<Rightarrow> event_envelope \<Rightarrow> operator_state update" where
  "applyEvent pf previous event =
     (if sequence event \<le> last_sequence previous then Same
      else
        let next = previous\<lparr>last_sequence := sequence event,
              recent_events := slice_last 999 (recent_events previous) @ [event]\<rparr>;
            next = next\<lparr>turns := apply_turn_event (turns next) event\<rparr>;
            next = applyComputerEvent pf next event
        in Fresh (next\<lparr>pending_approvals :=
             apply_approval_event (pending_approvals next) event\<rparr>))"

definition step_event :: "platform \<Rightarrow> event_envelope \<Rightarrow> operator_state \<Rightarrow> operator_state" where
  "step_event pf event s = updated s (applyEvent pf s event)"

section \<open>Recovery\<close>

definition turn_status_of :: "jsval \<Rightarrow> turn_status" where
  "turn_status_of v = (case as_str v of
      None \<Rightarrow> Running
    | Some r \<Rightarrow>
        (case table_get [(''recovering'', Recovering), (''incomplete'', Incomplete),
            (''completed'', Completed), (''failed'', Failed), (''cancelled'', Cancelled),
            (''interrupted'', Interrupted)] r of
           None \<Rightarrow> Running | Some st \<Rightarrow> st))"

text \<open>The entries the loop over \<open>snapshot.active_turns\<close> assigns, in the order of the loop.\<close>

definition active_turn_entry :: "int \<Rightarrow> jsval \<Rightarrow> (jstring \<times> turn_state) option" where
  "active_turn_entry seq v =
     (case asUUID (fld v ''turn_id'') of
        None \<Rightarrow> None
      | Some turnID \<Rightarrow> Some (turnID,
          \<lparr>ts_id = turnID, ts_session_id = asUUID (fld v ''session_id''),
           ts_status = turn_status_of (fld v ''status''), ts_last_sequence = seq\<rparr>))"

definition active_turn_entries :: "int \<Rightarrow> jsval list \<Rightarrow> (jstring \<times> turn_state) list" where
  "active_turn_entries seq vs = List.map_filter (active_turn_entry seq) vs"

definition is_live :: "turn_status \<Rightarrow> bool" where
  "is_live st \<longleftrightarrow> st = Running \<or> st = Recovering"

definition snapshot_field :: "jsval option \<Rightarrow> string \<Rightarrow> jsval" where
  "snapshot_field snap k = (case snap of None \<Rightarrow> JUndef | Some v \<Rightarrow> fld v k)"

definition reconcileActiveTurns :: "operator_state \<Rightarrow> jsval option \<Rightarrow> int \<Rightarrow> operator_state" where
  "reconcileActiveTurns s snap seq =
     (case snapshot_field snap ''active_turns'' of
        JArr active \<Rightarrow>
          (let entries = active_turn_entries seq active;
               assigned = foldl (\<lambda>m (k, t). dict_put k t m) (turns s) entries
           in s\<lparr>turns := filter (\<lambda>(k, t).
                \<not> (is_live (ts_status t) \<and> k \<notin> fst ` set entries)) assigned\<rparr>)
      | _ \<Rightarrow> s)"

definition pending_approval_entry :: "int \<Rightarrow> jsval \<Rightarrow> (jstring \<times> approval_state) option" where
  "pending_approval_entry seq v =
     (case (case asUUID (fld v ''id'') of Some i \<Rightarrow> Some i | None \<Rightarrow> asUUID (fld v ''approval_id'')) of
        None \<Rightarrow> None
      | Some approvalID \<Rightarrow> Some (approvalID,
          \<lparr>ap_id = approvalID, ap_session_id = asUUID (fld v ''session_id''),
           ap_turn_id = asUUID (fld v ''turn_id''), ap_payload = v, ap_last_sequence = seq\<rparr>))"

definition pending_approval_entries ::
    "int \<Rightarrow> jsval list \<Rightarrow> (jstring \<times> approval_state) list" where
  "pending_approval_entries seq vs = List.map_filter (pending_approval_entry seq) vs"

definition reconcilePendingApprovals ::
    "operator_state \<Rightarrow> jsval option \<Rightarrow> int \<Rightarrow> operator_state" where
  "reconcilePendingApprovals s snap seq =
     (case snapshot_field snap ''pending_approvals'' of
        JArr pending \<Rightarrow>
          s\<lparr>pending_approvals :=
            foldl (\<lambda>m (k, a). dict_put k a m) [] (pending_approval_entries seq pending)\<rparr>
      | _ \<Rightarrow> s)"

definition applyRecovery ::
    "platform \<Rightarrow> operator_state \<Rightarrow> recovery_envelope \<Rightarrow> operator_state" where
  "applyRecovery pf previous recovery =
     (let s = (case snapshot recovery of
            None \<Rightarrow> previous
          | Some snap \<Rightarrow> emptyOperatorState\<lparr>os_snapshot := Some snap,
              gap := (gap_marker recovery \<noteq> None)\<rparr>);
          s = fold (step_event pf) (events (replay recovery)) s;
          s = reconcileActiveTurns s (snapshot recovery) (latest_sequence (replay recovery));
          s = reconcilePendingApprovals s (snapshot recovery) (latest_sequence (replay recovery))
      in s\<lparr>last_sequence := max (last_sequence s) (latest_sequence (replay recovery))\<rparr>)"

section \<open>What each part of a step leaves alone\<close>

lemma updated_cases: "(u = Same \<Longrightarrow> P old) \<Longrightarrow> (\<And>new. u = Fresh new \<Longrightarrow> P new) \<Longrightarrow> P (updated old u)"
  by (cases u) auto

lemma record_activity_frame [simp]:
  "last_sequence (record_activity s i a) = last_sequence s"
  "recent_events (record_activity s i a) = recent_events s"
  "turns (record_activity s i a) = turns s"
  "pending_approvals (record_activity s i a) = pending_approvals s"
  "os_snapshot (record_activity s i a) = os_snapshot s"
  "gap (record_activity s i a) = gap s"
  by (simp_all add: record_activity_def Let_def split: prod.splits)

text \<open>The ways a Computer event can change the state; every property of it is proved over these.\<close>

lemma applyComputerEvent_cases:
  obtains (unchanged) "applyComputerEvent pf s event = s"
  | (recorded) i a where "applyComputerEvent pf s event = record_activity s i a" "ca_id a = i"
      "c_tool_id (correlation event) = Some i"
      "ca_terminal a = isTerminalComputerPhase (ca_phase a)" "ca_last_sequence a = sequence event"
      "\<forall>b. dict_get (computer_activities s) i = Some b \<longrightarrow> \<not> ca_terminal b"
  | (conflict) i a where "dict_get (computer_activities s) i = Some a" "ca_terminal a"
      "applyComputerEvent pf s event = s\<lparr>computer_activities :=
         dict_put i (a\<lparr>ca_conflict := True\<rparr>) (computer_activities s)\<rparr>"
proof -
  note defs = applyComputerEvent_def Let_def
  show thesis
  proof (cases "one_of computer_event_types (ev_type event)")
    case False
    then show thesis using unchanged by (simp add: defs)
  next
    case typed: True
    show thesis
    proof (cases "c_tool_id (correlation event)")
      case None
      then show thesis using unchanged by (simp add: defs)
    next
      case (Some i)
      let ?old = "dict_get (computer_activities s) i"
      have supp: "ca_id (supported_activity i event ?old) = i"
        "ca_terminal (supported_activity i event ?old) =
           isTerminalComputerPhase (ca_phase (supported_activity i event ?old))"
        "ca_last_sequence (supported_activity i event ?old) = sequence event"
        by (simp_all add: supported_activity_def Let_def)
      have unsupp: "ca_id (unsupported_activity i event) = i"
        "ca_terminal (unsupported_activity i event) =
           isTerminalComputerPhase (ca_phase (unsupported_activity i event))"
        "ca_last_sequence (unsupported_activity i event) = sequence event"
        by (simp_all add: unsupported_activity_def isTerminalComputerPhase_def)
      note here = defs typed Some
      consider (bad) "\<not> isComputerEventPayload pf (payload event)" "?old = None"
        | (skip) "\<not> isComputerEventPayload pf (payload event)" "?old \<noteq> None"
        | (foreign) "isComputerEventPayload pf (payload event)"
            "fld (payload event) ''tool_event_id'' \<noteq> JStr i \<or>
             fld (fld (payload event) ''scope'') ''actor_id'' \<noteq> JStr (c_actor_id (correlation event))"
        | (ended) a where "?old = Some a" "ca_terminal a" "isComputerEventPayload pf (payload event)"
        | (live) "\<forall>a. ?old = Some a \<longrightarrow> \<not> ca_terminal a" "isComputerEventPayload pf (payload event)"
            "\<not> (fld (payload event) ''tool_event_id'' \<noteq> JStr i \<or>
             fld (fld (payload event) ''scope'') ''actor_id'' \<noteq> JStr (c_actor_id (correlation event)))"
        by blast
      then show thesis
      proof cases
        case bad
        then show thesis
          by (intro recorded [OF _ unsupp(1) Some unsupp(2,3)]) (simp_all add: here)
      next
        case skip
        then show thesis by (intro unchanged) (auto simp: here)
      next
        case foreign
        then show thesis by (intro unchanged) (simp add: here)
      next
        case (ended a)
        then have "applyComputerEvent pf s event = s \<or>
            applyComputerEvent pf s event = s\<lparr>computer_activities :=
              dict_put i (a\<lparr>ca_conflict := True\<rparr>) (computer_activities s)\<rparr>"
          by (simp add: here)
        then show thesis using unchanged conflict ended by blast
      next
        case live
        then show thesis
          by (intro recorded [OF _ supp(1) Some supp(2,3)])
            (auto simp: here split: option.splits)
      qed
    qed
  qed
qed

lemma applyComputerEvent_frame [simp]:
  "last_sequence (applyComputerEvent pf s event) = last_sequence s"
  "recent_events (applyComputerEvent pf s event) = recent_events s"
  "turns (applyComputerEvent pf s event) = turns s"
  "pending_approvals (applyComputerEvent pf s event) = pending_approvals s"
  "os_snapshot (applyComputerEvent pf s event) = os_snapshot s"
  "gap (applyComputerEvent pf s event) = gap s"
  by (rule applyComputerEvent_cases [of pf s event]; simp)+

lemma step_event_stale: "sequence e \<le> last_sequence s \<Longrightarrow> step_event pf e s = s"
  by (simp add: step_event_def applyEvent_def)

lemma step_event_fresh:
  assumes "last_sequence s < sequence e"
  shows "last_sequence (step_event pf e s) = sequence e"
    "recent_events (step_event pf e s) = slice_last 999 (recent_events s) @ [e]"
    "turns (step_event pf e s) = apply_turn_event (turns s) e"
    "pending_approvals (step_event pf e s) = apply_approval_event (pending_approvals s) e"
    "gap (step_event pf e s) = gap s" "os_snapshot (step_event pf e s) = os_snapshot s"
  using assms by (simp_all add: step_event_def applyEvent_def Let_def)

lemma last_sequence_step_event: "last_sequence (step_event pf e s) = max (last_sequence s) (sequence e)"
  by (cases "sequence e \<le> last_sequence s") (simp_all add: step_event_stale step_event_fresh)

end
