(* ===== verification/OperatorInvariants.thy ===== *)
theory OperatorInvariants
  imports OperatorState
begin

text \<open>
  The invariant of the reducer \<open>ui/shared/src/state/events.ts\<close> and the lemmas its properties
  rest on: repeated delivery (proved once for any reducer that skips stale events, in the locale
  \<open>sequenced_reducer\<close>), the outcomes of \<open>boundedComputerOrder\<close>, the reconciliation of a
  recovery snapshot, the reachable states and the approvals over a log of events.
\<close>

section \<open>Reducers that skip stale events\<close>

locale sequenced_reducer =
  fixes step :: "'e \<Rightarrow> 's \<Rightarrow> 's"
    and seq_of :: "'e \<Rightarrow> int"
    and last_of :: "'s \<Rightarrow> int"
  assumes stale: "seq_of e \<le> last_of s \<Longrightarrow> step e s = s"
    and last_step: "last_of (step e s) = max (last_of s) (seq_of e)"
begin

lemma last_run_ge: "last_of s \<le> last_of (fold step es s)"
proof (induction es arbitrary: s)
  case (Cons e es)
  have "last_of s \<le> last_of (step e s)" by (simp add: last_step)
  also have "\<dots> \<le> last_of (fold step es (step e s))" by (rule Cons.IH)
  finally show ?case by simp
qed simp

lemma seq_le_last_run: "e \<in> set es \<Longrightarrow> seq_of e \<le> last_of (fold step es s)"
proof (induction es arbitrary: s)
  case (Cons x es)
  have "seq_of x \<le> last_of (step x s)" by (simp add: last_step)
  also have "\<dots> \<le> last_of (fold step es (step x s))" by (rule last_run_ge)
  finally show ?case using Cons by auto
qed simp

lemma stale_run: "(\<And>e. e \<in> set es \<Longrightarrow> seq_of e \<le> last_of s) \<Longrightarrow> fold step es s = s"
  by (induction es) (simp_all add: stale)

text \<open>Events that were applied before can be delivered again at any later time.\<close>

lemma redelivery: "set ys \<subseteq> set xs \<Longrightarrow> fold step (xs @ ys @ zs) s = fold step (xs @ zs) s"
proof -
  assume "set ys \<subseteq> set xs"
  then have "fold step ys (fold step xs s) = fold step xs s"
    by (auto intro: stale_run seq_le_last_run)
  then show ?thesis by simp
qed

text \<open>A client that saw \<open>n\<close> events and reconnects after the first \<open>m\<close> of them.\<close>

lemma reconnect:
  assumes "m \<le> n"
  shows "fold step (take n es @ drop m es) s = fold step es s"
proof -
  have "drop m (take n es @ drop n es) =
      drop m (take n es) @ drop (m - length (take n es)) (drop n es)"
    by (rule drop_append)
  moreover have "drop (m - length (take n es)) (drop n es) = drop n es"
    using assms by (cases "n \<le> length es") simp_all
  ultimately have split: "drop m es = drop m (take n es) @ drop n es" by simp
  have "set (drop m (take n es)) \<subseteq> set (take n es)" by (rule set_drop_subset)
  then show ?thesis
    unfolding split by (simp only: redelivery append_take_drop_id)
qed

end

interpretation reducer: sequenced_reducer "step_event pf" sequence last_sequence
  by unfold_locales (simp_all add: step_event_stale last_sequence_step_event)

section \<open>The invariant\<close>

definition keyed :: "('v \<Rightarrow> jstring) \<Rightarrow> 'v dict \<Rightarrow> bool" where
  "keyed f d \<longleftrightarrow> dict_ok d \<and> (\<forall>k v. dict_get d k = Some v \<longrightarrow> f v = k)"

text \<open>All entries are at most as new as \<open>b\<close>; \<open>b\<close> is the state's own position between steps.\<close>

definition operator_inv :: "int \<Rightarrow> operator_state \<Rightarrow> bool" where
  "operator_inv b s \<longleftrightarrow>
     keyed ts_id (turns s) \<and> keyed ap_id (pending_approvals s) \<and>
     keyed ca_id (computer_activities s) \<and>
     length (recent_events s) \<le> 1000 \<and> sorted_wrt (<) (map sequence (recent_events s)) \<and>
     (\<forall>e \<in> set (recent_events s). sequence e \<le> b) \<and>
     distinct (computer_order s) \<and> length (computer_order s) \<le> 1000 \<and>
     set (computer_order s) \<subseteq> set (dict_keys (computer_activities s)) \<and>
     (\<forall>k t. dict_get (turns s) k = Some t \<longrightarrow> ts_last_sequence t \<le> b) \<and>
     (\<forall>k a. dict_get (pending_approvals s) k = Some a \<longrightarrow> ap_last_sequence a \<le> b) \<and>
     (\<forall>k a. dict_get (computer_activities s) k = Some a \<longrightarrow>
        ca_terminal a = isTerminalComputerPhase (ca_phase a) \<and> ca_last_sequence a \<le> b)"

definition operator_ok :: "operator_state \<Rightarrow> bool" where
  "operator_ok s = operator_inv (last_sequence s) s"

lemma operator_inv_mono: "operator_inv b s \<Longrightarrow> b \<le> c \<Longrightarrow> operator_inv c s"
  unfolding operator_inv_def by (meson order_trans)

lemma keyed_put [intro]: "keyed f d \<Longrightarrow> f v = k \<Longrightarrow> keyed f (dict_put k v d)"
  by (auto simp: keyed_def)

lemma keyed_del [intro]: "keyed f d \<Longrightarrow> keyed f (dict_del k d)"
  by (auto simp: keyed_def split: if_splits)

lemma keyed_empty [simp]: "keyed f []"
  by (simp add: keyed_def)

lemma operator_ok_empty: "operator_ok emptyOperatorState"
  by (simp add: operator_ok_def operator_inv_def emptyOperatorState_def)

subsection \<open>One event\<close>

lemma keyed_apply_turn_event: "keyed ts_id ts \<Longrightarrow> keyed ts_id (apply_turn_event ts e)"
  by (auto simp: apply_turn_event_def split: option.splits)

lemma keyed_apply_approval_event: "keyed ap_id as \<Longrightarrow> keyed ap_id (apply_approval_event as e)"
  by (auto simp: apply_approval_event_def split: option.splits)

lemma apply_turn_event_bound:
  assumes "\<forall>k t. dict_get ts k = Some t \<longrightarrow> ts_last_sequence t \<le> b" "b \<le> sequence e"
  shows "\<forall>k t. dict_get (apply_turn_event ts e) k = Some t \<longrightarrow> ts_last_sequence t \<le> sequence e"
  using assms by (force simp: apply_turn_event_def split: option.splits if_splits)

lemma apply_approval_event_bound:
  assumes "\<forall>k a. dict_get as k = Some a \<longrightarrow> ap_last_sequence a \<le> b" "b \<le> sequence e"
  shows "\<forall>k a. dict_get (apply_approval_event as e) k = Some a \<longrightarrow> ap_last_sequence a \<le> sequence e"
  using assms by (force simp: apply_approval_event_def split: option.splits if_splits)

text \<open>The three outcomes: everything fits, a terminal activity is evicted, the oldest is dropped.\<close>

definition order_with :: "jstring list \<Rightarrow> jstring \<Rightarrow> jstring list" where
  "order_with xs i = (if List.member xs i then xs else xs @ [i])"

lemma boundedComputerOrder_cases:
  assumes "boundedComputerOrder xs d i = (ys, d')"
  obtains (fits) "length (order_with xs i) \<le> 1000" "ys = order_with xs i" "d' = d"
  | (dropped) "\<not> length (order_with xs i) \<le> 1000" "ys = slice_last 1000 (order_with xs i)" "d' = d"
      "\<forall>j \<in> set (order_with xs i). \<not> is_terminal_activity d j"
  | (evicted) r where "\<not> length (order_with xs i) \<le> 1000" "r \<in> set (order_with xs i)"
      "is_terminal_activity d r" "ys = filter (\<lambda>j. j \<noteq> r) (order_with xs i)" "d' = dict_del r d"
proof -
  define order where "order = order_with xs i"
  have eq: "boundedComputerOrder xs d i = (if length order \<le> 1000 then (order, d)
      else case find (is_terminal_activity d) order of None \<Rightarrow> (slice_last 1000 order, d)
        | Some r \<Rightarrow> (filter (\<lambda>j. j \<noteq> r) order, dict_del r d))"
    by (simp only: boundedComputerOrder_def order_def order_with_def Let_def)
  show thesis
  proof (cases "length order \<le> 1000")
    case True
    with assms show thesis by (intro fits) (simp_all add: eq order_def)
  next
    case long: False
    show thesis
    proof (cases "find (is_terminal_activity d) order")
      case None
      then have "\<forall>j \<in> set order. \<not> is_terminal_activity d j" by (simp add: find_None_iff)
      with None assms long show thesis by (intro dropped) (simp_all add: eq order_def)
    next
      case (Some r)
      then have "r \<in> set order" "is_terminal_activity d r"
        by (metis find_Some_iff nth_mem)+
      with Some assms long show thesis by (intro evicted [of r]) (simp_all add: eq order_def)
    qed
  qed
qed

text \<open>The order stays bounded, without repetition and within the recorded activities.\<close>

lemma boundedComputerOrder_ok:
  assumes bo: "boundedComputerOrder xs d i = (ys, d')" and "distinct xs" "length xs \<le> 1000"
    "set xs \<subseteq> set (dict_keys d)" "i \<in> set (dict_keys d)"
  shows "distinct ys \<and> length ys \<le> 1000 \<and> set ys \<subseteq> set (dict_keys d')"
proof -
  have order: "distinct (order_with xs i)" "length (order_with xs i) \<le> 1001"
    "set (order_with xs i) \<subseteq> set (dict_keys d)"
    using assms(2-5) by (auto simp: order_with_def)
  from bo show ?thesis
  proof (cases rule: boundedComputerOrder_cases)
    case fits
    with order show ?thesis by simp
  next
    case dropped
    with order show ?thesis
      using set_slice_last [of 1000 "order_with xs i"] by (auto intro: distinct_slice_last)
  next
    case (evicted r)
    with order(2) have "length ys \<le> 1000"
      using length_filter_less [of r "order_with xs i" "\<lambda>j. j \<noteq> r"] by simp
    with evicted order show ?thesis by (auto simp: dict_keys_del)
  qed
qed

lemma boundedComputerOrder_activities:
  assumes "boundedComputerOrder xs d i = (ys, d')"
  shows "d' = d \<or> (\<exists>r. is_terminal_activity d r \<and> d' = dict_del r d)"
  using assms by (cases rule: boundedComputerOrder_cases) auto

lemma keyed_boundedComputerOrder:
  "boundedComputerOrder xs d i = (ys, d') \<Longrightarrow> keyed f d \<Longrightarrow> keyed f d'"
  using boundedComputerOrder_activities [of xs d i ys d'] by auto

lemma boundedComputerOrder_get:
  "boundedComputerOrder xs d i = (ys, d') \<Longrightarrow> dict_get d' k = Some a \<Longrightarrow> dict_get d k = Some a"
  using boundedComputerOrder_activities [of xs d i ys d'] by (auto split: if_splits)

text \<open>Recording one activity leaves another as it is, or evicts it from a full order.\<close>

lemma record_activity_other:
  assumes "dict_get (computer_activities s) i = Some a" "i \<noteq> j"
  shows "dict_get (computer_activities (record_activity s j b)) i = Some a \<or>
    dict_get (computer_activities (record_activity s j b)) i = None \<and> 1000 \<le> length (computer_order s)"
proof -
  obtain ys d' where bo:
    "boundedComputerOrder (computer_order s) (dict_put j b (computer_activities s)) j = (ys, d')"
    by (meson surj_pair)
  then have d': "computer_activities (record_activity s j b) = d'"
    by (simp add: record_activity_def)
  have len: "length (order_with (computer_order s) j) \<le> Suc (length (computer_order s))"
    by (simp add: order_with_def)
  from bo show ?thesis
  proof (cases rule: boundedComputerOrder_cases)
    case (evicted r)
    with assms d' len show ?thesis by (cases "i = r") auto
  qed (use assms d' in simp_all)
qed

lemma operator_inv_record_activity:
  assumes inv: "operator_inv b s" and a: "ca_id a = i" "ca_last_sequence a \<le> b"
    "ca_terminal a = isTerminalComputerPhase (ca_phase a)"
  shows "operator_inv b (record_activity s i a)"
proof -
  obtain ys d' where bo:
    "boundedComputerOrder (computer_order s) (dict_put i a (computer_activities s)) i = (ys, d')"
    by (meson surj_pair)
  from inv have pre: "distinct (computer_order s)" "length (computer_order s) \<le> 1000"
    "set (computer_order s) \<subseteq> set (dict_keys (dict_put i a (computer_activities s)))"
    "i \<in> set (dict_keys (dict_put i a (computer_activities s)))"
    by (auto simp: operator_inv_def dict_keys_put)
  have "keyed ca_id d'"
    using inv a(1) by (intro keyed_boundedComputerOrder [OF bo]) (auto simp: operator_inv_def)
  moreover have "ca_terminal c = isTerminalComputerPhase (ca_phase c) \<and> ca_last_sequence c \<le> b"
    if "dict_get d' k = Some c" for k c
    using boundedComputerOrder_get [OF bo that] inv a
    by (auto simp: operator_inv_def split: if_splits)
  ultimately show ?thesis
    using boundedComputerOrder_ok [OF bo pre] inv
    by (simp add: operator_inv_def record_activity_def bo)
qed

lemma operator_inv_applyComputerEvent:
  assumes inv: "operator_inv b s" and "sequence e \<le> b"
  shows "operator_inv b (applyComputerEvent pf s e)"
proof (rule applyComputerEvent_cases [of pf s e])
  fix i a
  assume "applyComputerEvent pf s e = record_activity s i a" "ca_id a = i"
    "ca_terminal a = isTerminalComputerPhase (ca_phase a)" "ca_last_sequence a = sequence e"
  with assms show ?thesis by (simp add: operator_inv_record_activity)
next
  fix i a
  assume get: "dict_get (computer_activities s) i = Some a"
    and eq: "applyComputerEvent pf s e = s\<lparr>computer_activities :=
      dict_put i (a\<lparr>ca_conflict := True\<rparr>) (computer_activities s)\<rparr>"
  from inv get have "ca_id a = i" "ca_terminal a = isTerminalComputerPhase (ca_phase a)"
    "ca_last_sequence a \<le> b"
    by (auto simp: operator_inv_def keyed_def)
  with inv show ?thesis
    by (auto simp: eq operator_inv_def dict_keys_put)
qed (use inv in simp)

lemma applyComputerEvent_terminal:
  assumes get: "dict_get (computer_activities s) i = Some a" and terminal: "ca_terminal a"
  shows "dict_get (computer_activities (applyComputerEvent pf s e)) i = Some a \<or>
    dict_get (computer_activities (applyComputerEvent pf s e)) i = Some (a\<lparr>ca_conflict := True\<rparr>) \<or>
    dict_get (computer_activities (applyComputerEvent pf s e)) i = None \<and>
      1000 \<le> length (computer_order s)"
proof (rule applyComputerEvent_cases [of pf s e])
  fix j b
  assume eq: "applyComputerEvent pf s e = record_activity s j b"
    and live: "\<forall>c. dict_get (computer_activities s) j = Some c \<longrightarrow> \<not> ca_terminal c"
  from live get terminal have "i \<noteq> j" by auto
  then show ?thesis using record_activity_other [OF get, of j b] by (auto simp: eq)
next
  fix j b
  assume "dict_get (computer_activities s) j = Some b"
    and eq: "applyComputerEvent pf s e = s\<lparr>computer_activities :=
      dict_put j (b\<lparr>ca_conflict := True\<rparr>) (computer_activities s)\<rparr>"
  then show ?thesis using get by (cases "i = j") (simp_all add: eq)
qed (use get in simp)

lemma sorted_recent_events:
  assumes "sorted_wrt (<) (map sequence es)" "\<forall>x \<in> set es. sequence x < sequence e"
  shows "sorted_wrt (<) (map sequence (slice_last 999 es @ [e]))"
proof -
  have "sorted_wrt (<) (map sequence (slice_last 999 es))"
    using sorted_wrt_slice_last [OF assms(1), of 999] by (simp add: slice_last_def drop_map)
  then show ?thesis
    using assms(2) set_slice_last [of 999 es] by (auto simp: sorted_wrt_append)
qed

lemma operator_ok_step_event:
  assumes "operator_ok s"
  shows "operator_ok (step_event pf e s)"
proof (cases "sequence e \<le> last_sequence s")
  case True
  with assms show ?thesis by (simp add: step_event_stale)
next
  case False
  let ?n = "s\<lparr>last_sequence := sequence e,
      recent_events := slice_last 999 (recent_events s) @ [e]\<rparr>"
  let ?t = "?n\<lparr>turns := apply_turn_event (turns s) e\<rparr>"
  have inv: "operator_inv (last_sequence s) s" using assms by (simp add: operator_ok_def)
  have fresh: "\<forall>x \<in> set (recent_events s). sequence x < sequence e"
    using inv False by (auto simp: operator_inv_def)
  have sorted: "sorted_wrt (<) (map sequence (slice_last 999 (recent_events s) @ [e]))"
    using inv fresh by (intro sorted_recent_events) (auto simp: operator_inv_def)
  have upto: "operator_inv (sequence e) s"
    using inv False by (intro operator_inv_mono [OF inv]) simp
  then have "operator_inv (sequence e) ?t"
    using sorted set_slice_last [of 999 "recent_events s"] fresh
      apply_turn_event_bound [of "turns s" "last_sequence s" e] inv False
    by (auto simp: operator_inv_def keyed_apply_turn_event)
  then have comp: "operator_inv (sequence e) (applyComputerEvent pf ?t e)"
    by (rule operator_inv_applyComputerEvent) simp
  have "step_event pf e s = (applyComputerEvent pf ?t e)\<lparr>pending_approvals :=
      apply_approval_event (pending_approvals s) e\<rparr>"
    using False by (simp add: step_event_def applyEvent_def Let_def)
  moreover have "operator_inv (sequence e) ((applyComputerEvent pf ?t e)\<lparr>pending_approvals :=
      apply_approval_event (pending_approvals s) e\<rparr>)"
    using comp upto apply_approval_event_bound [of "pending_approvals s" "sequence e" e]
    by (simp add: operator_inv_def keyed_apply_approval_event)
  ultimately show ?thesis by (simp add: operator_ok_def)
qed

lemma operator_ok_fold: "operator_ok s \<Longrightarrow> operator_ok (fold (step_event pf) es s)"
  by (induction es arbitrary: s) (simp_all add: operator_ok_step_event)

subsection \<open>Recovery\<close>

lemma active_turn_entries_keys:
  "(k, t) \<in> set (active_turn_entries seq vs) \<Longrightarrow> ts_id t = k \<and> ts_last_sequence t = seq"
  by (auto simp: active_turn_entries_def active_turn_entry_def map_filter_def split: option.splits)

lemma pending_approval_entries_keys:
  "(k, a) \<in> set (pending_approval_entries seq vs) \<Longrightarrow> ap_id a = k \<and> ap_last_sequence a = seq"
  by (auto simp: pending_approval_entries_def pending_approval_entry_def map_filter_def
      split: option.splits)

lemma active_turn_entry_iff: "(\<exists>t. active_turn_entry seq v = Some (k, t)) \<longleftrightarrow> fld v ''turn_id'' = JStr k"
  by (auto simp: active_turn_entry_def asUUID_def split: option.splits)

lemma pending_approval_entry_iff:
  "(\<exists>a. pending_approval_entry seq v = Some (k, a)) \<longleftrightarrow>
     fld v ''id'' = JStr k \<or> \<not> is_string (fld v ''id'') \<and> fld v ''approval_id'' = JStr k"
  by (cases "fld v ''id''") (auto simp: pending_approval_entry_def asUUID_def split: option.splits)

lemma keyed_put_all:
  assumes "keyed f m" "\<And>k v. (k, v) \<in> set kvs \<Longrightarrow> f v = k"
  shows "keyed f (rec.put_all kvs m)"
  using assms
proof (induction kvs arbitrary: m)
  case (Cons kv kvs)
  obtain k v where kv: "kv = (k, v)" by force
  have "keyed f (dict_put k v m)" using Cons.prems kv by auto
  then have "keyed f (rec.put_all kvs (dict_put k v m))" using Cons by auto
  then show ?case by (simp add: kv)
qed simp

lemma turns_reconcile:
  assumes "snapshot_field snap ''active_turns'' = JArr active" "dict_ok (turns s)"
  shows "dict_get (turns (reconcileActiveTurns s snap seq)) k =
    (case map_of (rev (active_turn_entries seq active)) k of
       Some t \<Rightarrow> Some t
     | None \<Rightarrow> (case dict_get (turns s) k of
         None \<Rightarrow> None | Some t \<Rightarrow> if is_live (ts_status t) then None else Some t))"
proof -
  let ?es = "active_turn_entries seq active"
  have ok: "dict_ok (rec.put_all ?es (turns s))" by (rule rec.ok_put_all [OF assms(2)])
  have mem: "k \<in> fst ` set ?es \<longleftrightarrow> map_of (rev ?es) k \<noteq> None"
    by (simp add: map_of_eq_None_iff)
  have "turns (reconcileActiveTurns s snap seq) =
      filter (\<lambda>(k, t). \<not> (is_live (ts_status t) \<and> k \<notin> fst ` set ?es)) (rec.put_all ?es (turns s))"
    using assms(1) by (simp add: reconcileActiveTurns_def rec.put_all_def Let_def)
  then show ?thesis
    using dict_get_filter [OF ok] mem by (auto simp: rec.get_put_all split: option.splits)
qed

lemma approvals_reconcile:
  assumes "snapshot_field snap ''pending_approvals'' = JArr pending"
  shows "dict_get (pending_approvals (reconcilePendingApprovals s snap seq)) k =
    map_of (rev (pending_approval_entries seq pending)) k"
proof -
  have "pending_approvals (reconcilePendingApprovals s snap seq) =
      rec.put_all (pending_approval_entries seq pending) []"
    using assms by (simp add: reconcilePendingApprovals_def rec.put_all_def)
  then show ?thesis by (simp add: rec.get_put_all split: option.splits)
qed

lemma reconcileActiveTurns_frame [simp]:
  "last_sequence (reconcileActiveTurns s snap seq) = last_sequence s"
  "recent_events (reconcileActiveTurns s snap seq) = recent_events s"
  "pending_approvals (reconcileActiveTurns s snap seq) = pending_approvals s"
  "computer_activities (reconcileActiveTurns s snap seq) = computer_activities s"
  "computer_order (reconcileActiveTurns s snap seq) = computer_order s"
  "gap (reconcileActiveTurns s snap seq) = gap s"
  by (simp_all add: reconcileActiveTurns_def Let_def split: jsval.splits)

lemma reconcilePendingApprovals_frame [simp]:
  "last_sequence (reconcilePendingApprovals s snap seq) = last_sequence s"
  "recent_events (reconcilePendingApprovals s snap seq) = recent_events s"
  "turns (reconcilePendingApprovals s snap seq) = turns s"
  "computer_activities (reconcilePendingApprovals s snap seq) = computer_activities s"
  "computer_order (reconcilePendingApprovals s snap seq) = computer_order s"
  "gap (reconcilePendingApprovals s snap seq) = gap s"
  by (simp_all add: reconcilePendingApprovals_def Let_def split: jsval.splits)

lemma keyed_filter: "keyed f d \<Longrightarrow> keyed f (filter (\<lambda>(k, v). P k v) d)"
  by (auto simp: keyed_def dict_ok_filter dict_get_filter split: option.splits if_splits)

lemma operator_inv_reconcileActiveTurns:
  assumes inv: "operator_inv b s" and "seq \<le> b"
  shows "operator_inv b (reconcileActiveTurns s snap seq)"
proof (cases "snapshot_field snap ''active_turns''")
  case (JArr active)
  let ?es = "active_turn_entries seq active"
  have ok: "dict_ok (turns s)" using inv by (simp add: operator_inv_def keyed_def)
  have "keyed ts_id (rec.put_all ?es (turns s))"
    using inv active_turn_entries_keys by (intro keyed_put_all) (auto simp: operator_inv_def)
  then have "keyed ts_id (turns (reconcileActiveTurns s snap seq))"
    using JArr by (simp add: reconcileActiveTurns_def rec.put_all_def Let_def keyed_filter)
  moreover have "ts_last_sequence t \<le> b"
    if "dict_get (turns (reconcileActiveTurns s snap seq)) k = Some t" for k t
  proof (cases "map_of (rev ?es) k")
    case None
    with that turns_reconcile [OF JArr ok, of seq k] inv show ?thesis
      by (auto simp: operator_inv_def split: option.splits if_splits)
  next
    case (Some u)
    then have "(k, u) \<in> set ?es" using map_of_SomeD by fastforce
    with Some that turns_reconcile [OF JArr ok, of seq k] show ?thesis
      using active_turn_entries_keys [of k u seq active] assms(2) by simp
  qed
  ultimately show ?thesis using inv by (simp add: operator_inv_def)
qed (use inv in \<open>simp_all add: reconcileActiveTurns_def\<close>)

lemma operator_inv_reconcilePendingApprovals:
  assumes inv: "operator_inv b s" and "seq \<le> b"
  shows "operator_inv b (reconcilePendingApprovals s snap seq)"
proof (cases "snapshot_field snap ''pending_approvals''")
  case (JArr pending)
  let ?es = "pending_approval_entries seq pending"
  have "keyed ap_id (rec.put_all ?es [])"
    using pending_approval_entries_keys by (intro keyed_put_all) auto
  then have "keyed ap_id (pending_approvals (reconcilePendingApprovals s snap seq))"
    using JArr by (simp add: reconcilePendingApprovals_def rec.put_all_def)
  moreover have "ap_last_sequence a \<le> b"
    if "dict_get (pending_approvals (reconcilePendingApprovals s snap seq)) k = Some a" for k a
  proof -
    from that have "(k, a) \<in> set ?es"
      using approvals_reconcile [OF JArr] map_of_SomeD by fastforce
    then show ?thesis using pending_approval_entries_keys [of k a seq pending] assms(2) by simp
  qed
  ultimately show ?thesis using inv by (simp add: operator_inv_def)
qed (use inv in \<open>simp_all add: reconcilePendingApprovals_def\<close>)

text \<open>The state a recovery starts its replay from, and the state after the replay.\<close>

definition recovery_base :: "operator_state \<Rightarrow> recovery_envelope \<Rightarrow> operator_state" where
  "recovery_base previous recovery = (case snapshot recovery of
      None \<Rightarrow> previous
    | Some snap \<Rightarrow> emptyOperatorState\<lparr>os_snapshot := Some snap, gap := (gap_marker recovery \<noteq> None)\<rparr>)"

definition replayed :: "platform \<Rightarrow> operator_state \<Rightarrow> recovery_envelope \<Rightarrow> operator_state" where
  "replayed pf previous recovery =
     fold (step_event pf) (events (replay recovery)) (recovery_base previous recovery)"

lemma applyRecovery_eq:
  "applyRecovery pf previous r =
     (let seq = latest_sequence (replay r); s = replayed pf previous r in
      (reconcilePendingApprovals (reconcileActiveTurns s (snapshot r) seq) (snapshot r) seq)
        \<lparr>last_sequence := max (last_sequence s) seq\<rparr>)"
  by (simp add: applyRecovery_def replayed_def recovery_base_def Let_def)

lemma operator_ok_replayed: "operator_ok s \<Longrightarrow> operator_ok (replayed pf s r)"
  unfolding replayed_def recovery_base_def
  by (intro operator_ok_fold)
    (auto simp: operator_ok_def operator_inv_def emptyOperatorState_def split: option.splits)

lemma operator_ok_applyRecovery:
  assumes "operator_ok s"
  shows "operator_ok (applyRecovery pf s r)"
proof -
  let ?seq = "latest_sequence (replay r)" and ?s = "replayed pf s r"
  let ?b = "max (last_sequence ?s) ?seq"
  have "operator_inv ?b ?s"
    using operator_ok_replayed [OF assms, of pf r] by (auto simp: operator_ok_def elim: operator_inv_mono)
  then have "operator_inv ?b
      (reconcilePendingApprovals (reconcileActiveTurns ?s (snapshot r) ?seq) (snapshot r) ?seq)"
    by (intro operator_inv_reconcilePendingApprovals operator_inv_reconcileActiveTurns) auto
  then show ?thesis by (simp add: operator_ok_def applyRecovery_eq Let_def operator_inv_def)
qed

section \<open>Reachable states\<close>

inductive reachable :: "platform \<Rightarrow> operator_state \<Rightarrow> bool" for pf where
  start: "reachable pf emptyOperatorState"
| event: "reachable pf s \<Longrightarrow> reachable pf (step_event pf e s)"
| recovery: "reachable pf s \<Longrightarrow> reachable pf (applyRecovery pf s r)"

lemma reachable_operator_ok: "reachable pf s \<Longrightarrow> operator_ok s"
  by (induction rule: reachable.induct)
    (simp_all add: operator_ok_empty operator_ok_step_event operator_ok_applyRecovery)

section \<open>Approvals over a log\<close>

definition requests_approval :: "event_envelope \<Rightarrow> jstring \<Rightarrow> bool" where
  "requests_approval e i \<longleftrightarrow>
     ev_type e = lit ''approval.requested'' \<and> fld (payload e) ''approval_id'' = JStr i"

definition settles_approval :: "event_envelope \<Rightarrow> jstring \<Rightarrow> bool" where
  "settles_approval e i \<longleftrightarrow>
     (ev_type e = lit ''approval.resolved'' \<or> ev_type e = lit ''approval.expired'') \<and>
     fld (payload e) ''approval_id'' = JStr i"

lemma apply_approval_event_get:
  "dict_get (apply_approval_event as e) i =
     (if requests_approval e i then Some \<lparr>ap_id = i, ap_session_id = c_session_id (correlation e),
          ap_turn_id = c_turn_id (correlation e), ap_payload = payload e, ap_last_sequence = sequence e\<rparr>
      else if settles_approval e i then None else dict_get as i)"
  by (auto simp: apply_approval_event_def requests_approval_def settles_approval_def asUUID_def
      split: option.splits)

text \<open>Some event of the log requests the approval and no later one settles it.\<close>

definition awaiting :: "event_envelope list \<Rightarrow> jstring \<Rightarrow> bool" where
  "awaiting es i \<longleftrightarrow>
     (\<exists>n < length es. requests_approval (es ! n) i \<and>
        (\<forall>m. n < m \<and> m < length es \<longrightarrow> \<not> settles_approval (es ! m) i))"

lemma awaiting_snoc:
  "awaiting (es @ [e]) i \<longleftrightarrow> requests_approval e i \<or> awaiting es i \<and> \<not> settles_approval e i"
proof -
  have excl: "\<not> (requests_approval e i \<and> settles_approval e i)"
    by (auto simp: requests_approval_def settles_approval_def)
  show ?thesis (is "?L \<longleftrightarrow> ?R")
  proof
    assume ?L
    then obtain n where n: "n < Suc (length es)" "requests_approval ((es @ [e]) ! n) i"
      "\<forall>m. n < m \<and> m < Suc (length es) \<longrightarrow> \<not> settles_approval ((es @ [e]) ! m) i"
      by (auto simp: awaiting_def)
    show ?R
    proof (cases "n = length es")
      case True
      with n show ?thesis by simp
    next
      case False
      then have "n < length es" using n(1) by simp
      then have "awaiting es i"
        using n(2,3) unfolding awaiting_def by (intro exI [of _ n]) (auto simp: nth_append)
      moreover have "\<not> settles_approval e i"
        using n(3) \<open>n < length es\<close> by (auto dest: spec [of _ "length es"])
      ultimately show ?thesis by simp
    qed
  next
    assume ?R
    then show ?L
    proof
      assume "requests_approval e i"
      then show ?L unfolding awaiting_def by (intro exI [of _ "length es"]) auto
    next
      assume "awaiting es i \<and> \<not> settles_approval e i"
      then obtain n where "n < length es" "requests_approval (es ! n) i"
        "\<forall>m. n < m \<and> m < length es \<longrightarrow> \<not> settles_approval (es ! m) i" "\<not> settles_approval e i"
        by (auto simp: awaiting_def)
      then show ?L unfolding awaiting_def
        by (intro exI [of _ n]) (auto simp: nth_append less_Suc_eq)
    qed
  qed
qed

lemma fold_step_last:
  "last_sequence s < n \<Longrightarrow> \<forall>x \<in> set es. sequence x < n \<Longrightarrow>
     last_sequence (fold (step_event pf) es s) < n"
  by (induction es arbitrary: s) (simp_all add: last_sequence_step_event)

text \<open>A log: positive, strictly increasing sequence numbers, as the server's journal assigns them.\<close>

definition event_log :: "event_envelope list \<Rightarrow> bool" where
  "event_log es \<longleftrightarrow> sorted_wrt (<) (map sequence es) \<and> (\<forall>e \<in> set es. 0 < sequence e)"

lemma event_log_snoc:
  assumes "event_log (es @ [e])"
  shows "event_log es"
    and "last_sequence (fold (step_event pf) es emptyOperatorState) < sequence e"
  using assms
  by (auto simp: event_log_def sorted_wrt_append emptyOperatorState_def intro!: fold_step_last)

end
