(* ===== verification/OperatorProperties.thy ===== *)
theory OperatorProperties
  imports OperatorInvariants
begin

text \<open>
  The properties of the reducer \<open>ui/shared/src/state/events.ts\<close>: the invariant of every state
  the store can hold, the insensitivity to repeated delivery, the finality of a terminal activity, the
  approvals over a log of events, and the authority of a recovery snapshot over live turns and pending
  approvals.
\<close>

section \<open>Examples\<close>

definition example_event :: "int \<Rightarrow> string \<Rightarrow> jstring option \<Rightarrow> jsval \<Rightarrow> event_envelope" where
  "example_event n t turn p =
     \<lparr>sequence = n, event_id = lit ''event'', ev_type = lit t, occurred_at = lit ''2026-01-01'',
      correlation = \<lparr>c_actor_id = lit ''actor'', c_session_id = Some (lit ''session''),
        c_turn_id = turn, c_task_id = None, c_tool_id = None\<rparr>, payload = p\<rparr>"

definition example_started :: event_envelope where
  "example_started = example_event 1 ''turn.started'' (Some (lit ''turn'')) JNull"

definition example_request :: event_envelope where
  "example_request = example_event 2 ''approval.requested'' (Some (lit ''turn''))
     (JObj [(lit ''approval_id'', JStr (lit ''approval''))])"

section \<open>Properties\<close>

text \<open>
  (C1) Every state the store can hold, from the empty state by any events and recoveries in any order,
  is well formed: each dictionary has its entries under their own ids and in property order, at most
  1000 recent events are kept and their sequence numbers strictly increase up to the state's own, the
  order of Computer activities has no repetition, at most 1000 entries, and only recorded ones, an
  activity is marked terminal exactly when its phase is, and no entry is newer than the state.
\<close>

theorem operator_state_invariant: "reachable pf s \<Longrightarrow> operator_ok s"
  by (rule reachable_operator_ok)

text \<open>
  (C2) A client that saw the first \<open>m + k\<close> events of a log and reconnects with the replay
  that starts after the first \<open>m\<close> of them ends in the state of one that saw the log once,
  whatever state it started from.
\<close>

theorem reconnect_replay_exact:
  "fold (step_event pf) (take (m + k) es @ drop m es) s = fold (step_event pf) es s"
  by (rule reducer.reconnect) simp

text \<open>
  (C3) A terminal Computer activity is final: an event either leaves it as it is, or marks the conflict
  and changes nothing else of it, or evicts it, and it is evicted only when the order is full.
\<close>

theorem terminal_activity_final:
  assumes "dict_get (computer_activities s) i = Some a" "ca_terminal a"
  shows "dict_get (computer_activities (step_event pf e s)) i = Some a \<or>
    dict_get (computer_activities (step_event pf e s)) i = Some (a\<lparr>ca_conflict := True\<rparr>) \<or>
    dict_get (computer_activities (step_event pf e s)) i = None \<and> 1000 \<le> length (computer_order s)"
proof (cases "sequence e \<le> last_sequence s")
  case True
  with assms show ?thesis by (simp add: step_event_stale)
next
  case False
  let ?t = "s\<lparr>last_sequence := sequence e,
      recent_events := slice_last 999 (recent_events s) @ [e],
      turns := apply_turn_event (turns s) e\<rparr>"
  have "computer_activities (step_event pf e s) = computer_activities (applyComputerEvent pf ?t e)"
    using False by (simp add: step_event_def applyEvent_def Let_def)
  moreover have "dict_get (computer_activities ?t) i = Some a" using assms(1) by simp
  ultimately show ?thesis
    using applyComputerEvent_terminal [of ?t i a pf e] assms(2) by simp
qed

theorem operator_state_invariant_witness:
  "reachable example_platform (step_event example_platform example_started emptyOperatorState) \<and>
   operator_ok (step_event example_platform example_started emptyOperatorState)"
proof -
  have "reachable example_platform (step_event example_platform example_started emptyOperatorState)"
    by (intro reachable.intros)
  with operator_state_invariant [OF this] show ?thesis by simp
qed

text \<open>
  (C4) Over a log of events from the empty state, an approval is pending exactly when some event
  requested it and no later one resolved or expired it; what is kept is the payload of a request.
\<close>

theorem pending_approvals_exact:
  assumes "event_log es"
  shows "dict_get (pending_approvals (fold (step_event pf) es emptyOperatorState)) i \<noteq> None \<longleftrightarrow>
    awaiting es i"
  using assms
proof (induction es rule: rev_induct)
  case Nil
  show ?case by (simp add: emptyOperatorState_def awaiting_def)
next
  case (snoc e es)
  let ?s = "fold (step_event pf) es emptyOperatorState"
  have "pending_approvals (step_event pf e ?s) = apply_approval_event (pending_approvals ?s) e"
    by (rule step_event_fresh(4)) (rule event_log_snoc(2) [OF snoc.prems])
  then show ?case
    using snoc.IH [OF event_log_snoc(1) [OF snoc.prems]]
    by (auto simp: apply_approval_event_get awaiting_snoc)
qed

theorem pending_approvals_exact_witness:
  "event_log [example_started, example_request] \<and>
   awaiting [example_started, example_request] (lit ''approval'') \<and>
   dict_get (pending_approvals (fold (step_event example_platform) [example_started, example_request]
     emptyOperatorState)) (lit ''approval'') \<noteq> None"
proof -
  have log: "event_log [example_started, example_request]"
    by (simp add: event_log_def example_started_def example_request_def example_event_def)
  have "awaiting [example_started, example_request] (lit ''approval'')"
    unfolding awaiting_def
    by (intro exI [of _ 1])
      (auto simp: requests_approval_def example_request_def example_event_def)
  with log pending_approvals_exact [OF log, of example_platform "lit ''approval''"]
  show ?thesis by blast
qed

definition example_activity :: computer_activity where
  "example_activity = (unsupported_activity (lit ''tool'') example_started)
     \<lparr>ca_phase := lit ''completed'', ca_terminal := True, ca_unsupported := False\<rparr>"

theorem terminal_activity_final_witness:
  "let s = emptyOperatorState\<lparr>computer_activities := [(lit ''tool'', example_activity)]\<rparr>;
       s' = step_event example_platform example_started s in
   dict_get (computer_activities s) (lit ''tool'') = Some example_activity \<and>
   ca_terminal example_activity \<and>
   dict_get (computer_activities s') (lit ''tool'') \<noteq> None"
proof -
  let ?s = "emptyOperatorState\<lparr>computer_activities := [(lit ''tool'', example_activity)]\<rparr>"
  have get: "dict_get (computer_activities ?s) (lit ''tool'') = Some example_activity"
    by (simp add: dict_get_def)
  have terminal: "ca_terminal example_activity" by (simp add: example_activity_def)
  have "length (computer_order ?s) = 0" by (simp add: emptyOperatorState_def)
  with terminal_activity_final [OF get terminal, of example_platform example_started]
  have "dict_get (computer_activities (step_event example_platform example_started ?s))
      (lit ''tool'') \<noteq> None"
    by auto
  with get terminal show ?thesis by (simp add: Let_def)
qed

text \<open>
  (C5) After a recovery whose snapshot lists the active turns, the snapshot is authoritative: a turn it
  lists is known, with the session and status some entry gives it, and a turn it does not list is not
  running or recovering, whatever the replay said.
\<close>

theorem recovery_turns_authoritative:
  assumes "operator_ok s" "snapshot_field (snapshot r) ''active_turns'' = JArr active"
  shows "if \<exists>v \<in> set active. fld v ''turn_id'' = JStr k
    then \<exists>v \<in> set active. \<exists>t. active_turn_entry (latest_sequence (replay r)) v = Some (k, t) \<and>
      dict_get (turns (applyRecovery pf s r)) k = Some t
    else \<forall>t. dict_get (turns (applyRecovery pf s r)) k = Some t \<longrightarrow> \<not> is_live (ts_status t)"
proof -
  let ?seq = "latest_sequence (replay r)" and ?r = "replayed pf s r"
  let ?es = "active_turn_entries ?seq active"
  have ok: "dict_ok (turns ?r)"
    using operator_ok_replayed [OF assms(1)] by (simp add: operator_ok_def operator_inv_def keyed_def)
  have eq: "turns (applyRecovery pf s r) = turns (reconcileActiveTurns ?r (snapshot r) ?seq)"
    by (simp add: applyRecovery_eq Let_def)
  have listed: "k \<in> fst ` set ?es \<longleftrightarrow> (\<exists>v \<in> set active. fld v ''turn_id'' = JStr k)"
    by (simp add: active_turn_entries_def keys_map_filter active_turn_entry_iff)
  show ?thesis
  proof (cases "map_of (rev ?es) k")
    case None
    then have "k \<notin> fst ` set ?es" by (simp add: map_of_eq_None_iff)
    with None listed turns_reconcile [OF assms(2) ok, of ?seq k] show ?thesis
      by (auto simp: eq split: option.splits if_splits)
  next
    case (Some t)
    then have "(k, t) \<in> set ?es" using map_of_SomeD by fastforce
    then obtain v where "v \<in> set active" "active_turn_entry ?seq v = Some (k, t)"
      by (auto simp: active_turn_entries_def set_map_filter_Some)
    moreover have "k \<in> fst ` set ?es" using \<open>(k, t) \<in> set ?es\<close> by force
    ultimately show ?thesis
      using Some listed turns_reconcile [OF assms(2) ok, of ?seq k] by (auto simp: eq)
  qed
qed

text \<open>A recovery with one active turn and one pending approval in its snapshot.\<close>

definition example_recovery :: recovery_envelope where
  "example_recovery =
     \<lparr>replay = \<lparr>after_sequence = 0, earliest_sequence = 1, latest_sequence = 5, head_sequence = 5,
        replay_gap = False, events = [example_started]\<rparr>,
      gap_marker = None,
      snapshot = Some (JObj [
        (lit ''active_turns'', JArr [JObj [(lit ''turn_id'', JStr (lit ''t2''))]]),
        (lit ''pending_approvals'', JArr [JObj [(lit ''id'', JStr (lit ''a1''))]])])\<rparr>"

theorem recovery_turns_authoritative_witness:
  "operator_ok emptyOperatorState \<and>
   snapshot_field (snapshot example_recovery) ''active_turns'' =
     JArr [JObj [(lit ''turn_id'', JStr (lit ''t2''))]] \<and>
   dict_get (turns (applyRecovery example_platform emptyOperatorState example_recovery)) (lit ''t2'')
     \<noteq> None"
proof -
  have snap: "snapshot_field (snapshot example_recovery) ''active_turns'' =
      JArr [JObj [(lit ''turn_id'', JStr (lit ''t2''))]]"
    by (simp add: example_recovery_def snapshot_field_def)
  show ?thesis
    using recovery_turns_authoritative [OF operator_ok_empty snap, of "lit ''t2''" example_platform]
    by (simp add: operator_ok_empty snap) blast
qed

text \<open>
  (C6) After a recovery whose snapshot lists the pending approvals, the pending approvals are the
  listed ones and no others.
\<close>

theorem recovery_approvals_authoritative:
  assumes "snapshot_field (snapshot r) ''pending_approvals'' = JArr pending"
  shows "dict_get (pending_approvals (applyRecovery pf s r)) k \<noteq> None \<longleftrightarrow>
    (\<exists>v \<in> set pending. fld v ''id'' = JStr k \<or>
       \<not> is_string (fld v ''id'') \<and> fld v ''approval_id'' = JStr k)"
proof -
  let ?seq = "latest_sequence (replay r)"
  have "dict_get (pending_approvals (applyRecovery pf s r)) k =
      map_of (rev (pending_approval_entries ?seq pending)) k"
    using approvals_reconcile [OF assms] by (simp add: applyRecovery_eq Let_def)
  then have "dict_get (pending_approvals (applyRecovery pf s r)) k \<noteq> None \<longleftrightarrow>
      k \<in> fst ` set (pending_approval_entries ?seq pending)"
    by (simp add: map_of_eq_None_iff)
  also have "\<dots> \<longleftrightarrow> (\<exists>v \<in> set pending. fld v ''id'' = JStr k \<or>
       \<not> is_string (fld v ''id'') \<and> fld v ''approval_id'' = JStr k)"
    by (simp add: pending_approval_entries_def keys_map_filter pending_approval_entry_iff)
  finally show ?thesis .
qed

theorem recovery_approvals_authoritative_witness:
  "snapshot_field (snapshot example_recovery) ''pending_approvals'' =
     JArr [JObj [(lit ''id'', JStr (lit ''a1''))]] \<and>
   dict_get (pending_approvals (applyRecovery example_platform emptyOperatorState example_recovery))
     (lit ''a1'') \<noteq> None"
proof -
  have snap: "snapshot_field (snapshot example_recovery) ''pending_approvals'' =
      JArr [JObj [(lit ''id'', JStr (lit ''a1''))]]"
    by (simp add: example_recovery_def snapshot_field_def)
  show ?thesis
    using recovery_approvals_authoritative [OF snap, of example_platform emptyOperatorState "lit ''a1''"]
    by (simp add: snap)
qed

section \<open>Unsupported activities are not bounded\<close>

text \<open>\<open>n\<close> tool events of a version this client does not know, each for a tool call of its own.\<close>

definition flood_tool :: "nat \<Rightarrow> jstring" where
  "flood_tool k = replicate (Suc k) 97"

definition flood_event :: "nat \<Rightarrow> event_envelope" where
  "flood_event k = (example_event (int k + 1) ''tool.started'' None JNull)
     \<lparr>correlation := \<lparr>c_actor_id = lit ''actor'', c_session_id = None, c_turn_id = None,
        c_task_id = None, c_tool_id = Some (flood_tool k)\<rparr>\<rparr>"

definition flood :: "nat \<Rightarrow> event_envelope list" where
  "flood n = map flood_event [0..<n]"

lemma flood_Suc: "flood (Suc n) = flood n @ [flood_event n]"
  by (simp add: flood_def)

lemma record_activity_no_terminal:
  assumes "\<forall>k b. dict_get (computer_activities s) k = Some b \<longrightarrow> \<not> ca_terminal b" "\<not> ca_terminal a"
  shows "computer_activities (record_activity s i a) = dict_put i a (computer_activities s)"
proof -
  obtain ys d' where bo:
    "boundedComputerOrder (computer_order s) (dict_put i a (computer_activities s)) i = (ys, d')"
    by (meson surj_pair)
  have "\<not> is_terminal_activity (dict_put i a (computer_activities s)) r" for r
    using assms by (auto simp: is_terminal_activity_def split: option.splits)
  then have "d' = dict_put i a (computer_activities s)"
    using boundedComputerOrder_activities [OF bo] by blast
  with bo show ?thesis by (simp add: record_activity_def)
qed

lemma flood_step:
  assumes "last_sequence s = int n" "\<forall>k b. dict_get (computer_activities s) k = Some b \<longrightarrow> \<not> ca_terminal b"
    "dict_get (computer_activities s) (flood_tool n) = None"
  shows "computer_activities (step_event pf (flood_event n) s) =
    dict_put (flood_tool n) (unsupported_activity (flood_tool n) (flood_event n)) (computer_activities s)"
proof -
  let ?e = "flood_event n"
  let ?t = "s\<lparr>last_sequence := sequence ?e, recent_events := slice_last 999 (recent_events s) @ [?e],
      turns := apply_turn_event (turns s) ?e\<rparr>"
  have e: "sequence ?e = int n + 1" "ev_type ?e = lit ''tool.started''" "payload ?e = JNull"
    "c_tool_id (correlation ?e) = Some (flood_tool n)"
    by (simp_all add: flood_event_def example_event_def)
  have "computer_activities (step_event pf ?e s) = computer_activities (applyComputerEvent pf ?t ?e)"
    using assms(1) e(1) by (simp add: step_event_def applyEvent_def Let_def)
  also have "applyComputerEvent pf ?t ?e =
      record_activity ?t (flood_tool n) (unsupported_activity (flood_tool n) ?e)"
    using assms(3) e
    by (simp add: applyComputerEvent_def one_of_iff computer_event_types_def
        isComputerEventPayload_def)
  also have "computer_activities \<dots> =
      dict_put (flood_tool n) (unsupported_activity (flood_tool n) ?e) (computer_activities s)"
    using assms(2) by (subst record_activity_no_terminal) (auto simp: unsupported_activity_def)
  finally show ?thesis .
qed

lemma flood_state:
  "let s = fold (step_event pf) (flood n) emptyOperatorState in
   reachable pf s \<and> last_sequence s = int n \<and> length (computer_activities s) = n \<and>
   set (dict_keys (computer_activities s)) = flood_tool ` {..<n} \<and>
   (\<forall>k b. dict_get (computer_activities s) k = Some b \<longrightarrow> \<not> ca_terminal b)"
proof (induction n)
  case 0
  show ?case
    by (simp add: flood_def emptyOperatorState_def dict_keys_def reachable.start
        [unfolded emptyOperatorState_def])
next
  case (Suc n)
  let ?s = "fold (step_event pf) (flood n) emptyOperatorState"
  have new: "flood_tool n \<notin> flood_tool ` {..<n}"
    by (auto simp: flood_tool_def dest!: arg_cong [of _ _ length])
  have "dict_get (computer_activities ?s) (flood_tool n) = None"
    using Suc new by (auto simp: Let_def set_dict_keys)
  then have acts: "computer_activities (step_event pf (flood_event n) ?s) =
      dict_put (flood_tool n) (unsupported_activity (flood_tool n) (flood_event n))
        (computer_activities ?s)"
    using Suc by (intro flood_step) (auto simp: Let_def)
  have "last_sequence (step_event pf (flood_event n) ?s) = int n + 1"
    using Suc by (simp add: Let_def last_sequence_step_event flood_event_def example_event_def)
  moreover have "reachable pf (step_event pf (flood_event n) ?s)"
    using Suc by (simp add: Let_def reachable.event)
  ultimately show ?case
    using Suc new
    by (auto simp: flood_Suc Let_def acts length_dict_put dict_keys_put lessThan_Suc
        unsupported_activity_def split: if_splits)
qed

text \<open>
  (C7) The bound of 1000 activities holds for the order only: for every number there is a state the
  store can reach that keeps more Computer activities than that. An activity of an unknown version
  is never terminal, so the order drops its oldest entry and the activity itself stays.
\<close>

theorem activities_unbounded:
  "\<exists>s. reachable pf s \<and> length (computer_order s) \<le> 1000 \<and> n < length (computer_activities s)"
proof -
  let ?s = "fold (step_event pf) (flood (Suc n)) emptyOperatorState"
  have s: "reachable pf ?s" "length (computer_activities ?s) = Suc n"
    using flood_state [of pf "Suc n"] by (auto simp: Let_def)
  then have "length (computer_order ?s) \<le> 1000"
    using reachable_operator_ok [of pf ?s] by (simp add: operator_ok_def operator_inv_def)
  with s show ?thesis by (intro exI [of _ ?s]) simp
qed

end
