(* ===== verification/Store.thy ===== *)
theory Store
  imports OperatorProperties
begin

text \<open>
  The event store, \<open>ui/shared/src/state/store.ts\<close>: the operator state and the listeners, a set
  in insertion order, of which a listener is a number. An update notifies every listener unless the
  reducer returned the object it was given.
\<close>

record event_store =
  es_state :: operator_state
  es_listeners :: "nat list"

definition new_store :: event_store where
  "new_store = \<lparr>es_state = emptyOperatorState, es_listeners = []\<rparr>"

definition getSnapshot :: "event_store \<Rightarrow> operator_state" where
  "getSnapshot st = es_state st"

definition subscribe_listener :: "nat \<Rightarrow> event_store \<Rightarrow> event_store" where
  "subscribe_listener l st =
     (if l \<in> set (es_listeners st) then st else st\<lparr>es_listeners := es_listeners st @ [l]\<rparr>)"

definition unsubscribe_listener :: "nat \<Rightarrow> event_store \<Rightarrow> event_store" where
  "unsubscribe_listener l st = st\<lparr>es_listeners := filter (\<lambda>k. k \<noteq> l) (es_listeners st)\<rparr>"

text \<open>The new store, and the listeners that are called, in order.\<close>

definition update_store :: "operator_state update \<Rightarrow> event_store \<Rightarrow> event_store \<times> nat list" where
  "update_store next st = (case next of
      Same \<Rightarrow> (st, [])
    | Fresh s \<Rightarrow> (st\<lparr>es_state := s\<rparr>, es_listeners st))"

definition accept_event :: "platform \<Rightarrow> event_envelope \<Rightarrow> event_store \<Rightarrow> event_store \<times> nat list" where
  "accept_event pf event st = update_store (applyEvent pf (es_state st) event) st"

definition recover_store :: "platform \<Rightarrow> recovery_envelope \<Rightarrow> event_store \<Rightarrow> event_store \<times> nat list" where
  "recover_store pf recovery st = update_store (Fresh (applyRecovery pf (es_state st) recovery)) st"

text \<open>The calls of a store's clients, and a run of them.\<close>

datatype store_call =
  Subscribe nat | Unsubscribe nat | Accept event_envelope | Recover recovery_envelope

fun call_store :: "platform \<Rightarrow> store_call \<Rightarrow> event_store \<Rightarrow> event_store \<times> nat list" where
  "call_store pf (Subscribe l) st = (subscribe_listener l st, [])"
| "call_store pf (Unsubscribe l) st = (unsubscribe_listener l st, [])"
| "call_store pf (Accept e) st = accept_event pf e st"
| "call_store pf (Recover r) st = recover_store pf r st"

fun run_store :: "platform \<Rightarrow> store_call list \<Rightarrow> event_store \<Rightarrow> event_store" where
  "run_store pf [] st = st"
| "run_store pf (c # cs) st = run_store pf cs (fst (call_store pf c st))"

text \<open>A view that reads the snapshot when its listener is called.\<close>

fun watch :: "platform \<Rightarrow> nat \<Rightarrow> store_call list \<Rightarrow> event_store \<Rightarrow> operator_state \<Rightarrow> operator_state" where
  "watch pf l [] st view = view"
| "watch pf l (c # cs) st view =
     (case call_store pf c st of (st', called) \<Rightarrow>
        watch pf l cs st' (if l \<in> set called then getSnapshot st' else view))"

section \<open>Properties\<close>

definition store_ok :: "platform \<Rightarrow> event_store \<Rightarrow> bool" where
  "store_ok pf st \<longleftrightarrow> reachable pf (es_state st) \<and> distinct (es_listeners st)"

lemma es_state_accept_event: "es_state (fst (accept_event pf e st)) = step_event pf e (es_state st)"
  by (simp add: accept_event_def update_store_def step_event_def split: update.splits)

lemma es_state_recover_store: "es_state (fst (recover_store pf r st)) = applyRecovery pf (es_state st) r"
  by (simp add: recover_store_def update_store_def)

lemma es_listeners_update [simp]:
  "es_listeners (fst (accept_event pf e st)) = es_listeners st"
  "es_listeners (fst (recover_store pf r st)) = es_listeners st"
  by (simp_all add: accept_event_def recover_store_def update_store_def split: update.splits)

lemma store_ok_call: "store_ok pf st \<Longrightarrow> store_ok pf (fst (call_store pf c st))"
  by (cases c) (auto simp: store_ok_def subscribe_listener_def unsubscribe_listener_def
      es_state_accept_event es_state_recover_store reachable.event reachable.recovery)

lemma store_ok_run: "store_ok pf st \<Longrightarrow> store_ok pf (run_store pf cs st)"
  by (induction cs arbitrary: st) (auto simp: store_ok_call)

text \<open>A listener is called at most once by a call, and not called only when the snapshot is the same object.\<close>

lemma not_called_same:
  "call_store pf c st = (st', called) \<Longrightarrow> l \<in> set (es_listeners st) \<Longrightarrow> l \<notin> set called \<Longrightarrow>
     es_state st' = es_state st"
  by (cases c) (auto simp: subscribe_listener_def unsubscribe_listener_def accept_event_def
      recover_store_def update_store_def split: update.splits if_splits)

lemma still_subscribed:
  "call_store pf c st = (st', called) \<Longrightarrow> l \<in> set (es_listeners st) \<Longrightarrow> c \<noteq> Unsubscribe l \<Longrightarrow>
     l \<in> set (es_listeners st')"
  by (cases c) (auto simp: subscribe_listener_def unsubscribe_listener_def accept_event_def
      recover_store_def update_store_def split: update.splits if_splits)

text \<open>
  (C15) A subscriber never misses a state: a view that read the snapshot when it subscribed and reads
  it again whenever its listener is called holds the state of the store after any calls of any other
  clients, as long as it is not unsubscribed.
\<close>

theorem subscriber_sees_every_state:
  "l \<in> set (es_listeners st) \<Longrightarrow> Unsubscribe l \<notin> set cs \<Longrightarrow>
     watch pf l cs st (getSnapshot st) = getSnapshot (run_store pf cs st)"
proof (induction cs arbitrary: st)
  case (Cons c cs)
  obtain st' called where call: "call_store pf c st = (st', called)" by fastforce
  have "l \<in> set (es_listeners st')" using still_subscribed [OF call] Cons.prems by auto
  then have ih: "watch pf l cs st' (getSnapshot st') = getSnapshot (run_store pf cs st')"
    using Cons by simp
  show ?case
    using ih not_called_same [OF call Cons.prems(1)] by (auto simp: call getSnapshot_def)
qed simp

text \<open>
  From the new store, any calls lead to a store whose state is well formed and whose listeners
  are called at most once per update; a stale event calls nobody and leaves the store as it is, and
  every other event calls every listener in the order of subscription.
\<close>

theorem store_updates_notify:
  "operator_ok (es_state (run_store pf cs new_store)) \<and> distinct (es_listeners (run_store pf cs new_store)) \<and>
   accept_event pf e (run_store pf cs new_store) =
     (let st = run_store pf cs new_store in
      if sequence e \<le> last_sequence (es_state st) then (st, [])
      else (st\<lparr>es_state := step_event pf e (es_state st)\<rparr>, es_listeners st))"
proof -
  have "store_ok pf new_store"
    by (simp add: store_ok_def new_store_def reachable.start)
  then have "store_ok pf (run_store pf cs new_store)" by (rule store_ok_run)
  then show ?thesis
    by (auto simp: store_ok_def reachable_operator_ok Let_def accept_event_def update_store_def
        applyEvent_def step_event_def)
qed

definition example_store :: event_store where
  "example_store = \<lparr>es_state = emptyOperatorState, es_listeners = [7]\<rparr>"

theorem subscriber_sees_every_state_witness:
  "watch example_platform 7 [Unsubscribe 3, Recover example_recovery, Accept example_request]
     example_store emptyOperatorState =
   step_event example_platform example_request
     (applyRecovery example_platform emptyOperatorState example_recovery)"
  using subscriber_sees_every_state [of 7 example_store
      "[Unsubscribe 3, Recover example_recovery, Accept example_request]" example_platform]
  by (simp add: example_store_def getSnapshot_def es_state_accept_event es_state_recover_store
      unsubscribe_listener_def)

end
