(* ===== verification/Tui.thy ===== *)
theory Tui
  imports TuiText Numbers Store
begin

text \<open>
  The terminal application, \<open>ui/tui/src/App.tsx\<close>: the state of the component, its handlers and
  its effects. A handler reads the state of the last render and returns the state after its updates
  together with what it starts: requests, the editor, the end of the application. A request is a task,
  the continuation that waits for it; \<open>settle\<close> is the rest of the asynchronous function once its
  promise is settled. A rejection nothing catches is an effect of its own, because it ends the process.

  The results of requests are unvalidated, so the fields that hold them are \<open>jsval\<close>s, with
  \<open>JUndef\<close> for an absent session.
\<close>

section \<open>State\<close>

text \<open>
  The terminal and the run-time system: \<open>te_time\<close> is \<open>new Date(s).toLocaleTimeString()\<close>,
  \<open>te_unexpired\<close> the test that a date lies in the future, and the two messages are those of the
  engine's own \<open>SyntaxError\<close> and \<open>TypeError\<close>.
\<close>

record tui_env =
  te_columns :: "nat option"
  te_rows :: "nat option"
  te_no_color :: bool
  te_term :: "jstring option"
  te_time :: "jstring \<Rightarrow> jstring"
  te_unexpired :: "jsval \<Rightarrow> bool"
  te_syntax_message :: jstring
  te_type_message :: jstring

datatype tui_focus = Nav | Composer

record tui_state =
  tu_section :: tui_section
  tu_section_ref :: tui_section
  tu_draft :: jstring
  tu_session :: jsval
  tu_notice :: jstring
  tu_output :: jstring
  tu_catalog :: jsval
  tu_living :: jsval
  tu_soul :: jsval
  tu_work :: jsval
  tu_return :: jsval
  tu_projects :: jsval
  tu_manifest :: jsval
  tu_runs :: "jsval list"
  tu_waivers :: "jsval list"
  tu_studio :: jsval
  tu_sessions :: "jsval list"
  tu_todos :: "jsval list"
  tu_schedules :: "jsval list"
  tu_skills :: jsval
  tu_providers :: "jsval list"
  tu_workflows :: "jsval list"
  tu_session_cursor :: int
  tu_queue :: "jstring list"
  tu_focus :: tui_focus
  tu_focus_ref :: tui_focus
  tu_busy :: bool
  tu_follow :: bool
  tu_cursor :: int

definition initial_tui :: tui_state where
  "initial_tui = \<lparr>tu_section = Chat, tu_section_ref = Chat, tu_draft = [], tu_session = JUndef,
     tu_notice = lit ''What would you like to accomplish?'', tu_output = [], tu_catalog = JArr [],
     tu_living = JObj [], tu_soul = JObj [], tu_work = JObj [], tu_return = JObj [], tu_projects = JObj [],
     tu_manifest = JUndef, tu_runs = [], tu_waivers = [], tu_studio = JObj [], tu_sessions = [],
     tu_todos = [], tu_schedules = [], tu_skills = JObj [], tu_providers = [], tu_workflows = [],
     tu_session_cursor = 0, tu_queue = [], tu_focus = Composer, tu_focus_ref = Composer, tu_busy = False,
     tu_follow = True, tu_cursor = -1\<rparr>"

section \<open>Requests\<close>

text \<open>A call of the shared client; \<open>JUndef\<close> stands for the scope \<open>{}\<close>.\<close>

record call =
  cl_kind :: request_kind
  cl_operation :: jstring
  cl_payload :: jsval
  cl_session :: jsval

definition query_call :: "string \<Rightarrow> jsval \<Rightarrow> jsval \<Rightarrow> call" where
  "query_call operation content session =
     \<lparr>cl_kind = Query, cl_operation = lit operation, cl_payload = content, cl_session = session\<rparr>"

definition command_call :: "string \<Rightarrow> jsval \<Rightarrow> jsval \<Rightarrow> call" where
  "command_call operation content session =
     \<lparr>cl_kind = Command, cl_operation = lit operation, cl_payload = content, cl_session = session\<rparr>"

datatype task =
    LoadCatalog | LoadSessions | LoadSoul | LoadWork | LoadReturn | LoadProjects | LoadStudio
  | LoadSchedules | LoadSkills | LoadProviders | LoadWorkflows | LoadLiving | LoadTodos
  | LoadVerification
  | CreateForSend jstring
  | SubmitTurn
  | CreateForSlash
  | RunSlash jstring
  | Decide string
  | ResumeSession jstring
  | DecideStudio bool jsval
  | ApplyStudio jsval
  | RefreshStudio
  | RunVerification

datatype tui_effect =
    Issue task "call list"
  | Exit
  | OpenEditor jstring
  | Unhandled js_error

type_synonym tui_result = "tui_state \<times> tui_effect list"

section \<open>What a render derives\<close>

definition pendingApproval :: "operator_state \<Rightarrow> approval_state option" where
  "pendingApproval os = (case dict_values (pending_approvals os) of [] \<Rightarrow> None | a # _ \<Rightarrow> Some a)"

definition activeProjectID :: "tui_state \<Rightarrow> jstring option" where
  "activeProjectID s = (case arrayField (tu_projects s) ''projects'' of
      [] \<Rightarrow> None
    | project # _ \<Rightarrow> if isRecord project then as_str (fld project ''id'') else None)"

definition computerEvents :: "operator_state \<Rightarrow> event_envelope list" where
  "computerEvents os = filter (\<lambda>e. starts_with ''tool.'' (ev_type e)) (recent_events os)"

definition computerIndex :: "operator_state \<Rightarrow> tui_state \<Rightarrow> int" where
  "computerIndex os s = (let n = int (length (computerEvents os)) in
     if tu_follow s then n - 1 else max 0 (min (tu_cursor s) (n - 1)))"

definition runningTurns :: "operator_state \<Rightarrow> tui_state \<Rightarrow> turn_state list" where
  "runningTurns os s = filter (\<lambda>turn.
       (ts_status turn = Running \<or> ts_status turn = Recovering) \<and>
       (tu_session s = JUndef \<or> map_option JStr (ts_session_id turn) = Some (tu_session s)))
     (dict_values (turns os))"

section \<open>Errors\<close>

text \<open>\<open>reason instanceof Error ? reason.message : String(reason)\<close>, and \<open>String(reason)\<close>.\<close>

fun error_message :: "tui_env \<Rightarrow> js_error \<Rightarrow> jstring" where
  "error_message env (Error m) = m"
| "error_message env (TypeError m) = m"
| "error_message env SyntaxError = te_syntax_message env"

definition with_name :: "string \<Rightarrow> jstring \<Rightarrow> jstring" where
  "with_name name m = (if m = [] then lit name else lit name @ lit '': '' @ m)"

fun error_string :: "tui_env \<Rightarrow> js_error \<Rightarrow> jstring" where
  "error_string env (Error m) = with_name ''Error'' m"
| "error_string env (TypeError m) = with_name ''TypeError'' m"
| "error_string env SyntaxError = with_name ''SyntaxError'' (te_syntax_message env)"

text \<open>
  \<open>response.error?.message ?? fallback\<close>. A response that carries an error carries a record with a
  message, since the transports resolve validated responses only.
\<close>

definition response_failed :: "jsval \<Rightarrow> bool" where
  "response_failed r \<longleftrightarrow> fld r ''error'' \<noteq> JUndef"

definition message_or :: "platform \<Rightarrow> jsval \<Rightarrow> jstring \<Rightarrow> jstring" where
  "message_or pf r fallback = to_string pf (or_else (fld (fld r ''error'') ''message'') (JStr fallback))"

definition end_with :: "jstring \<Rightarrow> tui_state \<Rightarrow> tui_result" where
  "end_with notice s = (s\<lparr>tu_notice := notice, tu_busy := False\<rparr>, [])"

section \<open>Slash commands\<close>

definition slash_operation :: "jstring \<Rightarrow> jstring" where
  "slash_operation value = trim (drop 1 (case index_of 32 value of None \<Rightarrow> value | Some i \<Rightarrow> take i value))"

definition slash_payload :: "jstring \<Rightarrow> jstring" where
  "slash_payload value = (case index_of 32 value of None \<Rightarrow> [] | Some i \<Rightarrow> trim (drop (i + 1) value))"

definition help_line :: "platform \<Rightarrow> jsval \<Rightarrow> jstring" where
  "help_line pf item = lit ''/'' @ to_string pf (fld item ''operation'') @ lit ''  ['' @
     to_string pf (fld item ''kind'') @ lit '']  '' @ to_string pf (fld item ''description'')"

definition help_text :: "platform \<Rightarrow> jsval list \<Rightarrow> jstring" where
  "help_text pf items = join [10] ([lit ''Slash commands come from the live server catalog.'',
     lit ''Run /operation or /operation {\"field\":\"value\"}.'',
     lit ''/settings shows current settings. /new starts a conversation.'', []] @ map (help_line pf) items)"

text \<open>\<open>catalog.find((item) => item.available && item.operation === operation)\<close>.\<close>

definition offers :: "jstring \<Rightarrow> jsval \<Rightarrow> bool option" where
  "offers operation item = map_option (\<lambda>a. a \<and> fld item ''operation'' = JStr operation) (is_available item)"

definition find_offered :: "jsval \<Rightarrow> jstring \<Rightarrow> jsval option option" where
  "find_offered catalog operation = do {
     items \<leftarrow> as_arr catalog;
     find_try (offers operation) items
   }"

definition slash_payload_value :: "jstring \<Rightarrow> js_error + jsval" where
  "slash_payload_value raw =
     (if raw = [] then Inr (JObj [])
      else case json_parse raw of
          None \<Rightarrow> Inl SyntaxError
        | Some parsed \<Rightarrow> if isRecord parsed then Inr parsed
            else Inl (Error (lit ''slash command payload must be a JSON object'')))"

definition slash_help :: "tui_env \<Rightarrow> platform \<Rightarrow> tui_state \<Rightarrow> tui_result" where
  "slash_help env pf s = (case available_items (tu_catalog s) of
      None \<Rightarrow> end_with (te_type_message env) s
    | Some available \<Rightarrow> end_with (count_text (length available) @ lit '' server operations available.'')
        (s\<lparr>tu_output := help_text pf available\<rparr>))"

definition slash_new :: "tui_env \<Rightarrow> tui_state \<Rightarrow> tui_result" where
  "slash_new env s = (case find_offered (tu_catalog s) (lit ''session.create'') of
      None \<Rightarrow> end_with (te_type_message env) s
    | Some None \<Rightarrow> end_with (lit ''session.create is not available'') s
    | Some (Some _) \<Rightarrow> (s, [Issue CreateForSlash [command_call ''session.create'' (JObj []) JUndef]]))"

definition slash_run :: "tui_env \<Rightarrow> jstring \<Rightarrow> jstring \<Rightarrow> tui_state \<Rightarrow> tui_result" where
  "slash_run env operation raw s =
     (let resolved = (if operation = lit ''settings'' then lit ''config.get'' else operation) in
      case find_offered (tu_catalog s) resolved of
        None \<Rightarrow> end_with (te_type_message env) s
      | Some None \<Rightarrow> end_with (lit ''/'' @ operation @ lit '' is not available; use /help'') s
      | Some (Some descriptor) \<Rightarrow> (case slash_payload_value raw of
            Inl err \<Rightarrow> end_with (error_message env err) s
          | Inr content \<Rightarrow> (s, [Issue (RunSlash operation)
              [\<lparr>cl_kind = (if fld descriptor ''kind'' = JStr (lit ''query'') then Query else Command),
                cl_operation = resolved, cl_payload = content, cl_session = tu_session s\<rparr>]])))"

definition executeSlash :: "tui_env \<Rightarrow> platform \<Rightarrow> jstring \<Rightarrow> tui_state \<Rightarrow> tui_result" where
  "executeSlash env pf value s0 =
     (let s = s0\<lparr>tu_busy := True, tu_draft := [], tu_output := []\<rparr>; operation = slash_operation value in
      if operation = lit ''help'' then slash_help env pf s
      else if operation = lit ''new'' then slash_new env s
      else slash_run env operation (slash_payload value) s)"

section \<open>The composer\<close>

definition submit_call :: "jstring \<Rightarrow> jsval \<Rightarrow> call" where
  "submit_call content session = command_call ''turn.submit''
     (JObj [(lit ''content'', JStr content), (lit ''surface'', JStr (lit ''general''))]) session"

definition send :: "tui_env \<Rightarrow> platform \<Rightarrow> jstring \<Rightarrow> tui_state \<Rightarrow> tui_result" where
  "send env pf content s0 =
     (if content = [] \<or> tu_busy s0 then (s0, [])
      else if starts_with ''/'' content then executeSlash env pf content s0
      else let s = s0\<lparr>tu_busy := True, tu_draft := []\<rparr> in
        if tu_session s = JUndef
        then (s, [Issue (CreateForSend content) [command_call ''session.create'' (JObj []) JUndef]])
        else (s, [Issue SubmitTurn [submit_call content (tu_session s)]]))"

definition enqueue :: "jstring \<Rightarrow> tui_state \<Rightarrow> tui_state" where
  "enqueue content s = s\<lparr>tu_queue := slice_last 19 (tu_queue s) @ [content], tu_draft := [],
     tu_notice := lit ''Added to the queue. Ion will start it next.''\<rparr>"

definition submit :: "tui_env \<Rightarrow> platform \<Rightarrow> operator_state \<Rightarrow> jstring \<Rightarrow> tui_state \<Rightarrow> tui_result" where
  "submit env pf os value s = (let content = trim value in
     if content = [] then (s, [])
     else if tu_busy s \<or> runningTurns os s \<noteq> [] then (enqueue content s, [])
     else send env pf content s)"

text \<open>
  The effect on \<open>[busy, queue, runningTurns.length]\<close>. Its test reads these values only and a run of
  it that passes the test changes the queue, so that running it after every render, as here, is the
  same as running it when one of the three has changed. It sends from the queue until a message waits for
  an answer.
\<close>

fun send_queued :: "tui_env \<Rightarrow> platform \<Rightarrow> operator_state \<Rightarrow> jstring list \<Rightarrow> tui_state \<Rightarrow> tui_result" where
  "send_queued env pf os [] s = (s, [])"
| "send_queued env pf os (content # remaining) s =
     (if tu_busy s \<or> runningTurns os s \<noteq> [] then (s, [])
      else let (s1, es1) = send env pf content (s\<lparr>tu_queue := remaining\<rparr>);
               (s2, es2) = send_queued env pf os remaining s1
           in (s2, es1 @ es2))"

definition queue_effect :: "tui_env \<Rightarrow> platform \<Rightarrow> operator_state \<Rightarrow> tui_state \<Rightarrow> tui_result" where
  "queue_effect env pf os s = send_queued env pf os (tu_queue s) s"

section \<open>Decisions\<close>

definition approval_session :: "approval_state \<Rightarrow> jsval" where
  "approval_session a = (case ap_session_id a of None \<Rightarrow> JUndef | Some i \<Rightarrow> JStr i)"

definition decide :: "operator_state \<Rightarrow> string \<Rightarrow> tui_effect list" where
  "decide os decision = (case pendingApproval os of
      None \<Rightarrow> []
    | Some a \<Rightarrow> [Issue (Decide decision) [command_call ''approval.respond''
        (JObj [(lit ''approval_id'', JStr (ap_id a)), (lit ''decision'', JStr (lit decision))])
        (approval_session a)]])"

definition resumeSelectedSession :: "tui_state \<Rightarrow> tui_effect list" where
  "resumeSelectedSession s = (case array_get (tu_sessions s) (tu_session_cursor s) of
      None \<Rightarrow> []
    | Some selected \<Rightarrow> if \<not> isRecord selected then []
        else (case fld selected ''id'' of
            JStr i \<Rightarrow> if i = [] then []
              else [Issue (ResumeSession i) [command_call ''session.resume'' (JObj []) (JStr i)]]
          | _ \<Rightarrow> []))"

definition proposal_ids :: "jstring \<times> jstring \<Rightarrow> (jstring \<times> jsval) list" where
  "proposal_ids p = [(lit ''intent_id'', JStr (fst p)), (lit ''proposal_id'', JStr (snd p))]"

definition decideStudio :: "bool \<Rightarrow> tui_state \<Rightarrow> tui_effect list" where
  "decideStudio accept s = (case pendingStudioProposal (tu_studio s) of
      None \<Rightarrow> []
    | Some pending \<Rightarrow> [Issue (DecideStudio accept (tu_session s)) [command_call ''studio.proposal.decide''
        (JObj (proposal_ids pending @ [(lit ''accept'', JBool accept), (lit ''reason'', JStr
          (if accept then lit ''Approved in terminal Studio'' else lit ''Rejected in terminal Studio''))]))
        (tu_session s)]])"

definition applyStudio :: "tui_state \<Rightarrow> tui_effect list" where
  "applyStudio s = (case acceptedStudioProposal (tu_studio s) of
      None \<Rightarrow> []
    | Some accepted \<Rightarrow> [Issue (ApplyStudio (tu_session s)) [command_call ''studio.proposal.apply''
        (JObj (proposal_ids accepted)) (tu_session s)]])"

text \<open>\<open>projectVerification.manifest.id\<close> is read of \<open>null\<close> when the server answered \<open>null\<close>.\<close>

definition runProjectVerification :: "tui_env \<Rightarrow> tui_state \<Rightarrow> tui_result" where
  "runProjectVerification env s = (case activeProjectID s of
      None \<Rightarrow> (s\<lparr>tu_notice := lit ''Prepare a verification manifest before running project gates.''\<rparr>, [])
    | Some project \<Rightarrow>
        if tu_manifest s = JUndef
        then (s\<lparr>tu_notice := lit ''Prepare a verification manifest before running project gates.''\<rparr>, [])
        else (s\<lparr>tu_busy := True\<rparr>, case read_prop (tu_manifest s) ''id'' of
            None \<Rightarrow> [Unhandled (TypeError (te_type_message env))]
          | Some manifest \<Rightarrow> [Issue RunVerification [command_call ''project.verification.run''
              (JObj [(lit ''project_id'', JStr project), (lit ''manifest_id'', manifest),
                (lit ''full'', JBool True), (lit ''max_attempts'', JInt 3)]) (tu_session s)]]))"

section \<open>Answers\<close>

text \<open>What an awaited list of responses gives, or the reason of the rejection.\<close>

type_synonym answer = "js_error + jsval list"

definition result_of :: "jsval \<Rightarrow> jsval \<Rightarrow> jsval" where
  "result_of absent r = or_else (fld r ''result'') absent"

definition object_answer :: "answer \<Rightarrow> jsval" where
  "object_answer a = (case a of Inr [r] \<Rightarrow> result_of (JObj []) r | _ \<Rightarrow> JObj [])"

definition array_answer :: "answer \<Rightarrow> jsval list" where
  "array_answer a = (case a of Inr [r] \<Rightarrow> elems (fld r ''result'') | _ \<Rightarrow> [])"

definition load_verification :: "answer \<Rightarrow> tui_state \<Rightarrow> tui_state" where
  "load_verification a s = (case a of
      Inr [manifest, runs, waivers] \<Rightarrow> s\<lparr>tu_manifest := fld manifest ''result'',
        tu_runs := elems (fld runs ''result''), tu_waivers := elems (fld waivers ''result'')\<rparr>
    | _ \<Rightarrow> s\<lparr>tu_manifest := JUndef, tu_runs := [], tu_waivers := []\<rparr>)"

text \<open>\<open>created.error !== undefined || created.result?.id === undefined\<close> throws.\<close>

definition created_session :: "platform \<Rightarrow> jsval \<Rightarrow> js_error + jsval" where
  "created_session pf created =
     (if response_failed created \<or> fld (fld created ''result'') ''id'' = JUndef
      then Inl (Error (message_or pf created (lit ''session creation failed'')))
      else Inr (fld (fld created ''result'') ''id''))"

definition session_for_send :: "tui_env \<Rightarrow> platform \<Rightarrow> jstring \<Rightarrow> jsval \<Rightarrow> tui_state \<Rightarrow> tui_result" where
  "session_for_send env pf content created s = (case created_session pf created of
      Inl err \<Rightarrow> end_with (error_message env err) s
    | Inr selected \<Rightarrow> (s\<lparr>tu_session := selected\<rparr>, [Issue SubmitTurn [submit_call content selected]]))"

definition session_for_slash :: "tui_env \<Rightarrow> platform \<Rightarrow> jsval \<Rightarrow> tui_state \<Rightarrow> tui_result" where
  "session_for_slash env pf created s = (case created_session pf created of
      Inl err \<Rightarrow> end_with (error_message env err) s
    | Inr selected \<Rightarrow> end_with (lit ''New encrypted conversation ready.'') (s\<lparr>tu_session := selected\<rparr>))"

definition turn_submitted :: "platform \<Rightarrow> jsval \<Rightarrow> tui_state \<Rightarrow> tui_result" where
  "turn_submitted pf r s = end_with
     (if response_failed r then message_or pf r [] else lit ''Request started. Live updates will appear here.'') s"

definition pretty :: "platform \<Rightarrow> jsval \<Rightarrow> jstring" where
  "pretty pf v = (case json_pretty pf v of None \<Rightarrow> [] | Some t \<Rightarrow> t)"

definition slash_done :: "platform \<Rightarrow> jstring \<Rightarrow> jsval \<Rightarrow> tui_state \<Rightarrow> tui_result" where
  "slash_done pf operation r s =
     (if response_failed r then end_with (message_or pf r []) s
      else end_with (lit ''/'' @ operation @ lit '' completed.'')
        (s\<lparr>tu_output := pretty pf (result_of (JObj []) r),
           tu_section := (if operation = lit ''settings'' then System else tu_section s)\<rparr>))"

definition session_resumed :: "platform \<Rightarrow> jstring \<Rightarrow> jsval \<Rightarrow> tui_state \<Rightarrow> tui_state" where
  "session_resumed pf i r s =
     (if response_failed r then s\<lparr>tu_notice := message_or pf r []\<rparr>
      else s\<lparr>tu_session := JStr i, tu_output := [], tu_section_ref := Chat, tu_section := Chat,
        tu_notice := lit ''Encrypted conversation resumed. New messages continue the same task.''\<rparr>)"

definition studio_answered :: "platform \<Rightarrow> jstring \<Rightarrow> jsval \<Rightarrow> jsval \<Rightarrow> tui_state \<Rightarrow> tui_result" where
  "studio_answered pf notice session r s = (s\<lparr>tu_notice := message_or pf r notice\<rparr>,
     [Issue RefreshStudio [query_call ''studio.intent.list'' (JObj []) session]])"

definition verification_done :: "tui_env \<Rightarrow> platform \<Rightarrow> jsval \<Rightarrow> tui_state \<Rightarrow> tui_result" where
  "verification_done env pf r s =
     (if response_failed r then end_with (message_or pf r []) s
      else let result = fld r ''result'' in
        if result = JUndef then (s\<lparr>tu_busy := False\<rparr>, [])
        else let s = s\<lparr>tu_runs := tu_runs s @ [result], tu_output := pretty pf result\<rparr> in
          case Option.bind (read_prop result ''status'') as_str of
            None \<Rightarrow> (s, [Unhandled (TypeError (te_type_message env))])
          | Some status \<Rightarrow> end_with (lit ''Verification finished: '' @ underscores_to_spaces status @ lit ''.'') s)"

text \<open>The tasks of the composer end in a \<open>finally\<close> that clears \<open>busy\<close>; the others have no handler.\<close>

definition caught :: "tui_env \<Rightarrow> (jsval \<Rightarrow> tui_state \<Rightarrow> tui_result) \<Rightarrow> answer \<Rightarrow> tui_state \<Rightarrow> tui_result" where
  "caught env f a s = (case a of
      Inl err \<Rightarrow> end_with (error_message env err) s
    | Inr rs \<Rightarrow> f (case rs of [] \<Rightarrow> JUndef | r # _ \<Rightarrow> r) s)"

definition uncaught :: "(jsval \<Rightarrow> tui_state \<Rightarrow> tui_result) \<Rightarrow> answer \<Rightarrow> tui_state \<Rightarrow> tui_result" where
  "uncaught f a s = (case a of
      Inl err \<Rightarrow> (s, [Unhandled err])
    | Inr rs \<Rightarrow> f (case rs of [] \<Rightarrow> JUndef | r # _ \<Rightarrow> r) s)"

definition load_catalog :: "tui_env \<Rightarrow> answer \<Rightarrow> tui_state \<Rightarrow> tui_state" where
  "load_catalog env a s = (case a of
      Inl err \<Rightarrow> s\<lparr>tu_notice := error_string env err\<rparr>
    | Inr rs \<Rightarrow> s\<lparr>tu_catalog := result_of (JArr []) (case rs of [] \<Rightarrow> JUndef | r # _ \<Rightarrow> r)\<rparr>)"

fun settle :: "tui_env \<Rightarrow> platform \<Rightarrow> task \<Rightarrow> answer \<Rightarrow> tui_state \<Rightarrow> tui_result" where
  "settle env pf LoadCatalog a s = (load_catalog env a s, [])"
| "settle env pf LoadSessions a s = (s\<lparr>tu_sessions := array_answer a\<rparr>, [])"
| "settle env pf LoadSoul a s = (s\<lparr>tu_soul := object_answer a\<rparr>, [])"
| "settle env pf LoadWork a s = (s\<lparr>tu_work := object_answer a\<rparr>, [])"
| "settle env pf LoadReturn a s = (s\<lparr>tu_return := object_answer a\<rparr>, [])"
| "settle env pf LoadProjects a s = (s\<lparr>tu_projects := object_answer a\<rparr>, [])"
| "settle env pf LoadStudio a s = (s\<lparr>tu_studio := object_answer a\<rparr>, [])"
| "settle env pf LoadSchedules a s = (s\<lparr>tu_schedules := array_answer a\<rparr>, [])"
| "settle env pf LoadSkills a s = (s\<lparr>tu_skills := object_answer a\<rparr>, [])"
| "settle env pf LoadProviders a s = (s\<lparr>tu_providers := array_answer a\<rparr>, [])"
| "settle env pf LoadWorkflows a s = (s\<lparr>tu_workflows := array_answer a\<rparr>, [])"
| "settle env pf LoadLiving a s = (s\<lparr>tu_living := object_answer a\<rparr>, [])"
| "settle env pf LoadTodos a s = (s\<lparr>tu_todos := array_answer a\<rparr>, [])"
| "settle env pf LoadVerification a s = (load_verification a s, [])"
| "settle env pf (CreateForSend content) a s = caught env (session_for_send env pf content) a s"
| "settle env pf SubmitTurn a s = caught env (turn_submitted pf) a s"
| "settle env pf CreateForSlash a s = caught env (session_for_slash env pf) a s"
| "settle env pf (RunSlash operation) a s = caught env (slash_done pf operation) a s"
| "settle env pf (Decide decision) a s = uncaught (\<lambda>r s. (s\<lparr>tu_notice :=
     message_or pf r (lit ''Approval '' @ lit decision @ lit '' recorded.'')\<rparr>, [])) a s"
| "settle env pf (ResumeSession i) a s = uncaught (\<lambda>r s. (session_resumed pf i r s, [])) a s"
| "settle env pf (DecideStudio accept session) a s = uncaught (studio_answered pf
     (if accept then lit ''Specification accepted.'' else lit ''Specification rejected.'') session) a s"
| "settle env pf (ApplyStudio session) a s = uncaught (studio_answered pf
     (lit ''Accepted specification applied to authoritative KVX.'') session) a s"
| "settle env pf RefreshStudio a s = uncaught (\<lambda>r s. (s\<lparr>tu_studio := result_of (JObj []) r\<rparr>, [])) a s"
| "settle env pf RunVerification a s = uncaught (verification_done env pf) a s"

section \<open>Keys\<close>

record key =
  k_escape :: bool
  k_tab :: bool
  k_up :: bool
  k_down :: bool
  k_ctrl :: bool

definition select_section :: "tui_section \<Rightarrow> tui_state \<Rightarrow> tui_state" where
  "select_section section s = s\<lparr>tu_section_ref := section, tu_section := section\<rparr>"

text \<open>\<open>sections[Number(input) - 1]\<close>.\<close>

definition numbered_section :: "jstring \<Rightarrow> tui_section option" where
  "numbered_section input = (case js_number input of
      Fin q \<Rightarrow> if of_int \<lfloor>q\<rfloor> = q then map_option fst (array_get sections (\<lfloor>q\<rfloor> - 1)) else None
    | _ \<Rightarrow> None)"

definition is_section_number :: "jstring \<Rightarrow> bool" where
  "is_section_number input \<longleftrightarrow>
     string_le (lit ''1'') input \<and> string_le input (nat_text (length sections))"

definition next_section :: "tui_section \<Rightarrow> tui_section option" where
  "next_section section = (let current = index_of section (map fst sections) in
     map_option fst (array_get sections
       ((case current of None \<Rightarrow> 0 | Some i \<Rightarrow> int i + 1) mod int (length sections))))"

definition toggle_focus :: "tui_state \<Rightarrow> tui_state" where
  "toggle_focus s = (let f = (if tu_focus_ref s = Composer then Nav else Composer) in
     s\<lparr>tu_focus_ref := f, tu_focus := f\<rparr>)"

definition choose_numbered :: "jstring \<Rightarrow> tui_state \<Rightarrow> tui_state" where
  "choose_numbered input s =
     (if tu_focus_ref s = Nav \<and> is_section_number input
      then case numbered_section input of None \<Rightarrow> s | Some section \<Rightarrow> select_section section s
      else s)"

definition computer_keys :: "operator_state \<Rightarrow> tui_state \<Rightarrow> jstring \<Rightarrow> key \<Rightarrow> tui_state \<Rightarrow> tui_state" where
  "computer_keys os rendered input key s =
     (if \<not> (tu_section_ref s = Computer \<and> tu_focus_ref s = Nav) then s
      else let n = int (length (computerEvents os)); index = computerIndex os rendered;
        s = (if input = lit ''l'' then s\<lparr>tu_follow := True, tu_cursor := n - 1\<rparr> else s);
        s = (if input = lit ''p'' then s\<lparr>tu_follow := False, tu_cursor := index\<rparr> else s);
        s = (if k_up key \<or> input = lit ''['' then s\<lparr>tu_follow := False, tu_cursor := max 0 (index - 1)\<rparr> else s)
      in if k_down key \<or> input = lit '']''
         then s\<lparr>tu_cursor := min (n - 1) (index + 1), tu_follow := (min (n - 1) (index + 1) = n - 1)\<rparr> else s)"

definition system_keys :: "tui_state \<Rightarrow> jstring \<Rightarrow> key \<Rightarrow> tui_state \<Rightarrow> tui_result" where
  "system_keys rendered input key s =
     (if \<not> (tu_section_ref s = System \<and> tu_focus_ref s = Nav) then (s, [])
      else let n = int (length (tu_sessions rendered)); cursor = tu_session_cursor rendered;
        s = (if 0 < n \<and> (k_up key \<or> input = lit ''['') then s\<lparr>tu_session_cursor := max 0 (cursor - 1)\<rparr> else s);
        s = (if 0 < n \<and> (k_down key \<or> input = lit '']'')
             then s\<lparr>tu_session_cursor := min (n - 1) (cursor + 1)\<rparr> else s)
      in (s, if input = lit ''r'' then resumeSelectedSession rendered else []))"

definition project_keys :: "tui_env \<Rightarrow> tui_state \<Rightarrow> jstring \<Rightarrow> tui_state \<Rightarrow> tui_result" where
  "project_keys env rendered input s =
     (if tu_section_ref s \<noteq> Projects then (s, [])
      else if input = lit ''y'' then (s, decideStudio True rendered)
      else if input = lit ''n'' then (s, decideStudio False rendered)
      else if input = lit ''p'' then (s, applyStudio rendered)
      else if input = lit ''v'' then runProjectVerification env s
      else (s, []))"

text \<open>The keys after the section has been chosen; the values of the last render are in \<open>rendered\<close>.\<close>

definition action_keys ::
    "tui_env \<Rightarrow> bool \<Rightarrow> operator_state \<Rightarrow> tui_state \<Rightarrow> jstring \<Rightarrow> key \<Rightarrow> tui_state \<Rightarrow> tui_result" where
  "action_keys env editor os rendered input key s =
     (let approve = (if input = lit ''a'' then decide os ''approve'' else []);
          deny = (if input = lit ''d'' then decide os ''deny'' else []);
          (s, studio) = project_keys env rendered input s;
          s = computer_keys os rendered input key s;
          (s, resume) = system_keys rendered input key s
      in (s, approve @ deny @ studio @ resume @
        (if k_ctrl key \<and> input = lit ''e'' \<and> editor then [OpenEditor (tu_draft rendered)] else [])))"

definition key_quit :: "jstring \<Rightarrow> tui_state \<Rightarrow> tui_effect list" where
  "key_quit input s = (if input = lit ''q'' \<and> tu_focus_ref s = Nav then [Exit] else [])"

definition key_focus :: "key \<Rightarrow> tui_state \<Rightarrow> tui_state" where
  "key_focus key s = (if k_escape key then toggle_focus s else s)"

definition key_section :: "jstring \<Rightarrow> key \<Rightarrow> tui_state \<Rightarrow> tui_state \<Rightarrow> tui_state" where
  "key_section input key rendered s = choose_numbered input
     (if k_tab key then (case next_section (tu_section rendered) of
         None \<Rightarrow> s | Some section \<Rightarrow> select_section section s)
      else s)"

text \<open>A tab in the composer completes the draft when there is a suggestion, and ends the handler.\<close>

definition completion :: "key \<Rightarrow> tui_state \<Rightarrow> suggestion option" where
  "completion key s =
     (if k_tab key \<and> tu_focus s = Composer
      then (case slashSuggestions (tu_catalog s) (tu_draft s) of Some (sg # _) \<Rightarrow> Some sg | _ \<Rightarrow> None)
      else None)"

definition on_key ::
    "tui_env \<Rightarrow> bool \<Rightarrow> operator_state \<Rightarrow> jstring \<Rightarrow> key \<Rightarrow> tui_state \<Rightarrow> tui_result" where
  "on_key env editor os input key rendered =
     (let quit = key_quit input rendered; s = key_focus key rendered in
      case completion key rendered of
        Some sg \<Rightarrow> (s\<lparr>tu_draft := lit ''/'' @ sg_operation sg @ lit '' ''\<rparr>, quit)
      | None \<Rightarrow>
          let (s, es) = action_keys env editor os rendered input key (key_section input key rendered s)
          in (s, quit @ es))"

definition updateDraft :: "jstring \<Rightarrow> tui_state \<Rightarrow> tui_state" where
  "updateDraft value s =
     (if tu_focus_ref s = Nav \<and> length value = 1 \<and> is_section_number value
      then case numbered_section value of
          None \<Rightarrow> s | Some section \<Rightarrow> (select_section section s)\<lparr>tu_draft := []\<rparr>
      else s\<lparr>tu_draft := value\<rparr>)"

section \<open>Effects after a render\<close>

text \<open>The dependencies each effect last ran with; \<open>None\<close> before its first run.\<close>

record tui_deps =
  td_mounted :: bool
  td_refresh :: "(jsval \<times> nat) option"
  td_verify :: "(jstring option \<times> jsval \<times> nat) option"
  td_follow :: "(nat \<times> bool) option"
  td_sessions :: "nat option"

definition no_deps :: tui_deps where
  "no_deps = \<lparr>td_mounted = False, td_refresh = None, td_verify = None, td_follow = None, td_sessions = None\<rparr>"

definition catalog_effect :: "tui_deps \<Rightarrow> tui_effect list" where
  "catalog_effect d = (if td_mounted d then []
     else [Issue LoadCatalog [query_call ''commands.catalog'' (JObj []) JUndef]])"

definition load :: "jsval \<Rightarrow> task \<times> string \<Rightarrow> tui_effect" where
  "load session l = Issue (fst l) [query_call (snd l)
     (if fst l = LoadReturn then JObj [(lit ''period'', JStr (lit ''24h''))] else JObj []) session]"

definition refresh_loads :: "jsval \<Rightarrow> tui_effect list" where
  "refresh_loads session = [load JUndef (LoadSessions, ''session.list'')] @ map (load session)
     ([(LoadSoul, ''soul.get''), (LoadWork, ''work.brief''), (LoadReturn, ''continuity.brief''),
       (LoadProjects, ''project.list''), (LoadStudio, ''studio.intent.list''),
       (LoadSchedules, ''schedule.list''), (LoadSkills, ''skill.lifecycle''),
       (LoadProviders, ''provider.list'')] @
      (if session = JUndef then []
       else [(LoadWorkflows, ''browser.workflow.list''), (LoadLiving, ''liveness.get''),
             (LoadTodos, ''taskgraph.todo'')]))"

definition refresh_effect :: "operator_state \<Rightarrow> tui_deps \<Rightarrow> tui_state \<Rightarrow> tui_result" where
  "refresh_effect os d s =
     (if td_refresh d = Some (tu_session s, length (recent_events os)) then (s, [])
      else (if tu_session s = JUndef then s\<lparr>tu_workflows := [], tu_todos := []\<rparr> else s,
        refresh_loads (tu_session s)))"

definition verify_effect :: "operator_state \<Rightarrow> tui_deps \<Rightarrow> tui_state \<Rightarrow> tui_result" where
  "verify_effect os d s =
     (if td_verify d = Some (activeProjectID s, tu_session s, length (recent_events os)) then (s, [])
      else case activeProjectID s of
          None \<Rightarrow> (s\<lparr>tu_manifest := JUndef, tu_runs := [], tu_waivers := []\<rparr>, [])
        | Some project \<Rightarrow> (s, [Issue LoadVerification (map (\<lambda>operation.
            query_call operation (JObj [(lit ''project_id'', JStr project)]) (tu_session s))
            [''project.verification.manifest.get'', ''project.verification.runs'',
             ''project.verification.waivers''])]))"

definition follow_effect :: "operator_state \<Rightarrow> tui_deps \<Rightarrow> tui_state \<Rightarrow> tui_state" where
  "follow_effect os d s = (let n = length (computerEvents os) in
     if td_follow d = Some (n, tu_follow s) \<or> \<not> tu_follow s then s else s\<lparr>tu_cursor := int n - 1\<rparr>)"

definition clamp_effect :: "tui_deps \<Rightarrow> tui_state \<Rightarrow> tui_state" where
  "clamp_effect d s =
     (if td_sessions d = Some (length (tu_sessions s)) then s
      else s\<lparr>tu_session_cursor := max 0 (min (tu_session_cursor s) (int (length (tu_sessions s)) - 1))\<rparr>)"

definition seen_deps :: "operator_state \<Rightarrow> tui_state \<Rightarrow> tui_deps" where
  "seen_deps os s = \<lparr>td_mounted = True,
     td_refresh = Some (tu_session s, length (recent_events os)),
     td_verify = Some (activeProjectID s, tu_session s, length (recent_events os)),
     td_follow = Some (length (computerEvents os), tu_follow s),
     td_sessions = Some (length (tu_sessions s))\<rparr>"

text \<open>
  All effects of a render. No effect changes a value another one depends on, except that the last sends
  from the queue, so one pass of the first four and the queue are what React arrives at.
\<close>

definition after_render ::
    "tui_env \<Rightarrow> platform \<Rightarrow> operator_state \<Rightarrow> tui_deps \<Rightarrow> tui_state \<Rightarrow> tui_result" where
  "after_render env pf os d s =
     (let (s1, es1) = refresh_effect os d s;
          (s2, es2) = verify_effect os d s1;
          (s3, es3) = queue_effect env pf os (clamp_effect d (follow_effect os d s2))
      in (s3, catalog_effect d @ es1 @ es2 @ es3))"

section \<open>The application\<close>

record tui_app =
  ta_operator :: operator_state
  ta_state :: tui_state
  ta_deps :: tui_deps
  ta_waiting :: "task list"
  ta_ended :: bool

datatype tui_input =
    Key jstring key
  | Change jstring
  | Submit jstring
  | Settled task answer
  | Props operator_state
  | Edited "js_error + jstring"

fun handle :: "tui_env \<Rightarrow> platform \<Rightarrow> bool \<Rightarrow> tui_input \<Rightarrow> operator_state \<Rightarrow> tui_state \<Rightarrow> tui_result" where
  "handle env pf editor (Key input key) os s = on_key env editor os input key s"
| "handle env pf editor (Change value) os s = (updateDraft value s, [])"
| "handle env pf editor (Submit value) os s = submit env pf os value s"
| "handle env pf editor (Settled task a) os s = settle env pf task a s"
| "handle env pf editor (Props _) os s = (s, [])"
| "handle env pf editor (Edited (Inr value)) os s = (s\<lparr>tu_draft := value\<rparr>, [])"
| "handle env pf editor (Edited (Inl err)) os s = (s, [Unhandled err])"

fun issued :: "tui_effect list \<Rightarrow> task list" where
  "issued [] = []"
| "issued (Issue task _ # es) = task # issued es"
| "issued (_ # es) = issued es"

fun ends :: "tui_effect list \<Rightarrow> bool" where
  "ends [] = False"
| "ends (Exit # es) = True"
| "ends (Unhandled _ # es) = True"
| "ends (_ # es) = ends es"

text \<open>What can happen: only a task that waits is settled, and nothing happens once the application ended.\<close>

fun can_happen :: "tui_input \<Rightarrow> tui_app \<Rightarrow> bool" where
  "can_happen (Settled task a) app = (\<not> ta_ended app \<and> task \<in> set (ta_waiting app))"
| "can_happen _ app = (\<not> ta_ended app)"

definition tui_step ::
    "tui_env \<Rightarrow> platform \<Rightarrow> bool \<Rightarrow> tui_input \<Rightarrow> tui_app \<Rightarrow> tui_app \<times> tui_effect list" where
  "tui_step env pf editor i app =
     (if \<not> can_happen i app then (app, [])
      else let os = (case i of Props os \<Rightarrow> os | _ \<Rightarrow> ta_operator app);
               waiting = (case i of Settled task _ \<Rightarrow> remove1 task (ta_waiting app) | _ \<Rightarrow> ta_waiting app);
               (s1, es1) = handle env pf editor i os (ta_state app);
               (s2, es2) = after_render env pf os (ta_deps app) s1
           in (\<lparr>ta_operator = os, ta_state = s2, ta_deps = seen_deps os s1,
                 ta_waiting = waiting @ issued (es1 @ es2), ta_ended = ends (es1 @ es2)\<rparr>, es1 @ es2))"

definition tui_mount :: "tui_env \<Rightarrow> platform \<Rightarrow> operator_state \<Rightarrow> tui_app \<times> tui_effect list" where
  "tui_mount env pf os =
     (let (s, es) = after_render env pf os no_deps initial_tui in
      (\<lparr>ta_operator = os, ta_state = s, ta_deps = seen_deps os initial_tui, ta_waiting = issued es,
        ta_ended = ends es\<rparr>, es))"

fun tui_run :: "tui_env \<Rightarrow> platform \<Rightarrow> bool \<Rightarrow> tui_input list \<Rightarrow> tui_app \<Rightarrow> tui_app \<times> tui_effect list" where
  "tui_run env pf editor [] app = (app, [])"
| "tui_run env pf editor (i # ins) app =
     (let (app1, es1) = tui_step env pf editor i app; (app2, es2) = tui_run env pf editor ins app1
      in (app2, es1 @ es2))"

text \<open>A terminal to evaluate examples on.\<close>

definition example_env :: tui_env where
  "example_env = \<lparr>te_columns = None, te_rows = None, te_no_color = False, te_term = None, te_time = (\<lambda>s. s),
     te_unexpired = (\<lambda>_. True), te_syntax_message = lit ''bad JSON'', te_type_message = lit ''bad value''\<rparr>"

end
