(* ===== verification/TuiView.thy ===== *)
theory TuiView
  imports Tui
begin

text \<open>
  What the terminal application renders, \<open>ui/tui/src/App.tsx\<close>: the tree of boxes and texts that
  the component returns for a state. The layout of the tree on the screen is Ink's. A render returns
  \<open>None\<close> when it throws, which it can because it reads unvalidated results.
\<close>

section \<open>Trees\<close>

datatype attr = Flag string bool | Size string int | Style string string

datatype view =
    Box "attr list" "view list"
  | Text "attr list" jstring
  | TextInput jstring jstring

definition column :: "attr list \<Rightarrow> view list \<Rightarrow> view" where
  "column as vs = Box (Style ''flexDirection'' ''column'' # as) vs"

definition plain :: "jstring \<Rightarrow> view" where
  "plain t = Text [] t"

definition dim :: "jstring \<Rightarrow> view" where
  "dim t = Text [Flag ''dimColor'' True] t"

definition bold :: "jstring \<Rightarrow> view" where
  "bold t = Text [Flag ''bold'' True] t"

definition color :: "bool \<Rightarrow> string \<Rightarrow> attr list" where
  "color disabled value = (if disabled then [] else [Style ''color'' value])"

definition background :: "bool \<Rightarrow> string \<Rightarrow> attr list" where
  "background noColor value = (if noColor then [] else [Style ''backgroundColor'' value])"

text \<open>A value as a child of an element: \<open>null\<close>, \<open>undefined\<close> and booleans are empty, an object throws.\<close>

fun child_text :: "platform \<Rightarrow> jsval \<Rightarrow> jstring option" where
  "child_text pf (JStr s) = Some s"
| "child_text pf (JNum n) = Some (number_text pf n)"
| "child_text pf (JArr xs) = map_option concat (those (map (child_text pf) xs))"
| "child_text pf (JObj ps) = None"
| "child_text pf _ = Some []"

definition numbered_lines :: "platform \<Rightarrow> string list \<Rightarrow> jsval list \<Rightarrow> view list option" where
  "numbered_lines pf keys items = those (map (\<lambda>(i, item).
     map_option (\<lambda>line. plain (nat_text i @ lit ''. '' @ line)) (recordLine pf item keys))
     (enumerate 1 items))"

section \<open>Events\<close>

definition event_row :: "tui_env \<Rightarrow> platform \<Rightarrow> bool \<Rightarrow> bool \<Rightarrow> event_envelope \<Rightarrow> view" where
  "event_row env pf narrow noColor event = Box [Size ''gap'' 1] ([dim (te_time env (occurred_at event)),
     Text (color noColor (eventColor (ev_type event))) (eventTitle (ev_type event))] @
     (if narrow then []
      else [Text [Style ''wrap'' ''truncate''] (eventSummary pf (ev_type event) (payload event))]))"

definition EventRows :: "tui_env \<Rightarrow> platform \<Rightarrow> bool \<Rightarrow> bool \<Rightarrow> event_envelope list \<Rightarrow> view" where
  "EventRows env pf narrow noColor evs =
     (if evs = [] then dim (lit ''No activity here yet.'')
      else column [] (map (event_row env pf narrow noColor) evs))"

section \<open>Sections\<close>

definition tasks_pane :: "platform \<Rightarrow> tui_state \<Rightarrow> view option" where
  "tasks_pane pf s = do {
     todos \<leftarrow> numbered_lines pf [''title'', ''goal'', ''status'', ''id''] (tu_todos s);
     Some (column [] ([bold (lit ''SINCE YOU WERE AWAY'' @ middot @ lit ''PAST DAY'')] @
       (if returnBriefRows (tu_return s) = []
        then [dim (lit ''No verified changes were recorded in this period.'')]
        else map plain (take 8 (returnBriefRows (tu_return s)))) @
       [dim (lit ''/continuity.brief with period 24h, 7d, or 30d changes the summary window.''),
        Box [Size ''marginTop'' 1] [bold (lit ''CURRENT WORK'')], plain (workSummary pf (tu_work s))] @
       (if tu_todos s = [] then [dim (lit ''No open subgoals in the selected conversation.'')] else todos) @
       [dim (lit ''/taskgraph.get and /work.brief inspect durable task evidence.'')]))
   }"

text \<open>The object of an approval, whose own payload the row does not look into.\<close>

definition approval_value :: "approval_state \<Rightarrow> jsval" where
  "approval_value a = JObj ([(lit ''id'', JStr (ap_id a))] @
     (case ap_session_id a of None \<Rightarrow> [] | Some i \<Rightarrow> [(lit ''session_id'', JStr i)]) @
     (case ap_turn_id a of None \<Rightarrow> [] | Some i \<Rightarrow> [(lit ''turn_id'', JStr i)]) @
     [(lit ''payload'', ap_payload a), (lit ''last_sequence'', JInt (ap_last_sequence a))])"

definition approval_row :: "platform \<Rightarrow> nat \<times> approval_state \<Rightarrow> view option" where
  "approval_row pf entry = map_option (\<lambda>line. column [Size ''marginBottom'' 1]
       [bold (lit ''DECISION '' @ nat_text (fst entry)), Text [Style ''wrap'' ''wrap''] line,
        plain (lit ''[a] approve  [d] deny'')])
     (recordLine pf (approval_value (snd entry)) [''operation'', ''consequence'', ''expires_at'', ''id''])"

definition approvals_pane :: "platform \<Rightarrow> approval_state list \<Rightarrow> view option" where
  "approvals_pane pf approvals = do {
     rows \<leftarrow> those (map (approval_row pf) (enumerate 1 approvals));
     Some (column [] (if approvals = [] then [dim (lit ''No decisions are waiting.'')] else rows))
   }"

text \<open>\<open>latest?.field.length\<close> for the last run, \<open>undefined\<close> when there is none.\<close>

definition latest_run :: "tui_state \<Rightarrow> jsval" where
  "latest_run s = (case at_last (tu_runs s) of None \<Rightarrow> JUndef | Some r \<Rightarrow> r)"

definition latest_length :: "tui_state \<Rightarrow> string \<Rightarrow> jsval option" where
  "latest_length s field =
     (if nullish (latest_run s) then Some JUndef
      else Option.bind (read_prop (latest_run s) field) (\<lambda>v. read_prop v ''length''))"

definition latest_status :: "tui_state \<Rightarrow> jstring option" where
  "latest_status s =
     (if nullish (latest_run s) then Some (lit ''not run'')
      else map_option underscores_to_spaces (Option.bind (read_prop (latest_run s) ''status'') as_str))"

definition manifest_length :: "tui_state \<Rightarrow> string \<Rightarrow> jsval option" where
  "manifest_length s field = Option.bind (read_prop (tu_manifest s) field) (\<lambda>v. read_prop v ''length'')"

definition active_waivers :: "tui_env \<Rightarrow> tui_state \<Rightarrow> jsval list option" where
  "active_waivers env s = filter_try (\<lambda>w. map_option (\<lambda>revoked.
       revoked = JUndef \<and> te_unexpired env (fld w ''expires_at'')) (read_prop w ''revoked_at''))
     (tu_waivers s)"

definition verification_rows :: "platform \<Rightarrow> nat \<Rightarrow> tui_state \<Rightarrow> view list option" where
  "verification_rows pf waivers s =
     (if tu_manifest s = JUndef
      then Some [dim (lit ''No verification manifest for the first project. Use /project.verification.manifest.derive with accepted criteria.'')]
      else do {
        status \<leftarrow> latest_status s;
        gates \<leftarrow> Option.bind (manifest_length s ''gates'') (child_text pf);
        covered \<leftarrow> latest_length s ''criteria_covered'';
        coveredText \<leftarrow> child_text pf (or_else covered (JInt 0));
        uncovered \<leftarrow> latest_length s ''uncovered_criteria'';
        uncoveredText \<leftarrow> (if nullish uncovered then Option.bind (manifest_length s ''criteria'') (child_text pf)
          else child_text pf uncovered);
        Some [bold (lit ''VERIFICATION'' @ middot @ status),
          plain (gates @ lit '' gates'' @ middot @ coveredText @ lit '' covered'' @ middot @ uncoveredText @
            lit '' uncovered'' @ middot @ nat_text waivers @ lit '' active waivers''),
          dim (lit ''[v] run all required gates'' @ middot @
            lit ''/project.verification.runs and /project.verification.waivers inspect evidence'')]
      })"

definition projects_pane :: "tui_env \<Rightarrow> platform \<Rightarrow> tui_state \<Rightarrow> view option" where
  "projects_pane env pf s = do {
     waivers \<leftarrow> active_waivers env s;
     items \<leftarrow> numbered_lines pf [''name'', ''lifecycle'', ''root'', ''id''] (arrayField (tu_projects s) ''projects'');
     verification \<leftarrow> verification_rows pf (length waivers) s;
     Some (column [] ((if items = [] then [dim (lit ''No registered projects.'')] else items) @ verification @
       [dim (lit ''/project.get, /project.search, and /project.runtime.list use the shared project state.'')]))
   }"

definition schedules_pane :: "platform \<Rightarrow> tui_state \<Rightarrow> view option" where
  "schedules_pane pf s = do {
     rows \<leftarrow> numbered_lines pf [''name'', ''status'', ''timezone'', ''next_due_at'', ''source''] (tu_schedules s);
     Some (column [] ((if rows = [] then [dim (lit ''No recurring work is configured.'')] else rows) @
       [dim (lit ''/schedule.update uses the server-provided schedule contract.'')]))
   }"

definition skills_pane :: "platform \<Rightarrow> tui_state \<Rightarrow> view option" where
  "skills_pane pf s = do {
     rows \<leftarrow> skillRows pf (tu_skills s);
     Some (column [] ((if rows = [] then [dim (lit ''No ability lifecycle records are available.'')]
         else map plain (take 12 rows)) @
       [dim (lit ''/skill.get, /skill.refine, and /skill.rollback inspect or change one ability.'')]))
   }"

definition memory_pane :: "tui_env \<Rightarrow> platform \<Rightarrow> bool \<Rightarrow> bool \<Rightarrow> event_envelope list \<Rightarrow> view" where
  "memory_pane env pf narrow noColor recent = column []
     [dim (lit ''/memory.search, /memory.get, /memory.pin, and /memory.recover use durable memory.''),
      EventRows env pf narrow noColor (filter (\<lambda>e.
        starts_with ''memory.'' (ev_type e) \<or> starts_with ''premise.'' (ev_type e)) recent)]"

definition session_row :: "platform \<Rightarrow> int \<Rightarrow> nat \<times> jsval \<Rightarrow> view option" where
  "session_row pf cursor entry = (let selected = (int (fst entry) = cursor) in
     map_option (Text [Flag ''bold'' selected, Flag ''inverse'' selected])
       (map_option (\<lambda>line. nat_text (fst entry + 1) @ lit ''. '' @ line)
         (recordLine pf (snd entry) [''title'', ''preview'', ''updated_at'', ''id''])))"

definition system_pane ::
    "tui_env \<Rightarrow> platform \<Rightarrow> bool \<Rightarrow> bool \<Rightarrow> event_envelope list \<Rightarrow> tui_state \<Rightarrow> view option" where
  "system_pane env pf narrow noColor recent s = do {
     rows \<leftarrow> those (map (session_row pf (tu_session_cursor s)) (enumerate 0 (take 8 (tu_sessions s))));
     Some (column [] ([plain (nat_text (length (tu_sessions s)) @ lit '' encrypted conversations'' @ middot @
         nat_text (length (tu_providers s)) @ lit '' configured providers'')] @ rows @
       [dim (lit ''[ and ] select'' @ middot @ lit ''r resume here'' @ middot @
          lit ''/provider.list, /channel.health, /logs.query, and /system.health inspect operations.''),
        EventRows env pf narrow noColor recent]))
   }"

definition SectionPane ::
    "tui_env \<Rightarrow> platform \<Rightarrow> bool \<Rightarrow> bool \<Rightarrow> approval_state list \<Rightarrow> event_envelope list \<Rightarrow> tui_state \<Rightarrow>
     view option" where
  "SectionPane env pf narrow noColor approvals recent s = (case tu_section s of
      Tasks \<Rightarrow> tasks_pane pf s
    | Approvals \<Rightarrow> approvals_pane pf approvals
    | Projects \<Rightarrow> projects_pane env pf s
    | Schedules \<Rightarrow> schedules_pane pf s
    | Skills \<Rightarrow> skills_pane pf s
    | Memory \<Rightarrow> Some (memory_pane env pf narrow noColor recent)
    | System \<Rightarrow> system_pane env pf narrow noColor recent s
    | _ \<Rightarrow> Some (EventRows env pf narrow noColor recent))"

section \<open>The Computer\<close>

definition handoff_text :: "platform \<Rightarrow> jsval \<Rightarrow> jstring option" where
  "handoff_text pf handoff =
     (if handoff = JUndef then Some []
      else do {
        kind \<leftarrow> Option.bind (read_prop handoff ''kind'') as_str;
        Some (middot @ underscores_to_spaces kind @ lit '': '' @ to_string pf (fld handoff ''consequence''))
      })"

definition workflow_row :: "platform \<Rightarrow> jsval \<Rightarrow> view option" where
  "workflow_row pf w = do {
     status \<leftarrow> Option.bind (read_prop w ''status'') as_str;
     origin \<leftarrow> child_text pf (fld w ''origin'');
     revision \<leftarrow> child_text pf (fld w ''revision'');
     handoff \<leftarrow> handoff_text pf (fld w ''handoff'');
     Some (plain (underscores_to_spaces status @ middot @ origin @ middot @ lit ''rev '' @ revision @ handoff))
   }"

definition WorkflowSummary :: "platform \<Rightarrow> jsval list \<Rightarrow> view option" where
  "WorkflowSummary pf workflows = do {
     rows \<leftarrow> those (map (workflow_row pf) (take 5 workflows));
     Some (column [Size ''marginTop'' 1] ([bold (lit ''SUPERVISED BROWSER WORKFLOWS'')] @
       (if workflows = [] then [dim (lit ''No active or retained browser workflows.'')] else rows) @
       [dim (lit ''Shared commands: /browser.workflow.pause, resume, cancel, or handoff with JSON arguments'')]))
   }"

text \<open>The display model of an accepted payload, and its compatibility.\<close>

definition payload_compatibility :: "platform \<Rightarrow> jsval \<Rightarrow> display_compatibility option" where
  "payload_compatibility pf p = (if fld p ''display_model'' = JUndef then None
     else Some (displayModelCompatibility pf (source_count p) (fld p ''display_model'')))"

definition payload_model :: "platform \<Rightarrow> jsval \<Rightarrow> jsval option" where
  "payload_model pf p =
     (if payload_compatibility pf p = Some Current \<or> payload_compatibility pf p = Some Migrated
      then migrateDisplayModel pf (source_count p) (fld p ''display_model'') else None)"

definition source_texts :: "jsval \<Rightarrow> jstring list" where
  "source_texts p = map (\<lambda>(i, source). underscores_to_spaces (str_of (fld source ''kind'')) @ lit '' '' @ nat_text i)
     (enumerate 1 (elems (fld p ''source_references'')))"

definition computer_facts :: "platform \<Rightarrow> bool \<Rightarrow> bool \<Rightarrow> event_envelope \<Rightarrow> view list" where
  "computer_facts pf gapped waiting event = (let p = payload event; model = payload_model pf p in
     [plain (lit ''ACTION    '' @ underscores_to_spaces (str_of (fld p ''operation''))),
      plain (lit ''STATUS    '' @ underscores_to_spaces (str_of (fld p ''phase''))),
      plain (lit ''TRUTH     '' @ (case model of None \<Rightarrow> lit ''lifecycle only''
        | Some m \<Rightarrow> str_of (fld (fld m ''title'') ''truth''))),
      plain (lit ''SOURCE    '' @ join (lit '', '') (source_texts p)),
      plain (lit ''APP       '' @ underscores_to_spaces (str_of (fld p ''display_kind''))),
      plain (lit ''ARTIFACT  '' @ (case model of
          None \<Rightarrow> if fld (fld p ''result'') ''available'' = JBool True then lit ''available'' else lit ''not available''
        | Some m \<Rightarrow> str_of (fld (fld m ''title'') ''value''))),
      plain (lit ''APPROVAL  '' @ (if fld p ''phase'' = JStr (lit ''awaiting_approval'') \<or> waiting
        then lit ''decision waiting'' else lit ''none waiting'')),
      plain (lit ''REPLAY    event '' @ int_text (sequence event) @ middot @
        (if gapped then lit ''earlier retention gap'' else lit ''continuous retained window''))] @
     (if payload_compatibility pf p = Some Unsupported
      then [plain (lit ''DISPLAY   unsupported version; lifecycle remains authoritative'')] else []))"

definition timeline_start :: "nat \<Rightarrow> int \<Rightarrow> int" where
  "timeline_start n index = max 0 (min (int n - 5) (index - 2))"

definition timeline :: "platform \<Rightarrow> event_envelope list \<Rightarrow> int \<Rightarrow> event_envelope \<Rightarrow> view list" where
  "timeline pf evs index event = (let start = nat (timeline_start (length evs) index) in
     map (\<lambda>(i, item). let selected = (event_id item = event_id event) in
       Text [Flag ''bold'' selected, Flag ''inverse'' selected]
         (nat_text i @ lit ''  '' @ eventSummary pf (ev_type item) (payload item)))
     (enumerate (start + 1) (take 5 (drop start evs))))"

definition ComputerPane ::
    "platform \<Rightarrow> event_envelope option \<Rightarrow> event_envelope list \<Rightarrow> bool \<Rightarrow> bool \<Rightarrow> int \<Rightarrow> bool \<Rightarrow> jsval list \<Rightarrow>
     view option" where
  "ComputerPane pf selected evs followLive gapped index waiting workflows = do {
     summary \<leftarrow> WorkflowSummary pf workflows;
     Some (case selected of
        None \<Rightarrow> column [] [bold (lit ''READY'' @ middot @ lit ''FOLLOWING LIVE''),
          dim (lit ''No Computer activity yet. Real actions will appear with status and sources.''), summary]
      | Some event \<Rightarrow>
          if \<not> isComputerEventPayload pf (payload event)
          then column [] [bold (lit ''UNSUPPORTED RETAINED ACTIVITY''),
            dim (lit ''Lifecycle version cannot be displayed. No result has been inferred.''),
            plain (lit ''REPLAY  event '' @ int_text (sequence event)), summary]
          else column [] [
            Box [Style ''justifyContent'' ''space-between'']
              [bold (if followLive then lit ''FOLLOWING LIVE'' else lit ''HISTORY'' @ middot @ lit ''WORK CONTINUES''),
               plain (int_text (index + 1) @ lit ''/'' @ nat_text (length evs) @ lit '' retained events'')],
            column [Size ''marginTop'' 1] (computer_facts pf gapped waiting event), summary,
            column [Size ''marginTop'' 1] ([bold (lit ''TIMELINE'')] @ timeline pf evs index event)])
   }"

section \<open>The screen\<close>

definition screen_width :: "tui_env \<Rightarrow> nat" where
  "screen_width env = (case te_columns env of None \<Rightarrow> 100 | Some n \<Rightarrow> n)"

definition screen_height :: "tui_env \<Rightarrow> nat" where
  "screen_height env = (case te_rows env of None \<Rightarrow> 30 | Some n \<Rightarrow> n)"

definition is_narrow :: "tui_env \<Rightarrow> bool" where
  "is_narrow env \<longleftrightarrow> screen_width env < 82"

definition no_color :: "tui_env \<Rightarrow> bool" where
  "no_color env \<longleftrightarrow> te_no_color env \<or> te_term env = Some (lit ''dumb'')"

definition recent_rows :: "tui_env \<Rightarrow> operator_state \<Rightarrow> event_envelope list" where
  "recent_rows env os = slice_last (max 4 (screen_height env - 17))
     (filter (\<lambda>e. ev_type e \<noteq> lit ''reasoning.summary'') (recent_events os))"

definition header_bar :: "tui_env \<Rightarrow> string \<Rightarrow> view" where
  "header_bar env connection = (let black = color (no_color env) ''black'' in
     Box (background (no_color env) ''green'' @ [Size ''paddingX'' 1, Style ''justifyContent'' ''space-between''])
       [Text (Flag ''bold'' True # black) (lit ''ION''), Text black (lit ''assistant workspace''),
        Text black (lit connection @ middot @ lit ''up to date'')])"

definition section_tab :: "tui_env \<Rightarrow> tui_section \<Rightarrow> nat \<times> tui_section \<times> string \<Rightarrow> view" where
  "section_tab env current entry = (case entry of (i, section, label) \<Rightarrow>
     Text ([Flag ''bold'' (current = section)] @ color (no_color env \<or> current \<noteq> section) ''black'' @
         [Flag ''inverse'' (current = section \<and> no_color env)])
       (nat_text i @ lit '':'' @ (if is_narrow env then take 4 (lit label) else lit label)))"

definition tab_bar :: "tui_env \<Rightarrow> tui_state \<Rightarrow> view" where
  "tab_bar env s = Box ([Size ''minHeight'' 1, Size ''paddingX'' 1, Size ''gap'' (if is_narrow env then 1 else 2),
       Style ''flexWrap'' ''wrap''] @ background (no_color env) ''gray'')
     (map (section_tab env (tu_section s)) (enumerate 1 sections))"

definition panel :: "tui_env \<Rightarrow> view list \<Rightarrow> view" where
  "panel env vs = column ([Size ''marginBottom'' 1, Size ''paddingX'' 1] @ background (no_color env) ''gray'') vs"

definition review_panel :: "tui_env \<Rightarrow> platform \<Rightarrow> tui_state \<Rightarrow> view list" where
  "review_panel env pf s = (if tu_section s \<noteq> Projects then []
     else [panel env [bold (lit ''SPECIFICATION REVIEW''),
       Text [Style ''wrap'' ''wrap''] (studioDetails pf (tu_studio s)),
       dim (lit ''[y] accept  [n] reject  [p] apply accepted spec  [v] run verification'')]])"

definition output_panel :: "tui_env \<Rightarrow> tui_state \<Rightarrow> view list" where
  "output_panel env s = (if tu_output s = [] then []
     else [panel env [bold (lit ''COMMAND RESULT''), Text [Style ''wrap'' ''wrap''] (tu_output s)]])"

definition computer_pane :: "platform \<Rightarrow> operator_state \<Rightarrow> tui_state \<Rightarrow> view option" where
  "computer_pane pf os s = ComputerPane pf (array_get (computerEvents os) (computerIndex os s))
     (computerEvents os) (tu_follow s) (gap os) (computerIndex os s) (pendingApproval os \<noteq> None) (tu_workflows s)"

definition main_pane :: "tui_env \<Rightarrow> platform \<Rightarrow> operator_state \<Rightarrow> tui_state \<Rightarrow> view option" where
  "main_pane env pf os s = do {
     subtitle \<leftarrow> sectionSubtitle (tu_section s) (tu_catalog s);
     pane \<leftarrow> (if tu_section s = Computer then computer_pane pf os s
       else SectionPane env pf (is_narrow env) (no_color env) (dict_values (pending_approvals os))
         (recent_rows env os) s);
     Some (column [Size ''flexGrow'' 1, Size ''paddingX'' 1] [bold (sectionTitle (tu_section s)), dim subtitle,
       column [Size ''marginTop'' 1] ((if tu_section s = Computer then [pane] else []) @
         review_panel env pf s @ output_panel env s @ (if tu_section s = Computer then [] else [pane]))])
   }"

definition decision_panel :: "tui_env \<Rightarrow> platform \<Rightarrow> operator_state \<Rightarrow> view list option" where
  "decision_panel env pf os = (case pendingApproval os of
      None \<Rightarrow> Some []
    | Some a \<Rightarrow> do {
        summary \<leftarrow> compactPayload pf (ap_payload a);
        Some [column [Size ''marginTop'' 1]
          [Text (Flag ''bold'' True # color (no_color env) ''yellow'') (lit ''YOUR DECISION IS REQUIRED''),
           Text [Style ''wrap'' ''wrap''] summary, plain (lit ''[a] approve  [d] deny'')]]
      })"

definition details_pane :: "tui_env \<Rightarrow> platform \<Rightarrow> operator_state \<Rightarrow> tui_state \<Rightarrow> view list option" where
  "details_pane env pf os s =
     (if is_narrow env then Some []
      else do {
        available \<leftarrow> available_items (tu_catalog s);
        decision \<leftarrow> decision_panel env pf os;
        Some [Box ([Size ''width'' 34, Style ''flexDirection'' ''column'', Size ''paddingX'' 1] @
            background (no_color env) ''gray'')
          ([bold (lit ''DETAILS''), dim (nat_text (length (turns os)) @ lit '' requests tracked''),
            dim (nat_text (length (pending_approvals os)) @ lit '' decisions waiting''),
            dim (nat_text (length available) @ lit '' actions available''),
            dim (workSummary pf (tu_work s)), dim (projectSummary (tu_projects s)),
            dim (studioSummary (tu_studio s)), dim (livingSummary pf (tu_living s)),
            dim (soulSummary pf (tu_soul s))] @ decision)]
      })"

definition composer :: "tui_env \<Rightarrow> tui_state \<Rightarrow> view" where
  "composer env s = Box (Size ''paddingX'' 1 # background (no_color env) ''gray'')
     [Text (color (no_color env) ''black'') (lit ''> ''),
      (if tu_focus s = Composer
       then TextInput (if tu_busy s then lit ''turn running'' @ ellipsis else lit ''Ask, inspect, or direct'' @ ellipsis)
         (tu_draft s)
       else dim (if tu_draft s = [] then lit ''Navigation focus'' else tu_draft s))]"

definition queue_rows :: "tui_state \<Rightarrow> view list" where
  "queue_rows s = (if tu_queue s = [] then []
     else [column [Size ''paddingX'' 1] (bold (nat_text (length (tu_queue s)) @ lit '' queued'') #
       map dim (take 3 (tu_queue s)))])"

definition suggestion_row :: "platform \<Rightarrow> nat \<times> suggestion \<Rightarrow> view option" where
  "suggestion_row pf entry = map_option (\<lambda>description. Text [Flag ''dimColor'' (fst entry \<noteq> 0)]
       (lit ''/'' @ sg_operation (snd entry) @ lit ''  '' @ description))
     (child_text pf (sg_description (snd entry)))"

definition suggestion_rows :: "platform \<Rightarrow> tui_state \<Rightarrow> view list option" where
  "suggestion_rows pf s = do {
     sgs \<leftarrow> slashSuggestions (tu_catalog s) (tu_draft s);
     rows \<leftarrow> those (map (suggestion_row pf) (enumerate 0 sgs));
     Some (if sgs = [] then [] else [column [Size ''paddingX'' 2] rows])
   }"

definition status_bar :: "tui_env \<Rightarrow> jstring option \<Rightarrow> tui_state \<Rightarrow> view" where
  "status_bar env err s = Box [Size ''paddingX'' 1, Style ''justifyContent'' ''space-between'']
     [Text (color (no_color env \<or> err = None) ''red'') (case err of None \<Rightarrow> tu_notice s | Some e \<Rightarrow> e),
      dim ((if tu_focus s = Nav then lit ''Navigation focus'' else lit ''Composer focus'') @ middot @
        lit ''/help commands'' @ middot @ lit ''Tab views'' @ middot @ lit ''Esc focus'' @ middot @
        lit ''Ctrl+E editor'' @ middot @ lit ''q quit'')]"

definition app_view ::
    "tui_env \<Rightarrow> platform \<Rightarrow> operator_state \<Rightarrow> string \<Rightarrow> jstring option \<Rightarrow> tui_state \<Rightarrow> view option" where
  "app_view env pf os connection err s = do {
     suggestions \<leftarrow> suggestion_rows pf s;
     main \<leftarrow> main_pane env pf os s;
     details \<leftarrow> details_pane env pf os s;
     Some (column [Size ''width'' (int (screen_width env))]
       ([header_bar env connection, tab_bar env s,
         Box [Size ''minHeight'' (max 8 (int (screen_height env) - 9))] (main # details), composer env s] @
        queue_rows s @ suggestions @ [status_bar env err s]))
   }"

end
