(* ===== verification/TuiComposer.thy ===== *)
theory TuiComposer
  imports TuiView
begin

text \<open>
  The composer of the terminal application: one request at a time, a bounded queue behind it, messages
  in the order they were typed. The invariant relates the flag, the queue and the tasks that wait to what
  went out and what was entered; every handler and every effect keeps it.
\<close>

section \<open>The composer\<close>

fun composer_task :: "task \<Rightarrow> bool" where
  "composer_task (CreateForSend _) = True"
| "composer_task SubmitTurn = True"
| "composer_task CreateForSlash = True"
| "composer_task (RunSlash _) = True"
| "composer_task _ = False"

definition composing :: "task list \<Rightarrow> task list" where
  "composing = filter composer_task"

fun created_for :: "task \<Rightarrow> jstring list" where
  "created_for (CreateForSend content) = [content]"
| "created_for _ = []"

definition creating :: "task list \<Rightarrow> jstring list" where
  "creating ts = concat (map created_for ts)"

text \<open>The messages a list of effects hands to the server.\<close>

fun wire :: "tui_effect list \<Rightarrow> jstring list" where
  "wire [] = []"
| "wire (Issue SubmitTurn calls # es) = map (\<lambda>c. str_of (fld (cl_payload c) ''content'')) calls @ wire es"
| "wire (_ # es) = wire es"

lemma wire_append [simp]: "wire (es @ fs) = wire es @ wire fs"
  by (induction es rule: wire.induct) auto

lemma issued_append [simp]: "issued (es @ fs) = issued es @ issued fs"
  by (induction es rule: issued.induct) auto

lemma ends_append [simp]: "ends (es @ fs) \<longleftrightarrow> ends es \<or> ends fs"
  by (induction es rule: ends.induct) auto

lemma composing_simps [simp]:
  "composing [] = []" "composing (t # ts) = (if composer_task t then t # composing ts else composing ts)"
  "composing (ts @ us) = composing ts @ composing us"
  by (simp_all add: composing_def)

lemma creating_simps [simp]:
  "creating [] = []" "creating (t # ts) = created_for t @ creating ts"
  "creating (ts @ us) = creating ts @ creating us"
  by (simp_all add: creating_def)

lemma creating_composing: "creating (composing ts) = creating ts"
proof (induction ts)
  case (Cons t ts)
  have "\<not> composer_task t \<Longrightarrow> created_for t = []" by (cases t) simp_all
  with Cons show ?case by simp
qed simp

text \<open>What the composer keeps of a state: the queue, the flag and the session.\<close>

definition same_composer :: "tui_state \<Rightarrow> tui_state \<Rightarrow> bool" where
  "same_composer s t \<longleftrightarrow> tu_queue s = tu_queue t \<and> tu_busy s = tu_busy t"

text \<open>A handler that leaves the composer alone.\<close>

definition quiet :: "tui_effect list \<Rightarrow> bool" where
  "quiet es \<longleftrightarrow> composing (issued es) = [] \<and> wire es = []"

lemma quiet_simps [simp]: "quiet []" "quiet [OpenEditor d]" "quiet [Exit]" "quiet (es @ fs) \<longleftrightarrow> quiet es \<and> quiet fs"
  by (auto simp: quiet_def)

lemma quiet_creating: "quiet es \<Longrightarrow> creating (issued es) = []"
  using creating_composing [of "issued es"] by (simp add: quiet_def)

subsection \<open>Keys\<close>

lemma quiet_decisions [simp]:
  "quiet (decide os d)" "quiet (resumeSelectedSession s)" "quiet (decideStudio b s)" "quiet (applyStudio s)"
  by (auto simp: quiet_def decide_def resumeSelectedSession_def decideStudio_def applyStudio_def
      split: option.splits jsval.splits)

lemma runProjectVerification_composer:
  assumes "runProjectVerification env s = (s', es)" "\<not> ends es" "RunVerification \<notin> set (issued es)"
  shows "same_composer s' s \<and> quiet es"
  using assms by (auto simp: runProjectVerification_def same_composer_def quiet_def split: option.splits if_splits)

lemma project_keys_composer:
  assumes "project_keys env r input s = (s', es)" "\<not> ends es" "RunVerification \<notin> set (issued es)"
  shows "same_composer s' s \<and> quiet es"
  using assms runProjectVerification_composer
  by (auto simp: project_keys_def same_composer_def split: if_splits)

lemma computer_keys_composer [simp]: "same_composer (computer_keys os r input k s) s"
  by (simp add: computer_keys_def same_composer_def Let_def)

lemma system_keys_composer: "system_keys r input k s = (s', es) \<Longrightarrow> same_composer s' s \<and> quiet es"
  by (auto simp: system_keys_def same_composer_def Let_def split: if_splits)

lemma same_composer_refl [simp]: "same_composer s s"
  by (simp add: same_composer_def)

lemma same_composer_trans: "same_composer s t \<Longrightarrow> same_composer t u \<Longrightarrow> same_composer s u"
  by (simp add: same_composer_def)

lemma action_keys_composer:
  assumes "action_keys env editor os r input k s = (s', es)" "\<not> ends es" "RunVerification \<notin> set (issued es)"
  shows "same_composer s' s \<and> quiet es"
proof -
  obtain s1 studio where 1: "project_keys env r input s = (s1, studio)" by force
  obtain s2 res where 2: "system_keys r input k (computer_keys os r input k s1) = (s2, res)" by force
  have es: "s' = s2" "es = (if input = lit ''a'' then decide os ''approve'' else []) @
      (if input = lit ''d'' then decide os ''deny'' else []) @ studio @ res @
      (if k_ctrl k \<and> input = lit ''e'' \<and> editor then [OpenEditor (tu_draft r)] else [])"
    using assms(1) 1 2 by (simp_all add: action_keys_def Let_def)
  have "same_composer s1 s" "quiet studio"
    using project_keys_composer [OF 1] assms(2,3) es(2) by auto
  moreover have "same_composer s2 (computer_keys os r input k s1)" "quiet res"
    using system_keys_composer [OF 2] by simp_all
  moreover have "same_composer (computer_keys os r input k s1) s1" by simp
  ultimately have "same_composer s2 s" by (blast intro: same_composer_trans)
  with \<open>quiet studio\<close> \<open>quiet res\<close> show ?thesis unfolding es by simp
qed

lemma section_keys_composer [simp]:
  "same_composer (select_section sec s) t = same_composer s t"
  "same_composer (choose_numbered input s) t = same_composer s t"
  "same_composer (toggle_focus s) t = same_composer s t"
  "same_composer (updateDraft value s) t = same_composer s t"
  by (simp_all add: same_composer_def select_section_def choose_numbered_def toggle_focus_def updateDraft_def Let_def
      split: option.splits)

lemma key_section_composer [simp]: "same_composer (key_section input k r s) t = same_composer s t"
  by (simp add: key_section_def split: option.splits)

lemma key_focus_composer [simp]: "same_composer (key_focus k s) t = same_composer s t"
  by (simp add: key_focus_def)

lemma on_key_composer:
  assumes "on_key env editor os input k s = (s', es)" "\<not> ends es" "RunVerification \<notin> set (issued es)"
  shows "same_composer s' s \<and> quiet es"
proof (cases "completion k s")
  case (Some sg)
  have "same_composer (key_focus k s) s" by simp
  with Some show ?thesis using assms(1) by (auto simp: on_key_def same_composer_def key_quit_def)
next
  case None
  obtain t es1 where 1: "action_keys env editor os s input k (key_section input k s (key_focus k s)) = (t, es1)" by force
  then have eq: "s' = t" "es = key_quit input s @ es1" using assms(1) None by (simp_all add: on_key_def)
  then have "same_composer t (key_section input k s (key_focus k s))" "quiet es1"
    using action_keys_composer [OF 1] assms(2,3) by auto
  moreover have "same_composer (key_section input k s (key_focus k s)) s" by simp
  ultimately show ?thesis using eq same_composer_trans by (auto simp: key_quit_def)
qed

subsection \<open>Sending\<close>

lemma executeSlash_composer:
  assumes "executeSlash env pf value s = (s', es)"
  shows "tu_queue s' = tu_queue s \<and> tu_session s' = tu_session s \<and> composing (issued es) = issued es \<and>
    length (issued es) = (if tu_busy s' then 1 else 0) \<and> wire es = [] \<and> creating (issued es) = [] \<and>
    RunVerification \<notin> set (issued es) \<and> \<not> ends es"
  using assms
  by (auto simp: executeSlash_def slash_help_def slash_new_def slash_run_def end_with_def Let_def
      split: option.splits if_splits sum.splits)

lemma wire_submit_call: "wire [Issue SubmitTurn [submit_call content session]] = [content]"
  by (simp add: submit_call_def command_call_def)

lemma send_composer:
  assumes "send env pf content s = (s', es)" "content \<noteq> []" "\<not> tu_busy s"
  shows "tu_queue s' = tu_queue s \<and> tu_session s' = tu_session s \<and> composing (issued es) = issued es \<and>
    length (issued es) = (if tu_busy s' then 1 else 0) \<and>
    wire es @ creating (issued es) = (if starts_with ''/'' content then [] else [content]) \<and>
    RunVerification \<notin> set (issued es) \<and> \<not> ends es"
proof (cases "starts_with ''/'' content")
  case True
  then have "executeSlash env pf content s = (s', es)" using assms by (simp add: send_def)
  then show ?thesis using True executeSlash_composer by simp
next
  case False
  then show ?thesis
    using assms wire_submit_call [of content "tu_session s"]
    by (auto simp: send_def Let_def split: if_splits)
qed

text \<open>
  The state of the composer against the tasks that wait, what went out and what was submitted. When
  \<open>exact\<close> nothing was dropped.
\<close>

definition covers :: "bool \<Rightarrow> jstring list \<Rightarrow> jstring list \<Rightarrow> bool" where
  "covers exact xs ys \<longleftrightarrow> (if exact then xs = ys else subseq xs ys)"

definition composer_ok ::
    "bool \<Rightarrow> tui_state \<Rightarrow> task list \<Rightarrow> jstring list \<Rightarrow> jstring list \<Rightarrow> bool" where
  "composer_ok exact s waiting out given \<longleftrightarrow>
     length (composing waiting) = (if tu_busy s then 1 else 0) \<and>
     covers exact (out @ creating waiting @ tu_queue s) given \<and>
     length (tu_queue s) \<le> 20 \<and> list_all (\<lambda>c. c \<noteq> []) (tu_queue s) \<and> RunVerification \<notin> set waiting"

definition drained :: "operator_state \<Rightarrow> tui_state \<Rightarrow> bool" where
  "drained os s \<longleftrightarrow> tu_queue s = [] \<or> tu_busy s \<or> runningTurns os s \<noteq> []"

definition plain_texts :: "jstring list \<Rightarrow> bool" where
  "plain_texts cs \<longleftrightarrow> list_all (\<lambda>c. \<not> starts_with ''/'' c) cs"

lemma idle_creating: "composer_ok exact s w out given \<Longrightarrow> \<not> tu_busy s \<Longrightarrow> composing w = [] \<and> creating w = []"
  using creating_composing [of w] by (auto simp: composer_ok_def)

lemma covers_drop: "covers exact (xs @ c # ys) zs \<Longrightarrow> \<not> exact \<Longrightarrow> covers exact (xs @ ys) zs"
proof -
  have "subseq (xs @ ys) (xs @ c # ys)" by (intro list_emb_append_mono) auto
  then show "covers exact (xs @ c # ys) zs \<Longrightarrow> \<not> exact \<Longrightarrow> covers exact (xs @ ys) zs"
    by (auto simp: covers_def intro: subseq_order.order_trans)
qed

lemma composer_ok_send:
  assumes ok: "composer_ok exact (s\<lparr>tu_queue := content # rest\<rparr>) w out given" "\<not> tu_busy s"
    and plain: "exact \<Longrightarrow> \<not> starts_with ''/'' content"
    and send: "send env pf content (s\<lparr>tu_queue := rest\<rparr>) = (s', es)"
  shows "composer_ok exact s' (w @ issued es) (out @ wire es) given \<and> tu_queue s' = rest \<and> \<not> ends es"
proof -
  have idle: "composing w = []" "creating w = []" using idle_creating [OF ok(1)] ok(2) by simp_all
  have "content \<noteq> []" using ok(1) by (simp add: composer_ok_def)
  note sent = send_composer [OF send this]
  have "covers exact ((out @ wire es) @ creating (w @ issued es) @ rest) given"
  proof (cases "starts_with ''/'' content")
    case True
    with plain have "\<not> exact" by blast
    with True show ?thesis
      using ok idle sent covers_drop [of exact out content rest given] by (simp add: composer_ok_def)
  next
    case False
    then have "wire es @ creating (issued es) = [content]" using sent ok(2) by simp
    then have "(out @ wire es) @ creating (w @ issued es) @ rest = out @ content # rest"
      using idle by (metis append.assoc append_Cons append_Nil creating_simps(3))
    moreover have "covers exact (out @ content # rest) given" using ok idle by (simp add: composer_ok_def)
    ultimately show ?thesis by (simp only:)
  qed
  then show ?thesis using ok sent idle by (auto simp: composer_ok_def)
qed

lemma send_queued_composer:
  assumes "send_queued env pf os q s = (s', es)" "tu_queue s = q" "composer_ok exact s w out given"
    "exact \<Longrightarrow> plain_texts q"
  shows "composer_ok exact s' (w @ issued es) (out @ wire es) given \<and> drained os s' \<and> \<not> ends es"
  using assms
proof (induction q arbitrary: s w out es)
  case Nil
  then show ?case by (auto simp: drained_def)
next
  case (Cons c q)
  show ?case
  proof (cases "tu_busy s \<or> runningTurns os s \<noteq> []")
    case True
    then show ?thesis using Cons.prems by (auto simp: drained_def)
  next
    case False
    obtain s1 es1 where 1: "send env pf c (s\<lparr>tu_queue := q\<rparr>) = (s1, es1)" by force
    obtain es2 where 2: "send_queued env pf os q s1 = (s', es2)" "es = es1 @ es2"
      using Cons.prems(1) False 1 by (auto split: prod.splits)
    have "composer_ok exact (s\<lparr>tu_queue := c # q\<rparr>) w out given" using Cons.prems(2,3) by (simp add: composer_ok_def)
    moreover have "exact \<Longrightarrow> \<not> starts_with ''/'' c" "exact \<Longrightarrow> plain_texts q"
      using Cons.prems(4) by (auto simp: plain_texts_def)
    ultimately have "composer_ok exact s1 (w @ issued es1) (out @ wire es1) given" "tu_queue s1 = q" "\<not> ends es1"
      using composer_ok_send [OF _ _ _ 1] False by auto
    then show ?thesis
      using Cons.IH [OF 2(1), of "w @ issued es1" "out @ wire es1"] \<open>exact \<Longrightarrow> plain_texts q\<close> 2(2) by simp
  qed
qed

lemma composer_ok_quiet:
  assumes "composer_ok exact s w out given" "same_composer s' s" "quiet es" "RunVerification \<notin> set (issued es)"
  shows "composer_ok exact s' (w @ issued es) (out @ wire es) given"
  using assms quiet_creating [OF assms(3)] by (auto simp: composer_ok_def same_composer_def quiet_def)

subsection \<open>Effects after a render\<close>

lemma quiet_refresh_loads: "quiet (refresh_loads session) \<and>
    RunVerification \<notin> set (issued (refresh_loads session)) \<and> \<not> ends (refresh_loads session)"
  by (simp add: refresh_loads_def load_def quiet_def)

lemma refresh_effect_composer: "refresh_effect os d s = (s', es) \<Longrightarrow>
    same_composer s' s \<and> quiet es \<and> RunVerification \<notin> set (issued es) \<and> \<not> ends es"
  using quiet_refresh_loads by (auto simp: refresh_effect_def same_composer_def split: if_splits)

lemma verify_effect_composer: "verify_effect os d s = (s', es) \<Longrightarrow>
    same_composer s' s \<and> quiet es \<and> RunVerification \<notin> set (issued es) \<and> \<not> ends es"
  by (auto simp: verify_effect_def same_composer_def quiet_def split: if_splits option.splits)

lemma cursor_effects_composer [simp]:
  "same_composer (follow_effect os d s) t = same_composer s t"
  "same_composer (clamp_effect d s) t = same_composer s t"
  by (simp_all add: follow_effect_def clamp_effect_def same_composer_def Let_def)

lemma catalog_effect_composer:
  "quiet (catalog_effect d) \<and> RunVerification \<notin> set (issued (catalog_effect d)) \<and> \<not> ends (catalog_effect d)"
  by (simp add: catalog_effect_def quiet_def)

lemma after_render_composer:
  assumes "after_render env pf os d s = (s', es)" "composer_ok exact s w out given"
    "exact \<Longrightarrow> plain_texts (tu_queue s)"
  shows "composer_ok exact s' (w @ issued es) (out @ wire es) given \<and> drained os s' \<and> \<not> ends es"
proof -
  obtain s1 es1 where 1: "refresh_effect os d s = (s1, es1)" by force
  obtain s2 es2 where 2: "verify_effect os d s1 = (s2, es2)" by force
  define s3 where "s3 = clamp_effect d (follow_effect os d s2)"
  obtain s4 es4 where 4: "queue_effect env pf os s3 = (s4, es4)" by force
  define es0 where "es0 = catalog_effect d @ es1 @ es2"
  have eq: "s' = s4" "es = es0 @ es4"
    using assms(1) 1 2 4 by (simp_all add: after_render_def s3_def es0_def)
  have same: "same_composer s3 s"
    using refresh_effect_composer [OF 1] verify_effect_composer [OF 2] same_composer_trans by (auto simp: s3_def)
  have "quiet es0" "RunVerification \<notin> set (issued es0)" "\<not> ends es0"
    using refresh_effect_composer [OF 1] verify_effect_composer [OF 2] catalog_effect_composer [of d]
    by (simp_all add: es0_def)
  then have "composer_ok exact s3 (w @ issued es0) (out @ wire es0) given"
    using composer_ok_quiet [OF assms(2) same] by simp
  moreover have "exact \<Longrightarrow> plain_texts (tu_queue s3)" using assms(3) same by (simp add: same_composer_def)
  ultimately show ?thesis
    using send_queued_composer [of env pf os "tu_queue s3" s3 s4 es4 exact "w @ issued es0" "out @ wire es0" given] 4 eq
      \<open>\<not> ends es0\<close>
    by (simp add: queue_effect_def)
qed

subsection \<open>Answers\<close>

lemma settle_composer:
  assumes "settle env pf t a s = (s', es)" "\<not> composer_task t" "t \<noteq> RunVerification" "\<not> ends es"
  shows "same_composer s' s \<and> quiet es \<and> RunVerification \<notin> set (issued es)"
  using assms
  by (cases t)
    (auto simp: same_composer_def quiet_def load_catalog_def load_verification_def uncaught_def session_resumed_def
      studio_answered_def split: sum.splits list.splits if_splits)

text \<open>A composer task that is settled frees the composer, unless it was the creation of a session.\<close>

lemma settle_composer_task:
  assumes "settle env pf t a s = (s', es)" "composer_task t"
  shows "tu_queue s' = tu_queue s \<and> \<not> ends es \<and>
    (\<not> tu_busy s' \<and> es = [] \<or>
     (\<exists>content session. t = CreateForSend content \<and> tu_busy s' = tu_busy s \<and>
        es = [Issue SubmitTurn [submit_call content session]]))"
  using assms
  by (cases t)
    (auto simp: caught_def end_with_def session_for_send_def turn_submitted_def session_for_slash_def slash_done_def
      split: sum.splits if_splits)

subsection \<open>Runs\<close>

fun submitted_by :: "tui_input \<Rightarrow> jstring list" where
  "submitted_by (Submit value) = (if trim value = [] then [] else [trim value])"
| "submitted_by _ = []"

text \<open>What was submitted over a run: the trimmed, non-empty texts.\<close>

definition submitted :: "tui_input list \<Rightarrow> jstring list" where
  "submitted ins = concat (map submitted_by ins)"

text \<open>An input that drops no message: no slash command, no session that could not be created.\<close>

fun keeps_messages :: "platform \<Rightarrow> tui_input \<Rightarrow> bool" where
  "keeps_messages pf (Submit value) = (\<not> starts_with ''/'' (trim value))"
| "keeps_messages pf (Settled (CreateForSend _) a) =
     (case a of Inr (r # _) \<Rightarrow> (case created_session pf r of Inr _ \<Rightarrow> True | Inl _ \<Rightarrow> False) | _ \<Rightarrow> False)"
| "keeps_messages pf _ = True"

lemma composing_remove1:
  "\<not> composer_task t \<Longrightarrow> composing (remove1 t w) = composing w"
  "t \<in> set w \<Longrightarrow> composer_task t \<Longrightarrow> length (composing w) \<le> 1 \<Longrightarrow> composing w = [t] \<and> composing (remove1 t w) = []"
proof -
  show "\<not> composer_task t \<Longrightarrow> composing (remove1 t w) = composing w"
    unfolding composing_def filter_remove1 by (simp add: remove1_idem)
  assume t: "t \<in> set w" "composer_task t" "length (composing w) \<le> 1"
  then have "t \<in> set (composing w)" by (simp add: composing_def)
  with t(3) have "composing w = [t]" by (cases "composing w") auto
  then show "composing w = [t] \<and> composing (remove1 t w) = []"
    using filter_remove1 [of composer_task t w] by (simp add: composing_def)
qed

lemma creating_remove1: "creating (remove1 t w) = creating (composing (remove1 t w))"
  by (simp add: creating_composing)

lemma settled_ok:
  assumes ok: "composer_ok exact s w out given" and t: "t \<in> set w"
    and step: "settle env pf t a s = (s', es)" "\<not> ends es" and keeps: "exact \<Longrightarrow> keeps_messages pf (Settled t a)"
  shows "composer_ok exact s' (remove1 t w @ issued es) (out @ wire es) given"
proof (cases "composer_task t")
  case False
  have "t \<noteq> RunVerification" using ok t by (auto simp: composer_ok_def)
  then have "same_composer s' s" "quiet es" "RunVerification \<notin> set (issued es)"
    using settle_composer [OF step(1) False _ step(2)] by simp_all
  moreover have "composer_ok exact s (remove1 t w) out given"
    using ok composing_remove1(1) [OF False, of w] creating_remove1 [of t w] creating_composing [of w]
      set_remove1_subset [of t w]
    by (auto simp: composer_ok_def)
  ultimately show ?thesis using composer_ok_quiet by blast
next
  case True
  have one: "composing w = [t]" "composing (remove1 t w) = []"
    using composing_remove1(2) [OF t True] ok by (auto simp: composer_ok_def split: if_splits)
  have none: "creating (remove1 t w) = []" "creating w = created_for t"
    using creating_remove1 [of t w] creating_composing [of w] one by simp_all
  have busy: "tu_busy s" using ok one(1) by (auto simp: composer_ok_def split: if_splits)
  have rest: "RunVerification \<notin> set (remove1 t w)" "covers exact (out @ created_for t @ tu_queue s) given"
    using ok none set_remove1_subset [of t w] by (auto simp: composer_ok_def)
  note done' = settle_composer_task [OF step(1) True]
  show ?thesis
  proof (cases "\<exists>content session. es = [Issue SubmitTurn [submit_call content session]] \<and> t = CreateForSend content \<and>
      tu_busy s' = tu_busy s")
    case True
    then obtain content session where "es = [Issue SubmitTurn [submit_call content session]]"
      "t = CreateForSend content" "tu_busy s' = tu_busy s" by blast
    then show ?thesis
      using ok one(2) none rest done' busy wire_submit_call [of content session] by (auto simp: composer_ok_def)
  next
    case False
    then have fin: "\<not> tu_busy s'" "es = []" using done' by blast+
    have "covers exact (out @ tu_queue s) given"
    proof (cases "created_for t = []")
      case True
      then show ?thesis using rest by simp
    next
      case created: False
      then obtain content where "t = CreateForSend content" by (cases t) auto
      then have "\<not> exact"
        using keeps step(1) fin
        by (auto simp: caught_def session_for_send_def end_with_def split: sum.splits list.splits)
      then show ?thesis using rest(2) \<open>t = CreateForSend content\<close> covers_drop [of exact out content "tu_queue s" given]
        by simp
    qed
    then show ?thesis using ok one(2) none rest(1) done' fin by (auto simp: composer_ok_def)
  qed
qed

lemma covers_append: "covers exact xs ys \<Longrightarrow> covers exact (xs @ zs) (ys @ zs)"
  by (auto simp: covers_def)

lemma covers_slice: "covers exact (xs @ ys) zs \<Longrightarrow> exact \<longrightarrow> length ys \<le> n \<Longrightarrow>
    covers exact (xs @ slice_last n ys) zs"
proof (cases exact)
  case False
  assume "covers exact (xs @ ys) zs"
  moreover have "subseq (xs @ slice_last n ys) (xs @ ys)"
    unfolding slice_last_def by (intro list_emb_append_mono) (auto intro: suffix_imp_subseq suffix_drop)
  ultimately show ?thesis using False by (auto simp: covers_def intro: subseq_order.order_trans)
qed (simp add: slice_last_all)

lemma covers_skip: "covers exact xs ys \<Longrightarrow> \<not> exact \<Longrightarrow> covers exact xs (ys @ zs)"
  by (auto simp: covers_def list_emb_append2)

lemma submit_ok:
  assumes ok: "composer_ok exact s w out given" "drained os s"
    and room: "exact \<Longrightarrow> length (given @ submitted_by (Submit value)) \<le> 20 \<and> \<not> starts_with ''/'' (trim value)"
    and step: "submit env pf os value s = (s', es)"
  shows "composer_ok exact s' (w @ issued es) (out @ wire es) (given @ submitted_by (Submit value)) \<and> \<not> ends es"
proof -
  let ?c = "trim value"
  consider "?c = []" | "?c \<noteq> []" "tu_busy s \<or> runningTurns os s \<noteq> []"
    | "?c \<noteq> []" "\<not> tu_busy s" "runningTurns os s = []" by blast
  then show ?thesis
  proof cases
    case 1
    then show ?thesis using ok step by (simp add: submit_def)
  next
    case 2
    have "covers exact (out @ creating w @ tu_queue s) given" using ok(1) by (simp add: composer_ok_def)
    moreover from this have "exact \<longrightarrow> length (tu_queue s) \<le> 19" using room 2 by (auto simp: covers_def)
    ultimately have "covers exact ((out @ creating w) @ slice_last 19 (tu_queue s)) given"
      by (intro covers_slice) simp_all
    from covers_append [OF this, of "[?c]"]
    have cov: "covers exact (out @ creating w @ slice_last 19 (tu_queue s) @ [?c]) (given @ [?c])" by simp
    have "list_all (\<lambda>c. c \<noteq> []) (slice_last 19 (tu_queue s))"
      using ok(1) set_slice_last [of 19 "tu_queue s"] by (auto simp: composer_ok_def list_all_iff)
    then show ?thesis using 2 ok(1) step cov by (auto simp: submit_def enqueue_def composer_ok_def)
  next
    case 3
    have q: "tu_queue s = []" using ok(2) 3 by (simp add: drained_def)
    have "s\<lparr>tu_queue := []\<rparr> = s" using q by (cases s) simp
    then have "send env pf ?c (s\<lparr>tu_queue := []\<rparr>) = (s', es)" using step 3 by (simp only: submit_def) simp
    moreover have "composer_ok exact (s\<lparr>tu_queue := ?c # []\<rparr>) w out (given @ [?c])"
      using ok(1) q 3 covers_append [of exact "out @ creating w" given "[?c]"] by (simp add: composer_ok_def)
    ultimately show ?thesis using composer_ok_send [where s = s and rest = "[]" and content = ?c] 3 room by simp
  qed
qed

lemma handle_ok:
  assumes ok: "composer_ok exact s w out given" "drained os s \<or> (\<forall>v. i \<noteq> Submit v)"
    and keeps: "exact \<Longrightarrow> keeps_messages pf i \<and> length (given @ submitted_by i) \<le> 20"
    and waits: "\<And>t a. i = Settled t a \<Longrightarrow> t \<in> set w"
    and step: "handle env pf editor i os s = (s', es)" "\<not> ends es" "RunVerification \<notin> set (issued es)"
  shows "composer_ok exact s' ((case i of Settled t _ \<Rightarrow> remove1 t w | _ \<Rightarrow> w) @ issued es) (out @ wire es)
    (given @ submitted_by i)"
proof (cases i)
  case (Key input k)
  then show ?thesis using composer_ok_quiet [OF ok(1)] on_key_composer [of env editor os input k s s' es] step by simp
next
  case (Change v)
  then show ?thesis using composer_ok_quiet [OF ok(1), of "updateDraft v s" "[]"] step by simp
next
  case (Submit v)
  then have "exact \<Longrightarrow> length (given @ submitted_by (Submit v)) \<le> 20 \<and> \<not> starts_with ''/'' (trim v)"
    using keeps by auto
  with Submit show ?thesis using submit_ok [OF ok(1), of os v env pf s' es] ok(2) step by auto
next
  case (Settled t a)
  then show ?thesis using settled_ok [OF ok(1) waits] step keeps by auto
next
  case (Props os')
  then show ?thesis using ok step by simp
next
  case (Edited r)
  then show ?thesis
    using composer_ok_quiet [OF ok(1), of s' "[]"] step by (cases r) (auto simp: same_composer_def)
qed

definition app_ok :: "bool \<Rightarrow> tui_app \<Rightarrow> jstring list \<Rightarrow> jstring list \<Rightarrow> bool" where
  "app_ok exact app out given \<longleftrightarrow> composer_ok exact (ta_state app) (ta_waiting app) out given \<and>
     drained (ta_operator app) (ta_state app) \<and> (exact \<longrightarrow> plain_texts given)"

lemma plain_texts_append: "plain_texts (xs @ ys) \<longleftrightarrow> plain_texts xs \<and> plain_texts ys"
  by (simp add: plain_texts_def)

lemma keeps_plain: "keeps_messages pf i \<Longrightarrow> plain_texts (submitted_by i)"
  by (cases i) (auto simp: plain_texts_def)

lemma step_ok:
  assumes ok: "app_ok exact app out given" and i: "can_happen i app"
    and keeps: "exact \<Longrightarrow> keeps_messages pf i \<and> length (given @ submitted_by i) \<le> 20"
    and step: "tui_step env pf editor i app = (app', es)" "\<not> ta_ended app'" "RunVerification \<notin> set (issued es)"
  shows "app_ok exact app' (out @ wire es) (given @ submitted_by i)"
proof -
  define os where "os = (case i of Props os \<Rightarrow> os | _ \<Rightarrow> ta_operator app)"
  define w where "w = (case i of Settled task _ \<Rightarrow> remove1 task (ta_waiting app) | _ \<Rightarrow> ta_waiting app)"
  obtain s1 es1 where 1: "handle env pf editor i os (ta_state app) = (s1, es1)" by force
  obtain s2 es2 where 2: "after_render env pf os (ta_deps app) s1 = (s2, es2)" by force
  have eq: "app' = \<lparr>ta_operator = os, ta_state = s2, ta_deps = seen_deps os s1, ta_waiting = w @ issued (es1 @ es2),
      ta_ended = ends (es1 @ es2)\<rparr>" "es = es1 @ es2"
    using step(1) i 1 2 by (auto simp: tui_step_def os_def w_def Let_def)
  have c: "composer_ok exact (ta_state app) (ta_waiting app) out given" using ok by (simp add: app_ok_def)
  have dr: "drained os (ta_state app) \<or> (\<forall>v. i \<noteq> Submit v)" using ok by (cases i) (auto simp: app_ok_def os_def)
  have waits: "\<And>t a. i = Settled t a \<Longrightarrow> t \<in> set (ta_waiting app)" using i by auto
  have quiet1: "\<not> ends es1" "RunVerification \<notin> set (issued es1)" using step eq by auto
  have h: "composer_ok exact s1 (w @ issued es1) (out @ wire es1) (given @ submitted_by i)"
    unfolding w_def by (rule handle_ok [OF c dr keeps waits 1 quiet1])
  have given: "exact \<longrightarrow> plain_texts (given @ submitted_by i)"
    using ok keeps keeps_plain by (auto simp: app_ok_def plain_texts_def)
  have "exact \<Longrightarrow> plain_texts (tu_queue s1)"
  proof -
    assume exact
    then have "given @ submitted_by i = (out @ wire es1) @ creating (w @ issued es1) @ tu_queue s1"
      using h by (simp add: composer_ok_def covers_def)
    with given \<open>exact\<close> show ?thesis by (metis plain_texts_append)
  qed
  from after_render_composer [OF 2 h this] given show ?thesis unfolding eq by (simp add: app_ok_def)
qed

lemma ended_run: "ta_ended app \<Longrightarrow> tui_run env pf editor ins app = (app, [])"
proof (induction ins)
  case (Cons i ins)
  have "\<not> can_happen i app" using Cons.prems by (cases i) auto
  then show ?case using Cons by (simp add: tui_step_def)
qed simp

lemma run_ok:
  assumes "app_ok exact app out given" "exact \<Longrightarrow> list_all (keeps_messages pf) ins \<and> length (given @ submitted ins) \<le> 20"
    "tui_run env pf editor ins app = (app', es)" "\<not> ta_ended app'" "RunVerification \<notin> set (issued es)"
  shows "app_ok exact app' (out @ wire es) (given @ submitted ins)"
  using assms
proof (induction ins arbitrary: app out given es)
  case (Cons i ins)
  obtain app1 es1 where 1: "tui_step env pf editor i app = (app1, es1)" by force
  obtain es2 where 2: "tui_run env pf editor ins app1 = (app', es2)" "es = es1 @ es2"
    using Cons.prems(3) 1 by (auto split: prod.splits)
  have live: "\<not> ta_ended app1" using ended_run [of app1 env pf editor ins] Cons.prems(4) 2(1) by auto
  have sub: "submitted (i # ins) = submitted_by i @ submitted ins" by (simp add: submitted_def)
  have "app_ok exact app1 (out @ wire es1) (given @ submitted_by i)"
  proof (cases "can_happen i app")
    case True
    have "exact \<Longrightarrow> keeps_messages pf i \<and> length (given @ submitted_by i) \<le> 20" using Cons.prems(2) sub by simp
    then show ?thesis using step_ok [OF Cons.prems(1) True _ 1 live] Cons.prems(5) 2(2) by simp
  next
    case False
    then have same: "app1 = app" "es1 = []" using 1 by (simp_all add: tui_step_def)
    have "submitted_by i = []" using False live same by (cases i) auto
    then show ?thesis using same Cons.prems(1) by simp
  qed
  moreover have "exact \<Longrightarrow> list_all (keeps_messages pf) ins \<and> length ((given @ submitted_by i) @ submitted ins) \<le> 20"
    using Cons.prems(2) sub by simp
  ultimately show ?case 
    using Cons.IH [OF _ _ 2(1) Cons.prems(4), of "out @ wire es1" "given @ submitted_by i"] Cons.prems(5) 2(2) sub by simp
qed (simp add: submitted_def)

lemma mount_ok: "app_ok exact (fst (tui_mount env pf os)) [] [] \<and> \<not> ta_ended (fst (tui_mount env pf os))"
proof -
  obtain s es where 1: "after_render env pf os no_deps initial_tui = (s, es)" by force
  have "composer_ok e initial_tui [] [] []" for e by (simp add: composer_ok_def covers_def initial_tui_def)
  then have all: "composer_ok e s (issued es) (wire es) [] \<and> drained os s \<and> \<not> ends es" for e
    using after_render_composer [OF 1, of e "[]" "[]" "[]"] by (simp add: plain_texts_def initial_tui_def)
  moreover have "wire es = []" using all [of True] by (simp add: composer_ok_def covers_def)
  ultimately show ?thesis by (simp add: app_ok_def tui_mount_def 1 plain_texts_def)
qed

lemmas tui_eval = tui_mount_def tui_step_def after_render_def refresh_effect_def verify_effect_def follow_effect_def
  clamp_effect_def queue_effect_def seen_deps_def catalog_effect_def refresh_loads_def load_def no_deps_def
  initial_tui_def emptyOperatorState_def computerEvents_def runningTurns_def activeProjectID_def arrayField_def
  dict_values_def submit_def send_def enqueue_def slice_last_def Let_def

lemma example_run:
  "tui_run example_env example_platform False [Submit (lit ''hello''), Submit (lit ''again'')]
     (fst (tui_mount example_env example_platform emptyOperatorState)) = (app, es) \<Longrightarrow>
   issued es = [CreateForSend (lit ''hello'')] \<and> \<not> ta_ended app \<and> tu_queue (ta_state app) = [lit ''again''] \<and>
   tu_busy (ta_state app)"
  by (auto simp: tui_eval trim_def trim_start_def lit_def is_space_def starts_with_def)

text \<open>
  (C32) Messages reach the server in the order they were typed, each at most once: over any run of the
  application in which no verification is started, what was submitted to the server, then the message
  whose session is being created, then the queue, is a subsequence of the texts entered. Nothing is
  lost when no text is a slash command, every session is created and at most twenty texts are entered.
\<close>

theorem messages_in_order:
  assumes "tui_run env pf editor ins (fst (tui_mount env pf os)) = (app, es)"
    "RunVerification \<notin> set (issued es)" "\<not> ta_ended app"
  shows "subseq (wire es @ creating (ta_waiting app) @ tu_queue (ta_state app)) (submitted ins) \<and>
    (list_all (keeps_messages pf) ins \<and> length (submitted ins) \<le> 20 \<longrightarrow>
      wire es @ creating (ta_waiting app) @ tu_queue (ta_state app) = submitted ins)"
proof -
  have "app_ok exact app (wire es) (submitted ins)"
    if "exact \<Longrightarrow> list_all (keeps_messages pf) ins \<and> length (submitted ins) \<le> 20" for exact
    using run_ok [OF conjunct1 [OF mount_ok] _ assms(1,3,2), of exact] that by simp
  from this [of False] this [of True] show ?thesis by (auto simp: app_ok_def composer_ok_def covers_def)
qed

theorem messages_in_order_witness:
  "case tui_run example_env example_platform False [Submit (lit ''hello''), Submit (lit ''again'')]
     (fst (tui_mount example_env example_platform emptyOperatorState)) of (app, es) \<Rightarrow>
     wire es @ creating (ta_waiting app) @ tu_queue (ta_state app) = [lit ''hello'', lit ''again'']"
proof -
  obtain app es where run: "tui_run example_env example_platform False [Submit (lit ''hello''), Submit (lit ''again'')]
     (fst (tui_mount example_env example_platform emptyOperatorState)) = (app, es)" by force
  note ex = example_run [OF run]
  show ?thesis
    using messages_in_order [OF run] ex unfolding run
    by (simp add: submitted_def trim_def trim_start_def lit_def is_space_def starts_with_def)
qed

text \<open>
  (C33) The composer has one request in flight: over any run in which no verification is started,
  \<open>busy\<close> holds exactly while one request of the composer waits for its answer, there is never a
  second one, at most twenty messages are queued, and a message is queued only while a request or a
  turn runs.
\<close>

theorem composer_exclusive:
  assumes "tui_run env pf editor ins (fst (tui_mount env pf os)) = (app, es)"
    "RunVerification \<notin> set (issued es)" "\<not> ta_ended app"
  shows "length (composing (ta_waiting app)) = (if tu_busy (ta_state app) then 1 else 0) \<and>
    length (tu_queue (ta_state app)) \<le> 20 \<and>
    (tu_queue (ta_state app) = [] \<or> tu_busy (ta_state app) \<or> runningTurns (ta_operator app) (ta_state app) \<noteq> [])"
  using run_ok [OF conjunct1 [OF mount_ok [of False]] _ assms(1,3,2)]
  by (simp add: app_ok_def composer_ok_def drained_def)

theorem composer_exclusive_witness:
  "case tui_run example_env example_platform False [Submit (lit ''hello''), Submit (lit ''again'')]
     (fst (tui_mount example_env example_platform emptyOperatorState)) of (app, es) \<Rightarrow>
     length (composing (ta_waiting app)) = 1"
proof -
  obtain app es where run: "tui_run example_env example_platform False [Submit (lit ''hello''), Submit (lit ''again'')]
     (fst (tui_mount example_env example_platform emptyOperatorState)) = (app, es)" by force
  show ?thesis using composer_exclusive [OF run] example_run [OF run] unfolding run by simp
qed

end
