(* ===== verification/TuiProperties.thy ===== *)
theory TuiProperties
  imports TuiComposer
begin

text \<open>
  Properties of the terminal application beyond the order of messages: what the selections point at, what
  slash commands may reach, how long the texts of the screen are, and the behaviours of decisions,
  verification and settings that differ from what the screen suggests.
\<close>

section \<open>Verification\<close>

definition no_key :: key where
  "no_key = \<lparr>k_escape = False, k_tab = False, k_up = False, k_down = False, k_ctrl = False\<rparr>"

definition answered :: "jsval \<Rightarrow> jsval" where
  "answered result = JObj [(lit ''result'', result)]"

definition tab_key :: tui_input where
  "tab_key = Key [] (no_key\<lparr>k_tab := True\<rparr>)"

definition verification_failure :: jsval where
  "verification_failure = JObj [(lit ''error'', JObj [(lit ''message'', JStr (lit ''no host''))])]"

definition racing_inputs :: "tui_input list" where
  "racing_inputs = [
     Settled LoadProjects (Inr [answered (JObj [(lit ''projects'', JArr [JObj [(lit ''id'', JStr (lit ''p''))]])])]),
     Settled LoadVerification (Inr [answered (JObj [(lit ''id'', JStr (lit ''m''))]), answered (JArr []), answered (JArr [])]),
     tab_key, tab_key, tab_key,
     Submit (lit ''hello''), Key (lit ''v'') no_key, Submit (lit ''again''),
     Settled RunVerification (Inr [verification_failure])]"

text \<open>
  A verification run frees the composer early: it sets and clears the same flag without looking at
  it. In the run below the message \<open>again\<close> waits in the queue behind \<open>hello\<close>; when the
  verification fails first, it is sent while \<open>hello\<close> is still in flight, and two sessions are
  created.
\<close>

theorem verification_frees_composer:
  "case tui_run example_env example_platform False racing_inputs
     (fst (tui_mount example_env example_platform emptyOperatorState)) of (app, es) \<Rightarrow>
     \<not> ta_ended app \<and> composing (ta_waiting app) = [CreateForSend (lit ''hello''), CreateForSend (lit ''again'')]"
  by (simp add: racing_inputs_def tab_key_def no_key_def answered_def verification_failure_def tui_eval
      trim_def trim_start_def lit_def is_space_def starts_with_def on_key_def key_quit_def key_focus_def key_section_def completion_def action_keys_def choose_numbered_def
      project_keys_def computer_keys_def system_keys_def runProjectVerification_def select_section_def next_section_def
      sections_def array_get_def slashSuggestions_def object_answer_def result_of_def or_else_def nullish_def
      load_verification_def uncaught_def verification_done_def response_failed_def end_with_def)

section \<open>Selections\<close>

definition same_cursor :: "tui_state \<Rightarrow> tui_state \<Rightarrow> bool" where
  "same_cursor s t \<longleftrightarrow> tu_sessions s = tu_sessions t \<and> tu_session_cursor s = tu_session_cursor t"

definition cursor_ok :: "tui_state \<Rightarrow> bool" where
  "cursor_ok s \<longleftrightarrow> 0 \<le> tu_session_cursor s \<and> (tu_sessions s \<noteq> [] \<longrightarrow> tu_session_cursor s < int (length (tu_sessions s)))"

lemma same_cursor_ok: "same_cursor s t \<Longrightarrow> cursor_ok t \<Longrightarrow> cursor_ok s"
  by (simp add: same_cursor_def cursor_ok_def)

lemma send_cursor: "same_cursor (fst (send env pf content s)) s"
  by (auto simp: send_def executeSlash_def slash_help_def slash_new_def slash_run_def end_with_def Let_def same_cursor_def
      split: option.splits sum.splits)

lemma send_queued_cursor: "same_cursor (fst (send_queued env pf os q s)) s"
proof (induction q arbitrary: s)
  case (Cons c q)
  show ?case
    using Cons [of "fst (send env pf c (s\<lparr>tu_queue := q\<rparr>))"] send_cursor [of env pf c "s\<lparr>tu_queue := q\<rparr>"]
    by (auto simp: same_cursor_def Let_def split: prod.splits)
qed (simp add: same_cursor_def)

lemma submit_cursor: "same_cursor (fst (submit env pf os v s)) s"
  using send_cursor by (auto simp: submit_def enqueue_def Let_def same_cursor_def)

lemma key_cursor:
  assumes "cursor_ok s"
  shows "cursor_ok (fst (on_key env editor os input k s)) \<and> tu_sessions (fst (on_key env editor os input k s)) = tu_sessions s"
proof -
  have pre: "same_cursor (choose_numbered input t) s" if "same_cursor t s" for t
    using that by (auto simp: choose_numbered_def select_section_def same_cursor_def split: option.splits)
  have act: "cursor_ok (fst (action_keys env editor os s input k t)) \<and>
      tu_sessions (fst (action_keys env editor os s input k t)) = tu_sessions s" if "same_cursor t s" for t
  proof -
    define t1 where "t1 = computer_keys os s input k (fst (project_keys env s input t))"
    have "same_cursor t1 s"
      using that by (auto simp: t1_def computer_keys_def project_keys_def runProjectVerification_def same_cursor_def Let_def
          split: option.splits)
    moreover have "fst (action_keys env editor os s input k t) = fst (system_keys s input k t1)"
      by (simp add: action_keys_def t1_def Let_def split: prod.splits)
    ultimately show ?thesis
      using assms by (auto simp: system_keys_def cursor_ok_def same_cursor_def Let_def)
  qed
  have "same_cursor (key_focus k s) s" by (simp add: key_focus_def toggle_focus_def same_cursor_def Let_def)
  moreover from this have "same_cursor (key_section input k s (key_focus k s)) s"
    unfolding key_section_def by (intro pre) (auto simp: select_section_def same_cursor_def split: option.splits)
  ultimately show ?thesis
    using act [of "key_section input k s (key_focus k s)"] assms
    by (cases "completion k s") (auto simp: on_key_def cursor_ok_def same_cursor_def Let_def split: prod.splits)
qed

lemma settle_cursor:
  "t \<noteq> LoadSessions \<Longrightarrow> same_cursor (fst (settle env pf t a s)) s"
  by (cases t)
    (auto simp: same_cursor_def load_catalog_def load_verification_def caught_def uncaught_def end_with_def
      session_for_send_def session_for_slash_def turn_submitted_def slash_done_def session_resumed_def studio_answered_def
      verification_done_def Let_def split: sum.splits list.splits option.splits)

lemma handle_cursor:
  assumes "cursor_ok s"
  shows "tu_sessions (fst (handle env pf editor i os s)) = tu_sessions s \<and> cursor_ok (fst (handle env pf editor i os s)) \<or>
    (\<exists>a. i = Settled LoadSessions a \<and> tu_session_cursor (fst (handle env pf editor i os s)) = tu_session_cursor s)"
proof (cases i)
  case (Key input k)
  then show ?thesis using key_cursor [OF assms] by simp
next
  case (Submit v)
  then show ?thesis using submit_cursor [of env pf os v s] assms by (auto simp: same_cursor_def cursor_ok_def)
next
  case (Settled t a)
  then show ?thesis
    using settle_cursor [of t env pf a s] assms by (cases "t = LoadSessions") (auto simp: same_cursor_def cursor_ok_def)
next
  case (Edited r)
  then show ?thesis using assms by (cases r) (auto simp: cursor_ok_def)
qed (use assms in \<open>auto simp: updateDraft_def select_section_def cursor_ok_def split: option.splits\<close>)

definition sessions_ok :: "tui_app \<Rightarrow> bool" where
  "sessions_ok app \<longleftrightarrow> cursor_ok (ta_state app) \<and> td_sessions (ta_deps app) = Some (length (tu_sessions (ta_state app)))"

lemma after_render_cursor:
  assumes "0 \<le> tu_session_cursor s" "td_sessions d = Some (length (tu_sessions s)) \<Longrightarrow> cursor_ok s"
  shows "cursor_ok (fst (after_render env pf os d s)) \<and> tu_sessions (fst (after_render env pf os d s)) = tu_sessions s"
proof -
  define s2 where "s2 = fst (verify_effect os d (fst (refresh_effect os d s)))"
  have s2: "same_cursor s2 s"
    by (auto simp: s2_def verify_effect_def refresh_effect_def same_cursor_def split: option.splits)
  define s3 where "s3 = clamp_effect d (follow_effect os d s2)"
  have "cursor_ok s3 \<and> tu_sessions s3 = tu_sessions s"
    using s2 assms by (auto simp: s3_def clamp_effect_def follow_effect_def same_cursor_def cursor_ok_def Let_def)
  moreover have "fst (after_render env pf os d s) = fst (send_queued env pf os (tu_queue s3) s3)"
    by (simp add: after_render_def s3_def s2_def queue_effect_def Let_def split: prod.splits)
  ultimately show ?thesis
    using send_queued_cursor [of env pf os "tu_queue s3" s3] by (auto simp: same_cursor_def cursor_ok_def)
qed

lemma step_cursor: "sessions_ok app \<Longrightarrow> sessions_ok (fst (tui_step env pf editor i app))"
proof (cases "can_happen i app")
  case True
  assume ok: "sessions_ok app"
  define os where "os = (case i of Props os \<Rightarrow> os | _ \<Rightarrow> ta_operator app)"
  obtain s1 es1 where 1: "handle env pf editor i os (ta_state app) = (s1, es1)" by force
  obtain s2 es2 where 2: "after_render env pf os (ta_deps app) s1 = (s2, es2)" by force
  have "0 \<le> tu_session_cursor s1"
    and "td_sessions (ta_deps app) = Some (length (tu_sessions s1)) \<Longrightarrow> cursor_ok s1"
    using handle_cursor [of "ta_state app" env pf editor i os] ok 1
    by (auto simp: sessions_ok_def cursor_ok_def)
  then have "cursor_ok s2 \<and> tu_sessions s2 = tu_sessions s1"
    using after_render_cursor [of s1 "ta_deps app" env pf os] 2 by simp
  moreover have "fst (tui_step env pf editor i app) = \<lparr>ta_operator = os, ta_state = s2, ta_deps = seen_deps os s1,
      ta_waiting = (case i of Settled task _ \<Rightarrow> remove1 task (ta_waiting app) | _ \<Rightarrow> ta_waiting app) @ issued (es1 @ es2),
      ta_ended = ends (es1 @ es2)\<rparr>"
    using True 1 2 by (simp add: tui_step_def os_def Let_def)
  ultimately show ?thesis by (simp add: sessions_ok_def seen_deps_def)
qed (simp add: tui_step_def)

lemma run_cursor: "sessions_ok app \<Longrightarrow> sessions_ok (fst (tui_run env pf editor ins app))"
proof (induction ins arbitrary: app)
  case (Cons i ins)
  have "fst (tui_run env pf editor (i # ins) app) = fst (tui_run env pf editor ins (fst (tui_step env pf editor i app)))"
    by (simp add: Let_def split: prod.splits)
  with Cons.IH [OF step_cursor [OF Cons.prems]] show ?case by simp
qed simp

lemma mount_cursor: "sessions_ok (fst (tui_mount env pf os))"
proof -
  obtain s es where 1: "after_render env pf os no_deps initial_tui = (s, es)" by force
  have "0 \<le> tu_session_cursor initial_tui" "td_sessions no_deps = None" "tu_sessions initial_tui = []"
    by (simp_all add: initial_tui_def no_deps_def)
  then show ?thesis
    using after_render_cursor [of initial_tui no_deps env pf os] 1
    by (simp add: tui_mount_def sessions_ok_def seen_deps_def)
qed

text \<open>
  The selections point at something: over any run of the application, when there are conversations the
  selected one exists, and when there is Computer activity the selected event exists, whatever was
  pressed, answered or evicted in between.
\<close>

theorem selections_exist:
  "let app = fst (tui_run env pf editor ins (fst (tui_mount env pf os)));
       s = ta_state app; evs = computerEvents (ta_operator app)
   in (tu_sessions s = [] \<or> (\<exists>v. array_get (tu_sessions s) (tu_session_cursor s) = Some v)) \<and>
      (evs = [] \<or> (\<exists>e. array_get evs (computerIndex (ta_operator app) s) = Some e))"
proof -
  define app where "app = fst (tui_run env pf editor ins (fst (tui_mount env pf os)))"
  have "cursor_ok (ta_state app)" using run_cursor [OF mount_cursor] by (simp add: app_def sessions_ok_def)
  then have "tu_sessions (ta_state app) = [] \<or>
      (\<exists>v. array_get (tu_sessions (ta_state app)) (tu_session_cursor (ta_state app)) = Some v)"
    by (auto simp: cursor_ok_def array_get_def)
  moreover have "computerEvents (ta_operator app) = [] \<or>
      (\<exists>e. array_get (computerEvents (ta_operator app)) (computerIndex (ta_operator app) (ta_state app)) = Some e)"
    by (cases "computerEvents (ta_operator app)") (auto simp: array_get_def computerIndex_def Let_def)
  ultimately show ?thesis by (simp add: app_def [symmetric] Let_def)
qed

section \<open>Slash commands\<close>

lemma find_try_Some: "find_try p xs = Some (Some x) \<Longrightarrow> x \<in> set xs \<and> p x = Some True"
  by (induction xs) (auto split: option.splits if_splits simp: bind_eq_Some_conv)

lemma find_offered_Some:
  assumes "find_offered catalog operation = Some (Some item)"
  shows "\<exists>items. catalog = JArr items \<and> item \<in> set items \<and> is_available item = Some True \<and>
    fld item ''operation'' = JStr operation"
proof -
  obtain items where "as_arr catalog = Some items" "find_try (offers operation) items = Some (Some item)"
    using assms by (auto simp: find_offered_def bind_eq_Some_conv)
  moreover from this have "catalog = JArr items" by (cases catalog) auto
  ultimately show ?thesis using find_try_Some by (force simp: offers_def)
qed

text \<open>
  A slash command reaches only what the server offers: whatever is typed, every request a slash command
  makes is for an operation of the catalogue that the server marked available.
\<close>

theorem slash_commands_offered:
  assumes "executeSlash env pf v s = (s', es)" "Issue t calls \<in> set es" "c \<in> set calls"
  shows "\<exists>items item. tu_catalog s = JArr items \<and> item \<in> set items \<and> is_available item = Some True \<and>
    fld item ''operation'' = JStr (cl_operation c)"
proof -
  have "\<exists>item. find_offered (tu_catalog s) (cl_operation c) = Some (Some item)"
    using assms
    by (auto simp: executeSlash_def slash_help_def slash_new_def slash_run_def end_with_def command_call_def Let_def
        split: option.splits if_splits sum.splits)
  then show ?thesis using find_offered_Some by blast
qed

definition offered_health :: tui_state where
  "offered_health = initial_tui\<lparr>tu_catalog := JArr [JObj [(lit ''operation'', JStr (lit ''system.health'')),
     (lit ''kind'', JStr (lit ''query'')), (lit ''available'', JBool True)]]\<rparr>"

theorem slash_commands_offered_witness:
  "\<exists>calls c. Issue (RunSlash (lit ''system.health'')) calls \<in>
      set (snd (executeSlash example_env example_platform (lit ''/system.health'') offered_health)) \<and> c \<in> set calls \<and>
    (\<exists>items item. tu_catalog offered_health = JArr items \<and> item \<in> set items \<and> is_available item = Some True \<and>
      fld item ''operation'' = JStr (cl_operation c))"
proof -
  let ?c = "\<lparr>cl_kind = Query, cl_operation = lit ''system.health'', cl_payload = JObj [], cl_session = JUndef\<rparr>"
  obtain s' es where run: "executeSlash example_env example_platform (lit ''/system.health'') offered_health = (s', es)" by force
  have "es = [Issue (RunSlash (lit ''system.health'')) [?c]]"
    using run
    by (auto simp: executeSlash_def slash_run_def slash_operation_def slash_payload_def slash_payload_value_def
        offered_health_def initial_tui_def find_offered_def offers_def is_available_def Let_def lit_def trim_def
        trim_start_def is_space_def)
  then have "Issue (RunSlash (lit ''system.health'')) [?c] \<in> set es" "?c \<in> set [?c]" by simp_all
  from slash_commands_offered [OF run this] this show ?thesis unfolding run snd_conv by blast
qed

section \<open>Texts\<close>

text \<open>
  The one-line texts fit their columns: a compacted value has at most 96 characters, a detail of an
  event at most 96 and the summary of the current work at most 120.
\<close>

theorem texts_bounded:
  "(case compactPayload pf v of None \<Rightarrow> v = JUndef | Some t \<Rightarrow> length t \<le> 96) \<and>
   length (detail_of v) \<le> 96 \<and> length (workSummary pf v) \<le> 120"
proof -
  have "case compactPayload pf v of None \<Rightarrow> v = JUndef | Some t \<Rightarrow> length t \<le> 96"
    using json_stringify_defined [of v pf] by (cases "json_stringify pf v") (auto simp: compactPayload_def ellipsis_def)
  moreover have "length (detail_of v) \<le> 96"
    by (simp add: detail_of_def ellipsis_def split: option.split)
  moreover have clip: "length (if length t > 120 then take 117 t @ ellipsis else t) \<le> 120" for t
    by (simp add: ellipsis_def)
  have "length (workSummary pf v) \<le> 120"
  proof (cases "is_object (fld v ''contract'')")
    case True
    show ?thesis unfolding workSummary_def Let_def using True by (simp only: if_False simp_thms clip)
  qed (simp add: workSummary_def)
  ultimately show ?thesis by blast
qed

section \<open>Decisions\<close>

definition decision_effect :: "string \<Rightarrow> approval_state \<Rightarrow> tui_effect" where
  "decision_effect decision a = Issue (Decide decision) [command_call ''approval.respond''
     (JObj [(lit ''approval_id'', JStr (ap_id a)), (lit ''decision'', JStr (lit decision))]) (approval_session a)]"

text \<open>
  A letter decides: while a decision is pending, typing \<open>a\<close> or \<open>d\<close> approves or denies it in
  every state of the application, also when the letter is typed into the composer.
\<close>

theorem letters_decide:
  assumes "pendingApproval os = Some a"
  shows "decision_effect ''approve'' a \<in> set (snd (on_key env editor os (lit ''a'') no_key s)) \<and>
    decision_effect ''deny'' a \<in> set (snd (on_key env editor os (lit ''d'') no_key s))"
  using assms
  by (simp add: on_key_def completion_def no_key_def action_keys_def decide_def decision_effect_def Let_def split: prod.splits)

definition example_approval :: approval_state where
  "example_approval = \<lparr>ap_id = lit ''a1'', ap_session_id = None, ap_turn_id = None,
     ap_payload = JObj [(lit ''consequence'', JStr (lit ''Deletes the project''))], ap_last_sequence = 1\<rparr>"

theorem letters_decide_witness:
  "tu_focus initial_tui = Composer \<and> decision_effect ''approve'' example_approval \<in>
     set (snd (on_key example_env False (emptyOperatorState\<lparr>pending_approvals := [(lit ''a1'', example_approval)]\<rparr>)
       (lit ''a'') no_key initial_tui))"
  using letters_decide [of "emptyOperatorState\<lparr>pending_approvals := [(lit ''a1'', example_approval)]\<rparr>" example_approval]
  by (simp add: pendingApproval_def dict_values_def initial_tui_def)

text \<open>
  A rejected decision ends the application: nothing handles the rejection, so when the transport
  rejects the request, as it does once the connection is closed, the process ends.
\<close>

theorem rejected_decision_ends:
  assumes "\<not> ta_ended app" "Decide decision \<in> set (ta_waiting app)"
  shows "ta_ended (fst (tui_step env pf editor (Settled (Decide decision) (Inl err)) app)) \<and>
    Unhandled err \<in> set (snd (tui_step env pf editor (Settled (Decide decision) (Inl err)) app))"
  using assms by (simp add: tui_step_def uncaught_def Let_def split: prod.splits)

theorem rejected_decision_ends_witness:
  "ta_ended (fst (tui_step example_env example_platform False (Settled (Decide ''approve'') (Inl SyntaxError))
     \<lparr>ta_operator = emptyOperatorState, ta_state = initial_tui, ta_deps = no_deps, ta_waiting = [Decide ''approve''],
       ta_ended = False\<rparr>))"
  using rejected_decision_ends [of "\<lparr>ta_operator = emptyOperatorState, ta_state = initial_tui, ta_deps = no_deps,
    ta_waiting = [Decide ''approve''], ta_ended = False\<rparr>" "''approve''" example_env example_platform False SyntaxError]
  by simp

text \<open>
  The list of decisions names only their identifiers: the row of a pending decision is the same for
  every operation, consequence and expiry, because these are inside the payload.
\<close>

theorem approval_rows_show_ids:
  assumes "ap_id a \<noteq> []"
  shows "approval_row pf (n, a) = Some (column [Size ''marginBottom'' 1]
    [bold (lit ''DECISION '' @ nat_text n), Text [Style ''wrap'' ''wrap''] (lit ''id: '' @ ap_id a),
     plain (lit ''[a] approve  [d] deny'')])"
proof -
  have "record_parts (approval_value a) [''operation'', ''consequence'', ''expires_at'', ''id''] = [lit ''id: '' @ ap_id a]"
    using assms by (simp add: record_parts_def approval_value_def underscores_to_spaces_def lit_def split: option.splits)
  then show ?thesis by (simp add: approval_row_def recordLine_def approval_value_def Let_def)
qed

theorem approval_rows_show_ids_witness:
  "approval_row example_platform (1, example_approval) = Some (column [Size ''marginBottom'' 1]
    [bold (lit ''DECISION '' @ nat_text 1), Text [Style ''wrap'' ''wrap''] (lit ''id: a1''),
     plain (lit ''[a] approve  [d] deny'')])"
  using approval_rows_show_ids [of example_approval example_platform 1] by (simp add: example_approval_def lit_def)

section \<open>Settings\<close>

text \<open>After \<open>/settings\<close> the System section is shown, but its keys do not act.\<close>

lemma settings_keys_dead:
  assumes "\<not> response_failed r" "tu_section_ref s = Chat"
  shows "let s' = fst (settle env pf (RunSlash (lit ''settings'')) (Inr [r]) s) in
    tu_section s' = System \<and> snd (on_key env editor os (lit ''r'') no_key s') = []"
  using assms
  by (simp add: caught_def slash_done_def end_with_def on_key_def completion_def no_key_def key_quit_def key_focus_def
      key_section_def choose_numbered_def is_section_number_def action_keys_def project_keys_def computer_keys_def
      system_keys_def Let_def lit_def nat_text.simps sections_def split: option.splits)

end
