(* ===== verification/Browser.thy ===== *)
theory Browser
  imports Client ComputerEvent
begin

text \<open>
  The browser's client, \<open>ui/shared/src/client/browser.ts\<close>: requests over \<open>fetch\<close>, the ticket
  and the event stream over a WebSocket. The Web APIs are parameters (\<open>web_platform\<close>); what the
  page does to the outside is a list of effects. A message is handled inside one \<open>try\<close>: an
  exception becomes a call of \<open>degraded\<close>.
\<close>

section \<open>The page\<close>

text \<open>
  \<open>location\<close> and \<open>document.cookie\<close> when the globals exist, and the WHATWG URL operations the
  client uses: a base URL with its protocol replaced, and the URL of the event stream.
\<close>

record web_platform = platform +
  wp_location :: "(jstring \<times> jstring) option"
  wp_cookie :: "jstring option"
  wp_with_protocol :: "jstring \<Rightarrow> jstring \<Rightarrow> jstring"
  wp_events_url :: "jstring \<Rightarrow> jstring \<Rightarrow> jstring \<Rightarrow> jstring option"

definition deriveWebSocketURL :: "web_platform \<Rightarrow> jstring \<Rightarrow> js_error + jstring" where
  "deriveWebSocketURL wp baseURL =
     (if baseURL \<noteq> [] then
        (case parse_url wp baseURL of
           None \<Rightarrow> Inl (TypeError (lit ''Invalid URL''))
         | Some url \<Rightarrow> Inr (wp_with_protocol wp baseURL
             (if url_protocol url = lit ''https:'' then lit ''wss:'' else lit ''ws:'')))
      else case wp_location wp of
        None \<Rightarrow> Inr (lit ''ws://127.0.0.1'')
      | Some (protocol, host) \<Rightarrow>
          Inr ((if protocol = lit ''https:'' then lit ''wss:'' else lit ''ws:'') @ lit ''//'' @ host))"

section \<open>Cookies\<close>

text \<open>\<open>decodeURIComponent\<close>: percent-encoded UTF-8; \<open>None\<close> for the \<open>URIError\<close>.\<close>

definition hex_byte :: "jstring \<Rightarrow> (nat \<times> jstring) option" where
  "hex_byte s = (case s of
      p # a # b # r \<Rightarrow>
        if p = 37 then
          (case (hex_value a, hex_value b) of
             (Some x, Some y) \<Rightarrow> Some (16 * x + y, r)
           | _ \<Rightarrow> None)
        else None
    | _ \<Rightarrow> None)"

fun continuation_bytes :: "nat \<Rightarrow> nat \<Rightarrow> jstring \<Rightarrow> (nat \<times> jstring) option" where
  "continuation_bytes 0 acc s = Some (acc, s)"
| "continuation_bytes (Suc n) acc s =
     (case hex_byte s of
        None \<Rightarrow> None
      | Some (b, r) \<Rightarrow> if 128 \<le> b \<and> b < 192 then continuation_bytes n (64 * acc + (b - 128)) r else None)"

definition utf16 :: "nat \<Rightarrow> jstring" where
  "utf16 c = (if c < 65536 then [word_of_nat c]
     else [word_of_nat (55296 + (c - 65536) div 1024), word_of_nat (56320 + (c - 65536) mod 1024)])"

definition decode_escape :: "jstring \<Rightarrow> (jstring \<times> jstring) option" where
  "decode_escape s = (case hex_byte s of
      None \<Rightarrow> None
    | Some (b, r) \<Rightarrow>
        if b < 128 then Some ([word_of_nat b], r)
        else if 192 \<le> b \<and> b < 224 then
          (case continuation_bytes 1 (b - 192) r of
             Some (c, q) \<Rightarrow> if 128 \<le> c then Some (utf16 c, q) else None | None \<Rightarrow> None)
        else if 224 \<le> b \<and> b < 240 then
          (case continuation_bytes 2 (b - 224) r of
             Some (c, q) \<Rightarrow> if 2048 \<le> c \<and> \<not> (55296 \<le> c \<and> c < 57344) then Some (utf16 c, q) else None
           | None \<Rightarrow> None)
        else if 240 \<le> b \<and> b < 248 then
          (case continuation_bytes 3 (b - 240) r of
             Some (c, q) \<Rightarrow> if 65536 \<le> c \<and> c < 1114112 then Some (utf16 c, q) else None | None \<Rightarrow> None)
        else None)"

fun decode_uri :: "nat \<Rightarrow> jstring \<Rightarrow> jstring option" where
  "decode_uri n [] = Some []"
| "decode_uri 0 (u # s) = None"
| "decode_uri (Suc n) (u # s) =
     (if u \<noteq> 37 then map_option (\<lambda>t. u # t) (decode_uri n s)
      else case decode_escape (u # s) of
        None \<Rightarrow> None
      | Some (t, r) \<Rightarrow> map_option (\<lambda>q. t @ q) (decode_uri n r))"

definition decodeURIComponent :: "jstring \<Rightarrow> js_error + jstring" where
  "decodeURIComponent s = (case decode_uri (length s) s of
      None \<Rightarrow> Inl (Error (lit ''URI malformed'')) | Some t \<Rightarrow> Inr t)"

fun find_cookie :: "jstring \<Rightarrow> jstring list \<Rightarrow> js_error + jstring" where
  "find_cookie pre [] = Inr []"
| "find_cookie pre (item # items) =
     (if prefix pre (trim item) then decodeURIComponent (drop (length pre) (trim item))
      else find_cookie pre items)"

definition readCookie :: "web_platform \<Rightarrow> jstring \<Rightarrow> js_error + jstring" where
  "readCookie wp name = (case wp_cookie wp of
      None \<Rightarrow> Inr []
    | Some cookie \<Rightarrow> find_cookie (name @ lit ''='') (split_on 59 cookie))"

section \<open>Requests\<close>

record browser_client =
  bc_actor :: jstring
  bc_base :: jstring
  bc_websocket :: jstring

definition new_browser_client ::
    "web_platform \<Rightarrow> jstring \<Rightarrow> jstring option \<Rightarrow> jstring option \<Rightarrow> js_error + browser_client" where
  "new_browser_client wp actor base_url websocket_url =
     (let base = (case base_url of None \<Rightarrow> [] | Some b \<Rightarrow> b) in
      case (case websocket_url of Some w \<Rightarrow> Inr w | None \<Rightarrow> deriveWebSocketURL wp base) of
        Inl err \<Rightarrow> Inl err
      | Inr w \<Rightarrow> Inr \<lparr>bc_actor = actor, bc_base = base, bc_websocket = w\<rparr>)"

record http_request =
  hr_url :: jstring
  hr_headers :: "(string \<times> jstring) list"
  hr_body :: "jstring option"

text \<open>What \<open>fetch\<close> and \<open>response.json()\<close> come to: an error, or whether the status is ok and the body.\<close>

datatype fetch_outcome = FetchFails js_error | Reply bool "jsval option"

definition cookie_header :: "web_platform \<Rightarrow> js_error + (string \<times> jstring) list" where
  "cookie_header wp = (case readCookie wp (lit ''__Host-ion_csrf'') of
      Inl err \<Rightarrow> Inl err | Inr token \<Rightarrow> Inr [(''X-Ion-CSRF'', token)])"

definition rpc_request :: "web_platform \<Rightarrow> browser_client \<Rightarrow> jsval \<Rightarrow> js_error + http_request" where
  "rpc_request wp bc request =
     (case (if fld request ''kind'' = kind_value Command then cookie_header wp else Inr []) of
        Inl err \<Rightarrow> Inl err
      | Inr hs \<Rightarrow> Inr \<lparr>hr_url = bc_base bc @ lit ''/v1/rpc'',
          hr_headers = [(''Content-Type'', lit ''application/json'')] @ hs,
          hr_body = json_stringify (platform.truncate wp) request\<rparr>)"

definition rpc_result :: "fetch_outcome \<Rightarrow> js_error + jsval" where
  "rpc_result outcome = (case outcome of
      FetchFails err \<Rightarrow> Inl err
    | Reply ok None \<Rightarrow> Inl SyntaxError
    | Reply ok (Some body) \<Rightarrow>
        (case assertResponseEnvelope body of Inl err \<Rightarrow> Inl err | Inr _ \<Rightarrow> Inr body))"

definition browser_query :: "browser_client \<Rightarrow> jstring \<Rightarrow> jstring \<Rightarrow> jsval \<Rightarrow> request_scope \<Rightarrow> jsval" where
  "browser_query bc fresh operation content sc = query_object (JStr (bc_actor bc)) fresh operation content sc"

definition browser_command ::
    "browser_client \<Rightarrow> jstring \<Rightarrow> jstring \<Rightarrow> jsval \<Rightarrow> jstring \<Rightarrow> request_scope \<Rightarrow> int option \<Rightarrow> jsval" where
  "browser_command bc fresh operation content key sc revision =
     command_object (JStr (bc_actor bc)) fresh operation content key sc revision"

definition ticket_request :: "web_platform \<Rightarrow> browser_client \<Rightarrow> js_error + http_request" where
  "ticket_request wp bc = (case cookie_header wp of
      Inl err \<Rightarrow> Inl err
    | Inr hs \<Rightarrow> Inr \<lparr>hr_url = bc_base bc @ lit ''/v1/ws-ticket'', hr_headers = hs, hr_body = None\<rparr>)"

definition ticket_result :: "fetch_outcome \<Rightarrow> js_error + jstring" where
  "ticket_result outcome = (case outcome of
      FetchFails err \<Rightarrow> Inl err
    | Reply False body \<Rightarrow> Inl (Error (lit ''WebSocket ticket request failed''))
    | Reply True None \<Rightarrow> Inl SyntaxError
    | Reply True (Some v) \<Rightarrow>
        if isRecord v \<and> is_string (fld v ''ticket'') \<and> is_string (fld v ''expires_at'')
        then Inr (str_of (fld v ''ticket''))
        else Inl (TypeError (lit ''invalid WebSocket ticket response'')))"

text \<open>The address \<open>connect\<close> opens; \<open>Inl\<close> when the promise rejects before there is a socket.\<close>

definition connect_url :: "web_platform \<Rightarrow> browser_client \<Rightarrow> int \<Rightarrow> fetch_outcome \<Rightarrow> js_error + jstring" where
  "connect_url wp bc afterSequence outcome =
     (case ticket_request wp bc of
        Inl err \<Rightarrow> Inl err
      | Inr _ \<Rightarrow> (case ticket_result outcome of
          Inl err \<Rightarrow> Inl err
        | Inr ticket \<Rightarrow> (case wp_events_url wp (bc_websocket bc) (int_text afterSequence) ticket of
            None \<Rightarrow> Inl (TypeError (lit ''Invalid URL'')) | Some url \<Rightarrow> Inr url)))"

section \<open>The event stream\<close>

record event_connection =
  ec_open :: bool
  ec_closed :: bool

datatype stream_effect =
    CallRecovery jsval
  | CallEvent event_envelope
  | CallDegraded js_error
  | SendText jstring
  | CloseSocket "nat option"

definition isRecovery :: "platform \<Rightarrow> jsval \<Rightarrow> bool" where
  "isRecovery pf v \<longleftrightarrow> isRecord v \<and> isRecord (fld v ''replay'') \<and>
     (let replay = fld v ''replay'' in
      is_number (fld replay ''after_sequence'') \<and> is_number (fld replay ''earliest_sequence'') \<and>
      is_number (fld replay ''latest_sequence'') \<and> is_number (fld replay ''head_sequence'') \<and>
      is_boolean (fld replay ''gap'') \<and> is_array (fld replay ''events'') \<and>
      list_all (isEventEnvelope pf) (elems (fld replay ''events'')))"

definition ack_value :: "jstring \<Rightarrow> jsval \<Rightarrow> jsval" where
  "ack_value clientID n = JObj [(lit ''type'', JStr (lit ''ack'')), (lit ''client_id'', JStr clientID),
     (lit ''sequence'', n)]"

definition stream_acknowledge ::
    "platform \<Rightarrow> event_connection \<Rightarrow> jstring \<Rightarrow> jsval \<Rightarrow> stream_effect list" where
  "stream_acknowledge pf c clientID n =
     (if \<not> ec_open c then []
      else [SendText (case json_stringify pf (ack_value clientID n) of None \<Rightarrow> [] | Some t \<Rightarrow> t)])"

text \<open>What the body of the \<open>try\<close> throws, or its effects.\<close>

definition stream_frame ::
    "platform \<Rightarrow> event_connection \<Rightarrow> jstring \<Rightarrow> jstring \<Rightarrow> js_error + stream_effect list" where
  "stream_frame pf c clientID data =
     (case json_parse data of
        None \<Rightarrow> Inl SyntaxError
      | Some frame \<Rightarrow>
          if \<not> isRecord frame \<or> \<not> is_string (fld frame ''type'')
          then Inl (TypeError (lit ''invalid event stream frame''))
          else if fld frame ''type'' = JStr (lit ''recovery'') \<and> isRecovery pf (fld frame ''recovery'')
          then Inr ([CallRecovery (fld frame ''recovery'')] @
            stream_acknowledge pf c clientID (fld (fld (fld frame ''recovery'') ''replay'') ''latest_sequence''))
          else if fld frame ''type'' = JStr (lit ''event'') \<and> isEventEnvelope pf (fld frame ''event'')
          then Inr ([CallEvent (event_of (fld frame ''event''))] @
            stream_acknowledge pf c clientID (fld (fld frame ''event'') ''sequence''))
          else if fld frame ''type'' = JStr (lit ''error'') \<and> fld frame ''error'' \<noteq> JUndef
          then (if fld frame ''error'' = JNull
                then Inl (TypeError (lit ''Cannot read properties of null (reading 'message')''))
                else Inl (Error (let m = fld (fld frame ''error'') ''message'' in
                  if m = JUndef then [] else to_string pf m)))
          else Inl (TypeError (lit ''incomplete event stream frame'')))"

text \<open>A message event is fired on an open socket only.\<close>

definition on_message ::
    "platform \<Rightarrow> jstring \<Rightarrow> jstring \<Rightarrow> event_connection \<Rightarrow> event_connection \<times> stream_effect list" where
  "on_message pf clientID data c =
     (if \<not> ec_open c then (c, [])
      else case stream_frame pf c clientID data of
        Inr es \<Rightarrow> (c, es)
      | Inl err \<Rightarrow> (c\<lparr>ec_open := False\<rparr>, [CallDegraded err, CloseSocket None]))"

definition on_close :: "event_connection \<Rightarrow> event_connection \<times> stream_effect list" where
  "on_close c = (c\<lparr>ec_open := False\<rparr>,
     if ec_closed c then [] else [CallDegraded (Error (lit ''event stream closed''))])"

definition on_error :: "event_connection \<Rightarrow> event_connection \<times> stream_effect list" where
  "on_error c = (c, if ec_closed c then [] else [CallDegraded (Error (lit ''event stream transport error''))])"

definition close_connection :: "event_connection \<Rightarrow> event_connection \<times> stream_effect list" where
  "close_connection c = (c\<lparr>ec_closed := True, ec_open := False\<rparr>, [CloseSocket (Some 1000)])"

section \<open>Properties\<close>

lemma ack_text_parses:
  assumes "safe_int n \<noteq> None"
  shows "stream_acknowledge pf \<lparr>ec_open = True, ec_closed = x\<rparr> clientID n = [SendText (text_of pf (ack_value clientID n))]"
    "json_parse (text_of pf (ack_value clientID n)) = Some (ack_value clientID n)"
proof -
  have "json_ok n" using assms by (cases n) auto
  then have ok: "json_ok (ack_value clientID n)" by (simp add: ack_value_def record_ok)
  then show "json_parse (text_of pf (ack_value clientID n)) = Some (ack_value clientID n)"
    by (rule text_of_parses)
  show "stream_acknowledge pf \<lparr>ec_open = True, ec_closed = x\<rparr> clientID n = [SendText (text_of pf (ack_value clientID n))]"
    using json_ok_text [OF ok, of pf] by (simp add: stream_acknowledge_def json_stringify_def)
qed

text \<open>
  A message on an open stream does exactly one of three things: it delivers a valid event and
  then acknowledges the sequence number of that event, it delivers a valid recovery and then
  acknowledges, or it reports a degradation and closes the socket.
\<close>

theorem stream_message_handled:
  "case on_message pf clientID data \<lparr>ec_open = True, ec_closed = x\<rparr> of (c, es) \<Rightarrow>
     (\<exists>v t. isEventEnvelope pf v \<and> es = [CallEvent (event_of v), SendText t] \<and> ec_open c \<and>
        json_parse t = Some (ack_value clientID (fld v ''sequence''))) \<or>
     (\<exists>v t. isRecovery pf v \<and> es = [CallRecovery v, SendText t] \<and> ec_open c) \<or>
     (\<exists>err. es = [CallDegraded err, CloseSocket None] \<and> ec_open c = False)"
proof (cases "stream_frame pf \<lparr>ec_open = True, ec_closed = x\<rparr> clientID data")
  case (Inl err)
  then show ?thesis by (simp add: on_message_def)
next
  case (Inr es)
  let ?c = "\<lparr>ec_open = True, ec_closed = x\<rparr>"
  have "(\<exists>v. isRecovery pf v \<and> es = CallRecovery v #
        stream_acknowledge pf ?c clientID (fld (fld v ''replay'') ''latest_sequence'')) \<or>
      (\<exists>v. isEventEnvelope pf v \<and> es = CallEvent (event_of v) # stream_acknowledge pf ?c clientID (fld v ''sequence''))"
    using Inr by (auto simp: stream_frame_def split: option.splits if_splits)
  then show ?thesis
  proof (elim disjE exE conjE)
    fix v
    assume "isRecovery pf v" "es = CallRecovery v #
        stream_acknowledge pf ?c clientID (fld (fld v ''replay'') ''latest_sequence'')"
    then show ?thesis using Inr by (auto simp: on_message_def stream_acknowledge_def)
  next
    fix v
    assume v: "isEventEnvelope pf v" "es = CallEvent (event_of v) # stream_acknowledge pf ?c clientID (fld v ''sequence'')"
    then have "safe_int (fld v ''sequence'') \<noteq> None"
      by (auto simp: isEventEnvelope_def isNonNegativeSafeInteger_def split: option.splits)
    note ack = ack_text_parses [OF this]
    show ?thesis using Inr v by (auto simp: on_message_def ack)
  qed
qed

section \<open>Reading a cookie\<close>

text \<open>A cookie of a header as browsers write it: no separator inside, no white space at the ends.\<close>

fun cookie_ok :: "jstring \<times> jstring \<Rightarrow> bool" where
  "cookie_ok (k, v) \<longleftrightarrow> k \<noteq> [] \<and> 59 \<notin> set k \<and> 61 \<notin> set k \<and> \<not> is_space (unat (hd k)) \<and>
     59 \<notin> set v \<and> 37 \<notin> set v \<and> (v = [] \<or> \<not> is_space (unat (last v)))"

fun cookie_text :: "jstring \<times> jstring \<Rightarrow> jstring" where
  "cookie_text (k, v) = k @ [61] @ v"

lemma decode_plain: "37 \<notin> set v \<Longrightarrow> decodeURIComponent v = Inr v"
proof -
  have "37 \<notin> set v \<Longrightarrow> decode_uri (length v) v = Some v" by (induction v) auto
  then show "37 \<notin> set v \<Longrightarrow> decodeURIComponent v = Inr v" by (simp add: decodeURIComponent_def)
qed

lemma trim_start_id: "s \<noteq> [] \<Longrightarrow> \<not> is_space (unat (hd s)) \<Longrightarrow> trim_start s = s"
  by (cases s) (auto simp: trim_start_def)

lemma trim_id: "s \<noteq> [] \<Longrightarrow> \<not> is_space (unat (hd s)) \<Longrightarrow> \<not> is_space (unat (last s)) \<Longrightarrow> trim s = s"
  by (simp add: trim_def trim_start_id hd_rev)

lemma trim_space: "trim (32 # s) = trim s"
  by (simp add: trim_def trim_start_def is_space_def)

lemma trim_cookie:
  assumes "cookie_ok c"
  shows "trim (cookie_text c) = cookie_text c"
proof -
  obtain k v where c: "c = (k, v)" by (cases c)
  have eq_sign: "\<not> is_space (unat (61 :: 16 word))" by (simp add: is_space_def)
  have "hd (cookie_text c) = hd k" "last (cookie_text c) = (if v = [] then 61 else last v)"
    using assms c by simp_all
  then show ?thesis using assms c eq_sign by (cases "v = []") (auto intro: trim_id)
qed

lemma prefix_key:
  "61 \<notin> set a \<Longrightarrow> 61 \<notin> set b \<Longrightarrow> prefix (a @ [61]) (b @ 61 # v) \<longleftrightarrow> a = b"
proof
  assume "61 \<notin> set a" "61 \<notin> set b" "prefix (a @ [61]) (b @ 61 # v)"
  then obtain w where "a @ 61 # w = b @ 61 # v" by (auto simp: prefix_def)
  moreover have "index_of 61 (a @ 61 # w) = Some (length a)" "index_of 61 (b @ 61 # v) = Some (length b)"
    using \<open>61 \<notin> set a\<close> \<open>61 \<notin> set b\<close> by (simp_all add: index_of_append index_of_None)
  ultimately have "length a = length b" by simp
  then show "a = b" using \<open>a @ 61 # w = b @ 61 # v\<close> by simp
qed simp

lemma find_cookie_map_of:
  assumes "61 \<notin> set name"
  shows "list_all cookie_ok kvs \<Longrightarrow> \<forall>i \<in> set (zip items kvs). trim (fst i) = cookie_text (snd i) \<Longrightarrow>
    length items = length kvs \<Longrightarrow>
    find_cookie (name @ [61]) items = Inr (case map_of kvs name of None \<Rightarrow> [] | Some v \<Rightarrow> v)"
proof (induction kvs arbitrary: items)
  case (Cons c kvs)
  obtain k v where c: "c = (k, v)" by (cases c)
  obtain i rest where items: "items = i # rest" using Cons.prems(3) by (cases items) auto
  have "trim i = k @ 61 # v" using Cons.prems(2) items c by simp
  moreover have "cookie_ok (k, v)" using Cons.prems(1) c by simp
  ultimately show ?case
    using Cons items c assms prefix_key [OF assms, of k v]
    by (auto simp: decode_plain)
qed simp

lemma split_on_append: "c \<notin> set a \<Longrightarrow> split_on c (a @ c # b) = a # split_on c b"
  by (induction a) auto

lemma split_cookies:
  "kvs \<noteq> [] \<Longrightarrow> list_all cookie_ok kvs \<Longrightarrow>
     split_on 59 (join (lit ''; '') (map cookie_text kvs)) =
       cookie_text (hd kvs) # map (\<lambda>c. 32 # cookie_text c) (tl kvs)"
proof (induction kvs rule: list_nonempty_induct)
  case (single c)
  then show ?case by (cases c) (auto intro: split_on_absent)
next
  case (cons c kvs)
  obtain d ds where kvs: "kvs = d # ds" using cons(1) by (cases kvs) auto
  have free: "59 \<notin> set (cookie_text c)" using cons(3) by (cases c) auto
  have "split_on 59 (cookie_text c @ 59 # 32 # join (lit ''; '') (map cookie_text kvs)) =
      cookie_text c # split_on 59 (32 # join (lit ''; '') (map cookie_text kvs))"
    by (rule split_on_append [OF free])
  then show ?case using cons kvs by (simp add: lit_def)
qed

text \<open>
  Reading a cookie gives its value: on a cookie header as browsers write it the result is the
  value of the first cookie with the name, and the empty string when there is none, whatever the other
  cookies are.
\<close>

theorem read_cookie_finds:
  assumes "wp_cookie wp = Some (join (lit ''; '') (map cookie_text kvs))" "list_all cookie_ok kvs" "61 \<notin> set name"
  shows "readCookie wp name = Inr (case map_of kvs name of None \<Rightarrow> [] | Some v \<Rightarrow> v)"
proof (cases "kvs = []")
  case True
  have "\<not> prefix (name @ [61]) []" by simp
  then show ?thesis using assms(1) True by (simp add: readCookie_def lit_def trim_def trim_start_def)
next
  case False
  then obtain c cs where kvs: "kvs = c # cs" by (cases kvs) auto
  let ?items = "cookie_text c # map (\<lambda>c. 32 # cookie_text c) cs"
  have "\<forall>i \<in> set (zip ?items kvs). trim (fst i) = cookie_text (snd i)"
    using assms(2) kvs by (auto simp: zip_map1 zip_same_conv_map trim_space trim_cookie list_all_iff)
  then have "find_cookie (name @ [61]) ?items = Inr (case map_of kvs name of None \<Rightarrow> [] | Some v \<Rightarrow> v)"
    by (rule find_cookie_map_of [OF assms(3,2)]) (simp add: kvs)
  then show ?thesis
    using assms(1,2) split_cookies [OF False assms(2)] kvs by (simp add: readCookie_def lit_def)
qed

definition example_page :: web_platform where
  "example_page = platform.extend example_platform \<lparr>wp_location = Some (lit ''https:'', lit ''ion.test''),
     wp_cookie = Some (lit ''theme=dark; __Host-ion_csrf=tk''), wp_with_protocol = (\<lambda>url protocol. url),
     wp_events_url = (\<lambda>url ticket checkpoint. Some (url @ ticket @ checkpoint))\<rparr>"

theorem read_cookie_finds_witness:
  "readCookie example_page (lit ''__Host-ion_csrf'') = Inr (lit ''tk'')"
  using read_cookie_finds [of example_page
    "[(lit ''theme'', lit ''dark''), (lit ''__Host-ion_csrf'', lit ''tk'')]" "lit ''__Host-ion_csrf''"]
  by (simp add: lit_def is_space_def example_page_def platform.defs)

end
