(* ===== verification/Types.thy ===== *)
theory Types
  imports Browser
begin

text \<open>
  The types that \<open>ui/shared/src/generated/protocol.ts\<close> declares for what travels over the wire, as
  values: a type is what TypeScript's structural typing asks of a value of type \<open>unknown\<close> that is
  claimed to have it. The guards of the same file claim such types (\<open>value is RequestEnvelope\<close>), and
  the terminal application casts the results of its queries to them.
\<close>

section \<open>Structural types\<close>

text \<open>A field of an object type is a name, whether it is optional, and a type.\<close>

datatype ts_type =
    TAny
  | TStr
  | TNum
  | TBool
  | TLit string
  | TUnion "ts_type list"
  | TArr ts_type
  | TObj "(string \<times> bool \<times> ts_type) list"

fun conforms :: "ts_type \<Rightarrow> jsval \<Rightarrow> bool" where
  "conforms TAny v = True"
| "conforms TStr v = is_string v"
| "conforms TNum v = is_number v"
| "conforms TBool v = is_boolean v"
| "conforms (TLit s) v = (v = JStr (lit s))"
| "conforms (TUnion ts) v = list_ex (\<lambda>t. conforms t v) ts"
| "conforms (TArr t) v = (is_array v \<and> list_all (conforms t) (elems v))"
| "conforms (TObj fs) v = (isRecord v \<and>
     list_all (\<lambda>(k, optional, t). optional \<and> fld v k = JUndef \<or> conforms t (fld v k)) fs)"

definition literals :: "string list \<Rightarrow> ts_type" where
  "literals ss = TUnion (map TLit ss)"

abbreviation req :: "string \<Rightarrow> ts_type \<Rightarrow> string \<times> bool \<times> ts_type" where
  "req k t \<equiv> (k, False, t)"

abbreviation opt :: "string \<Rightarrow> ts_type \<Rightarrow> string \<times> bool \<times> ts_type" where
  "opt k t \<equiv> (k, True, t)"

lemma conforms_literals: "conforms (literals ss) v \<longleftrightarrow> (\<exists>s. v = JStr s \<and> one_of ss s)"
  by (auto simp: literals_def list_ex_iff one_of_iff)

section \<open>Envelopes\<close>

definition UUID :: ts_type where
  "UUID = TStr"

definition RequestKind :: ts_type where
  "RequestKind = literals [''query'', ''command'']"

definition Operation :: ts_type where
  "Operation = literals OPERATIONS"

definition EventType :: ts_type where
  "EventType = literals EVENT_TYPES"

definition ErrorCode :: ts_type where
  "ErrorCode = literals [''invalid'', ''unauthorized'', ''forbidden'', ''not_found'', ''conflict'', ''rate_limited'',
     ''unavailable'', ''internal'']"

definition Scope :: ts_type where
  "Scope = TObj [req ''actor_id'' UUID, opt ''session_id'' UUID, opt ''profile'' TStr, opt ''channel'' TStr]"

definition RequestEnvelope :: ts_type where
  "RequestEnvelope = TObj [req ''protocol_version'' (TLit ''ion.controlplane.v1''), req ''request_id'' UUID, req ''kind'' RequestKind,
     req ''operation'' Operation, req ''scope'' Scope, opt ''idempotency_key'' TStr, opt ''expected_revision'' TNum,
     req ''payload'' TAny]"

definition ProtocolError :: ts_type where
  "ProtocolError = TObj [req ''code'' ErrorCode, req ''message'' TStr, req ''retryable'' TBool]"

definition ResponseEnvelope :: ts_type where
  "ResponseEnvelope = TObj [req ''protocol_version'' (TLit ''ion.controlplane.v1''), req ''request_id'' UUID, req ''revision'' TNum,
     opt ''result'' TAny, opt ''error'' ProtocolError]"

definition Correlation :: ts_type where
  "Correlation = TObj [req ''actor_id'' UUID, opt ''session_id'' UUID, opt ''turn_id'' UUID, opt ''task_id'' UUID,
     opt ''tool_id'' UUID]"

definition EventEnvelope :: ts_type where
  "EventEnvelope = TObj [req ''sequence'' TNum, req ''event_id'' UUID, req ''type'' EventType, req ''occurred_at'' TStr,
     req ''correlation'' Correlation, req ''payload'' TAny]"

definition CommandDescriptor :: ts_type where
  "CommandDescriptor = TObj [req ''operation'' Operation, req ''kind'' RequestKind, req ''available'' TBool,
     req ''description'' TStr]"

definition ReplayEnvelope :: ts_type where
  "ReplayEnvelope = TObj [req ''after_sequence'' TNum, req ''earliest_sequence'' TNum, req ''latest_sequence'' TNum,
     req ''head_sequence'' TNum, req ''gap'' TBool, req ''events'' (TArr EventEnvelope)]"

definition GapMarker :: ts_type where
  "GapMarker = TObj [req ''requested_after'' TNum, req ''available_from'' TNum, req ''latest'' TNum]"

definition RecoveryEnvelope :: ts_type where
  "RecoveryEnvelope = TObj [req ''replay'' ReplayEnvelope, opt ''gap_marker'' GapMarker, opt ''snapshot'' TAny]"

section \<open>Workspace operations\<close>

definition WorkspacePolicyClassification :: ts_type where
  "WorkspacePolicyClassification = literals [''GREEN'', ''YELLOW'', ''RED'']"

definition WorkspaceHostOperation :: ts_type where
  "WorkspaceHostOperation = literals [''workspace.provision'', ''workspace.readiness'', ''workspace.pause'',
     ''workspace.resume'', ''workspace.stop'', ''workspace.archive'', ''workspace.destroy'']"

definition WorkspaceSecretGrant :: ts_type where
  "WorkspaceSecretGrant = TObj [req ''id'' UUID, req ''reference'' TStr, req ''expires_at'' TStr, req ''grant_token'' TStr]"

definition WorkspaceOperationEnvelope :: ts_type where
  "WorkspaceOperationEnvelope = TObj [req ''version'' (TLit ''ion.workspace-host.v1''),
     req ''operation'' WorkspaceHostOperation, req ''actor_id'' UUID, req ''project_id'' UUID,
     req ''workspace_revision'' TNum, req ''request_id'' UUID, req ''idempotency_key'' TStr,
     req ''policy_classification'' WorkspacePolicyClassification, req ''deadline'' TStr, req ''correlation_id'' UUID,
     opt ''secret_grants'' (TArr WorkspaceSecretGrant), opt ''payload'' TAny]"

section \<open>Computer events\<close>

definition ComputerPhase :: ts_type where
  "ComputerPhase = literals [''requested'', ''awaiting_approval'', ''started'', ''progress'', ''completed'', ''failed'',
     ''denied'', ''interrupted'', ''outcome_unknown'']"

definition ComputerTerminalStatus :: ts_type where
  "ComputerTerminalStatus = literals [''completed'', ''failed'', ''denied'', ''interrupted'', ''outcome_unknown'']"

definition ComputerRiskClass :: ts_type where
  "ComputerRiskClass = literals [''GREEN'', ''YELLOW'', ''RED'']"

definition ComputerScope :: ts_type where
  "ComputerScope = TObj [req ''actor_id'' UUID, opt ''session_id'' UUID, opt ''turn_id'' UUID, opt ''task_id'' UUID,
     opt ''outcome_id'' UUID, req ''agent_id'' TStr]"

definition ComputerSourceReference :: ts_type where
  "ComputerSourceReference = TObj [req ''kind'' TStr, req ''id'' TStr]"

definition ComputerResultSummary :: ts_type where
  "ComputerResultSummary = TObj [req ''available'' TBool, req ''bytes'' TNum, opt ''error_code'' TStr, opt ''error'' TStr]"

definition ComputerEventPayload :: ts_type where
  "ComputerEventPayload = TObj [req ''protocol_version'' (TLit ''ion.computer-event.v1''), req ''tool_event_id'' UUID,
     req ''provider_tool_call_id'' TStr, req ''tool'' TStr, req ''operation'' TStr, req ''scope'' ComputerScope,
     req ''risk_class'' ComputerRiskClass, req ''phase'' ComputerPhase, req ''timestamp'' TStr, req ''display_kind'' TStr,
     req ''source_references'' (TArr ComputerSourceReference), opt ''terminal_status'' ComputerTerminalStatus,
     opt ''progress'' TAny, opt ''result'' ComputerResultSummary, opt ''display_model'' TAny]"

section \<open>Display models\<close>

definition DisplayKind :: ts_type where
  "DisplayKind = literals [''search'', ''reader'', ''navigation'', ''repository'', ''code'', ''terminal'', ''diff'',
     ''process'', ''table'', ''chart'', ''document'', ''artifact'', ''task'', ''agent'', ''approval'', ''error'',
     ''degraded'']"

definition DisplayTruth :: ts_type where
  "DisplayTruth = literals [''observed'', ''generated'', ''summarized'', ''inferred'', ''unavailable'']"

definition DisplayFormat :: ts_type where
  "DisplayFormat = literals [''text'', ''url'', ''path'', ''integer'', ''number'', ''boolean'', ''timestamp'', ''status'',
     ''code'', ''terminal'', ''diff'']"

definition DisplayBlockKind :: ts_type where
  "DisplayBlockKind = literals [''text'', ''list'', ''code'', ''terminal'', ''diff'', ''table'', ''chart'', ''document'',
     ''empty'']"

definition DisplayDatum :: ts_type where
  "DisplayDatum = TObj [req ''value'' TStr, req ''truth'' DisplayTruth, req ''format'' DisplayFormat,
     req ''sources'' (TArr TNum)]"

definition DisplayField :: ts_type where
  "DisplayField = TObj [req ''label'' TStr, req ''value'' DisplayDatum]"

definition DisplayItem :: ts_type where
  "DisplayItem = TObj [req ''fields'' (TArr DisplayField)]"

definition DisplayBlock :: ts_type where
  "DisplayBlock = TObj [req ''kind'' DisplayBlockKind, opt ''label'' TStr, opt ''language'' TStr,
     opt ''content'' DisplayDatum, opt ''fields'' (TArr DisplayField), opt ''items'' (TArr DisplayItem),
     opt ''columns'' (TArr TStr), opt ''rows'' (TArr (TArr DisplayDatum))]"

definition DisplayModel :: ts_type where
  "DisplayModel = TObj [req ''protocol_version'' (TLit ''ion.display-model.v1''), req ''kind'' DisplayKind,
     req ''title'' DisplayDatum, opt ''fields'' (TArr DisplayField), opt ''blocks'' (TArr DisplayBlock)]"

section \<open>Project verification\<close>

definition ProjectVerificationCriterion :: ts_type where
  "ProjectVerificationCriterion = TObj [req ''id'' TStr, req ''description'' TStr, req ''kinds'' (TArr TStr)]"

definition ProjectVerificationGate :: ts_type where
  "ProjectVerificationGate = TObj [req ''id'' TStr, req ''kind'' TStr, opt ''argv'' (TArr TStr),
     opt ''working_directory'' TStr, req ''environment'' (TArr TStr), req ''timeout_seconds'' TNum, req ''required'' TBool,
     req ''criteria'' (TArr TStr), req ''evidence_kinds'' (TArr TStr), opt ''evidence_paths'' (TArr TStr),
     req ''available'' TBool, opt ''unavailable_reason'' TStr]"

definition ProjectVerificationManifest :: ts_type where
  "ProjectVerificationManifest = TObj [req ''version'' (TLit ''ion.project-verification.v1''), req ''id'' UUID,
     req ''actor_id'' UUID, req ''project_id'' UUID, req ''workspace_revision'' TNum, opt ''inducing_patch_id'' UUID,
     req ''revision'' TNum, req ''criteria'' (TArr ProjectVerificationCriterion),
     req ''gates'' (TArr ProjectVerificationGate), req ''created_at'' TStr]"

definition ProjectVerificationEvidence :: ts_type where
  "ProjectVerificationEvidence = TObj [req ''kind'' TStr, req ''reference'' TStr, req ''sha256'' TStr, req ''size_bytes'' TNum]"

definition ProjectVerificationGateResult :: ts_type where
  "ProjectVerificationGateResult = TObj [req ''gate_id'' TStr, req ''kind'' TStr, req ''status'' TStr,
     opt ''terminal_id'' UUID, opt ''exit_code'' TNum, req ''duration_millis'' TNum, opt ''logs'' TStr,
     req ''logs_truncated'' TBool, opt ''failure_signature'' TStr, req ''criteria_covered'' (TArr TStr),
     req ''evidence'' (TArr ProjectVerificationEvidence), opt ''unavailable_reason'' TStr, opt ''waiver_id'' UUID]"

definition ProjectVerificationRun :: ts_type where
  "ProjectVerificationRun = TObj [req ''version'' (TLit ''ion.project-verification.v1''), req ''id'' UUID,
     req ''actor_id'' UUID, req ''project_id'' UUID, req ''manifest_id'' UUID, req ''manifest_revision'' TNum,
     req ''workspace_revision'' TNum, opt ''inducing_patch_id'' UUID, req ''mode'' TStr, req ''status'' TStr,
     req ''results'' (TArr ProjectVerificationGateResult), req ''criteria_covered'' (TArr TStr),
     req ''uncovered_criteria'' (TArr TStr),
     req ''repair'' (TObj [req ''state'' TStr, req ''reason'' TStr, req ''attempts'' TNum, req ''max_attempts'' TNum,
       req ''failure_signatures'' (TArr TStr)]),
     req ''started_at'' TStr, req ''finished_at'' TStr]"

definition ProjectVerificationWaiver :: ts_type where
  "ProjectVerificationWaiver = TObj [req ''id'' UUID, req ''actor_id'' UUID, req ''project_id'' UUID,
     req ''manifest_id'' UUID, req ''gate_ids'' (TArr TStr), req ''criteria'' (TArr TStr), req ''reason'' TStr,
     req ''risk'' TStr, req ''expires_at'' TStr, req ''created_at'' TStr, opt ''revoked_at'' TStr]"

section \<open>The guards and the types\<close>

text \<open>What the tests of the guards say about types.\<close>

lemma isUUID_is_string: "isUUID v \<Longrightarrow> is_string v"
  by (cases v) auto

lemma nonempty_string_string: "nonempty_string v \<Longrightarrow> is_string v"
  by (cases v) auto

lemma valid_date_string: "valid_date pf v \<Longrightarrow> is_string v"
  by (cases v) auto

lemma string_with_string: "string_with f v \<Longrightarrow> is_string v"
  by (cases v) auto

lemma string_with_literals: "string_with (one_of ss) v \<Longrightarrow> conforms (literals ss) v"
  by (cases v) (auto simp: conforms_literals)

lemma safe_number: "isNonNegativeSafeInteger v \<Longrightarrow> is_number v"
  by (cases v) (auto simp: isNonNegativeSafeInteger_def)

lemma source_number: "source_in_range n v \<Longrightarrow> is_number v"
  by (cases v) (auto simp: source_in_range_def)

lemma bounded_array_conforms:
  "bounded_array n f v \<Longrightarrow> (\<And>x. f x \<Longrightarrow> conforms t x) \<Longrightarrow> conforms (TArr t) v"
  by (auto simp: bounded_array_def list_all_iff)

lemmas guard_types = isUUID_is_string nonempty_string_string valid_date_string string_with_string safe_number
  source_number string_with_literals

lemma conforms_Scope: "isScope v \<Longrightarrow> conforms Scope v"
  by (auto simp: isScope_def Scope_def UUID_def undefined_or_iff dest: guard_types)

lemma conforms_Correlation: "isCorrelation v \<Longrightarrow> conforms Correlation v"
  by (auto simp: isCorrelation_def Correlation_def UUID_def undefined_or_iff dest: guard_types)

lemma string_case: "(case v of JStr s \<Rightarrow> f s | _ \<Rightarrow> False) = string_with f v"
  by (cases v) auto

lemma conforms_ErrorCode: "string_with (one_of validCodes) v \<Longrightarrow> conforms ErrorCode v"
  unfolding ErrorCode_def validCodes_def by (rule string_with_literals)

lemma conforms_Response:
  assumes "isResponseEnvelope v"
  shows "conforms ResponseEnvelope v"
proof -
  have "isRecord v" "fld v ''protocol_version'' = JStr (lit ''ion.controlplane.v1'')" "is_string (fld v ''request_id'')"
    "is_number (fld v ''revision'')"
    using assms by (simp_all add: isResponseEnvelope_def PROTOCOL_VERSION_def guard_types)
  moreover have "fld v ''error'' = JUndef \<or> conforms ProtocolError (fld v ''error'')"
    using assms by (auto simp: isResponseEnvelope_def ProtocolError_def Let_def string_case conforms_ErrorCode split: if_splits)
  ultimately show ?thesis by (simp add: ResponseEnvelope_def UUID_def)
qed

lemma conforms_Operation: "string_with operation_set v \<Longrightarrow> conforms Operation v"
  by (cases v) (simp_all add: Operation_def conforms_literals operation_set_def)

lemma conforms_Request:
  assumes "isRequestEnvelope v" "undefined_or is_string (fld v ''idempotency_key'')"
  shows "conforms RequestEnvelope v"
proof -
  have "isRecord v" "fld v ''protocol_version'' = JStr (lit ''ion.controlplane.v1'')" "is_string (fld v ''request_id'')"
    "conforms Scope (fld v ''scope'')"
    using assms by (simp_all add: isRequestEnvelope_def PROTOCOL_VERSION_def guard_types conforms_Scope)
  moreover have "conforms RequestKind (fld v ''kind'')"
    using assms(1) by (auto simp: isRequestEnvelope_def RequestKind_def literals_def kind_value_def)
  moreover have "string_with operation_set (fld v ''operation'')"
    using assms(1) by (cases "fld v ''operation''") (simp_all add: isRequestEnvelope_def)
  moreover have "fld v ''expected_revision'' = JUndef \<or> is_number (fld v ''expected_revision'')"
    using assms(1) by (auto simp: isRequestEnvelope_def undefined_or_iff safe_number)
  ultimately show ?thesis
    using assms(2) by (simp add: RequestEnvelope_def UUID_def undefined_or_iff conforms_Operation)
qed

lemma conforms_Event:
  assumes "isEventEnvelope pf v"
  shows "conforms EventEnvelope v"
proof -
  have "isRecord v" "is_number (fld v ''sequence'')" "is_string (fld v ''event_id'')" "is_string (fld v ''occurred_at'')"
    "conforms Correlation (fld v ''correlation'')"
    using assms by (auto simp: isEventEnvelope_def guard_types conforms_Correlation dest: valid_date_string)
  moreover have "conforms EventType (fld v ''type'')"
    using assms by (cases "fld v ''type''") (simp_all add: isEventEnvelope_def EventType_def conforms_literals event_type_set_def)
  ultimately show ?thesis by (simp add: EventEnvelope_def UUID_def)
qed

lemma conforms_Workspace:
  assumes "isWorkspaceOperationEnvelope pf v" "is_string (fld v ''policy_classification'')"
  shows "conforms WorkspaceOperationEnvelope v"
proof -
  have "conforms WorkspaceSecretGrant g" if "isSecretGrant pf g" for g
    using that by (auto simp: isSecretGrant_def WorkspaceSecretGrant_def UUID_def guard_types dest: valid_date_string)
  then have "fld v ''secret_grants'' = JUndef \<or> conforms (TArr WorkspaceSecretGrant) (fld v ''secret_grants'')"
    using assms(1) by (auto simp: isWorkspaceOperationEnvelope_def undefined_or_iff list_all_iff)
  moreover have "conforms WorkspaceHostOperation (fld v ''operation'')"
    unfolding WorkspaceHostOperation_def workspace_operations_def [symmetric]
    using assms(1) by (intro string_with_literals) (simp add: isWorkspaceOperationEnvelope_def string_case)
  moreover obtain p where "fld v ''policy_classification'' = JStr p" "one_of risk_classes p"
    using assms by (auto simp: is_string_iff isWorkspaceOperationEnvelope_def)
  then have "conforms WorkspacePolicyClassification (fld v ''policy_classification'')"
    unfolding WorkspacePolicyClassification_def risk_classes_def [symmetric] by (intro string_with_literals) simp
  moreover have "isRecord v" "fld v ''version'' = JStr (lit ''ion.workspace-host.v1'')"
    "list_all (\<lambda>k. is_string (fld v k)) [''actor_id'', ''project_id'', ''request_id'', ''correlation_id'',
       ''idempotency_key'', ''deadline'']" "is_number (fld v ''workspace_revision'')"
    using assms(1)
    by (auto simp: isWorkspaceOperationEnvelope_def WORKSPACE_HOST_VERSION_def guard_types dest: valid_date_string)
  ultimately show ?thesis by (simp add: WorkspaceOperationEnvelope_def UUID_def)
qed

lemma conforms_Datum: "isDisplayDatum pf n v \<Longrightarrow> conforms DisplayDatum v"
  by (auto simp: isDisplayDatum_def DisplayDatum_def DisplayTruth_def DisplayFormat_def displayTruths_def displayFormats_def
      list_all_iff intro: guard_types)

lemma conforms_Field: "isDisplayField pf n v \<Longrightarrow> conforms DisplayField v"
  by (auto simp: isDisplayField_def DisplayField_def dest: string_with_string conforms_Datum)

lemma conforms_Item: "isDisplayItem pf n v \<Longrightarrow> conforms DisplayItem v"
  using bounded_array_conforms [of 32 "isDisplayField pf n" _ DisplayField] conforms_Field
  by (simp add: isDisplayItem_def DisplayItem_def)

lemma conforms_Row: "isDisplayRow pf n columns v \<Longrightarrow> conforms (TArr DisplayDatum) v"
  using bounded_array_conforms [of 16 "isDisplayDatum pf n" v DisplayDatum] conforms_Datum by (auto simp: isDisplayRow_def)

lemma conforms_optional_array:
  assumes "undefined_or (bounded_array n f) v" "\<And>x. f x \<Longrightarrow> conforms t x"
  shows "v = JUndef \<or> conforms (TArr t) v"
  using assms bounded_array_conforms [of n f v t] by (auto simp: undefined_or_iff)

lemma conforms_Block:
  assumes "isDisplayBlock pf n v"
  shows "conforms DisplayBlock v"
proof -
  have b: "isRecord v" "string_with (one_of displayBlockKinds) (fld v ''kind'')"
    "undefined_or (isDisplayDatum pf n) (fld v ''content'')"
    "undefined_or (bounded_array 32 (isDisplayField pf n)) (fld v ''fields'')"
    "undefined_or (bounded_array 64 (isDisplayItem pf n)) (fld v ''items'')"
    "undefined_or (bounded_array 16 (string_with (displayTextIsSafe 128))) (fld v ''columns'')"
    "undefined_or (bounded_array 64 (isDisplayRow pf n (fld v ''columns''))) (fld v ''rows'')"
    using assms by (simp_all add: isDisplayBlock_def)
  have "fld v ''label'' = JUndef \<or> is_string (fld v ''label'')" "fld v ''language'' = JUndef \<or> is_string (fld v ''language'')"
    using assms by (auto simp: isDisplayBlock_def undefined_or_iff dest: string_with_string)
  moreover have "conforms DisplayBlockKind (fld v ''kind'')"
    using string_with_literals [OF b(2)] by (simp only: DisplayBlockKind_def displayBlockKinds_def)
  moreover have "fld v ''content'' = JUndef \<or> conforms DisplayDatum (fld v ''content'')"
    using b(3) conforms_Datum by (auto simp: undefined_or_iff)
  moreover note conforms_optional_array [OF b(4) conforms_Field] conforms_optional_array [OF b(5) conforms_Item]
    conforms_optional_array [OF b(7) conforms_Row]
  moreover have "fld v ''columns'' = JUndef \<or> conforms (TArr TStr) (fld v ''columns'')"
    by (rule conforms_optional_array [OF b(6)]) (simp add: string_with_string)
  ultimately show ?thesis using b(1) by (simp del: conforms.simps(7) add: DisplayBlock_def)
qed

lemma conforms_Model:
  assumes "isDisplayModel pf n v"
  shows "conforms DisplayModel v"
proof -
  have b: "isRecord v" "fld v ''protocol_version'' = JStr (lit ''ion.display-model.v1'')"
    "string_with (one_of displayKinds) (fld v ''kind'')" "conforms DisplayDatum (fld v ''title'')"
    "undefined_or (bounded_array 32 (isDisplayField pf n)) (fld v ''fields'')"
    "undefined_or (bounded_array 16 (isDisplayBlock pf n)) (fld v ''blocks'')"
    using assms conforms_Datum by (auto simp: isDisplayModel_def DISPLAY_MODEL_VERSION_def)
  moreover have "conforms DisplayKind (fld v ''kind'')"
    using string_with_literals [OF b(3)] by (simp only: DisplayKind_def displayKinds_def)
  moreover note conforms_optional_array [OF b(5) conforms_Field] conforms_optional_array [OF b(6) conforms_Block]
  ultimately show ?thesis by (simp del: conforms.simps(7) add: DisplayModel_def)
qed

lemma conforms_ComputerScope: "isComputerScope v \<Longrightarrow> conforms ComputerScope v"
  by (auto simp: isComputerScope_def ComputerScope_def UUID_def undefined_or_iff dest: guard_types)

lemma conforms_SourceReference: "isSourceReference v \<Longrightarrow> conforms ComputerSourceReference v"
  by (auto simp: isSourceReference_def ComputerSourceReference_def dest: guard_types)

lemma conforms_Result: "isRecord v \<Longrightarrow> isComputerResult v \<Longrightarrow> conforms ComputerResultSummary v"
  by (auto simp: isComputerResult_def ComputerResultSummary_def undefined_or_iff dest: guard_types)

lemma conforms_Payload:
  assumes "isComputerEventPayload pf v" "is_string (fld v ''risk_class'')"
    "is_terminal_status (fld v ''phase'') \<or> fld v ''terminal_status'' = JUndef \<and> fld v ''result'' = JUndef"
  shows "conforms ComputerEventPayload v"
proof -
  have c: "isRecord v" "fld v ''protocol_version'' = JStr (lit ''ion.computer-event.v1'')"
    "isComputerScope (fld v ''scope'')" "string_with (one_of computerPhases) (fld v ''phase'')"
    "bounded_array 8 isSourceReference (fld v ''source_references'')"
    "is_terminal_status (fld v ''phase'') = (fld v ''terminal_status'' = fld v ''phase'')"
    "is_terminal_status (fld v ''phase'') = isRecord (fld v ''result'')"
    "isRecord (fld v ''result'') \<longrightarrow> isComputerResult (fld v ''result'')"
    using assms(1) by (auto simp: isComputerEventPayload_def COMPUTER_EVENT_VERSION_def Let_def)
  have strings: "list_all (\<lambda>k. is_string (fld v k)) [''tool_event_id'', ''provider_tool_call_id'', ''tool'', ''operation'',
      ''timestamp'', ''display_kind'']"
    using assms(1) by (auto simp: isComputerEventPayload_def dest: guard_types)
  obtain r where "fld v ''risk_class'' = JStr r" "one_of risk_classes r"
    using assms(1,2) by (auto simp: is_string_iff isComputerEventPayload_def)
  then have risk: "conforms ComputerRiskClass (fld v ''risk_class'')"
    unfolding ComputerRiskClass_def risk_classes_def [symmetric] by (intro string_with_literals) simp
  have phase: "conforms ComputerPhase (fld v ''phase'')"
    using string_with_literals [OF c(4)] by (simp only: ComputerPhase_def computerPhases_def)
  have "is_terminal_status w \<Longrightarrow> conforms ComputerTerminalStatus w" for w
    using string_with_literals [of computerTerminalStatuses w]
    by (simp only: is_terminal_status_def ComputerTerminalStatus_def computerTerminalStatuses_def)
  then have status: "fld v ''terminal_status'' = JUndef \<or> conforms ComputerTerminalStatus (fld v ''terminal_status'')"
    using assms(3) c(6) by auto
  have result: "fld v ''result'' = JUndef \<or> conforms ComputerResultSummary (fld v ''result'')"
    using assms(3) c(7,8) conforms_Result by auto
  show ?thesis
    using c(1,2) strings risk phase status result conforms_ComputerScope [OF c(3)]
      bounded_array_conforms [OF c(5) conforms_SourceReference]
    by (simp del: conforms.simps(7) add: ComputerEventPayload_def UUID_def)
qed

lemma conforms_Recovery:
  assumes "isRecovery pf v" "fld v ''gap_marker'' = JUndef \<or> conforms GapMarker (fld v ''gap_marker'')"
  shows "conforms RecoveryEnvelope v"
proof -
  have "list_all (conforms EventEnvelope) (elems (fld (fld v ''replay'') ''events''))"
    using assms(1) conforms_Event by (auto simp: isRecovery_def Let_def list_all_iff)
  then have "conforms ReplayEnvelope (fld v ''replay'')"
    using assms(1) by (simp add: isRecovery_def ReplayEnvelope_def Let_def)
  then show ?thesis using assms by (simp add: isRecovery_def RecoveryEnvelope_def)
qed

text \<open>
  (C36) The guards prove the types they claim: a value accepted as a response, an event, a scope, a
  correlation or a display model has the declared type of that name, and so has an accepted request,
  workspace operation, Computer payload or recovery once the fields that its guard does not look at are
  right: the idempotency key of a query, the type of the classifications, the status and result of an
  activity that still runs, and the gap marker.
\<close>

theorem guards_prove_types:
  "(isResponseEnvelope v \<longrightarrow> conforms ResponseEnvelope v) \<and> (isEventEnvelope pf v \<longrightarrow> conforms EventEnvelope v) \<and>
   (isScope v \<longrightarrow> conforms Scope v) \<and> (isCorrelation v \<longrightarrow> conforms Correlation v) \<and>
   (isDisplayModel pf n v \<longrightarrow> conforms DisplayModel v) \<and>
   (isRequestEnvelope v \<and> undefined_or is_string (fld v ''idempotency_key'') \<longrightarrow> conforms RequestEnvelope v) \<and>
   (isWorkspaceOperationEnvelope pf v \<and> is_string (fld v ''policy_classification'') \<longrightarrow>
      conforms WorkspaceOperationEnvelope v) \<and>
   (isComputerEventPayload pf v \<and> is_string (fld v ''risk_class'') \<and>
      (is_terminal_status (fld v ''phase'') \<or> fld v ''terminal_status'' = JUndef \<and> fld v ''result'' = JUndef) \<longrightarrow>
      conforms ComputerEventPayload v) \<and>
   (isRecovery pf v \<and> (fld v ''gap_marker'' = JUndef \<or> conforms GapMarker (fld v ''gap_marker'')) \<longrightarrow>
      conforms RecoveryEnvelope v)"
  using conforms_Response conforms_Event conforms_Scope conforms_Correlation conforms_Model conforms_Request
    conforms_Workspace conforms_Payload conforms_Recovery by blast

definition example_recovery :: jsval where
  "example_recovery = JObj [(lit ''replay'', JObj [(lit ''after_sequence'', JInt 0), (lit ''earliest_sequence'', JInt 1),
     (lit ''latest_sequence'', JInt 0), (lit ''head_sequence'', JInt 0), (lit ''gap'', JBool False), (lit ''events'', JArr [])])]"

theorem guards_prove_types_witness:
  "isRequestEnvelope (query_object (JStr example_id) example_id (lit ''system.health'') (JObj []) no_scope) \<and>
   conforms RequestEnvelope (query_object (JStr example_id) example_id (lit ''system.health'') (JObj []) no_scope) \<and>
   conforms RecoveryEnvelope example_recovery"
proof -
  define q where "q = query_object (JStr example_id) example_id (lit ''system.health'') (JObj []) no_scope"
  have "scope_ok no_scope" by (simp add: scope_ok_def no_scope_def)
  then have "isRequestEnvelope q"
    unfolding q_def by (rule query_object_valid [OF example_kind example_id_ok example_id_ok])
  moreover have "undefined_or is_string (fld q ''idempotency_key'')" by (simp add: q_def query_object_def)
  moreover have "isRecovery example_platform example_recovery" "fld example_recovery ''gap_marker'' = JUndef"
    by (simp_all add: isRecovery_def example_recovery_def)
  ultimately show ?thesis
    using guards_prove_types [of q example_platform 0] guards_prove_types [of example_recovery example_platform 0]
    by (simp only: q_def [symmetric] simp_thms)
qed

text \<open>A query with a number for a key, and a recovery with a text for a gap marker.\<close>

definition stray_key_query :: jsval where
  "stray_key_query = JObj [
     (lit ''protocol_version'', JStr PROTOCOL_VERSION), (lit ''request_id'', JStr example_id),
     (lit ''kind'', kind_value Query), (lit ''operation'', JStr (lit ''system.health'')),
     (lit ''scope'', scope_value (JStr example_id) no_scope), (lit ''idempotency_key'', JInt 5), (lit ''payload'', JNull)]"

definition stray_gap_recovery :: jsval where
  "stray_gap_recovery = JObj [(lit ''replay'', fld example_recovery ''replay''), (lit ''gap_marker'', JStr (lit ''none''))]"

text \<open>
  The guards accept more than the types they claim: there is an accepted query whose idempotency key
  is a number and an accepted recovery whose gap marker is a string, and neither has the declared type.
\<close>

theorem guards_accept_more:
  "isRequestEnvelope stray_key_query \<and> \<not> conforms RequestEnvelope stray_key_query \<and>
   isRecovery pf stray_gap_recovery \<and> \<not> conforms RecoveryEnvelope stray_gap_recovery"
proof -
  have "isScope (scope_value (JStr example_id) no_scope)"
    by (rule isScope_scope_value [OF example_id_ok]) (simp add: scope_ok_def no_scope_def)
  then have "isRequestEnvelope stray_key_query"
    using example_id_ok example_kind
    by (simp add: isRequestEnvelope_def stray_key_query_def operation_set_iff kind_value_def)
  moreover have "\<not> conforms RequestEnvelope stray_key_query"
    by (simp add: RequestEnvelope_def stray_key_query_def)
  moreover have "isRecovery pf stray_gap_recovery"
    by (simp add: isRecovery_def stray_gap_recovery_def example_recovery_def)
  moreover have "\<not> conforms RecoveryEnvelope stray_gap_recovery"
    by (simp add: RecoveryEnvelope_def GapMarker_def stray_gap_recovery_def)
  ultimately show ?thesis by blast
qed

end
