(* ===== verification/TuiRender.thy ===== *)
theory TuiRender
  imports TuiView Types
begin

text \<open>
  When a render of the terminal application cannot throw: it reads the results of queries without
  checking them, so it needs the results to have the types they are cast to.
\<close>

section \<open>Typed results\<close>

definition BrowserWorkflow :: ts_type where
  "BrowserWorkflow = TObj [req ''id'' TStr, req ''status'' TStr, req ''origin'' TStr, req ''revision'' TNum,
     opt ''handoff'' (TObj [req ''kind'' TStr, req ''consequence'' TStr])]"

definition all_defined :: "jsval list \<Rightarrow> bool" where
  "all_defined vs \<longleftrightarrow> list_all (\<lambda>v. v \<noteq> JUndef) vs"

definition skill_statuses :: "string list" where
  "skill_statuses = [''imported'', ''active'', ''proposed'', ''adopted'', ''rejected'', ''candidates'']"

text \<open>
  The results have the types of the casts \<open>client.query<T>\<close>. No element of a parsed array is
  \<open>undefined\<close>.
\<close>

definition results_typed :: "tui_state \<Rightarrow> bool" where
  "results_typed s \<longleftrightarrow> conforms (TArr CommandDescriptor) (tu_catalog s) \<and>
     list_all (conforms BrowserWorkflow) (tu_workflows s) \<and>
     (tu_manifest s = JUndef \<or> conforms ProjectVerificationManifest (tu_manifest s)) \<and>
     list_all (conforms ProjectVerificationRun) (tu_runs s) \<and>
     list_all (conforms ProjectVerificationWaiver) (tu_waivers s) \<and>
     all_defined (tu_todos s @ tu_sessions s @ tu_schedules s @ arrayField (tu_projects s) ''projects'') \<and>
     tu_skills s \<noteq> JUndef \<and> list_all (\<lambda>k. all_defined (elems (fld (tu_skills s) k))) skill_statuses"

section \<open>Lists of partial results\<close>

lemma those_defined: "list_all (\<lambda>x. f x \<noteq> None) xs \<Longrightarrow> \<exists>ys. those (map f xs) = Some ys"
  by (induction xs) auto

lemma those_all: "(\<And>x. x \<in> set xs \<Longrightarrow> f x \<noteq> None) \<Longrightarrow> \<exists>ys. those (map f xs) = Some ys"
  using those_defined [of f xs] by (auto simp: list_all_iff)

lemma those_member: "those (map f xs) = Some ys \<Longrightarrow> y \<in> set ys \<Longrightarrow> \<exists>x \<in> set xs. f x = Some y"
  by (induction xs arbitrary: ys) (auto split: option.splits)

lemma filter_try_defined: "list_all (\<lambda>x. p x \<noteq> None) xs \<Longrightarrow> \<exists>ys. filter_try p xs = Some ys \<and> set ys \<subseteq> set xs"
  by (induction xs) auto

lemma bind_defined: "\<exists>x. a = Some x \<Longrightarrow> \<exists>v. Option.bind a (\<lambda>x. Some (g x)) = Some v"
  by auto

lemma in_enumerate: "e \<in> set (enumerate n xs) \<Longrightarrow> snd e \<in> set xs"
  by (cases e) (auto simp: enumerate_eq_zip dest: set_zip_rightD)

lemma read_prop_record: "isRecord v \<Longrightarrow> read_prop v k = Some (fld v k)"
  by (cases v) auto

lemma read_length: "is_array v \<Longrightarrow> \<exists>t. Option.bind (read_prop v ''length'') (child_text pf) = Some t"
  by (cases v) (simp_all del: number_text.simps)

lemma compactPayload_defined: "v \<noteq> JUndef \<Longrightarrow> \<exists>t. compactPayload pf v = Some t"
  using json_stringify_defined [of v pf] by (auto simp: compactPayload_def)

lemma recordLine_defined: "v \<noteq> JUndef \<Longrightarrow> \<exists>t. recordLine pf v keys = Some t"
  using compactPayload_defined [of v pf] by (auto simp: recordLine_def Let_def)

lemma numbered_lines_defined: "all_defined items \<Longrightarrow> \<exists>vs. numbered_lines pf keys items = Some vs"
proof -
  assume a: "all_defined items"
  have "recordLine pf (snd e) keys \<noteq> None" if "e \<in> set (enumerate 1 items)" for e
  proof -
    have "snd e \<in> set items" using that by (rule in_enumerate)
    then show ?thesis using a recordLine_defined [of "snd e" pf keys] by (auto simp: all_defined_def list_all_iff)
  qed
  then show ?thesis
    unfolding numbered_lines_def by (intro those_defined) (auto simp: list_all_iff split: prod.splits)
qed

section \<open>The catalogue\<close>

lemma descriptor_fields:
  assumes "conforms CommandDescriptor item"
  shows "isRecord item" "\<exists>op. fld item ''operation'' = JStr op" "\<exists>d. fld item ''description'' = JStr d"
  using assms by (auto simp: CommandDescriptor_def Operation_def conforms_literals is_string_iff)

lemma catalog_items: "conforms (TArr CommandDescriptor) c \<Longrightarrow> \<exists>items. c = JArr items \<and> list_all (conforms CommandDescriptor) items"
  by (cases c) auto

lemma available_items_defined:
  assumes "conforms (TArr CommandDescriptor) c"
  shows "\<exists>items. available_items c = Some items \<and> list_all (conforms CommandDescriptor) items"
proof -
  obtain items where c: "c = JArr items" "list_all (conforms CommandDescriptor) items" using catalog_items [OF assms] by blast
  have "list_all (\<lambda>i. is_available i \<noteq> None) items"
    using c(2) descriptor_fields(1) by (auto simp: list_all_iff is_available_def read_prop_record)
  then obtain ys where "filter_try is_available items = Some ys" "set ys \<subseteq> set items"
    using filter_try_defined by blast
  then show ?thesis using c by (auto simp: available_items_def list_all_iff)
qed

lemma sectionSubtitle_defined:
  assumes "conforms (TArr CommandDescriptor) c"
  shows "\<exists>t. sectionSubtitle sec c = Some t"
proof -
  obtain items where c: "c = JArr items" "list_all (conforms CommandDescriptor) items" using catalog_items [OF assms] by blast
  have "in_section sec i \<noteq> None" if "i \<in> set items" for i
  proof -
    have i: "conforms CommandDescriptor i" using that c(2) by (auto simp: list_all_iff)
    then obtain op where "fld i ''operation'' = JStr op" using descriptor_fields(2) by blast
    then show ?thesis
      using descriptor_fields(1) [OF i] by (auto simp: in_section_def is_available_def read_prop_record)
  qed
  then obtain ys where "filter_try (in_section sec) items = Some ys"
    using filter_try_defined [of "in_section sec" items] by (auto simp: list_all_iff)
  then show ?thesis using c by (simp add: sectionSubtitle_def)
qed

lemma suggestion_rows_defined:
  assumes "conforms (TArr CommandDescriptor) (tu_catalog s)"
  shows "\<exists>vs. suggestion_rows pf s = Some vs"
proof -
  obtain items where av: "available_items (tu_catalog s) = Some items" "list_all (conforms CommandDescriptor) items"
    using available_items_defined [OF assms] by blast
  have disc: "\<exists>sg d. discovered_command i = Some sg \<and> sg_description sg = JStr d" if "i \<in> set items" for i
  proof -
    have "conforms CommandDescriptor i" using that av(2) by (simp add: list_all_iff)
    then obtain op d where "fld i ''operation'' = JStr op" "fld i ''description'' = JStr d"
      using descriptor_fields(2,3) by blast
    then show ?thesis by (simp add: discovered_command_def)
  qed
  have "list_all (\<lambda>i. discovered_command i \<noteq> None) items" unfolding list_all_iff using disc by (metis option.distinct(1))
  then obtain ds where ds: "those (map discovered_command items) = Some ds" using those_defined by blast
  have ds_ok: "\<exists>d. sg_description sg = JStr d" if sg: "sg \<in> set ds" for sg
  proof -
    obtain i where "i \<in> set items" "discovered_command i = Some sg" using those_member [OF ds sg] by blast
    then show ?thesis using disc by fastforce
  qed
  have rows: "\<exists>vs. those (map (suggestion_row pf) (enumerate 0 sgs)) = Some vs"
    if "set sgs \<subseteq> set (local_commands @ ds)" for sgs
  proof (rule those_defined)
    have "suggestion_row pf e \<noteq> None" if "e \<in> set (enumerate 0 sgs)" for e
    proof -
      have "snd e \<in> set sgs" using that by (rule in_enumerate)
      then have "snd e \<in> set local_commands \<or> snd e \<in> set ds" using \<open>set sgs \<subseteq> set (local_commands @ ds)\<close> by auto
      then have "\<exists>d. sg_description (snd e) = JStr d" using ds_ok by (auto simp: local_commands_def)
      then show ?thesis by (auto simp: suggestion_row_def)
    qed
    then show "list_all (\<lambda>x. suggestion_row pf x \<noteq> None) (enumerate 0 sgs)" by (simp add: list_all_iff)
  qed
  obtain sgs where sgs: "slashSuggestions (tu_catalog s) (tu_draft s) = Some sgs" "set sgs \<subseteq> set (local_commands @ ds)"
  proof (cases "\<not> starts_with ''/'' (tu_draft s) \<or> 32 \<in> set (tu_draft s)")
    case True
    then show ?thesis using that [of "[]"] by (simp add: slashSuggestions_def)
  next
    case False
    let ?sgs = "take 7 (filter (\<lambda>item. prefix (to_lower (drop 1 (tu_draft s))) (to_lower (sg_operation item)))
      (local_commands @ ds))"
    have "set ?sgs \<subseteq> set (local_commands @ ds)" by (meson filter_is_subset order_trans set_take_subset)
    moreover have "slashSuggestions (tu_catalog s) (tu_draft s) = Some ?sgs"
      unfolding slashSuggestions_def if_not_P [OF False] av(1) Option.bind.bind_lunit ds by (rule refl)
    ultimately show ?thesis by (rule that [rotated])
  qed
  from rows [OF sgs(2)] sgs(1) show ?thesis by (auto simp: suggestion_rows_def)
qed

section \<open>Panes\<close>

lemma those_concat_defined: "(\<And>xs x. xs \<in> set xss \<Longrightarrow> x \<in> set xs \<Longrightarrow> x \<noteq> None) \<Longrightarrow> \<exists>ys. those (concat xss) = Some ys"
  using those_defined [of id "concat xss"] by (auto simp: list_all_iff)

lemma skillRows_defined:
  assumes "v \<noteq> JUndef" "list_all (\<lambda>k. all_defined (elems (fld v k))) skill_statuses"
  shows "\<exists>rows. skillRows pf v = Some rows"
proof -
  have "x \<noteq> None" if m: "xs \<in> set (map (skill_lines pf v) skill_statuses)" "x \<in> set xs" for xs x
  proof -
    obtain k item where "x = map_option (\<lambda>line. lit k @ lit '': '' @ line)
        (recordLine pf item [''name'', ''skill_name'', ''status'', ''revision''])" "item \<noteq> JUndef"
      using m assms(2) by (auto simp: skill_lines_def list_all_iff all_defined_def)
    then show ?thesis using recordLine_defined [of item pf] by force
  qed
  then obtain rows where "those (concat (map (skill_lines pf v) skill_statuses)) = Some rows"
    using those_concat_defined by blast
  then show ?thesis
    using compactPayload_defined [OF assms(1), of pf] by (auto simp: skillRows_def skill_statuses_def)
qed

lemma approvals_pane_defined: "\<exists>v. approvals_pane pf approvals = Some v"
proof -
  have "recordLine pf (approval_value a) keys \<noteq> None" for a keys
    using recordLine_defined [of "approval_value a" pf keys] by (auto simp: approval_value_def)
  then obtain rows where "those (map (approval_row pf) (enumerate 1 approvals)) = Some rows"
    using those_defined [of "approval_row pf" "enumerate 1 approvals"] by (auto simp: approval_row_def list_all_iff)
  then show ?thesis by (simp add: approvals_pane_def)
qed

lemma system_pane_defined:
  assumes "all_defined (tu_sessions s)"
  shows "\<exists>v. system_pane env pf narrow noColor recent s = Some v"
proof -
  have "session_row pf c e \<noteq> None" if "e \<in> set (enumerate 0 (take 8 (tu_sessions s)))" for c e
  proof -
    have "snd e \<in> set (tu_sessions s)" using in_enumerate [OF that] by (auto dest: in_set_takeD)
    then have "snd e \<noteq> JUndef" using assms by (auto simp: all_defined_def list_all_iff)
    then show ?thesis using recordLine_defined [of "snd e" pf] by (force simp: session_row_def Let_def)
  qed
  then obtain rows where "those (map (session_row pf (tu_session_cursor s)) (enumerate 0 (take 8 (tu_sessions s)))) = Some rows"
    using those_all [of "enumerate 0 (take 8 (tu_sessions s))" "session_row pf (tu_session_cursor s)"] by blast
  then show ?thesis by (simp add: system_pane_def)
qed

lemma conforms_field:
  "conforms (TObj fs) v \<Longrightarrow> (k, False, t) \<in> set fs \<Longrightarrow> isRecord v \<and> conforms t (fld v k)"
  by (auto simp: list_all_iff)

lemma run_fields:
  assumes "conforms ProjectVerificationRun r"
  shows "isRecord r" "\<exists>t. fld r ''status'' = JStr t" "is_array (fld r ''criteria_covered'')"
    "is_array (fld r ''uncovered_criteria'')"
  using assms by (auto simp: ProjectVerificationRun_def is_string_iff)

lemma latest_run_cases:
  "list_all (conforms ProjectVerificationRun) (tu_runs s) \<Longrightarrow> latest_run s = JUndef \<or> conforms ProjectVerificationRun (latest_run s)"
  by (auto simp: latest_run_def at_last_def list_all_iff)

lemma array_length: "is_array v \<Longrightarrow> \<exists>n. read_prop v ''length'' = Some (JNum n)"
  by (cases v) auto

lemma verification_rows_defined:
  assumes "tu_manifest s = JUndef \<or> conforms ProjectVerificationManifest (tu_manifest s)"
    "list_all (conforms ProjectVerificationRun) (tu_runs s)"
  shows "\<exists>vs. verification_rows pf n s = Some vs"
proof (cases "tu_manifest s = JUndef")
  case True
  then show ?thesis by (simp add: verification_rows_def)
next
  case False
  then have m: "isRecord (tu_manifest s)" "is_array (fld (tu_manifest s) ''gates'')" "is_array (fld (tu_manifest s) ''criteria'')"
    using assms(1) by (auto simp: ProjectVerificationManifest_def)
  have len: "\<exists>k. manifest_length s f = Some (JNum k)" if "is_array (fld (tu_manifest s) f)" for f
    using array_length [OF that] read_prop_record [OF m(1)] by (auto simp: manifest_length_def)
  obtain g c where gc: "manifest_length s ''gates'' = Some (JNum g)" "manifest_length s ''criteria'' = Some (JNum c)"
    using len [OF m(2)] len [OF m(3)] by blast
  show ?thesis
  proof (cases "latest_run s = JUndef")
    case True
    then show ?thesis
      using False gc by (simp add: verification_rows_def latest_status_def latest_length_def nullish_def or_else_def)
  next
    case latest: False
    then have r: "conforms ProjectVerificationRun (latest_run s)" using latest_run_cases [OF assms(2)] by blast
    note f = run_fields [OF r]
    have "\<not> nullish (latest_run s)" using f(1) by (cases "latest_run s") (auto simp: nullish_def)
    moreover obtain t where "latest_status s = Some t"
      using f(2) read_prop_record [OF f(1)] calculation by (auto simp: latest_status_def)
    moreover obtain a b where "latest_length s ''criteria_covered'' = Some (JNum a)"
      "latest_length s ''uncovered_criteria'' = Some (JNum b)"
      using array_length [OF f(3)] array_length [OF f(4)] read_prop_record [OF f(1)] calculation(1)
      by (auto simp: latest_length_def)
    ultimately show ?thesis
      using False gc by (simp add: verification_rows_def nullish_def or_else_def)
  qed
qed

lemma projects_pane_defined:
  assumes "results_typed s"
  shows "\<exists>v. projects_pane env pf s = Some v"
proof -
  have r: "all_defined (arrayField (tu_projects s) ''projects'')"
    "tu_manifest s = JUndef \<or> conforms ProjectVerificationManifest (tu_manifest s)"
    "list_all (conforms ProjectVerificationRun) (tu_runs s)" "list_all (conforms ProjectVerificationWaiver) (tu_waivers s)"
    using assms by (auto simp: results_typed_def all_defined_def)
  have "list_all (\<lambda>w. read_prop w ''revoked_at'' \<noteq> None) (tu_waivers s)"
    using r(4) by (auto simp: list_all_iff ProjectVerificationWaiver_def read_prop_record)
  then obtain ws where "active_waivers env s = Some ws"
    unfolding active_waivers_def
    using filter_try_defined [of "\<lambda>w. map_option (\<lambda>revoked. revoked = JUndef \<and> te_unexpired env (fld w ''expires_at''))
      (read_prop w ''revoked_at'')" "tu_waivers s"] by (auto simp: list_all_iff)
  moreover obtain items where "numbered_lines pf [''name'', ''lifecycle'', ''root'', ''id'']
      (arrayField (tu_projects s) ''projects'') = Some items" using numbered_lines_defined [OF r(1)] by blast
  moreover obtain vs where "verification_rows pf (length ws) s = Some vs" using verification_rows_defined [OF r(2,3)] by blast
  ultimately show ?thesis by (simp add: projects_pane_def)
qed

lemma SectionPane_defined:
  assumes "results_typed s"
  shows "\<exists>v. SectionPane env pf narrow noColor approvals recent s = Some v"
proof -
  have r: "all_defined (tu_todos s)" "all_defined (tu_sessions s)" "all_defined (tu_schedules s)" "tu_skills s \<noteq> JUndef"
    "list_all (\<lambda>k. all_defined (elems (fld (tu_skills s) k))) skill_statuses"
    using assms by (auto simp: results_typed_def all_defined_def)
  have "\<exists>v. tasks_pane pf s = Some v"
    unfolding tasks_pane_def by (rule bind_defined [OF numbered_lines_defined [OF r(1)]])
  moreover have "\<exists>v. schedules_pane pf s = Some v"
    unfolding schedules_pane_def by (rule bind_defined [OF numbered_lines_defined [OF r(3)]])
  moreover have "\<exists>v. skills_pane pf s = Some v"
    unfolding skills_pane_def by (rule bind_defined [OF skillRows_defined [OF r(4,5)]])
  ultimately show ?thesis
    using approvals_pane_defined projects_pane_defined [OF assms] system_pane_defined [OF r(2)]
    by (simp add: SectionPane_def split: tui_section.splits)
qed

section \<open>The Computer pane\<close>

lemma workflow_row_defined:
  assumes "conforms BrowserWorkflow w"
  shows "workflow_row pf w \<noteq> None"
proof -
  obtain status origin n where w: "isRecord w" "fld w ''status'' = JStr status" "fld w ''origin'' = JStr origin"
    "fld w ''revision'' = JNum n"
    using assms by (cases "fld w ''revision''") (auto simp: BrowserWorkflow_def is_string_iff)
  have "\<exists>t. handoff_text pf (fld w ''handoff'') = Some t"
    using assms by (auto simp: BrowserWorkflow_def handoff_text_def read_prop_record is_string_iff)
  then show ?thesis using w by (auto simp: workflow_row_def read_prop_record)
qed

lemma ComputerPane_defined:
  assumes "list_all (conforms BrowserWorkflow) workflows"
  shows "\<exists>v. ComputerPane pf selected evs followLive gapped index waiting workflows = Some v"
proof -
  have "workflow_row pf w \<noteq> None" if "w \<in> set (take 5 workflows)" for w
    using assms that workflow_row_defined by (auto simp: list_all_iff dest: in_set_takeD)
  then obtain rows where "those (map (workflow_row pf) (take 5 workflows)) = Some rows"
    using those_all [of "take 5 workflows" "workflow_row pf"] by blast
  then show ?thesis by (simp add: ComputerPane_def WorkflowSummary_def)
qed

text \<open>
  (C37) A render does not throw: when the results of the queries have the types they are cast to and the
  pending decision has a payload, the screen is defined, for every section, selection, draft, terminal
  and operator state.
\<close>

theorem render_defined:
  assumes "results_typed s" "\<forall>a. pendingApproval os = Some a \<longrightarrow> ap_payload a \<noteq> JUndef"
  shows "\<exists>v. app_view env pf os connection err s = Some v"
proof -
  have c: "conforms (TArr CommandDescriptor) (tu_catalog s)" "list_all (conforms BrowserWorkflow) (tu_workflows s)"
    using assms(1) by (simp_all only: results_typed_def)
  obtain sg where 1: "suggestion_rows pf s = Some sg" using suggestion_rows_defined [OF c(1)] by blast
  obtain t where "sectionSubtitle (tu_section s) (tu_catalog s) = Some t" using sectionSubtitle_defined [OF c(1)] by blast
  moreover obtain p where "(if tu_section s = Computer then computer_pane pf os s
      else SectionPane env pf (is_narrow env) (no_color env) (dict_values (pending_approvals os)) (recent_rows env os) s) = Some p"
    using ComputerPane_defined [OF c(2)] SectionPane_defined [OF assms(1)] unfolding computer_pane_def by presburger
  ultimately obtain m where 2: "main_pane env pf os s = Some m" by (simp add: main_pane_def)
  have "\<exists>d. decision_panel env pf os = Some d"
  proof (cases "pendingApproval os")
    case (Some a)
    then obtain t where "compactPayload pf (ap_payload a) = Some t" using assms(2) compactPayload_defined by blast
    then show ?thesis using Some by (simp add: decision_panel_def)
  qed (simp add: decision_panel_def)
  moreover obtain items where "available_items (tu_catalog s) = Some items" using available_items_defined [OF c(1)] by blast
  ultimately have "\<exists>dd. details_pane env pf os s = Some dd" by (cases "is_narrow env") (auto simp: details_pane_def)
  then obtain dd where 3: "details_pane env pf os s = Some dd" by blast
  show ?thesis by (simp add: app_view_def 1 2 3)
qed

theorem render_defined_witness:
  "\<exists>v. app_view example_env example_platform emptyOperatorState ''ready'' None initial_tui = Some v"
  by (rule render_defined)
    (simp_all add: results_typed_def initial_tui_def all_defined_def arrayField_def skill_statuses_def pendingApproval_def
      emptyOperatorState_def dict_values_def)

end
