(* ===== verification/Provider.thy ===== *)
theory Provider
  imports Browser Store
begin

text \<open>
  The provider of the web application, \<open>ui/web/src/app/operator-context.tsx\<close>: it keeps the event
  store of the page connected. The state is that of the effect's closure (the flag, the connection, the
  timer and the count of attempts) and of the component (the status and the error); what can happen is
  a call or an event; the error is kept whole where the component keeps its message. It is composed with
  the event stream of the browser client, to which it gives the callbacks.
\<close>

section \<open>The typed view of a recovery\<close>

definition gap_marker_of :: "jsval \<Rightarrow> gap_marker option" where
  "gap_marker_of v = (if v = JUndef then None else
     Some \<lparr>requested_after = int_of (fld v ''requested_after''),
       available_from = int_of (fld v ''available_from''), latest = int_of (fld v ''latest'')\<rparr>)"

definition recovery_of :: "jsval \<Rightarrow> recovery_envelope" where
  "recovery_of v = (let r = fld v ''replay'' in
     \<lparr>replay = \<lparr>after_sequence = int_of (fld r ''after_sequence''),
        earliest_sequence = int_of (fld r ''earliest_sequence''),
        latest_sequence = int_of (fld r ''latest_sequence''),
        head_sequence = int_of (fld r ''head_sequence''),
        replay_gap = (fld r ''gap'' = JBool True),
        events = map event_of (elems (fld r ''events''))\<rparr>,
      gap_marker = gap_marker_of (fld v ''gap_marker''),
      snapshot = (if fld v ''snapshot'' = JUndef then None else Some (fld v ''snapshot''))\<rparr>)"

section \<open>State\<close>

datatype connection_status = Connecting | Ready | Degraded

text \<open>\<open>pv_pending\<close>: the promise of \<open>client.connect\<close> is awaited.\<close>

record provider =
  pv_disposed :: bool
  pv_active :: "event_connection option"
  pv_pending :: bool
  pv_retry :: "nat option"
  pv_attempts :: nat
  pv_status :: connection_status
  pv_error :: "js_error option"
  pv_store :: event_store

datatype provider_effect = OpenFrom int

section \<open>Operations\<close>

definition retry_delay :: "nat \<Rightarrow> nat" where
  "retry_delay attempts = min (500 * 2 ^ attempts) 5000"

definition schedule_retry :: "provider \<Rightarrow> provider" where
  "schedule_retry p =
     (if 5 \<le> pv_attempts p then p
      else p\<lparr>pv_retry := Some (retry_delay (pv_attempts p)), pv_attempts := Suc (pv_attempts p)\<rparr>)"

definition start_connect :: "provider \<Rightarrow> provider \<times> provider_effect list" where
  "start_connect p =
     (if pv_disposed p then (p, [])
      else (p\<lparr>pv_status := Connecting, pv_pending := True\<rparr>,
        [OpenFrom (last_sequence (getSnapshot (pv_store p)))]))"

definition connect_resolved :: "provider \<Rightarrow> provider" where
  "connect_resolved p = p\<lparr>pv_pending := False,
     pv_active := Some \<lparr>ec_open = \<not> pv_disposed p, ec_closed = pv_disposed p\<rparr>\<rparr>"

definition connect_rejected :: "js_error \<Rightarrow> provider \<Rightarrow> provider" where
  "connect_rejected err p =
     (let p = p\<lparr>pv_pending := False\<rparr> in
      if pv_disposed p then p
      else schedule_retry (p\<lparr>pv_status := Degraded, pv_error := Some err\<rparr>))"

definition close_active :: "provider \<Rightarrow> provider" where
  "close_active p = p\<lparr>pv_active := map_option (\<lambda>c. fst (close_connection c)) (pv_active p)\<rparr>"

definition on_recovery :: "platform \<Rightarrow> recovery_envelope \<Rightarrow> provider \<Rightarrow> provider" where
  "on_recovery pf r p = p\<lparr>pv_store := fst (recover_store pf r (pv_store p)),
     pv_status := Ready, pv_error := None, pv_attempts := 0\<rparr>"

definition on_event :: "platform \<Rightarrow> event_envelope \<Rightarrow> provider \<Rightarrow> provider" where
  "on_event pf e p = p\<lparr>pv_store := fst (accept_event pf e (pv_store p)), pv_status := Ready\<rparr>"

definition on_degraded :: "js_error \<Rightarrow> provider \<Rightarrow> provider" where
  "on_degraded err p =
     (if pv_disposed p then p
      else schedule_retry (close_active (p\<lparr>pv_status := Degraded, pv_error := Some err\<rparr>)))"

definition unmount :: "provider \<Rightarrow> provider" where
  "unmount p = (close_active (p\<lparr>pv_disposed := True\<rparr>))\<lparr>pv_retry := None\<rparr>"

section \<open>Composition with the event stream\<close>

text \<open>The callbacks an event of the stream calls; acknowledgements and closing go to the socket.\<close>

fun callback :: "platform \<Rightarrow> stream_effect \<Rightarrow> provider \<Rightarrow> provider" where
  "callback pf (CallRecovery v) p = on_recovery pf (recovery_of v) p"
| "callback pf (CallEvent e) p = on_event pf e p"
| "callback pf (CallDegraded err) p = on_degraded err p"
| "callback pf (SendText t) p = p"
| "callback pf (CloseSocket code) p = p"

definition stream_event ::
    "platform \<Rightarrow> (event_connection \<Rightarrow> event_connection \<times> stream_effect list) \<Rightarrow> provider \<Rightarrow> provider" where
  "stream_event pf f p = (case pv_active p of
      None \<Rightarrow> p
    | Some c \<Rightarrow> (case f c of (c', es) \<Rightarrow> fold (callback pf) es (p\<lparr>pv_active := Some c'\<rparr>)))"

datatype provider_input =
    ConnectResolved
  | ConnectRejected js_error
  | Message jstring jstring
  | StreamClosed
  | StreamError
  | TimerFires
  | Unmount

text \<open>An input that cannot happen in the state (no promise awaited, no timer) leaves it as it is.\<close>

fun provider_step :: "platform \<Rightarrow> provider_input \<Rightarrow> provider \<Rightarrow> provider \<times> provider_effect list" where
  "provider_step pf ConnectResolved p = (if pv_pending p then (connect_resolved p, []) else (p, []))"
| "provider_step pf (ConnectRejected err) p = (if pv_pending p then (connect_rejected err p, []) else (p, []))"
| "provider_step pf (Message clientID data) p = (stream_event pf (on_message pf clientID data) p, [])"
| "provider_step pf StreamClosed p = (stream_event pf on_close p, [])"
| "provider_step pf StreamError p = (stream_event pf on_error p, [])"
| "provider_step pf TimerFires p =
     (if pv_retry p = None then (p, []) else start_connect (p\<lparr>pv_retry := None\<rparr>))"
| "provider_step pf Unmount p = (unmount p, [])"

fun provider_run :: "platform \<Rightarrow> provider_input list \<Rightarrow> provider \<Rightarrow> provider \<times> provider_effect list" where
  "provider_run pf [] p = (p, [])"
| "provider_run pf (i # ins) p =
     (case provider_step pf i p of (p1, es) \<Rightarrow>
        (case provider_run pf ins p1 of (p2, es') \<Rightarrow> (p2, es @ es')))"

text \<open>The mounted provider: the effect has called \<open>connect\<close> once.\<close>

definition mounted :: provider where
  "mounted = fst (start_connect \<lparr>pv_disposed = False, pv_active = None, pv_pending = False, pv_retry = None,
     pv_attempts = 0, pv_status = Connecting, pv_error = None, pv_store = new_store\<rparr>)"

section \<open>The invariant\<close>

definition live :: "provider \<Rightarrow> bool" where
  "live p = (case pv_active p of None \<Rightarrow> False | Some c \<Rightarrow> \<not> ec_closed c)"

text \<open>
  A mounted provider has exactly one thing under way (an awaited connection, a live one or a timer) or
  has given up after five attempts; an unmounted one has neither a live connection nor a timer.
\<close>

definition provider_ok :: "platform \<Rightarrow> provider \<Rightarrow> bool" where
  "provider_ok pf p \<longleftrightarrow>
     pv_attempts p \<le> 5 \<and> store_ok pf (pv_store p) \<and>
     (case pv_retry p of None \<Rightarrow> True | Some d \<Rightarrow> 500 \<le> d \<and> d \<le> 5000) \<and>
     (case pv_active p of None \<Rightarrow> True | Some c \<Rightarrow> ec_closed c \<longrightarrow> \<not> ec_open c) \<and>
     \<not> (pv_pending p \<and> live p) \<and> \<not> (pv_pending p \<and> pv_retry p \<noteq> None) \<and> \<not> (live p \<and> pv_retry p \<noteq> None) \<and>
     (if pv_disposed p then \<not> live p \<and> pv_retry p = None
      else pv_pending p \<or> live p \<or> pv_retry p \<noteq> None \<or> pv_attempts p = 5 \<and> pv_status p = Degraded)"

lemma retry_delay_bounds: "500 \<le> retry_delay n \<and> retry_delay n \<le> 5000"
proof -
  have "(1::nat) \<le> 2 ^ n" by simp
  then show ?thesis by (simp add: retry_delay_def)
qed

lemma store_ok_updates [simp]:
  "store_ok pf st \<Longrightarrow> store_ok pf (fst (recover_store pf r st))"
  "store_ok pf st \<Longrightarrow> store_ok pf (fst (accept_event pf e st))"
  using store_ok_call [of pf st "Recover r"] store_ok_call [of pf st "Accept e"] by simp_all

lemma provider_ok_mounted: "provider_ok pf mounted"
  by (simp add: provider_ok_def mounted_def start_connect_def live_def store_ok_def new_store_def
      reachable.start)

text \<open>A connection that ends, by an error or by the server, is replaced by a timer or given up.\<close>

lemma provider_ok_ended:
  assumes "provider_ok pf p" "\<not> pv_disposed p" "pv_active p = Some c" "live p" "ec_closed c' = ec_closed c"
  shows "provider_ok pf (on_degraded err (p\<lparr>pv_active := Some c'\<rparr>))"
  using assms retry_delay_bounds [of "pv_attempts p"]
  by (simp add: provider_ok_def on_degraded_def schedule_retry_def close_active_def close_connection_def
      live_def)

lemma provider_ok_recovery:
  "provider_ok pf p \<Longrightarrow> live p \<Longrightarrow> provider_ok pf (on_recovery pf r p)"
  by (auto simp: provider_ok_def on_recovery_def live_def split: option.splits if_splits)

lemma provider_ok_event:
  "provider_ok pf p \<Longrightarrow> live p \<Longrightarrow> provider_ok pf (on_event pf e p)"
  by (auto simp: provider_ok_def on_event_def live_def split: option.splits if_splits)

lemma on_message_cases:
  obtains (skipped) "on_message pf clientID data c = (c, [])" "\<not> ec_open c"
  | (recovery) v es where "on_message pf clientID data c = (c, CallRecovery v # es)" "ec_open c"
      "\<forall>e \<in> set es. \<exists>t. e = SendText t"
  | (event) e es where "on_message pf clientID data c = (c, CallEvent e # es)" "ec_open c"
      "\<forall>e \<in> set es. \<exists>t. e = SendText t"
  | (broken) err where "on_message pf clientID data c = (c\<lparr>ec_open := False\<rparr>, [CallDegraded err, CloseSocket None])"
      "ec_open c"
proof (cases "ec_open c")
  case False
  then show ?thesis using skipped by (simp add: on_message_def)
next
  case True
  show ?thesis
  proof (cases "stream_frame pf c clientID data")
    case (Inl err)
    then show ?thesis using broken True by (simp add: on_message_def)
  next
    case (Inr es)
    have "\<forall>e \<in> set (stream_acknowledge pf c clientID n). \<exists>t. e = SendText t" for n
      by (simp add: stream_acknowledge_def)
    moreover have "(\<exists>v n. es = CallRecovery v # stream_acknowledge pf c clientID n) \<or>
        (\<exists>e n. es = CallEvent e # stream_acknowledge pf c clientID n)"
      using Inr by (auto simp: stream_frame_def split: option.splits if_splits)
    ultimately show ?thesis using recovery event True Inr by (auto simp: on_message_def)
  qed
qed

lemma callbacks_sent: "\<forall>e \<in> set es. \<exists>t. e = SendText t \<Longrightarrow> fold (callback pf) es p = p"
  by (induction es) auto

lemma live_open: "provider_ok pf p \<Longrightarrow> pv_active p = Some c \<Longrightarrow> ec_open c \<Longrightarrow> live p \<and> \<not> pv_disposed p"
  by (auto simp: provider_ok_def live_def split: if_splits)

lemma provider_ok_message:
  assumes "provider_ok pf p"
  shows "provider_ok pf (stream_event pf (on_message pf clientID data) p)"
proof (cases "pv_active p")
  case None
  then show ?thesis using assms by (simp add: stream_event_def)
next
  case (Some c)
  have "p\<lparr>pv_active := Some c\<rparr> = p" using Some by (cases p) simp
  then have ok: "provider_ok pf (p\<lparr>pv_active := Some c\<rparr>)" using assms by (simp only:)
  show ?thesis
  proof (cases rule: on_message_cases [of pf clientID data c])
    case skipped
    then show ?thesis using ok Some by (simp add: stream_event_def)
  next
    case (recovery v es)
    then show ?thesis
      using ok Some live_open [OF ok]
      by (simp add: stream_event_def callbacks_sent provider_ok_recovery)
  next
    case (event e es)
    then show ?thesis
      using ok Some live_open [OF ok]
      by (simp add: stream_event_def callbacks_sent provider_ok_event)
  next
    case (broken err)
    then show ?thesis
      using provider_ok_ended [OF assms _ Some] Some live_open [OF assms Some]
      by (simp add: stream_event_def)
  qed
qed

lemma provider_ok_stream_end:
  assumes "provider_ok pf p"
  shows "provider_ok pf (stream_event pf on_close p)" "provider_ok pf (stream_event pf on_error p)"
proof -
  show "provider_ok pf (stream_event pf on_close p)"
  proof (cases "live p")
    case True
    then obtain c where c: "pv_active p = Some c" "\<not> ec_closed c" by (auto simp: live_def split: option.splits)
    moreover have "\<not> pv_disposed p" using assms True by (auto simp: provider_ok_def)
    ultimately show ?thesis
      using provider_ok_ended [OF assms _ c(1) True, of "c\<lparr>ec_open := False\<rparr>"]
      by (simp add: stream_event_def on_close_def)
  next
    case False
    then show ?thesis
      using assms by (auto simp: stream_event_def on_close_def live_def provider_ok_def split: option.splits)
  qed
  show "provider_ok pf (stream_event pf on_error p)"
  proof (cases "live p")
    case True
    then obtain c where c: "pv_active p = Some c" "\<not> ec_closed c" by (auto simp: live_def split: option.splits)
    moreover have "\<not> pv_disposed p" using assms True by (auto simp: provider_ok_def)
    ultimately show ?thesis
      using provider_ok_ended [OF assms _ c(1) True, of c] by (simp add: stream_event_def on_error_def)
  next
    case False
    then show ?thesis
      using assms by (auto simp: stream_event_def on_error_def live_def provider_ok_def split: option.splits)
  qed
qed

lemma provider_ok_resolved: "provider_ok pf p \<Longrightarrow> pv_pending p \<Longrightarrow> provider_ok pf (connect_resolved p)"
  by (simp add: provider_ok_def connect_resolved_def live_def)

lemma provider_ok_rejected:
  "provider_ok pf p \<Longrightarrow> pv_pending p \<Longrightarrow> provider_ok pf (connect_rejected err p)"
  using retry_delay_bounds [of "pv_attempts p"]
  by (simp add: provider_ok_def connect_rejected_def schedule_retry_def live_def Let_def)

lemma provider_ok_timer:
  "provider_ok pf p \<Longrightarrow> pv_retry p \<noteq> None \<Longrightarrow> provider_ok pf (fst (start_connect (p\<lparr>pv_retry := None\<rparr>)))"
  by (simp add: provider_ok_def start_connect_def live_def split: if_splits)

lemma provider_ok_unmount: "provider_ok pf p \<Longrightarrow> provider_ok pf (unmount p)"
  by (cases "pv_active p")
    (simp_all add: provider_ok_def unmount_def close_active_def close_connection_def live_def)

lemma provider_ok_step: "provider_ok pf p \<Longrightarrow> provider_ok pf (fst (provider_step pf i p))"
  by (cases i) (simp_all add: provider_ok_message provider_ok_stream_end provider_ok_resolved
      provider_ok_rejected provider_ok_timer provider_ok_unmount)


section \<open>The number of attempts\<close>

text \<open>A message that carries a recovery, which resets the count.\<close>

definition carries_recovery :: "platform \<Rightarrow> jstring \<Rightarrow> bool" where
  "carries_recovery pf data = (case json_parse data of
      None \<Rightarrow> False
    | Some frame \<Rightarrow> fld frame ''type'' = JStr (lit ''recovery'') \<and> isRecovery pf (fld frame ''recovery''))"

fun recovers :: "platform \<Rightarrow> provider_input \<Rightarrow> bool" where
  "recovers pf (Message clientID data) = carries_recovery pf data"
| "recovers pf _ = False"

text \<open>What is left of the attempts: those not made and the one whose timer runs.\<close>

definition attempts_left :: "provider \<Rightarrow> nat" where
  "attempts_left p = (5 - pv_attempts p) + (if pv_retry p = None then 0 else 1)"

lemma not_recovery_message:
  assumes "\<not> carries_recovery pf data" "on_message pf clientID data c = (c', es)"
  shows "CallRecovery v \<notin> set es"
  using assms
  by (auto simp: on_message_def stream_frame_def carries_recovery_def stream_acknowledge_def
      split: option.splits if_splits sum.splits)

lemma attempts_left_stream:
  assumes "provider_ok pf p" "pv_active p = Some c" "live p"
  shows "attempts_left (on_degraded err (p\<lparr>pv_active := Some c'\<rparr>)) \<le> attempts_left p"
  using assms
  by (auto simp: attempts_left_def on_degraded_def schedule_retry_def close_active_def provider_ok_def)

lemma attempts_left_message:
  assumes "provider_ok pf p" "\<not> carries_recovery pf data"
  shows "attempts_left (stream_event pf (on_message pf clientID data) p) \<le> attempts_left p"
proof (cases "pv_active p")
  case None
  then show ?thesis by (simp add: stream_event_def)
next
  case (Some c)
  show ?thesis
  proof (cases rule: on_message_cases [of pf clientID data c])
    case skipped
    then show ?thesis using Some by (simp add: stream_event_def attempts_left_def)
  next
    case (recovery v es)
    then show ?thesis using not_recovery_message [OF assms(2), of clientID c c "CallRecovery v # es" v] by simp
  next
    case (event e es)
    then show ?thesis
      using Some by (simp add: stream_event_def callbacks_sent on_event_def attempts_left_def)
  next
    case (broken err)
    then show ?thesis
      using Some live_open [OF assms(1) Some] attempts_left_stream [OF assms(1) Some]
      by (simp add: stream_event_def)
  qed
qed

lemma attempts_left_stream_end:
  assumes "provider_ok pf p"
  shows "attempts_left (stream_event pf on_close p) \<le> attempts_left p"
    "attempts_left (stream_event pf on_error p) \<le> attempts_left p"
proof -
  have "attempts_left (stream_event pf on_close p) \<le> attempts_left p \<and>
      attempts_left (stream_event pf on_error p) \<le> attempts_left p"
  proof (cases "live p")
    case True
    then obtain c where c: "pv_active p = Some c" "\<not> ec_closed c" by (auto simp: live_def split: option.splits)
    show ?thesis
      using attempts_left_stream [OF assms c(1) True, of _ "c\<lparr>ec_open := False\<rparr>"]
        attempts_left_stream [OF assms c(1) True, of _ c] c
      by (simp add: stream_event_def on_close_def on_error_def)
  next
    case False
    then show ?thesis
      by (cases "pv_active p") (simp_all add: stream_event_def on_close_def on_error_def live_def attempts_left_def)
  qed
  then show "attempts_left (stream_event pf on_close p) \<le> attempts_left p"
    "attempts_left (stream_event pf on_error p) \<le> attempts_left p" by simp_all
qed

lemma attempts_left_step:
  assumes "provider_ok pf p" "\<not> recovers pf i" "provider_step pf i p = (p', es)"
  shows "attempts_left p' + length es \<le> attempts_left p"
proof (cases i)
  case ConnectResolved
  then show ?thesis using assms by (auto simp: connect_resolved_def attempts_left_def split: if_splits)
next
  case (ConnectRejected err)
  then show ?thesis
    using assms by (auto simp: connect_rejected_def schedule_retry_def attempts_left_def provider_ok_def
        Let_def split: if_splits)
next
  case (Message clientID data)
  then show ?thesis using assms attempts_left_message [of pf p data clientID] by auto
next
  case TimerFires
  then show ?thesis using assms by (auto simp: start_connect_def attempts_left_def split: if_splits)
next
  case Unmount
  then show ?thesis using assms by (auto simp: unmount_def close_active_def attempts_left_def)
qed (use assms attempts_left_stream_end in auto)

lemma attempts_left_run:
  "provider_ok pf p \<Longrightarrow> \<not> list_ex (recovers pf) ins \<Longrightarrow> provider_run pf ins p = (p', es) \<Longrightarrow>
     attempts_left p' + length es \<le> attempts_left p"
proof (induction ins arbitrary: p es)
  case (Cons i ins)
  obtain p1 es1 where step: "provider_step pf i p = (p1, es1)" by fastforce
  obtain es2 where rest: "provider_run pf ins p1 = (p', es2)" "es = es1 @ es2"
    using Cons.prems(3) step by (auto split: prod.splits)
  have "provider_ok pf p1" using provider_ok_step [OF Cons.prems(1), of i] step by simp
  then have "attempts_left p' + length es2 \<le> attempts_left p1"
    using Cons.IH [OF _ _ rest(1)] Cons.prems(2) by simp
  then show ?case
    using attempts_left_step [OF Cons.prems(1) _ step] Cons.prems(2) rest(2) by simp
qed simp

section \<open>Properties\<close>


text \<open>
  (C39) Without a recovery, a provider opens at most five connections after the one of its mounting,
  whatever happens in whatever order.
\<close>

theorem provider_attempts_bounded:
  "\<not> list_ex (recovers pf) ins \<Longrightarrow> length (snd (provider_run pf ins mounted)) \<le> 5"
proof -
  assume "\<not> list_ex (recovers pf) ins"
  then have "length (snd (provider_run pf ins mounted)) \<le> attempts_left mounted"
    using attempts_left_run [OF provider_ok_mounted, of pf ins]
    by (cases "provider_run pf ins mounted") auto
  then show ?thesis by (simp add: attempts_left_def mounted_def start_connect_def)
qed

theorem provider_attempts_bounded_witness:
  "length (snd (provider_run example_platform [ConnectRejected SyntaxError, TimerFires] mounted)) \<le> 5 \<and>
   snd (provider_run example_platform [ConnectRejected SyntaxError, TimerFires] mounted) = [OpenFrom 0]"
  using provider_attempts_bounded [of example_platform "[ConnectRejected SyntaxError, TimerFires]"]
  by (simp add: mounted_def start_connect_def connect_rejected_def schedule_retry_def getSnapshot_def
      new_store_def emptyOperatorState_def)

end
