(* ===== verification/Cli.thy ===== *)
theory Cli
  imports Provider LocalClient Numbers
begin

text \<open>
  The terminal program, \<open>ui/tui/src/cli.tsx\<close>: its arguments, the callbacks that connect the
  transport to the event store and the screen, the readiness check, the alternate screen, the editor and
  the redaction of error messages.
\<close>

section \<open>Arguments\<close>

record cli_options =
  op_socket :: jstring
  op_capability :: jstring
  op_client_id :: jstring
  op_timeout :: jsnum
  op_check :: bool

definition usage :: js_error where
  "usage = Error (lit ''usage: ion-tui --socket PATH --capability TOKEN'')"

text \<open>The loop over pairs; a \<open>Map\<close> keeps the last value of a name.\<close>

fun argument_values :: "jstring list \<Rightarrow> (jstring \<rightharpoonup> jstring) \<Rightarrow> js_error + (jstring \<rightharpoonup> jstring)" where
  "argument_values [] m = Inr m"
| "argument_values [name] m = Inl usage"
| "argument_values (name # value # rest) m =
     (if starts_with ''--'' name then argument_values rest (m(name \<mapsto> value)) else Inl usage)"

definition parseArguments :: "jstring \<Rightarrow> jstring list \<Rightarrow> js_error + cli_options" where
  "parseArguments fresh arguments = (case argument_values arguments Map.empty of
      Inl err \<Rightarrow> Inl err
    | Inr m \<Rightarrow> (case (m (lit ''--socket''), m (lit ''--capability'')) of
          (Some socket, Some capability) \<Rightarrow> Inr \<lparr>op_socket = socket, op_capability = capability,
            op_client_id = (case m (lit ''--client-id'') of None \<Rightarrow> fresh | Some i \<Rightarrow> i),
            op_timeout = js_number (case m (lit ''--timeout-ms'') of None \<Rightarrow> lit ''5000'' | Some t \<Rightarrow> t),
            op_check = (m (lit ''--check'') = Some (lit ''true''))\<rparr>
        | _ \<Rightarrow> Inl usage))"

section \<open>Redaction\<close>

text \<open>
  The two patterns match at a position in one way only, because the separator and what follows share no
  character, so a match is read off the text: the key as written, then the rest after the secret. Case
  is ignored for ASCII letters, as without the flag \<open>u\<close>.
\<close>

text \<open>\<open>\\S+\<close>: what is left after a non-empty run of other characters.\<close>

definition strip_secret :: "jstring \<Rightarrow> jstring option" where
  "strip_secret s = (case s of
      [] \<Rightarrow> None
    | u # r \<Rightarrow> if blank u then None else Some (dropWhile (\<lambda>v. \<not> blank v) s))"

definition match_bearer :: "jstring \<Rightarrow> (jstring \<times> jstring) option" where
  "match_bearer s = (case strip_word ''bearer'' s of
      None \<Rightarrow> None
    | Some r \<Rightarrow> (case r of
          [] \<Rightarrow> None
        | u # _ \<Rightarrow> if blank u
            then map_option (Pair (lit ''Bearer [REDACTED]'')) (strip_secret (dropWhile blank r)) else None))"

definition match_key :: "string \<Rightarrow> jstring \<Rightarrow> (jstring \<times> jstring) option" where
  "match_key word s = (case strip_word word s of
      None \<Rightarrow> None
    | Some r \<Rightarrow> (case r of
          [] \<Rightarrow> None
        | u # r' \<Rightarrow> if u = 61
            then map_option (Pair (take (length word) s @ lit ''=[REDACTED]'')) (strip_secret r') else None))"

definition match_secret :: "jstring \<Rightarrow> (jstring \<times> jstring) option" where
  "match_secret s = (case match_key ''token'' s of
      Some m \<Rightarrow> Some m
    | None \<Rightarrow> (case match_key ''capability'' s of
          Some m \<Rightarrow> Some m
        | None \<Rightarrow> match_key ''secret'' s))"

text \<open>\<open>replaceAll\<close> with a pattern, with the length of the text as fuel.\<close>

fun replace_all :: "nat \<Rightarrow> (jstring \<Rightarrow> (jstring \<times> jstring) option) \<Rightarrow> jstring \<Rightarrow> jstring" where
  "replace_all 0 m s = s"
| "replace_all (Suc n) m [] = []"
| "replace_all (Suc n) m (u # s) = (case m (u # s) of
      Some (t, r) \<Rightarrow> t @ replace_all n m r
    | None \<Rightarrow> u # replace_all n m s)"

definition redactError :: "jstring \<Rightarrow> jstring" where
  "redactError message =
     (let m = replace_all (length message) match_bearer message in replace_all (length m) match_secret m)"

section \<open>The callbacks\<close>

datatype cli_effect =
    Net local_effect
  | Draw operator_state bool "jstring option"
  | Stdout jstring
  | ExitProcess nat

record cli =
  ci_store :: event_store
  ci_transport :: "local_transport option"
  ci_degraded :: bool
  ci_error :: "jstring option"
  ci_mounted :: bool
  ci_client :: jstring

text \<open>\<open>rerender\<close> is defined once the screen is mounted.\<close>

definition draw :: "cli \<Rightarrow> cli_effect list" where
  "draw c = (if ci_mounted c \<and> ci_transport c \<noteq> None
     then [Draw (getSnapshot (ci_store c)) (ci_degraded c) (ci_error c)] else [])"

definition cb_recovery :: "platform \<Rightarrow> jsval \<Rightarrow> cli \<Rightarrow> cli \<times> cli_effect list" where
  "cb_recovery pf v c = (let c = c\<lparr>ci_store := fst (recover_store pf (recovery_of v) (ci_store c))\<rparr> in (c, draw c))"

text \<open>An event before \<open>connect\<close> has resolved throws, since there is no transport to acknowledge on.\<close>

definition cb_event :: "platform \<Rightarrow> event_envelope \<Rightarrow> cli \<Rightarrow> cli \<times> cli_effect list \<times> bool" where
  "cb_event pf e c = (let c = c\<lparr>ci_store := fst (accept_event pf e (ci_store c))\<rparr> in
     case ci_transport c of
       None \<Rightarrow> (c, [], True)
     | Some t \<Rightarrow> (c, map Net (snd (acknowledge pf (ci_client c) (sequence e) t)) @ draw c, False))"

fun error_text :: "jstring \<Rightarrow> js_error \<Rightarrow> jstring" where
  "error_text unparsed (Error m) = m"
| "error_text unparsed (TypeError m) = m"
| "error_text unparsed SyntaxError = unparsed"

definition cb_degraded :: "jstring \<Rightarrow> js_error \<Rightarrow> cli \<Rightarrow> cli \<times> cli_effect list" where
  "cb_degraded unparsed err c =
     (let c = c\<lparr>ci_degraded := True, ci_error := Some (redactError (error_text unparsed err))\<rparr> in (c, draw c))"

text \<open>
  What the transport did, in order, with its callbacks run in place; a callback that throws ends the
  handler.
\<close>

fun deliver :: "jstring \<Rightarrow> platform \<Rightarrow> local_effect list \<Rightarrow> cli \<Rightarrow> cli \<times> cli_effect list \<times> bool" where
  "deliver unparsed pf [] c = (c, [], False)"
| "deliver unparsed pf (OnRecovery v # es) c =
     (let (c1, out1) = cb_recovery pf v c; (c2, out2, thrown) = deliver unparsed pf es c1 in (c2, out1 @ out2, thrown))"
| "deliver unparsed pf (OnEvent e # es) c =
     (let (c1, out1, thrown1) = cb_event pf e c in
      if thrown1 then (c1, out1, True)
      else let (c2, out2, thrown) = deliver unparsed pf es c1 in (c2, out1 @ out2, thrown))"
| "deliver unparsed pf (OnDegraded err # es) c =
     (let (c1, out1) = cb_degraded unparsed err c; (c2, out2, thrown) = deliver unparsed pf es c1 in (c2, out1 @ out2, thrown))"
| "deliver unparsed pf (e # es) c = (let (c2, out2, thrown) = deliver unparsed pf es c in (c2, Net e # out2, thrown))"

definition receive_data :: "jstring \<Rightarrow> platform \<Rightarrow> jstring \<Rightarrow> cli \<Rightarrow> cli \<times> cli_effect list \<times> bool" where
  "receive_data unparsed pf chunk c = (case ci_transport c of
      None \<Rightarrow> (c, [], False)
    | Some t \<Rightarrow> (case accept_chunk pf chunk t of
        (t', es, err) \<Rightarrow> (case deliver unparsed pf es (c\<lparr>ci_transport := Some t'\<rparr>) of
            (c', out, thrown) \<Rightarrow> (c', out, thrown \<or> err \<noteq> None))))"

section \<open>The readiness check\<close>

text \<open>\<open>k in v\<close> for an object.\<close>

definition is_obj :: "jsval \<Rightarrow> bool" where
  "is_obj v \<longleftrightarrow> (is_array v \<or> isRecord v)"

definition failure :: "platform \<Rightarrow> jsval \<Rightarrow> jstring \<Rightarrow> js_error" where
  "failure pf r fallback = (let m = fld (fld r ''error'') ''message'' in
     Error (if m = JUndef \<or> m = JNull then fallback else to_string pf m))"

definition require :: "platform \<Rightarrow> (jsval \<Rightarrow> bool) \<Rightarrow> string \<Rightarrow> jsval \<Rightarrow> js_error option" where
  "require pf ok message r =
     (if fld r ''error'' \<noteq> JUndef \<or> \<not> ok (fld r ''result'') then Some (failure pf r (lit message)) else None)"

definition ready_item :: "jsval \<Rightarrow> bool" where
  "ready_item item \<longleftrightarrow> is_obj item \<and> has_own item ''source'' \<and> fld item ''source'' = JStr (lit ''agent_scheduler'') \<and>
     has_own item ''status'' \<and> fld item ''status'' = JStr (lit ''ready'')"

definition ready_tool :: "string \<Rightarrow> jsval \<Rightarrow> bool" where
  "ready_tool name item \<longleftrightarrow> is_obj item \<and> has_own item ''name'' \<and> fld item ''name'' = JStr (lit name) \<and>
     has_own item ''ready'' \<and> fld item ''ready'' = JBool True"

definition schedule_tools :: "string list" where
  "schedule_tools = [''schedule_create'', ''schedule_list'', ''schedule_get'', ''schedule_cancel'']"

definition check_health :: "platform \<Rightarrow> jsval \<Rightarrow> js_error option" where
  "check_health pf r =
     (if fld r ''error'' \<noteq> JUndef then Some (failure pf r [])
      else if is_obj (fld r ''result'') \<and> has_own (fld r ''result'') ''status'' \<and>
        fld (fld r ''result'') ''status'' = JStr (lit ''ready'') then None
      else Some (Error (lit ''authenticated system health is not ready'')))"

definition check_tools :: "platform \<Rightarrow> jsval \<Rightarrow> js_error option" where
  "check_tools pf r = (let tools = elems (fld (fld r ''result'') ''tools'') in
     case find (\<lambda>name. \<not> list_ex (ready_tool name) tools) schedule_tools of
       None \<Rightarrow> None
     | Some name \<Rightarrow> Some (failure pf r (lit name @ lit '' is not ready'')))"

definition has_array :: "string \<Rightarrow> jsval \<Rightarrow> bool" where
  "has_array k v \<longleftrightarrow> is_obj v \<and> has_own v k \<and> is_array (fld v k)"

definition check_plan :: "platform \<Rightarrow> (string \<times> (jsval \<Rightarrow> js_error option)) list" where
  "check_plan pf = [
     (''commands.catalog'', require pf (\<lambda>_. True) ''''),
     (''system.health'', check_health pf),
     (''channel.health'', require pf (\<lambda>_. True) ''''),
     (''schedule.list'', require pf (\<lambda>v. is_array v \<and> list_ex ready_item (elems v)) ''agent scheduler is not ready''),
     (''tool.readiness'', check_tools pf),
     (''project.list'', require pf (has_array ''projects'') ''authenticated project registry is unavailable''),
     (''workspace.capabilities'', require pf (\<lambda>v. is_obj v \<and> has_own v ''contract_version'' \<and>
        fld v ''contract_version'' = JStr (lit ''ion.workspace-host.v1'')) ''workspace host negotiation is unavailable''),
     (''studio.intent.list'', require pf (has_array ''intents'') ''Software Studio specification state is unavailable'')]"

text \<open>The queries are made one after the other; the first failure is thrown and ends the program.\<close>

fun run_check ::
    "(string \<times> (jsval \<Rightarrow> js_error option)) list \<Rightarrow> (string \<Rightarrow> js_error + jsval) \<Rightarrow> string list \<times> js_error option" where
  "run_check [] answers = ([], None)"
| "run_check ((operation, test) # plan) answers = (case answers operation of
      Inl err \<Rightarrow> ([operation], Some err)
    | Inr r \<Rightarrow> (case test r of
          Some err \<Rightarrow> ([operation], Some err)
        | None \<Rightarrow> (let (asked, outcome) = run_check plan answers in (operation # asked, outcome))))"

definition check_mode :: "platform \<Rightarrow> (string \<Rightarrow> js_error + jsval) \<Rightarrow> local_transport \<Rightarrow> cli_effect list" where
  "check_mode pf answers t = (case snd (run_check (check_plan pf) answers) of
      Some err \<Rightarrow> [ExitProcess 1]
    | None \<Rightarrow> map Net (snd (close_transport t)) @ [Stdout (lit
        ''Ion terminal client is ready; system, scheduler, channel, project, workspace, and Studio health answered.'' @ [10])])"

section \<open>The screen\<close>

definition enter_screen :: jstring where
  "enter_screen = [27] @ lit ''[?1049h'' @ [27] @ lit ''[?25l''"

definition leave_screen :: jstring where
  "leave_screen = [27] @ lit ''[?25h'' @ [27] @ lit ''[?1049l'' @ [27] @ lit ''[0m''"

text \<open>\<open>tty\<close>: the output is a terminal that is not dumb.\<close>

definition start_screen :: "platform \<Rightarrow> bool \<Rightarrow> cli \<Rightarrow> cli \<times> cli_effect list" where
  "start_screen pf tty c = (case ci_transport c of
      None \<Rightarrow> (c, [])
    | Some t \<Rightarrow> (c\<lparr>ci_mounted := True\<rparr>,
        map Net (snd (LocalClient.subscribe pf 0 t)) @ (if tty then [Stdout enter_screen] else []) @
        [Draw (getSnapshot (ci_store c)) (ci_degraded c) None]))"

definition restore_screen :: "bool \<Rightarrow> cli \<Rightarrow> cli \<times> cli_effect list" where
  "restore_screen tty c = (case ci_transport c of
      None \<Rightarrow> (c, [])
    | Some t \<Rightarrow> (c\<lparr>ci_transport := Some (fst (close_transport t))\<rparr>,
        map Net (snd (close_transport t)) @ (if tty then [Stdout leave_screen] else [])))"

datatype leaving = Terminated | HungUp | Quit

definition leave :: "bool \<Rightarrow> leaving \<Rightarrow> cli \<Rightarrow> cli \<times> cli_effect list" where
  "leave tty how c = (let (c', out) = restore_screen tty c in
     (c', out @ (case how of Terminated \<Rightarrow> [ExitProcess 143] | HungUp \<Rightarrow> [ExitProcess 129] | Quit \<Rightarrow> [])))"

section \<open>The editor\<close>

datatype file_effect =
    MakeDirectory
  | WriteFile jstring
  | Spawn jstring
  | ReadFile
  | RemoveDirectory

text \<open>The directory is removed however the steps inside \<open>try\<close> end.\<close>

definition openEditor ::
    "jstring option \<Rightarrow> jstring option \<Rightarrow> js_error option \<Rightarrow> js_error option \<Rightarrow> js_error + jstring \<Rightarrow> jstring \<Rightarrow>
     file_effect list \<times> (js_error + jstring)" where
  "openEditor editorVariable visualVariable made written content current = (case made of
      Some err \<Rightarrow> ([MakeDirectory], Inl err)
    | None \<Rightarrow> (case written of
          Some err \<Rightarrow> ([MakeDirectory, WriteFile current, RemoveDirectory], Inl err)
        | None \<Rightarrow> ([MakeDirectory, WriteFile current,
            Spawn (case editorVariable of Some e \<Rightarrow> e | None \<Rightarrow> (case visualVariable of Some e \<Rightarrow> e | None \<Rightarrow> lit ''vi'')),
            ReadFile, RemoveDirectory], content)))"

end
