(* ===== verification/CliProperties.thy ===== *)
theory CliProperties
  imports Cli LocalProperties
begin

text \<open>
  What the terminal program does with its arguments, with the stream of its transport, with the
  answers of the readiness check and with the messages it shows.
\<close>

section \<open>Arguments\<close>

lemma argument_values_pairs:
  "list_all (\<lambda>(k, v). starts_with ''--'' k) kvs \<Longrightarrow>
   argument_values (concat (map (\<lambda>(k, v). [k, v]) kvs)) m = Inr (m ++ map_of (List.rev kvs))"
proof (induction kvs arbitrary: m)
  case (Cons kv kvs)
  obtain k v where kv: "kv = (k, v)" by fastforce
  have "argument_values (concat (map (\<lambda>(k, v). [k, v]) kvs)) (m(k \<mapsto> v)) =
      Inr (m(k \<mapsto> v) ++ map_of (List.rev kvs))"
    using Cons.prems by (intro Cons.IH) simp
  then show ?case using Cons.prems by (simp add: kv map_add_def fun_eq_iff split: option.splits)
qed simp

lemma argument_values_rejects:
  "argument_values arguments m = Inr m' \<Longrightarrow>
   \<exists>kvs. arguments = concat (map (\<lambda>(k, v). [k, v]) kvs) \<and> list_all (\<lambda>(k, v). starts_with ''--'' k) kvs"
proof (induction arguments m rule: argument_values.induct)
  case (3 k v rest m)
  then have k: "starts_with ''--'' k" and rest: "argument_values rest (m(k \<mapsto> v)) = Inr m'"
    by (simp_all split: if_splits)
  from 3(1) [OF k rest] obtain kvs where "rest = concat (map (\<lambda>(k, v). [k, v]) kvs)"
    "list_all (\<lambda>(k, v). starts_with ''--'' k) kvs" by blast
  with k show ?case by (intro exI [of _ "(k, v) # kvs"]) simp
next
  case (1 m)
  show ?case by (intro exI [of _ "[]"]) simp
qed simp

lemma argument_values_error: "argument_values arguments m = Inl e \<Longrightarrow> e = usage"
  by (induction arguments m rule: argument_values.induct) (auto split: if_splits)

text \<open>Pairs in any order give the last value of each name, and every failure is the usage line.\<close>

theorem arguments_parsed:
  assumes "list_all (\<lambda>(k, v). starts_with ''--'' k) kvs"
  shows "parseArguments fresh (concat (map (\<lambda>(k, v). [k, v]) kvs)) =
    (let m = map_of (List.rev kvs) in case (m (lit ''--socket''), m (lit ''--capability'')) of
       (Some socket, Some capability) \<Rightarrow> Inr \<lparr>op_socket = socket, op_capability = capability,
          op_client_id = (case m (lit ''--client-id'') of None \<Rightarrow> fresh | Some i \<Rightarrow> i),
          op_timeout = js_number (case m (lit ''--timeout-ms'') of None \<Rightarrow> lit ''5000'' | Some t \<Rightarrow> t),
          op_check = (m (lit ''--check'') = Some (lit ''true''))\<rparr>
     | _ \<Rightarrow> Inl usage)"
  using argument_values_pairs [OF assms, of Map.empty] by (simp add: parseArguments_def Let_def)

theorem arguments_rejected:
  "parseArguments fresh arguments = Inl e \<Longrightarrow> e = usage"
  "parseArguments fresh arguments = Inr options \<Longrightarrow>
     \<exists>kvs. arguments = concat (map (\<lambda>(k, v). [k, v]) kvs) \<and> list_all (\<lambda>(k, v). starts_with ''--'' k) kvs"
  using argument_values_error argument_values_rejects
  by (force simp: parseArguments_def split: sum.splits option.splits)+

section \<open>The stream\<close>











section \<open>The readiness check\<close>

fun passes :: "(string \<Rightarrow> js_error + jsval) \<Rightarrow> string \<times> (jsval \<Rightarrow> js_error option) \<Rightarrow> bool" where
  "passes answers (operation, test) = (case answers operation of Inl _ \<Rightarrow> False | Inr r \<Rightarrow> test r = None)"

lemma run_check_passes: "snd (run_check plan answers) = None \<longleftrightarrow> list_all (passes answers) plan"
proof (induction plan)
  case (Cons p plan)
  then show ?case by (cases p) (auto split: sum.split option.split prod.split)
qed simp

lemma run_check_asked:
  "fst (run_check plan answers) = map fst (takeWhile (passes answers) plan @ take 1 (dropWhile (passes answers) plan))"
proof (induction plan)
  case (Cons p plan)
  then show ?case by (cases p) (auto split: sum.split option.split prod.split)
qed simp

definition ready_line :: jstring where
  "ready_line = lit
     ''Ion terminal client is ready; system, scheduler, channel, project, workspace, and Studio health answered.'' @ [10]"

lemma check_mode_ready:
  "Stdout ready_line \<in> set (check_mode pf answers t) \<longleftrightarrow> list_all (passes answers) (check_plan pf)"
  unfolding check_mode_def run_check_passes [symmetric] ready_line_def
  by (auto split: option.splits)

lemma passesE:
  assumes "passes answers (operation, test)"
  obtains r where "answers operation = Inr r" "test r = None"
  using assms by (auto split: sum.splits)

lemma require_None: "require pf ok message r = None \<longleftrightarrow> fld r ''error'' = JUndef \<and> ok (fld r ''result'')"
  by (simp add: require_def)

text \<open>
  The line that reports readiness can be trusted: when it is printed all eight questions were
  asked, in order; the health answer says ready, the agent scheduler is listed as ready, all four
  scheduling tools are ready, and the project registry, the workspace host of the contract version and
  the Studio answered in the expected form. Otherwise the questions stop at the first that fails.
\<close>

theorem check_means_ready:
  "fst (run_check (check_plan pf) answers) =
     map fst (takeWhile (passes answers) (check_plan pf) @ take 1 (dropWhile (passes answers) (check_plan pf))) \<and>
   (Stdout ready_line \<in> set (check_mode pf answers t) \<longrightarrow>
     fst (run_check (check_plan pf) answers) = map fst (check_plan pf) \<and>
     (\<exists>r. answers ''system.health'' = Inr r \<and> fld (fld r ''result'') ''status'' = JStr (lit ''ready'')) \<and>
     (\<exists>r. answers ''schedule.list'' = Inr r \<and> list_ex ready_item (elems (fld r ''result''))) \<and>
     (\<exists>r. answers ''tool.readiness'' = Inr r \<and>
        list_all (\<lambda>name. list_ex (ready_tool name) (elems (fld (fld r ''result'') ''tools''))) schedule_tools) \<and>
     (\<exists>r. answers ''project.list'' = Inr r \<and> is_array (fld (fld r ''result'') ''projects'')) \<and>
     (\<exists>r. answers ''workspace.capabilities'' = Inr r \<and>
        fld (fld r ''result'') ''contract_version'' = JStr (lit ''ion.workspace-host.v1'')) \<and>
     (\<exists>r. answers ''studio.intent.list'' = Inr r \<and> is_array (fld (fld r ''result'') ''intents'')))"
proof (intro conjI impI run_check_asked)
  assume "Stdout ready_line \<in> set (check_mode pf answers t)"
  then have all: "list_all (passes answers) (check_plan pf)" by (simp only: check_mode_ready)
  then have eqs: "takeWhile (passes answers) (check_plan pf) = check_plan pf" "dropWhile (passes answers) (check_plan pf) = []"
    by (auto simp: list_all_iff takeWhile_eq_all_conv dropWhile_eq_Nil_conv simp del: passes.simps)
  show "fst (run_check (check_plan pf) answers) = map fst (check_plan pf)"
    by (simp only: run_check_asked eqs take_Nil append_Nil2)
  note each = all [unfolded check_plan_def list.pred_inject]
  show "\<exists>r. answers ''system.health'' = Inr r \<and> fld (fld r ''result'') ''status'' = JStr (lit ''ready'')"
    using each by (auto elim!: passesE simp: check_health_def split: if_splits simp del: passes.simps)
  show "\<exists>r. answers ''schedule.list'' = Inr r \<and> list_ex ready_item (elems (fld r ''result''))"
    using each by (auto elim!: passesE simp: require_None simp del: passes.simps)
  show "\<exists>r. answers ''tool.readiness'' = Inr r \<and>
      list_all (\<lambda>name. list_ex (ready_tool name) (elems (fld (fld r ''result'') ''tools''))) schedule_tools"
    using each by (auto elim!: passesE simp: check_tools_def Let_def find_None_iff list_all_iff
        split: option.splits simp del: passes.simps)
  show "\<exists>r. answers ''project.list'' = Inr r \<and> is_array (fld (fld r ''result'') ''projects'')"
    using each by (auto elim!: passesE simp: require_None has_array_def simp del: passes.simps)
  show "\<exists>r. answers ''workspace.capabilities'' = Inr r \<and>
      fld (fld r ''result'') ''contract_version'' = JStr (lit ''ion.workspace-host.v1'')"
    using each by (auto elim!: passesE simp: require_None simp del: passes.simps)
  show "\<exists>r. answers ''studio.intent.list'' = Inr r \<and> is_array (fld (fld r ''result'') ''intents'')"
    using each by (auto elim!: passesE simp: require_None has_array_def simp del: passes.simps)
qed

definition ready_answers :: "string \<Rightarrow> js_error + jsval" where
  "ready_answers operation = Inr (JObj [(lit ''result'',
     if operation = ''schedule.list'' then
       JArr [JObj [(lit ''source'', JStr (lit ''agent_scheduler'')), (lit ''status'', JStr (lit ''ready''))]]
     else JObj [(lit ''status'', JStr (lit ''ready'')),
       (lit ''tools'', JArr (map (\<lambda>name. JObj [(lit ''name'', JStr (lit name)), (lit ''ready'', JBool True)]) schedule_tools)),
       (lit ''projects'', JArr []), (lit ''contract_version'', JStr (lit ''ion.workspace-host.v1'')),
       (lit ''intents'', JArr [])])])"

theorem check_means_ready_witness:
  "Stdout ready_line \<in> set (check_mode example_platform ready_answers (new_transport JNull)) \<and>
   length (fst (run_check (check_plan example_platform) ready_answers)) = 8"
proof -
  have ready: "Stdout ready_line \<in> set (check_mode example_platform ready_answers (new_transport JNull))"
    unfolding check_mode_ready check_plan_def
    by (simp add: ready_answers_def require_None check_health_def check_tools_def has_array_def is_obj_def
        ready_item_def ready_tool_def schedule_tools_def isRecord_iff)
  then have "fst (run_check (check_plan example_platform) ready_answers) = map fst (check_plan example_platform)"
    using check_means_ready [of example_platform ready_answers "new_transport JNull"] by blast
  moreover have "length (map fst (check_plan example_platform)) = 8" by (simp add: check_plan_def)
  ultimately show ?thesis using ready by (simp only: simp_thms)
qed

section \<open>Redaction\<close>

lemma strip_word_iff:
  "strip_word w s = Some q \<longleftrightarrow> prefix (lit w) (map lower_unit s) \<and> q = drop (length w) s"
  by (induction w s rule: strip_word.induct) (auto simp: lit_def)

lemma strip_word_append: "strip_word (v @ w) s = Option.bind (strip_word v s) (strip_word w)"
  by (induction v s rule: strip_word.induct) auto

lemma strip_word_take:
  "strip_word w s = Some q \<Longrightarrow> strip_word w (take (length w) s) = Some [] \<and> s = take (length w) s @ q"
  by (induction w s rule: strip_word.induct) (auto split: if_splits)

lemma strip_word_more: "strip_word w s = Some q \<Longrightarrow> strip_word w (s @ x) = Some (q @ x)"
  by (induction w s rule: strip_word.induct) (auto split: if_splits)

lemma strip_secret_Some:
  "strip_secret s = Some r \<longleftrightarrow> s \<noteq> [] \<and> \<not> blank (hd s) \<and> r = dropWhile (\<lambda>v. \<not> blank v) s"
  by (auto simp: strip_secret_def split: list.splits)

lemma strip_secret_None: "strip_secret s = None \<longleftrightarrow> s = [] \<or> blank (hd s)"
  by (auto simp: strip_secret_def split: list.splits)

text \<open>Two words that differ at a position of both cannot begin the same text.\<close>

fun clash :: "string \<Rightarrow> string \<Rightarrow> bool" where
  "clash (a # v) (b # w) = (a \<noteq> b \<or> clash v w)"
| "clash _ _ = False"

lemma strip_clash: "clash v w \<Longrightarrow> strip_word w s = Some q \<Longrightarrow> strip_word v s = None"
proof (induction v w arbitrary: s rule: clash.induct)
  case (1 a v b w)
  then show ?case by (cases s) (auto split: if_splits)
qed auto

definition redact :: "(jstring \<Rightarrow> (jstring \<times> jstring) option) \<Rightarrow> jstring \<Rightarrow> jstring" where
  "redact m s = replace_all (length s) m s"

text \<open>
  A matcher that finds texts beginning with one of a few words and replaces them by texts that begin
  with one; none of the words can begin inside another.
\<close>

locale redactor =
  fixes m :: "jstring \<Rightarrow> (jstring \<times> jstring) option" and heads :: "string list"
  assumes rest: "m s = Some (t, r) \<Longrightarrow> length r < length s \<and> (r = [] \<or> blank (hd r))"
    and starts: "m s = Some (t, r) \<Longrightarrow> s \<noteq> [] \<and> \<not> blank (hd s)"
    and head: "m s = Some (t, r) \<Longrightarrow> t \<noteq> [] \<and> \<not> blank (hd t) \<and> (\<exists>h\<in>set heads. strip_word h t \<noteq> None)"
    and apart: "h \<in> set heads \<Longrightarrow> h \<noteq> [] \<and> (\<forall>w\<in>set (suffixes (tl h)). w \<noteq> [] \<longrightarrow> (\<forall>k\<in>set heads. clash w k))"
begin

lemma fuel: "length s \<le> n \<Longrightarrow> replace_all n m s = redact m s"
proof (induction "length s" arbitrary: s n rule: less_induct)
  case less
  show ?case
  proof (cases s)
    case Nil
    then show ?thesis by (cases n) (simp_all add: redact_def)
  next
    case (Cons u s')
    with less.prems obtain k where n: "n = Suc k" "length s' \<le> k" by (cases n) auto
    have skip: "replace_all k m s' = replace_all (length s') m s'"
      using less.hyps [of s' k] Cons n by (simp add: redact_def)
    have "replace_all k m r = replace_all (length s') m r" if "m s = Some (t, r)" for t r
      using rest [OF that] less.hyps [of r k] less.hyps [of r "length s'"] n Cons by simp
    with skip show ?thesis unfolding redact_def by (auto simp: Cons n split: option.splits)
  qed
qed

lemma redact_Nil: "redact m [] = []"
  by (simp add: redact_def)

lemma redact_match: "m s = Some (t, r) \<Longrightarrow> redact m s = t @ redact m r"
  using rest [of s t r] starts [of s t r] fuel [of r "length s - 1"]
  by (cases s) (simp_all add: redact_def)

lemma redact_skip: "m (u # s) = None \<Longrightarrow> redact m (u # s) = u # redact m s"
  by (simp add: redact_def)

lemma redact_blank_hd: "s = [] \<or> blank (hd s) \<Longrightarrow> redact m s = [] \<or> blank (hd (redact m s))"
  using starts [of s] by (cases s; cases "m s") (auto simp: redact_Nil redact_skip)

lemma redact_nonblank_hd: "s \<noteq> [] \<Longrightarrow> \<not> blank (hd s) \<Longrightarrow> redact m s \<noteq> [] \<and> \<not> blank (hd (redact m s))"
  using head [of s] redact_match [of s] by (cases s; cases "m s") (auto simp: redact_skip)

lemma redact_blanks: "list_all blank s \<Longrightarrow> redact m s = s"
proof (induction s)
  case (Cons u s)
  then have "m (u # s) = None" using starts [of "u # s"] by (cases "m (u # s)") auto
  then show ?case using Cons by (simp add: redact_skip)
qed (simp add: redact_Nil)

lemma strip_word_redact:
  assumes "\<forall>w'\<in>set (suffixes w). w' \<noteq> [] \<longrightarrow> (\<forall>k\<in>set heads. clash w' k)" "strip_word w (redact m s) = Some q"
  shows "\<exists>p. strip_word w s = Some p \<and> q = redact m p"
  using assms
proof (induction w arbitrary: s)
  case (Cons c w)
  show ?case
  proof (cases "m s")
    case None
    show ?thesis
    proof (cases s)
      case Nil
      then show ?thesis using Cons.prems by (simp add: redact_Nil)
    next
      case (Cons u s')
      then have "redact m s = u # redact m s'" using None by (simp add: redact_skip)
      then show ?thesis using Cons.IH [of s'] Cons.prems Cons by (auto split: if_splits)
    qed
  next
    case (Some tr)
    obtain t r where tr: "tr = (t, r)" by fastforce
    from head Some tr obtain h p where h: "h \<in> set heads" "strip_word h t = Some p" by blast
    have "strip_word h (redact m s) = Some (p @ redact m r)"
      using strip_word_more [OF h(2)] redact_match [of s t r] Some tr by simp
    moreover have "clash (c # w) h" using Cons.prems(1) h(1) by simp
    ultimately show ?thesis using strip_clash Cons.prems(2) by fastforce
  qed
qed simp

end

text \<open>A matcher that leaves nothing \<open>exposed\<close> after its words.\<close>

locale redactor_hides = redactor +
  fixes exposed :: "jstring \<Rightarrow> bool"
  assumes found: "h \<in> set heads \<Longrightarrow> strip_word h s = Some q \<Longrightarrow> exposed (redact m q) \<Longrightarrow> m s \<noteq> None"
    and marked: "m s = Some (t, r) \<Longrightarrow> x = [] \<or> blank (hd x) \<Longrightarrow> suffix y t \<Longrightarrow> y \<noteq> [] \<Longrightarrow>
      h \<in> set heads \<Longrightarrow> strip_word h (y @ x) = Some q \<Longrightarrow> \<not> exposed q"
begin

lemma skipped_hidden:
  assumes "m (u # s) = None" "h \<in> set heads" "strip_word h (u # redact m s) = Some q"
  shows "\<not> exposed q"
proof -
  from apart [OF assms(2)] obtain c w where h: "h = c # w"
    and w: "\<forall>w'\<in>set (suffixes w). w' \<noteq> [] \<longrightarrow> (\<forall>k\<in>set heads. clash w' k)" by (cases h) auto
  from assms(3) have "lower_unit u = of_char c" "strip_word w (redact m s) = Some q"
    by (auto simp: h split: if_splits)
  with strip_word_redact [OF w] obtain p where "strip_word h (u # s) = Some p" "q = redact m p"
    by (auto simp: h)
  with found [OF assms(2)] assms(1) show ?thesis by blast
qed

lemma nothing_exposed:
  "suffix y (redact m s) \<Longrightarrow> h \<in> set heads \<Longrightarrow> strip_word h y = Some q \<Longrightarrow> \<not> exposed q"
proof (induction "length s" arbitrary: s rule: less_induct)
  case less
  show ?case
  proof (cases "m s")
    case None
    show ?thesis
    proof (cases s)
      case Nil
      then show ?thesis using less.prems apart [OF less.prems(2)] by (cases h) (auto simp: redact_Nil)
    next
      case (Cons u s')
      then have "y = u # redact m s' \<or> suffix y (redact m s')"
        using less.prems(1) None by (simp add: redact_skip suffix_Cons)
      then show ?thesis
        using less.hyps [of s'] less.prems None Cons skipped_hidden [of u s' h q] by auto
    qed
  next
    case (Some tr)
    obtain t r where tr: "m s = Some (t, r)" using Some by (cases tr) simp
    from less.prems(1) have "suffix y (t @ redact m r)" by (simp add: redact_match [OF tr])
    then consider "suffix y (redact m r)" | y' where "y = y' @ redact m r" "suffix y' t"
      unfolding suffix_append by blast
    then show ?thesis
    proof cases
      case 1
      then show ?thesis using less.hyps [of r] rest [OF tr] less.prems by blast
    next
      case 2
      show ?thesis
      proof (cases "y' = []")
        case True
        then show ?thesis using less.hyps [of r] rest [OF tr] less.prems 2 by simp
      next
        case False
        have "redact m r = [] \<or> blank (hd (redact m r))" using rest [OF tr] redact_blank_hd by blast
        then show ?thesis using marked [OF tr _ 2(2) False less.prems(2)] less.prems(3) 2(1) by simp
      qed
    qed
  qed
qed

end

subsection \<open>Bearer credentials\<close>

definition exposed_bearer :: "jstring \<Rightarrow> bool" where
  "exposed_bearer q \<longleftrightarrow> q \<noteq> [] \<and> blank (hd q) \<and> dropWhile blank q \<noteq> [] \<and>
     takeWhile (\<lambda>v. \<not> blank v) (dropWhile blank q) \<noteq> lit ''[REDACTED]''"

lemma strip_word_length: "strip_word w s = Some q \<Longrightarrow> length s = length w + length q"
  by (induction w s rule: strip_word.induct) (auto split: if_splits)

lemma blank_lower: "blank u \<Longrightarrow> lower_unit u = u"
  by (auto simp: blank_def is_space_def lower_unit_def)

lemma strip_word_nonblank:
  "strip_word (c # w) s = Some q \<Longrightarrow> \<not> is_space (of_char c) \<Longrightarrow> s \<noteq> [] \<and> \<not> blank (hd s)"
  using blank_lower [of "hd s"] by (cases s) (auto simp: blank_def unat_of_char split: if_splits)

lemma match_bearer_iff:
  "match_bearer s = Some (t, r) \<longleftrightarrow> (\<exists>q. strip_word ''bearer'' s = Some q \<and> q \<noteq> [] \<and> blank (hd q) \<and>
     strip_secret (dropWhile blank q) = Some r \<and> t = lit ''Bearer [REDACTED]'')"
  by (auto simp: match_bearer_def split: option.splits list.splits)

lemma secret_rest: "strip_secret p = Some r \<Longrightarrow> length r < length p \<and> (r = [] \<or> blank (hd r))"
proof -
  assume "strip_secret p = Some r"
  then have p: "p \<noteq> []" "\<not> blank (hd p)" "r = dropWhile (\<lambda>v. \<not> blank v) p" by (auto simp: strip_secret_Some)
  then have "length r < length p" by (cases p) (auto simp: le_imp_less_Suc length_dropWhile_le)
  moreover have "r = [] \<or> blank (hd r)" using p(3) hd_dropWhile [of "\<lambda>v. \<not> blank v" p] by auto
  ultimately show ?thesis by blast
qed

interpretation bearer: redactor match_bearer "[''bearer'']"
proof unfold_locales
  fix s t r
  assume "match_bearer s = Some (t, r)"
  then obtain q where q: "strip_word ''bearer'' s = Some q" "strip_secret (dropWhile blank q) = Some r"
    and t: "t = lit ''Bearer [REDACTED]''" by (auto simp: match_bearer_iff)
  show "length r < length s \<and> (r = [] \<or> blank (hd r))"
    using secret_rest [OF q(2)] length_dropWhile_le [of blank q] strip_word_length [OF q(1)] by simp
  show "s \<noteq> [] \<and> \<not> blank (hd s)" using strip_word_nonblank [OF q(1)] by (simp add: is_space_def)
  show "t \<noteq> [] \<and> \<not> blank (hd t) \<and> (\<exists>h\<in>set [''bearer'']. strip_word h t \<noteq> None)"
    by (simp add: t lit_def blank_def is_space_def lower_unit_def)
qed auto

lemma redacted_word:
  "x = [] \<or> blank (hd x) \<Longrightarrow> takeWhile (\<lambda>v. \<not> blank v) (lit ''[REDACTED]'' @ x) = lit ''[REDACTED]''"
  by (cases x) (simp_all add: lit_def blank_def is_space_def)

interpretation bearer_hides: redactor_hides match_bearer "[''bearer'']" exposed_bearer
proof unfold_locales
  fix h s q
  assume h: "h \<in> set [''bearer'']" and q: "strip_word h s = Some q" and e: "exposed_bearer (redact match_bearer q)"
  from e have "q \<noteq> []" by (auto simp: exposed_bearer_def bearer.redact_Nil)
  moreover from this e have "blank (hd q)" using bearer.redact_nonblank_hd [of q] by (auto simp: exposed_bearer_def)
  moreover have "dropWhile blank q \<noteq> []"
  proof
    assume q: "dropWhile blank q = []"
    then have "list_all blank q" by (simp add: dropWhile_eq_Nil_conv list_all_iff)
    with e q show False using bearer.redact_blanks [of q] by (simp add: exposed_bearer_def)
  qed
  then have "strip_secret (dropWhile blank q) \<noteq> None"
    using hd_dropWhile [of blank q] by (simp add: strip_secret_None)
  ultimately show "match_bearer s \<noteq> None"
    using h q by (auto simp: match_bearer_def split: list.splits)
next
  fix s t r x y h q
  assume m: "match_bearer s = Some (t, r)" and x: "x = [] \<or> blank (hd x)" and y: "suffix y t" "y \<noteq> []"
    and h: "h \<in> set [''bearer'']" and q: "strip_word h (y @ x) = Some q"
  from m have t: "t = lit ''Bearer [REDACTED]''" by (auto simp: match_bearer_iff)
  from y have "y \<in> set (suffixes (lit ''Bearer [REDACTED]''))" by (simp add: t)
  then have "y = lit ''Bearer [REDACTED]''"
    using y(2) q h by (auto simp: lit_def lower_unit_def)
  then have "q = 32 # lit ''[REDACTED]'' @ x" using q h by (simp add: lit_def lower_unit_def)
  moreover have "\<not> blank 91" "blank 32" by (simp_all add: blank_def is_space_def)
  ultimately have "dropWhile blank q = lit ''[REDACTED]'' @ x" by (simp add: lit_def)
  then show "\<not> exposed_bearer q" using redacted_word [OF x] by (simp add: exposed_bearer_def)
qed

subsection \<open>Named secrets\<close>

definition secret_words :: "string list" where
  "secret_words = [''token'', ''capability'', ''secret'']"

definition exposed_key :: "jstring \<Rightarrow> bool" where
  "exposed_key p \<longleftrightarrow> p \<noteq> [] \<and> \<not> blank (hd p) \<and> takeWhile (\<lambda>v. \<not> blank v) p \<noteq> lit ''[REDACTED]''"

lemma lower_equals: "lower_unit u = 61 \<longleftrightarrow> u = 61"
proof
  assume u: "lower_unit u = 61"
  show "u = 61"
  proof (cases "65 \<le> unat u \<and> unat u \<le> 90")
    case True
    then have "u + 32 = 61" using u by (simp add: lower_unit_def)
    then have "u = 61 - 32" by (metis add_diff_cancel_right')
    then show ?thesis using True by simp
  qed (use u in \<open>auto simp: lower_unit_def split: if_splits\<close>)
qed (simp add: lower_unit_def)

lemma match_key_iff:
  "match_key w s = Some (t, r) \<longleftrightarrow> (\<exists>p. strip_word (w @ ''='') s = Some p \<and> strip_secret p = Some r \<and>
     t = take (length w) s @ lit ''=[REDACTED]'')"
  by (auto simp: match_key_def strip_word_append lower_equals split: option.splits list.splits)

lemma match_secret_Some:
  "match_secret s = Some (t, r) \<Longrightarrow> \<exists>w\<in>set secret_words. match_key w s = Some (t, r)"
  by (auto simp: match_secret_def secret_words_def split: option.splits)

lemma match_secret_None: "match_secret s = None \<Longrightarrow> w \<in> set secret_words \<Longrightarrow> match_key w s = None"
  by (auto simp: match_secret_def secret_words_def split: option.splits)

lemma key_text:
  assumes "strip_word (w @ ''='') s = Some p"
  shows "map lower_unit (take (length w) s @ lit ''=[REDACTED]'') = lit (w @ ''=[redacted]'')"
proof -
  have "prefix (lit w) (map lower_unit s)"
    using assms by (auto simp: strip_word_iff lit_append intro: append_prefixD)
  then have "take (length w) (map lower_unit s) = lit w" by (auto simp: prefix_def)
  moreover have "map lower_unit (lit ''=[REDACTED]'') = lit ''=[redacted]''"
    by (simp add: lit_def lower_unit_def)
  ultimately show ?thesis by (simp add: take_map lit_append)
qed

interpretation keys: redactor match_secret "map (\<lambda>w. w @ ''='') secret_words"
proof unfold_locales
  fix s t r
  assume "match_secret s = Some (t, r)"
  then obtain w p where w: "w \<in> set secret_words" and p: "strip_word (w @ ''='') s = Some p" "strip_secret p = Some r"
    and t: "t = take (length w) s @ lit ''=[REDACTED]''" using match_secret_Some match_key_iff by blast
  show "length r < length s \<and> (r = [] \<or> blank (hd r))"
    using secret_rest [OF p(2)] strip_word_length [OF p(1)] by simp
  show s: "s \<noteq> [] \<and> \<not> blank (hd s)"
    using w p(1) strip_word_nonblank [of "hd w" "tl w @ ''=''" s p] by (auto simp: secret_words_def is_space_def)
  have "strip_word (w @ ''='') t \<noteq> None"
    using key_text [OF p(1)] strip_word_iff [of "w @ ''=''" t "drop (length w + 1) t"] by (simp add: t)
  moreover have "hd t = hd s" using w s by (cases s) (auto simp: t secret_words_def)
  ultimately show "t \<noteq> [] \<and> \<not> blank (hd t) \<and> (\<exists>h\<in>set (map (\<lambda>w. w @ ''='') secret_words). strip_word h t \<noteq> None)"
    using s w by (auto simp: t)
qed (auto simp: secret_words_def)

lemma key_inside:
  "suffix z (lit (w @ ''=[redacted]'')) \<Longrightarrow> z \<noteq> [] \<Longrightarrow> w \<in> set secret_words \<Longrightarrow> v \<in> set secret_words \<Longrightarrow>
   prefix (lit (v @ ''='')) (z @ x) \<Longrightarrow> z = lit (w @ ''=[redacted]'') \<and> v = w"
  by (auto simp: secret_words_def lit_def suffix_Cons)

interpretation keys_hide: redactor_hides match_secret "map (\<lambda>w. w @ ''='') secret_words" exposed_key
proof unfold_locales
  fix h s q
  assume h: "h \<in> set (map (\<lambda>w. w @ ''='') secret_words)" and q: "strip_word h s = Some q"
    and e: "exposed_key (redact match_secret q)"
  from h obtain w where w: "w \<in> set secret_words" "h = w @ ''=''" by auto
  from e have "q \<noteq> []" by (auto simp: exposed_key_def keys.redact_Nil)
  moreover have "\<not> blank (hd q)" using e keys.redact_blank_hd [of q] by (auto simp: exposed_key_def)
  ultimately obtain r where "strip_secret q = Some r" by (simp add: strip_secret_Some)
  with q w(2) have "match_key w s = Some (take (length w) s @ lit ''=[REDACTED]'', r)" by (simp add: match_key_iff)
  then show "match_secret s \<noteq> None" using match_secret_None [OF _ w(1), of s] by (cases "match_secret s") simp_all
next
  fix s t r x y h q
  assume m: "match_secret s = Some (t, r)" and x: "x = [] \<or> blank (hd x)" and y: "suffix y t" "y \<noteq> []"
    and h: "h \<in> set (map (\<lambda>w. w @ ''='') secret_words)" and q: "strip_word h (y @ x) = Some q"
  from m obtain w p where w: "w \<in> set secret_words" and p: "strip_word (w @ ''='') s = Some p"
    and t: "t = take (length w) s @ lit ''=[REDACTED]''" using match_secret_Some match_key_iff by blast
  from h obtain v where v: "v \<in> set secret_words" "h = v @ ''=''" by auto
  have low: "map lower_unit t = lit (w @ ''=[redacted]'')" unfolding t by (rule key_text [OF p])
  have "suffix (map lower_unit y) (lit (w @ ''=[redacted]''))"
    unfolding low [symmetric] using y(1) by (rule map_mono_suffix)
  moreover have pre: "prefix (lit (v @ ''='')) (map lower_unit y @ map lower_unit x)" and drop: "q = drop (length h) (y @ x)"
    using q by (auto simp: strip_word_iff v(2))
  ultimately have "map lower_unit y = lit (w @ ''=[redacted]'')" "v = w"
    using key_inside [of "map lower_unit y" w v "map lower_unit x"] y(2) w v(1) by auto
  then have "length y = length t" by (metis low length_map)
  then have "y = t" using y(1) by (metis suffix_length_less suffix_order.le_neq_trans less_irrefl)
  moreover have "length w \<le> length s" using strip_word_length [OF p] by simp
  ultimately have "q = lit ''[REDACTED]'' @ x" by (simp add: drop t v(2) \<open>v = w\<close> lit_def)
  then show "\<not> exposed_key q" using redacted_word [OF x] by (simp add: exposed_key_def)
qed

subsection \<open>The second pattern keeps what the first one hides\<close>

lemma strip_word_local:
  assumes "list_all (\<lambda>c. \<not> is_space (of_char c)) w" "b = [] \<or> blank (hd b)"
  shows "strip_word w (x @ b) = map_option (\<lambda>q. q @ b) (strip_word w x)"
  using assms(1)
proof (induction w x rule: strip_word.induct)
  case (2 c w)
  show ?case
  proof (cases "strip_word (c # w) b")
    case (Some q)
    then show ?thesis using strip_word_nonblank [OF Some] 2 assms(2) by simp
  qed simp
qed auto

lemma strip_secret_local:
  assumes "b = [] \<or> blank (hd b)"
  shows "strip_secret (p @ b) = map_option (\<lambda>r. r @ b) (strip_secret p)"
proof -
  have "dropWhile (\<lambda>v. \<not> blank v) b = b" using assms by (cases b) auto
  then show ?thesis using assms by (cases p; cases b) (auto simp: strip_secret_def dropWhile_append dropWhile_eq_Nil_conv)
qed

lemma match_key_local:
  assumes "w \<in> set secret_words" "b = [] \<or> blank (hd b)"
  shows "match_key w (x @ b) = map_option (\<lambda>(t, r). (t, r @ b)) (match_key w x)"
proof -
  have step: "match_key w s = Option.bind (strip_word (w @ ''='') s)
      (\<lambda>p. map_option (Pair (take (length w) s @ lit ''=[REDACTED]'')) (strip_secret p))" for s
    by (auto simp: match_key_def strip_word_append lower_equals split: option.split list.split)
  have w: "list_all (\<lambda>c. \<not> is_space (of_char c)) (w @ ''='')"
    using assms(1) by (auto simp: secret_words_def is_space_def)
  show ?thesis
  proof (cases "strip_word (w @ ''='') x")
    case None
    then show ?thesis by (simp add: step strip_word_local [OF w assms(2)])
  next
    case (Some p)
    then have "length w \<le> length x" using strip_word_length by fastforce
    then show ?thesis
      by (simp add: step strip_word_local [OF w assms(2)] Some strip_secret_local [OF assms(2)] option.map_comp comp_def)
  qed
qed

lemma match_secret_local:
  assumes "b = [] \<or> blank (hd b)"
  shows "match_secret (x @ b) = map_option (\<lambda>(t, r). (t, r @ b)) (match_secret x)"
  using match_key_local [OF _ assms, of _ x]
  by (auto simp: match_secret_def secret_words_def split: option.splits)

lemma redact_keys_append:
  assumes "b = [] \<or> blank (hd b)"
  shows "redact match_secret (a @ b) = redact match_secret a @ redact match_secret b"
proof (induction "length a" arbitrary: a rule: less_induct)
  case less
  show ?case
  proof (cases "match_secret a")
    case None
    then have "match_secret (a @ b) = None" by (simp add: match_secret_local [OF assms])
    with None less show ?thesis
      by (cases a) (simp_all add: keys.redact_Nil keys.redact_skip)
  next
    case (Some tr)
    obtain t r where m: "match_secret a = Some (t, r)" using Some by (cases tr) simp
    then have "match_secret (a @ b) = Some (t, r @ b)" by (simp add: match_secret_local [OF assms])
    then show ?thesis using less [of r] keys.rest [OF m] by (simp add: keys.redact_match m)
  qed
qed

lemma strip_word_suffix: "strip_word w s = Some q \<Longrightarrow> suffix q s"
  by (simp add: strip_word_iff suffix_drop)

lemma match_secret_parts:
  assumes "match_secret s = Some (t, r)"
  shows "suffix r s" "list_all (\<lambda>v. \<not> blank v) t" "last t = 93" "t \<noteq> []"
proof -
  from assms obtain w p where w: "w \<in> set secret_words" and p: "strip_word (w @ ''='') s = Some p" "strip_secret p = Some r"
    and t: "t = take (length w) s @ lit ''=[REDACTED]''" using match_secret_Some match_key_iff by blast
  show "suffix r s" using p strip_word_suffix suffix_dropWhile suffix_order.trans by (metis strip_secret_Some)
  have "\<not> blank v" if "v \<in> set t" for v
  proof
    assume "blank v"
    then have "v \<in> set (map lower_unit t)" using that blank_lower [of v] by force
    then have "v \<in> set (lit (w @ ''=[redacted]''))" unfolding t key_text [OF p(1)] .
    then show False using \<open>blank v\<close> w by (auto simp: secret_words_def lit_def blank_def is_space_def)
  qed
  then show "list_all (\<lambda>v. \<not> blank v) t" by (simp add: list_all_iff)
  show "last t = 93" "t \<noteq> []" by (simp_all add: t lit_def)
qed

lemma hd_in_prefix:
  assumes "t @ x = a @ b" "length a < length t" "b \<noteq> []"
  shows "hd b \<in> set t"
proof -
  have "hd b = (a @ b) ! length a" using assms(3) by (simp add: nth_append hd_conv_nth)
  also have "\<dots> = t ! length a" using assms(2) by (simp add: assms(1) [symmetric] nth_append)
  finally show ?thesis using assms(2) by simp
qed

text \<open>A blank of the output is a blank of the input, and the output splits there as the input does.\<close>

lemma redact_keys_split:
  "redact match_secret s = a' @ b' \<Longrightarrow> b' \<noteq> [] \<Longrightarrow> blank (hd b') \<Longrightarrow>
   \<exists>a b. s = a @ b \<and> redact match_secret a = a' \<and> redact match_secret b = b' \<and> b \<noteq> [] \<and> blank (hd b)"
proof (induction "length s" arbitrary: s a' rule: less_induct)
  case less
  show ?case
  proof (cases "match_secret s")
    case None
    show ?thesis
    proof (cases "s = [] \<or> a' = []")
      case True
      moreover have "s \<noteq> []" using less.prems by (auto simp: keys.redact_Nil)
      ultimately show ?thesis
        using less.prems keys.redact_nonblank_hd [of s] by (intro exI [of _ "[]"] exI [of _ s]) (auto simp: keys.redact_Nil)
    next
      case False
      then obtain u s' v a'' where s: "s = u # s'" "a' = v # a''" by (meson list.exhaust)
      with less.prems(1) None have "v = u" "redact match_secret s' = a'' @ b'" by (simp_all add: keys.redact_skip)
      with less.hyps [of s' a''] less.prems s obtain a b where ab: "s' = a @ b" "redact match_secret a = a''"
        "redact match_secret b = b'" "b \<noteq> []" "blank (hd b)" by auto
      have "match_secret (u # a) = None"
        using None match_secret_local [of b "u # a"] ab s by (simp add: option.map_disc_iff)
      then show ?thesis
        using ab s \<open>v = u\<close> by (intro exI [of _ "u # a"] exI [of _ b]) (simp add: keys.redact_skip)
    qed
  next
    case (Some tr)
    obtain t r where m: "match_secret s = Some (t, r)" using Some by (cases tr) simp
    note parts = match_secret_parts [OF m]
    have eq: "t @ redact match_secret r = a' @ b'" using less.prems(1) by (simp add: keys.redact_match [OF m])
    have "\<not> length a' < length t"
      using hd_in_prefix [OF eq _ less.prems(2)] parts(2) less.prems(3) by (auto simp: list_all_iff)
    then obtain a'' where a'': "a' = t @ a''" "redact match_secret r = a'' @ b'"
      using eq by (auto simp: append_eq_append_conv2)
    with less.hyps [of r a''] keys.rest [OF m] less.prems obtain a b where ab: "r = a @ b"
      "redact match_secret a = a''" "redact match_secret b = b'" "b \<noteq> []" "blank (hd b)" by auto
    from parts(1) obtain x where x: "s = x @ r" by (auto simp: suffix_def)
    have "match_secret (x @ a) = Some (t, a)"
      using m match_secret_local [of b "x @ a"] ab x by (cases "match_secret (x @ a)") auto
    then show ?thesis
      using ab x a'' by (intro exI [of _ "x @ a"] exI [of _ b]) (simp add: keys.redact_match)
  qed
qed

lemma strip_word_all: "strip_word w k = Some [] \<Longrightarrow> map lower_unit k = lit w"
  by (induction w k rule: strip_word.induct) (auto simp: lit_def split: if_splits)

lemma bearer_letters: "strip_word ''bearer'' k = Some [] \<Longrightarrow> 93 \<notin> set k"
proof
  assume k: "strip_word ''bearer'' k = Some []" "93 \<in> set k"
  then have "lower_unit 93 \<in> set (lit ''bearer'')" unfolding strip_word_all [OF k(1), symmetric] by simp
  then show False by (simp add: lit_def lower_unit_def)
qed

lemma redact_keys_ends:
  "suffix k (redact match_secret s) \<Longrightarrow> strip_word ''bearer'' k = Some [] \<Longrightarrow>
   \<exists>k'. suffix k' s \<and> strip_word ''bearer'' k' = Some []"
proof (induction "length s" arbitrary: s rule: less_induct)
  case less
  show ?case
  proof (cases "match_secret s")
    case None
    show ?thesis
    proof (cases s)
      case Nil
      then show ?thesis using less.prems by (auto simp: keys.redact_Nil)
    next
      case (Cons u s')
      then consider "suffix k (redact match_secret s')" | "k = u # redact match_secret s'"
        using less.prems(1) None by (auto simp: keys.redact_skip suffix_Cons)
      then show ?thesis
      proof cases
        case 1
        then show ?thesis using less.hyps [of s'] less.prems Cons by (auto intro: suffix_ConsI)
      next
        case 2
        then have u: "lower_unit u = of_char (CHR ''b'')" "strip_word ''earer'' (redact match_secret s') = Some []"
          using less.prems(2) by (simp_all split: if_splits)
        obtain p where "strip_word ''earer'' s' = Some p" "[] = redact match_secret p"
          using keys.strip_word_redact [OF _ u(2)] by (auto simp: secret_words_def)
        moreover from this have "p = []"
          using keys.redact_blank_hd keys.redact_nonblank_hd [of p] match_secret_parts(4)
          by (cases p; cases "match_secret p") (auto simp: keys.redact_skip keys.redact_match)
        ultimately show ?thesis using u Cons by (intro exI [of _ s]) simp
      qed
    qed
  next
    case (Some tr)
    obtain t r where m: "match_secret s = Some (t, r)" using Some by (cases tr) simp
    note parts = match_secret_parts [OF m]
    have "suffix k (t @ redact match_secret r)" using less.prems(1) by (simp add: keys.redact_match [OF m])
    then consider "suffix k (redact match_secret r)" | k' where "k = k' @ redact match_secret r" "suffix k' t"
      unfolding suffix_append by blast
    then show ?thesis
    proof cases
      case 1
      then show ?thesis
        using less.hyps [of r] keys.rest [OF m] less.prems(2) parts(1) suffix_order.trans by blast
    next
      case 2
      have "k' = []"
      proof (rule ccontr)
        assume "k' \<noteq> []"
        then have "last k' = 93" using 2(2) parts(3) by (auto simp: suffix_def)
        then have "93 \<in> set k" using last_in_set [OF \<open>k' \<noteq> []\<close>] 2(1) by simp
        then show False using bearer_letters [OF less.prems(2)] by blast
      qed
      then show ?thesis
        using 2 less.hyps [of r] keys.rest [OF m] less.prems(2) parts(1) suffix_order.trans by auto
    qed
  qed
qed

lemma redact_keys_blanks: "list_all blank a \<Longrightarrow> redact match_secret (a @ b) = a @ redact match_secret b"
proof (induction a)
  case (Cons u a)
  then have "match_secret (u # a @ b) = None" using keys.starts [of "u # a @ b"] by (cases "match_secret (u # a @ b)") auto
  then show ?case using Cons by (simp add: keys.redact_skip)
qed simp

lemma marker_kept: "redact match_secret (lit ''[REDACTED]'') = lit ''[REDACTED]''"
  by (simp add: redact_def lit_def match_secret_def match_key_def lower_unit_def)

lemma redact_keys_hidden:
  assumes "\<not> exposed_bearer b" "b \<noteq> []" "blank (hd b)"
  shows "\<not> exposed_bearer (redact match_secret b)"
proof -
  define a p where "a = takeWhile blank b" and "p = dropWhile blank b"
  have b: "b = a @ p" "list_all blank a" by (simp_all add: a_def p_def list_all_iff) (meson set_takeWhileD)
  have r: "redact match_secret b = a @ redact match_secret p" using redact_keys_blanks [OF b(2), of p] b(1) by simp
  show ?thesis
  proof (cases "p = []")
    case True
    then show ?thesis using b(2) by (simp add: r exposed_bearer_def keys.redact_Nil dropWhile_eq_Nil_conv list_all_iff)
  next
    case False
    define c where "c = dropWhile (\<lambda>v. \<not> blank v) p"
    have "takeWhile (\<lambda>v. \<not> blank v) p = lit ''[REDACTED]''"
      using assms False unfolding exposed_bearer_def p_def by blast
    then have p: "p = lit ''[REDACTED]'' @ c" by (metis c_def takeWhile_dropWhile_id)
    have c: "c = [] \<or> blank (hd c)" using hd_dropWhile [of "\<lambda>v. \<not> blank v" p] by (auto simp: c_def)
    have "redact match_secret p = lit ''[REDACTED]'' @ redact match_secret c"
      using redact_keys_append [OF c] p marker_kept by simp
    moreover have "\<not> blank 91" by (simp add: blank_def is_space_def)
    ultimately have "dropWhile blank (redact match_secret b) = lit ''[REDACTED]'' @ redact match_secret c"
      using b(2) by (simp add: r list_all_iff lit_def)
    then show ?thesis using redacted_word [OF keys.redact_blank_hd [OF c]] by (simp add: exposed_bearer_def)
  qed
qed

text \<open>The positions of a text where a credential can be read.\<close>

definition leaks_bearer :: "jstring \<Rightarrow> bool" where
  "leaks_bearer s \<longleftrightarrow> (case strip_word ''bearer'' s of None \<Rightarrow> False | Some q \<Rightarrow> exposed_bearer q)"

definition leaks_key :: "jstring \<Rightarrow> bool" where
  "leaks_key s \<longleftrightarrow> list_ex (\<lambda>w. case strip_word (w @ ''='') s of None \<Rightarrow> False | Some q \<Rightarrow> exposed_key q) secret_words"

lemma second_pass_keeps:
  assumes "suffix y (redact match_secret (redact match_bearer message))"
  shows "\<not> leaks_bearer y"
proof
  assume "leaks_bearer y"
  then obtain q where q: "strip_word ''bearer'' y = Some q" "exposed_bearer q"
    by (auto simp: leaks_bearer_def split: option.splits)
  define k where "k = take (length ''bearer'') y"
  have k: "strip_word ''bearer'' k = Some []" "y = k @ q" using strip_word_take [OF q(1)] by (simp_all only: k_def)
  from assms obtain x where x: "redact match_secret (redact match_bearer message) = (x @ k) @ q"
    unfolding suffix_def k(2) by auto
  from q(2) have "q \<noteq> []" "blank (hd q)" by (auto simp: exposed_bearer_def)
  from redact_keys_split [OF x this] obtain a b where ab: "redact match_bearer message = a @ b"
    "redact match_secret a = x @ k" "redact match_secret b = q" "b \<noteq> []" "blank (hd b)" by blast
  have "suffix k (redact match_secret a)" by (simp add: ab(2) suffix_def)
  from redact_keys_ends [OF this k(1)] obtain k' where k': "suffix k' a" "strip_word ''bearer'' k' = Some []" by blast
  have "suffix (k' @ b) (redact match_bearer message)" using k'(1) by (simp add: ab(1))
  then have "\<not> exposed_bearer b"
    using bearer_hides.nothing_exposed [of "k' @ b" message "''bearer''" b] strip_word_more [OF k'(2), of b] by simp
  then show False using redact_keys_hidden [of b] ab q(2) by blast
qed

lemma redactError_redact: "redactError message = redact match_secret (redact match_bearer message)"
  by (simp add: redactError_def redact_def Let_def)

text \<open>
  (C18) A message that is shown has been cleaned: nowhere in it is the word Bearer, in any case, followed
  by a blank and anything but the marker, and nowhere is \<open>token=\<close>, \<open>capability=\<close> or
  \<open>secret=\<close> followed by anything but the marker or a blank.
\<close>

theorem redaction_complete:
  "\<not> list_ex leaks_bearer (suffixes (redactError message)) \<and> \<not> list_ex leaks_key (suffixes (redactError message))"
proof -
  have "\<not> leaks_key y" if "suffix y (redactError message)" for y
    using keys_hide.nothing_exposed [of y "redact match_bearer message"] that
    by (auto simp: leaks_key_def redactError_redact list_ex_iff split: option.splits)
  then show ?thesis using second_pass_keeps by (auto simp: list_ex_iff redactError_redact)
qed

end
