(* ===== verification/ChatText.thy ===== *)
theory ChatText
  imports TuiView
begin

text \<open>
  The pure functions of \<open>ui/web/src/features/chat/ChatHost.tsx\<close> and of
  \<open>ui/web/src/lib/project-name.ts\<close>: reading unvalidated payloads, merging transcripts, the target
  of a steering request, the texts for failures and activities, and the name of a new project.
\<close>

section \<open>Reading payloads\<close>

text \<open>\<open>record(value)?.key\<close>.\<close>

definition record_fld :: "jsval \<Rightarrow> string \<Rightarrow> jsval" where
  "record_fld v key = (if isRecord v then fld v key else JUndef)"

text \<open>The chat's own pattern for identifiers, which admits the versions 1 to 5.\<close>

definition chat_version_digit :: "code_unit \<Rightarrow> bool" where
  "chat_version_digit u \<longleftrightarrow> 49 \<le> unat u \<and> unat u \<le> 53"

definition chat_isUUID :: "jstring \<Rightarrow> bool" where
  "chat_isUUID s \<longleftrightarrow> matches_classes (replicate 8 is_hex @ [is_dash] @ replicate 4 is_hex @ [is_dash] @
     [chat_version_digit] @ replicate 3 is_hex @ [is_dash] @
     [is_variant_digit] @ replicate 3 is_hex @ [is_dash] @ replicate 12 is_hex) s"

text \<open>\<open>/^\\/studio\\/([0-9a-f-]+)$/i\<close>, ignoring case as the pattern does; the prefix too.\<close>

definition studioProjectID :: "jstring \<Rightarrow> jstring option" where
  "studioProjectID pathname =
     (let projectID = drop 8 pathname in
      if to_lower (take 8 pathname) = lit ''/studio/'' \<and> projectID \<noteq> [] \<and>
         list_all (\<lambda>u. is_hex u \<or> is_dash u) projectID \<and> chat_isUUID projectID
      then Some projectID else None)"

definition isTerminalTurnEvent :: "event_envelope \<Rightarrow> bool" where
  "isTerminalTurnEvent e \<longleftrightarrow> ev_type e = lit ''turn.failed'' \<or>
     (ev_type e = lit ''turn.incomplete'' \<and> record_fld (payload e) ''final_honest_partial'' \<noteq> JBool False)"

section \<open>Messages\<close>

record chat_message =
  cm_id :: jstring
  cm_user :: bool
  cm_content :: jstring
  cm_created :: "jstring option"
  cm_turn :: "jstring option"

definition content_key :: "chat_message \<Rightarrow> jstring" where
  "content_key m = lit (if cm_user m then ''user'' else ''assistant'') @ lit '':'' @ cm_content m"

text \<open>The loop of \<open>mergeMessages\<close> with its two sets.\<close>

fun merge_from :: "jstring list \<Rightarrow> jstring list \<Rightarrow> chat_message list \<Rightarrow> chat_message list" where
  "merge_from seenIDs seenContent [] = []"
| "merge_from seenIDs seenContent (m # ms) =
     (if List.member seenIDs (cm_id m) \<or> List.member seenContent (content_key m)
      then merge_from seenIDs seenContent ms
      else m # merge_from (cm_id m # seenIDs) (content_key m # seenContent) ms)"

definition mergeMessages :: "chat_message list \<Rightarrow> chat_message list \<Rightarrow> chat_message list" where
  "mergeMessages first second = merge_from [] [] (first @ second)"

definition appendStreamText :: "jstring \<Rightarrow> jstring \<Rightarrow> jstring" where
  "appendStreamText current incoming =
     (if incoming = [] \<or> suffix incoming current then current else current @ incoming)"

section \<open>Steering\<close>

definition final_phases :: "string list" where
  "final_phases = [''completed'', ''failed'', ''denied'', ''interrupted'', ''outcome_unknown'']"

definition turn_target :: "jstring \<Rightarrow> event_envelope \<Rightarrow> jsval" where
  "turn_target turnID newest = JObj [(lit ''kind'', JStr (lit ''turn'')), (lit ''task_id'', JStr turnID),
     (lit ''agent_id'', JStr (lit ''ion'')), (lit ''tool_action'', JStr (lit ''turn.run'')),
     (lit ''target_revision'', JInt (sequence newest))]"

definition tool_target :: "jsval \<Rightarrow> event_envelope \<Rightarrow> jsval option" where
  "tool_target p newest =
     (let scope = fld p ''scope'';
          taskID = or_else (fld scope ''task_id'') (or_else (fld scope ''outcome_id'') (fld scope ''turn_id'')) in
      if taskID = JUndef then None
      else Some (JObj [(lit ''kind'', JStr (lit ''tool'')), (lit ''task_id'', taskID),
        (lit ''agent_id'', fld scope ''agent_id''), (lit ''tool_event_id'', fld p ''tool_event_id''),
        (lit ''tool_action'', fld p ''operation''), (lit ''target_revision'', JInt (sequence newest))]))"

definition currentSteerTarget :: "platform \<Rightarrow> jstring \<Rightarrow> event_envelope list \<Rightarrow> jsval option" where
  "currentSteerTarget pf turnID evs =
     (case filter (\<lambda>e. c_turn_id (correlation e) = Some turnID) evs of
        [] \<Rightarrow> None
      | turnEvents \<Rightarrow> (let newest = last turnEvents in
          if isComputerEventPayload pf (payload newest) \<and>
             \<not> one_of final_phases (str_of (fld (payload newest) ''phase''))
          then tool_target (payload newest) newest
          else Some (turn_target turnID newest)))"

section \<open>Texts\<close>

text \<open>The title and the detail of a failure.\<close>

definition failureMessage :: "jsval \<Rightarrow> string \<times> string" where
  "failureMessage p =
     (let code = fld p ''error_code''; failureClass = fld p ''error_class''; phase = fld p ''phase'' in
      if phase = JStr (lit ''provider_tool_markup'') then
        (''Work stopped; it is not still running'',
         ''The provider returned an action in an incompatible format. Completed actions are saved, and Try again resumes from that durable point.'')
      else if phase = JStr (lit ''evidence_convergence'') then
        (''Work paused before verified completion'',
         ''Required criteria still lack server-verified evidence. Completed work is saved and the next attempt resumes the unfinished criterion.'')
      else if code = JStr (lit ''provider_payment_required'') then
        (''The model provider needs attention'',
         ''The provider refused this request because the account needs payment or credits. Update the provider account, then try again.'')
      else if failureClass = JStr (lit ''rate_limit'') then
        (''The model is temporarily busy'', ''No action was lost. Wait a moment, then try again.'')
      else if failureClass = JStr (lit ''timeout'') \<or> failureClass = JStr (lit ''transient'') then
        (''The connection ended before the answer was ready'',
         ''No action was lost. Check the connection, then try again.'')
      else (''The request could not be completed'',
         ''The turn did not finish. Review Work details because some actions may already have completed, then try again.''))"

definition chat_compactPayload :: "platform \<Rightarrow> jsval \<Rightarrow> jstring option" where
  "chat_compactPayload pf value = map_option (\<lambda>encoded.
     if length encoded > 180 then take 177 encoded @ ellipsis else encoded) (json_stringify pf value)"

text \<open>\<open>record(event.payload) ?? {}\<close>.\<close>

definition payload_record :: "jsval \<Rightarrow> jsval" where
  "payload_record p = (if isRecord p then p else JObj [])"

definition displayed_model :: "platform \<Rightarrow> jsval \<Rightarrow> jsval" where
  "displayed_model pf p = (case payload_compatibility pf p of
      Some Unsupported \<Rightarrow> JObj [(lit ''status'', JStr (lit ''unsupported_version''))]
    | compatibility \<Rightarrow> (case payload_model pf p of
          None \<Rightarrow> JUndef
        | Some model \<Rightarrow> JObj [
            (lit ''compatibility'', JStr (lit (if compatibility = Some Current then ''current'' else ''migrated''))),
            (lit ''kind'', fld model ''kind''), (lit ''title'', fld model ''title''),
            (lit ''fields'', fld model ''fields''), (lit ''blocks'', fld model ''blocks'')]))"

definition activityDetails :: "platform \<Rightarrow> event_envelope \<Rightarrow> jstring option" where
  "activityDetails pf e = (let p = payload e in
     if isComputerEventPayload pf p then
       json_stringify pf (JObj [(lit ''tool'', fld p ''tool''), (lit ''phase'', fld p ''phase''),
         (lit ''terminal_status'', fld p ''terminal_status''), (lit ''result'', fld p ''result''),
         (lit ''display'', displayed_model pf p), (lit ''source_references'', fld p ''source_references'')])
     else if starts_with ''tool.'' (ev_type e) then
       json_stringify pf (JObj [(lit ''display'',
         JObj [(lit ''status'', JStr (lit ''unsupported_lifecycle_version''))])])
     else chat_compactPayload pf (payload_record p))"

definition chat_event_labels :: "(string \<times> string) list" where
  "chat_event_labels = [(''agent.started'', ''A helper started work''),
     (''agent.completed'', ''A helper finished''), (''convergence.warning'', ''Ion reconsidered its approach''),
     (''memory.activated'', ''Saved knowledge was used''), (''prediction.created'', ''A forecast was recorded''),
     (''premise.created'', ''An assumption was recorded''), (''task.completed'', ''A task finished''),
     (''task.started'', ''A task started''), (''tool.completed'', ''An action finished''),
     (''tool.failed'', ''An action needs attention''), (''tool.denied'', ''An action was denied''),
     (''tool.interrupted'', ''An action was interrupted''),
     (''tool.outcome_unknown'', ''An action has an uncertain outcome''),
     (''tool.awaiting_approval'', ''An action is awaiting your decision''),
     (''tool.requested'', ''An action was prepared''), (''tool.started'', ''An action started'')]"

definition chat_eventTitle :: "jstring \<Rightarrow> jstring" where
  "chat_eventTitle type = (case table_get chat_event_labels type of
      Some label \<Rightarrow> lit label
    | None \<Rightarrow> join middot (map humanize (split_on 46 type)))"

text \<open>The rows of a section of the activity drawer, newest first.\<close>

definition ActivitySection :: "platform \<Rightarrow> (jstring \<Rightarrow> jstring) \<Rightarrow> event_envelope list \<Rightarrow> (jstring \<times> jstring \<times> jstring option) list" where
  "ActivitySection pf time evs = map (\<lambda>e. (chat_eventTitle (ev_type e), time (occurred_at e), activityDetails pf e))
     (List.rev (slice_last 20 evs))"

section \<open>Project names\<close>

text \<open>
  What the patterns and \<open>toUpperCase\<close> use of the Unicode tables: the code points of the classes
  \<open>L\<close> and \<open>N\<close>, and the upper case of a code unit, which may be longer.
\<close>

record unicode =
  un_word :: "nat \<Rightarrow> bool"
  un_upper :: "code_unit \<Rightarrow> jstring"

text \<open>A word character for \<open>\\b\<close> under the flags \<open>iu\<close>.\<close>

definition word_unit :: "code_unit \<Rightarrow> bool" where
  "word_unit u \<longleftrightarrow> (let n = unat u in 48 \<le> n \<and> n \<le> 57 \<or> 65 \<le> n \<and> n \<le> 90 \<or> n = 95 \<or> 97 \<le> n \<and> n \<le> 122 \<or>
     n = 383 \<or> n = 8490)"

text \<open>White space, an opening quote, one to 120 characters without a closing quote or a line end, a closing quote.\<close>

definition quoted_text :: "code_unit list \<Rightarrow> code_unit list \<Rightarrow> jstring \<Rightarrow> jstring option" where
  "quoted_text opening closing s = (case (s, dropWhile blank s) of
      (w # _, u # r) \<Rightarrow>
        (let q = takeWhile (\<lambda>v. \<not> List.member closing v \<and> v \<noteq> 10) r; rest = drop (length q) r;
             n = length (code_points q) in
         if blank w \<and> List.member opening u \<and> 1 \<le> n \<and> n \<le> 120 \<and> rest \<noteq> [] \<and> List.member closing (hd rest)
         then Some q else None)
    | _ \<Rightarrow> None)"

text \<open>The first match; the two words start with a word character, so \<open>\\b\<close> asks for none before.\<close>

fun find_quoted :: "code_unit list \<Rightarrow> code_unit list \<Rightarrow> bool \<Rightarrow> jstring \<Rightarrow> jstring option" where
  "find_quoted opening closing inside [] = None"
| "find_quoted opening closing inside (u # s) =
     (case (if inside then None
            else first_some (\<lambda>w. Option.bind (strip_word w (u # s)) (quoted_text opening closing)) [''named'', ''called'']) of
        Some q \<Rightarrow> Some q
      | None \<Rightarrow> find_quoted opening closing (word_unit u) s)"

text \<open>\<open>replaceAll\<close> of the code points outside a class by nothing.\<close>

fun keep_points :: "(nat \<Rightarrow> bool) \<Rightarrow> jstring \<Rightarrow> jstring" where
  "keep_points f [] = []"
| "keep_points f [u] = (if f (unat u) then [u] else [])"
| "keep_points f (u # v # s) =
     (if is_lead u \<and> is_trail v
      then (if f (65536 + (unat u - 55296) * 1024 + (unat v - 56320)) then [u, v] else []) @ keep_points f s
      else (if f (unat u) then [u] else []) @ keep_points f (v # s))"

fun split_blank :: "jstring \<Rightarrow> jstring list" where
  "split_blank [] = [[]]"
| "split_blank (u # s) = (if blank u then [] # split_blank s
     else case split_blank s of [] \<Rightarrow> [[u]] | w # ws \<Rightarrow> (u # w) # ws)"

definition name_words :: "unicode \<Rightarrow> jstring \<Rightarrow> jstring list" where
  "name_words un goal = take 6 (filter (\<lambda>w. w \<noteq> [])
     (split_blank (keep_points (\<lambda>n. un_word un n \<or> is_space n \<or> n = 45) (trim goal))))"

definition conciseProjectName :: "unicode \<Rightarrow> jstring \<Rightarrow> jstring" where
  "conciseProjectName un goal = (case find_quoted [34, 8220] [34, 8221] False goal of
      Some q \<Rightarrow> trim q
    | None \<Rightarrow> (case find_quoted [39] [39] False goal of
          Some q \<Rightarrow> trim q
        | None \<Rightarrow> (case join (lit '' '') (name_words un goal) of
              [] \<Rightarrow> []
            | u # name \<Rightarrow> un_upper un u @ name)))"

end
