(* ===== verification/ChatHost.thy ===== *)
theory ChatHost
  imports ChatText
begin

text \<open>
  The chat of the web client, \<open>ui/web/src/features/chat/ChatHost.tsx\<close>: the state of the component,
  the effects that load and stream the transcript, the handlers of the composer and the requests they
  make. As for the terminal application, a request is a task that waits, and the rest of the
  asynchronous function runs when it is settled. Responses have passed the guard of the client; their
  results are taken at the types the component declares for them.
\<close>

section \<open>State\<close>

record submission =
  sb_content :: jstring
  sb_studio :: bool
  sb_pathname :: jstring

text \<open>\<open>ch_epoch\<close> numbers the runs of the effect on the session, of which only the last is not disposed.\<close>

record chat =
  ch_draft :: jstring
  ch_messages :: "chat_message list"
  ch_reasoning :: "jstring dict"
  ch_queue :: "submission list"
  ch_busy :: bool
  ch_details :: bool
  ch_notice :: "jstring option"
  ch_seen :: "jstring list"
  ch_epoch :: nat
  ch_responding :: "jstring option"

definition initial_chat :: chat where
  "initial_chat = \<lparr>ch_draft = [], ch_messages = [], ch_reasoning = [], ch_queue = [], ch_busy = False,
     ch_details = False, ch_notice = None, ch_seen = [], ch_epoch = 0, ch_responding = None\<rparr>"

text \<open>What the component reads from outside: the operator context, its mode and the location.\<close>

record chat_ctx =
  cx_session :: "jstring option"
  cx_operator :: operator_state
  cx_studio :: bool
  cx_pathname :: jstring

text \<open>
  The browser: the texts of its own errors and the Unicode tables.
\<close>

record chat_env =
  ce_engine :: "js_error \<Rightarrow> jstring"
  ce_unicode :: unicode

fun chat_error :: "chat_env \<Rightarrow> js_error \<Rightarrow> jstring" where
  "chat_error env (Error m) = m"
| "chat_error env e = ce_engine env e"

datatype 'a reply = Rejected js_error | Refused jstring | Answered "'a option"

record edit =
  ed_replacement :: "jstring option"
  ed_studio :: bool
  ed_pathname :: jstring

datatype chat_task =
    Resume nat
  | NewSession jstring submission
  | NewProject jstring submission jstring
  | ProjectsShown jstring jstring jstring
  | SubmitMessage jstring
  | ListShown jstring "jstring option"
  | Branch edit
  | SubmitEdit
  | Steer
  | Retry
  | Cancel
  | Respond

datatype chat_effect =
    Ask chat_task call
  | Invalidate chat_task "string list"
  | SetSession jstring
  | Navigate jstring

type_synonym chat_result = "chat \<times> chat_effect list"

definition scope_of :: "jstring option \<Rightarrow> jsval" where
  "scope_of session = (case session of None \<Rightarrow> JUndef | Some i \<Rightarrow> JStr i)"

section \<open>What a render derives\<close>

definition scopedEvents :: "chat_ctx \<Rightarrow> event_envelope list" where
  "scopedEvents cx = filter (\<lambda>e. cx_session cx \<noteq> None \<and> c_session_id (correlation e) = cx_session cx)
     (recent_events (cx_operator cx))"

definition chat_runningTurns :: "chat_ctx \<Rightarrow> turn_state list" where
  "chat_runningTurns cx = filter (\<lambda>t. (ts_status t = Running \<or> ts_status t = Recovering) \<and>
     cx_session cx \<noteq> None \<and> ts_session_id t = cx_session cx) (dict_values (turns (cx_operator cx)))"

definition retryableTurns :: "chat_ctx \<Rightarrow> turn_state list" where
  "retryableTurns cx = sort_key ts_last_sequence (filter (\<lambda>t.
     (ts_status t = Failed \<or> ts_status t = Incomplete \<or> ts_status t = Interrupted) \<and>
     cx_session cx \<noteq> None \<and> ts_session_id t = cx_session cx) (dict_values (turns (cx_operator cx))))"

definition visibleTurnIDs :: "chat \<Rightarrow> jstring list" where
  "visibleTurnIDs s = concat (map (\<lambda>m. case cm_turn m of None \<Rightarrow> [] | Some t \<Rightarrow> [t]) (ch_messages s))"

definition toolEvents :: "chat_ctx \<Rightarrow> event_envelope list" where
  "toolEvents cx = filter (\<lambda>e. starts_with ''tool.'' (ev_type e)) (scopedEvents cx)"

definition epistemicEvents :: "chat_ctx \<Rightarrow> event_envelope list" where
  "epistemicEvents cx = filter (\<lambda>e. starts_with ''premise.'' (ev_type e) \<or> starts_with ''prediction.'' (ev_type e) \<or>
     ev_type e = lit ''convergence.warning'') (scopedEvents cx)"

definition taskEvents :: "chat_ctx \<Rightarrow> event_envelope list" where
  "taskEvents cx = filter (\<lambda>e. starts_with ''task.'' (ev_type e) \<or> starts_with ''agent.'' (ev_type e)) (scopedEvents cx)"

definition terminalEvents :: "chat_ctx \<Rightarrow> event_envelope list" where
  "terminalEvents cx = filter isTerminalTurnEvent (scopedEvents cx)"

definition activityCount :: "chat_ctx \<Rightarrow> nat" where
  "activityCount cx = length (toolEvents cx) + length (epistemicEvents cx) + length (taskEvents cx)"

definition chat_isEmpty :: "chat_ctx \<Rightarrow> chat \<Rightarrow> bool" where
  "chat_isEmpty cx s \<longleftrightarrow> ch_messages s = [] \<and> chat_runningTurns cx = []"

text \<open>The turns whose reasoning is shown on its own, while they have no message yet.\<close>

definition live_progress :: "chat_ctx \<Rightarrow> chat \<Rightarrow> jstring list" where
  "live_progress cx s = concat (map (\<lambda>t. if List.member (visibleTurnIDs s) (ts_id t) then []
     else case dict_get (ch_reasoning s) (ts_id t) of
         None \<Rightarrow> [] | Some r \<Rightarrow> if trim r = [] then [] else [r]) (chat_runningTurns cx))"

section \<open>The transcript\<close>

datatype role = RoleSystem | RoleUser | RoleAssistant | RoleTool
datatype memory_type = Transcript | Summary | ToolEvent

record resumed_message =
  rm_id :: jstring
  rm_role :: role
  rm_memory :: "memory_type option"
  rm_turn :: "jstring option"
  rm_content :: jstring
  rm_created :: jstring

definition durable_messages :: "resumed_message list \<Rightarrow> chat_message list" where
  "durable_messages ms = map (\<lambda>m. \<lparr>cm_id = rm_id m, cm_user = (rm_role m = RoleUser), cm_content = rm_content m,
       cm_created = Some (rm_created m), cm_turn = rm_turn m\<rparr>)
     (filter (\<lambda>m. (rm_memory m = None \<or> rm_memory m = Some Transcript) \<and>
       (rm_role m = RoleUser \<or> rm_role m = RoleAssistant)) ms)"

definition durable_reasoning :: "resumed_message list \<Rightarrow> jstring dict" where
  "durable_reasoning ms = foldl (\<lambda>d m. case rm_turn m of
      None \<Rightarrow> d
    | Some t \<Rightarrow> if rm_memory m \<noteq> Some Summary \<or> trim (rm_content m) = [] then d else dict_put t (rm_content m) d) [] ms"

definition resumed :: "resumed_message list reply \<Rightarrow> nat \<Rightarrow> chat \<Rightarrow> chat" where
  "resumed r epoch s = (if epoch \<noteq> ch_epoch s then s
     else case r of
         Rejected _ \<Rightarrow> s
       | Refused _ \<Rightarrow> s
       | Answered result \<Rightarrow> (let ms = (case result of None \<Rightarrow> [] | Some ms \<Rightarrow> ms) in
           s\<lparr>ch_messages := mergeMessages (durable_messages ms) (ch_messages s),
             ch_reasoning := foldl (\<lambda>d (k, v). dict_put k v d) (durable_reasoning ms) (ch_reasoning s)\<rparr>))"

definition session_effect :: "jstring option \<Rightarrow> chat \<Rightarrow> chat_result" where
  "session_effect session s =
     (let s = s\<lparr>ch_seen := [], ch_messages := [], ch_reasoning := [], ch_notice := None, ch_epoch := Suc (ch_epoch s)\<rparr> in
      (s, case session of
          None \<Rightarrow> []
        | Some i \<Rightarrow> [Ask (Resume (ch_epoch s)) (command_call ''session.resume'' (JObj []) (JStr i))]))"

definition stream_reasoning :: "bool \<Rightarrow> bool \<Rightarrow> jstring option \<Rightarrow> jstring \<Rightarrow> jstring dict \<Rightarrow> jstring dict" where
  "stream_reasoning reset replace content turnID d =
     (if reset then dict_del turnID d
      else if replace then (case content of
          None \<Rightarrow> dict_del turnID d
        | Some c \<Rightarrow> if c = [] then dict_del turnID d else dict_put turnID c d)
      else case content of
          None \<Rightarrow> d
        | Some c \<Rightarrow> dict_put turnID
            (appendStreamText (case dict_get d turnID of None \<Rightarrow> [] | Some r \<Rightarrow> r) c) d)"

definition message_id :: "jstring \<Rightarrow> jstring" where
  "message_id turnID = lit ''turn:'' @ turnID"

definition stream_message ::
    "bool \<Rightarrow> bool \<Rightarrow> jstring option \<Rightarrow> jstring \<Rightarrow> jstring \<Rightarrow> chat_message list \<Rightarrow> chat_message list" where
  "stream_message reset replace content turnID occurred ms =
     (if reset then filter (\<lambda>m. cm_id m \<noteq> message_id turnID) ms
      else case content of
          None \<Rightarrow> ms
        | Some c \<Rightarrow> if c = [] then ms
            else case index_of (message_id turnID) (map cm_id ms) of
                None \<Rightarrow> ms @ [\<lparr>cm_id = message_id turnID, cm_user = False, cm_content = c,
                  cm_created = Some occurred, cm_turn = Some turnID\<rparr>]
              | Some i \<Rightarrow> ms[i := (ms ! i)\<lparr>cm_content := if replace then c else cm_content (ms ! i) @ c\<rparr>])"

definition event_turn :: "event_envelope \<Rightarrow> jstring" where
  "event_turn e = (case c_turn_id (correlation e) of None \<Rightarrow> event_id e | Some t \<Rightarrow> t)"

definition streams :: "event_envelope \<Rightarrow> bool" where
  "streams e \<longleftrightarrow> ev_type e = lit ''turn.delta'' \<or> ev_type e = lit ''reasoning.summary''"

definition chat_stream_event :: "event_envelope \<Rightarrow> chat \<Rightarrow> chat" where
  "chat_stream_event e s0 =
     (if \<not> streams e \<or> List.member (ch_seen s0) (event_id e) then s0
      else let s = s0\<lparr>ch_seen := event_id e # ch_seen s0\<rparr>; turnID = event_turn e; p = payload e;
               reset = (record_fld p ''reset'' = JBool True); replace = (record_fld p ''replace'' = JBool True);
               content = as_str (record_fld p ''content'') in
        if ev_type e = lit ''reasoning.summary'' then
          (if record_fld p ''source'' \<noteq> JStr (lit ''safe_summary'') then s
           else s\<lparr>ch_reasoning := stream_reasoning reset replace content turnID (ch_reasoning s)\<rparr>)
        else s\<lparr>ch_messages := stream_message reset replace content turnID (occurred_at e) (ch_messages s)\<rparr>)"

definition chat_stream_effect :: "chat_ctx \<Rightarrow> chat \<Rightarrow> chat" where
  "chat_stream_effect cx s = fold chat_stream_event (scopedEvents cx) s"

section \<open>Sending\<close>

definition chat_fail :: "jstring \<Rightarrow> chat \<Rightarrow> chat_result" where
  "chat_fail message s = (s\<lparr>ch_notice := Some message, ch_busy := False\<rparr>, [])"

text \<open>The turn.submit command of a message and of an edited message.\<close>

definition turn_call :: "jstring \<Rightarrow> bool \<Rightarrow> jstring option \<Rightarrow> jstring \<Rightarrow> call" where
  "turn_call content studio project session = command_call ''turn.submit''
     (JObj ([(lit ''content'', JStr content), (lit ''surface'', JStr (lit (if studio then ''studio'' else ''general'')))] @
       (case project of None \<Rightarrow> [] | Some i \<Rightarrow> [(lit ''project_id'', JStr i)]))) (JStr session)"

definition project_call :: "chat_env \<Rightarrow> jstring \<Rightarrow> call" where
  "project_call env content = (let name = conciseProjectName (ce_unicode env) content in
     command_call ''project.create'' (JObj [(lit ''name'', JStr (if name = [] then lit ''Untitled project'' else name)),
       (lit ''template'', JStr (lit ''empty'')), (lit ''host'', JStr (lit ''direct_local'')),
       (lit ''trust'', JStr (lit ''reviewed''))]) JUndef)"

text \<open>\<open>send\<close> once the session is known.\<close>

definition send_in :: "chat_env \<Rightarrow> jstring \<Rightarrow> submission \<Rightarrow> jstring \<Rightarrow> chat \<Rightarrow> chat_result" where
  "send_in env content sub session s =
     (if \<not> sb_studio sub then (s, [Ask (SubmitMessage content) (turn_call content False None session)])
      else case studioProjectID (sb_pathname sub) of
          Some i \<Rightarrow> (s, [Ask (SubmitMessage content) (turn_call content True (Some i) session)])
        | None \<Rightarrow> if sb_pathname sub \<noteq> lit ''/studio''
            then chat_fail (lit ''This Studio location is not bound to a project.'') s
            else (s, [Ask (NewProject content sub session) (project_call env content)]))"

definition chat_send :: "chat_env \<Rightarrow> chat_ctx \<Rightarrow> jstring \<Rightarrow> submission \<Rightarrow> chat \<Rightarrow> chat_result" where
  "chat_send env cx content sub s0 =
     (let s = s0\<lparr>ch_busy := True, ch_notice := None\<rparr> in
      case cx_session cx of
        None \<Rightarrow> (s, [Ask (NewSession content sub) (command_call ''session.create'' (JObj []) JUndef)])
      | Some session \<Rightarrow> send_in env content sub session s)"

text \<open>\<open>response.error !== undefined || response.result?.id === undefined\<close>, with the message that is thrown.\<close>

definition identified :: "chat_env \<Rightarrow> string \<Rightarrow> jstring reply \<Rightarrow> jstring + jstring" where
  "identified env fallback r = (case r of
      Rejected err \<Rightarrow> Inl (chat_error env err)
    | Refused m \<Rightarrow> Inl m
    | Answered None \<Rightarrow> Inl (lit fallback)
    | Answered (Some i) \<Rightarrow> Inr i)"

definition session_created :: "chat_env \<Rightarrow> jstring \<Rightarrow> submission \<Rightarrow> jstring reply \<Rightarrow> chat \<Rightarrow> chat_result" where
  "session_created env content sub r s = (case identified env ''I could not start a new conversation.'' r of
      Inl m \<Rightarrow> chat_fail m s
    | Inr session \<Rightarrow> (let (s', es) = send_in env content sub session s in (s', SetSession session # es)))"

definition project_created :: "chat_env \<Rightarrow> jstring \<Rightarrow> submission \<Rightarrow> jstring \<Rightarrow> jstring reply \<Rightarrow> chat \<Rightarrow> chat_result" where
  "project_created env content sub session r s = (case identified env ''The Studio project could not be created.'' r of
      Inl m \<Rightarrow> chat_fail m s
    | Inr project \<Rightarrow> (s, [Invalidate (ProjectsShown content session project) [''studio'', ''projects'']]))"

definition projects_shown :: "jstring \<Rightarrow> jstring \<Rightarrow> jstring \<Rightarrow> chat \<Rightarrow> chat_result" where
  "projects_shown content session project s =
     (s, [Navigate (lit ''/studio/'' @ project), Ask (SubmitMessage content) (turn_call content True (Some project) session)])"

definition message_submitted :: "chat_env \<Rightarrow> jstring \<Rightarrow> jstring reply \<Rightarrow> chat \<Rightarrow> chat_result" where
  "message_submitted env content r s = (case r of
      Rejected err \<Rightarrow> chat_fail (chat_error env err) s
    | Refused m \<Rightarrow> chat_fail m s
    | Answered turn \<Rightarrow> (s, [Invalidate (ListShown content turn) [''session.list'']]))"

text \<open>The continuation takes the time and, when there is no turn, a random identifier.\<close>

definition list_shown :: "jstring \<Rightarrow> jstring \<Rightarrow> jstring \<Rightarrow> jstring option \<Rightarrow> chat \<Rightarrow> chat_result" where
  "list_shown now fresh content turn s =
     (s\<lparr>ch_messages := ch_messages s @ [\<lparr>cm_id = lit ''local:'' @ (case turn of None \<Rightarrow> fresh | Some t \<Rightarrow> t),
          cm_user = True, cm_content = content, cm_created = Some now, cm_turn = None\<rparr>],
        ch_draft := [], ch_busy := False\<rparr>, [])"

text \<open>
  The effect on the queue. It runs again when it changed the queue, so it sends until a message waits for
  an answer; a message that fails at once leaves the composer free for the next.
\<close>

fun chat_send_queued :: "chat_env \<Rightarrow> chat_ctx \<Rightarrow> submission list \<Rightarrow> chat \<Rightarrow> chat_result" where
  "chat_send_queued env cx [] s = (s, [])"
| "chat_send_queued env cx (sub # remaining) s =
     (if chat_runningTurns cx \<noteq> [] \<or> ch_busy s then (s, [])
      else let (s1, es1) = chat_send env cx (sb_content sub) sub (s\<lparr>ch_queue := remaining\<rparr>);
               (s2, es2) = chat_send_queued env cx remaining s1
           in (s2, es1 @ es2))"

definition chat_queue_effect :: "chat_env \<Rightarrow> chat_ctx \<Rightarrow> chat \<Rightarrow> chat_result" where
  "chat_queue_effect env cx s = chat_send_queued env cx (ch_queue s) s"

definition submission_of :: "chat_ctx \<Rightarrow> jstring \<Rightarrow> submission" where
  "submission_of cx content = \<lparr>sb_content = content, sb_studio = cx_studio cx, sb_pathname = cx_pathname cx\<rparr>"

definition chat_submit :: "chat_env \<Rightarrow> chat_ctx \<Rightarrow> chat \<Rightarrow> chat_result" where
  "chat_submit env cx s = (let content = trim (ch_draft s) in
     if content = [] then (s, [])
     else if chat_runningTurns cx \<noteq> [] \<or> ch_busy s then
       (s\<lparr>ch_queue := ch_queue s @ [submission_of cx content], ch_draft := [],
          ch_notice := Some (lit ''Added to the queue. Ion will start it next.'')\<rparr>, [])
     else chat_send env cx content (submission_of cx content) s)"

section \<open>Other requests\<close>

definition branch_payload :: "chat_message \<Rightarrow> jstring option \<Rightarrow> jstring option \<Rightarrow> jsval" where
  "branch_payload message replacement previous = JObj (case replacement of
      None \<Rightarrow> if chat_isUUID (cm_id message) then [(lit ''through_message_id'', JStr (cm_id message))] else []
    | Some _ \<Rightarrow> (case previous of
          None \<Rightarrow> [(lit ''copy_messages'', JBool False)]
        | Some i \<Rightarrow> [(lit ''through_message_id'', JStr i)]))"

definition branchFrom :: "chat_ctx \<Rightarrow> chat_message \<Rightarrow> jstring option \<Rightarrow> jstring option \<Rightarrow> chat \<Rightarrow> chat_result" where
  "branchFrom cx message replacement previous s = (case cx_session cx of
      None \<Rightarrow> (s, [])
    | Some session \<Rightarrow> if ch_busy s then (s, [])
        else (s\<lparr>ch_busy := True, ch_notice := None\<rparr>,
          [Ask (Branch \<lparr>ed_replacement = replacement, ed_studio = cx_studio cx, ed_pathname = cx_pathname cx\<rparr>)
            (command_call ''session.branch'' (branch_payload message replacement previous) (JStr session))]))"

text \<open>The edit of the message at an index: the branch ends at the nearest stored message before it.\<close>

definition edit_message :: "chat_ctx \<Rightarrow> nat \<Rightarrow> jstring \<Rightarrow> chat \<Rightarrow> chat_result" where
  "edit_message cx i replacement s = (case (drop i (ch_messages s), trim replacement) of
      (message # _, u # text) \<Rightarrow> branchFrom cx message (Some (u # text))
        (map_option cm_id (find (\<lambda>m. chat_isUUID (cm_id m)) (List.rev (take i (ch_messages s))))) s
    | _ \<Rightarrow> (s, []))"

definition branched :: "chat_env \<Rightarrow> edit \<Rightarrow> jstring reply \<Rightarrow> chat \<Rightarrow> chat_result" where
  "branched env ed r s = (case identified env ''I could not fork this conversation.'' r of
      Inl m \<Rightarrow> chat_fail m s
    | Inr session \<Rightarrow> (case ed_replacement ed of
          None \<Rightarrow> (s\<lparr>ch_notice := Some (lit ''Forked into a new conversation.''), ch_busy := False\<rparr>, [SetSession session])
        | Some replacement \<Rightarrow>
            (let project = (if ed_studio ed then studioProjectID (ed_pathname ed) else None) in
             if ed_studio ed \<and> project = None then
               (s\<lparr>ch_notice := Some (lit ''Open a registered Studio project before editing this turn.''), ch_busy := False\<rparr>,
                [SetSession session])
             else (s, [SetSession session, Ask SubmitEdit (turn_call replacement (ed_studio ed) project session)]))))"

definition concluded :: "chat_env \<Rightarrow> jstring \<Rightarrow> 'a reply \<Rightarrow> chat \<Rightarrow> chat_result" where
  "concluded env notice r s = (case r of
      Rejected err \<Rightarrow> chat_fail (chat_error env err) s
    | Refused m \<Rightarrow> chat_fail m s
    | Answered _ \<Rightarrow> chat_fail notice s)"

definition cancelLatest :: "chat_ctx \<Rightarrow> chat_effect list" where
  "cancelLatest cx = (case (chat_runningTurns cx, cx_session cx) of
      (t # ts, Some session) \<Rightarrow> [Ask Cancel (command_call ''turn.cancel''
        (JObj [(lit ''turn_id'', JStr (ts_id (last (t # ts))))]) (JStr session))]
    | _ \<Rightarrow> [])"

definition cancelled :: "jstring reply \<Rightarrow> chat \<Rightarrow> chat" where
  "cancelled r s = (case r of
      Rejected _ \<Rightarrow> s
    | Refused m \<Rightarrow> s\<lparr>ch_notice := Some m\<rparr>
    | Answered _ \<Rightarrow> s\<lparr>ch_notice := Some (lit ''Stopping the current response'' @ ellipsis)\<rparr>)"

definition steerLatest :: "platform \<Rightarrow> chat_ctx \<Rightarrow> chat \<Rightarrow> chat_result" where
  "steerLatest pf cx s = (let content = trim (ch_draft s) in
     case (chat_runningTurns cx, cx_session cx) of
       (t # ts, Some session) \<Rightarrow>
         if content = [] \<or> ch_busy s then (s, [])
         else (let turnID = ts_id (last (t # ts)) in
           case currentSteerTarget pf turnID (scopedEvents cx) of
             None \<Rightarrow> (s\<lparr>ch_notice :=
               Some (lit ''Live execution evidence is still catching up. Try steering again in a moment.'')\<rparr>, [])
           | Some target \<Rightarrow> (s\<lparr>ch_busy := True, ch_notice := None\<rparr>, [Ask Steer (command_call ''turn.steer''
               (JObj [(lit ''turn_id'', JStr turnID), (lit ''content'', JStr content), (lit ''target'', target)])
               (JStr session))]))
     | _ \<Rightarrow> (s, []))"

definition steered :: "chat_env \<Rightarrow> jstring reply \<Rightarrow> chat \<Rightarrow> chat_result" where
  "steered env r s = concluded env (lit ''Ion is adjusting to your new direction.'') r
     (case r of Answered _ \<Rightarrow> s\<lparr>ch_draft := []\<rparr> | _ \<Rightarrow> s)"

definition retryLatest :: "chat_ctx \<Rightarrow> chat \<Rightarrow> chat_result" where
  "retryLatest cx s = (case (retryableTurns cx, cx_session cx) of
      (t # ts, Some session) \<Rightarrow>
        if chat_runningTurns cx \<noteq> [] \<or> ch_busy s then (s, [])
        else (s\<lparr>ch_busy := True, ch_notice := None\<rparr>, [Ask Retry (command_call ''turn.retry''
          (JObj [(lit ''turn_id'', JStr (ts_id (last (t # ts))))]) (JStr session))])
    | _ \<Rightarrow> (s, []))"

section \<open>Approvals\<close>

definition stack_approvals :: "chat_ctx \<Rightarrow> approval_state list" where
  "stack_approvals cx = filter (\<lambda>a. cx_session cx = None \<or> ap_session_id a = cx_session cx)
     (dict_values (pending_approvals (cx_operator cx)))"

definition respond :: "chat_ctx \<Rightarrow> jstring \<Rightarrow> bool \<Rightarrow> chat \<Rightarrow> chat_result" where
  "respond cx approvalID approve s = (s\<lparr>ch_responding := Some approvalID\<rparr>,
     [Ask Respond (command_call ''approval.respond''
       (JObj [(lit ''approval_id'', JStr approvalID), (lit ''decision'', JStr (lit (if approve then ''approve'' else ''deny'')))])
       (scope_of (Option.bind (find (\<lambda>a. ap_id a = approvalID) (stack_approvals cx)) ap_session_id)))])"

definition responded :: "jstring reply \<Rightarrow> chat \<Rightarrow> chat" where
  "responded r s = (case r of Rejected _ \<Rightarrow> s | _ \<Rightarrow> s\<lparr>ch_responding := None\<rparr>)"

section \<open>The component\<close>

record chat_app =
  cp_ctx :: chat_ctx
  cp_state :: chat
  cp_session_dep :: "jstring option option"
  cp_stream_dep :: "(int \<times> jstring option) option"
  cp_waiting :: "chat_task list"

text \<open>
  What happens to the component: input of the user, the event that fills in a draft, the settling of a
  request, the end of a refetch, and a change of what it reads from outside.
\<close>

datatype chat_input =
    Typed jstring
  | SubmitPressed
  | Prefill jsval
  | ToggleDetails
  | CloseDetails
  | CancelPressed
  | SteerPressed
  | RetryPressed
  | ForkPressed nat
  | EditSent nat jstring
  | Decided jstring bool
  | ReplyTo chat_task "jstring reply"
  | Resumed nat "resumed_message list reply"
  | Refreshed chat_task jstring jstring
  | Outside chat_ctx

definition prefill :: "jsval \<Rightarrow> chat \<Rightarrow> chat" where
  "prefill v s = (case v of JStr p \<Rightarrow> if trim p = [] then s else s\<lparr>ch_draft := p\<rparr> | _ \<Rightarrow> s)"

fun replied :: "chat_env \<Rightarrow> chat_task \<Rightarrow> jstring reply \<Rightarrow> chat \<Rightarrow> chat_result" where
  "replied env (NewSession content sub) r s = session_created env content sub r s"
| "replied env (NewProject content sub session) r s = project_created env content sub session r s"
| "replied env (SubmitMessage content) r s = message_submitted env content r s"
| "replied env (Branch ed) r s = branched env ed r s"
| "replied env SubmitEdit r s = concluded env (lit ''Your edit is running in a new conversation.'') r s"
| "replied env Steer r s = steered env r s"
| "replied env Retry r s = concluded env (lit ''Trying that request again'' @ ellipsis) r s"
| "replied env Cancel r s = (cancelled r s, [])"
| "replied env Respond r s = (responded r s, [])"
| "replied env _ r s = (s, [])"

fun refreshed :: "chat_task \<Rightarrow> jstring \<Rightarrow> jstring \<Rightarrow> chat \<Rightarrow> chat_result" where
  "refreshed (ProjectsShown content session project) now fresh s = projects_shown content session project s"
| "refreshed (ListShown content turn) now fresh s = list_shown now fresh content turn s"
| "refreshed _ now fresh s = (s, [])"

fun chat_handle :: "chat_env \<Rightarrow> platform \<Rightarrow> chat_input \<Rightarrow> chat_ctx \<Rightarrow> chat \<Rightarrow> chat_result" where
  "chat_handle env pf (Typed value) cx s = (s\<lparr>ch_draft := value\<rparr>, [])"
| "chat_handle env pf SubmitPressed cx s = chat_submit env cx s"
| "chat_handle env pf (Prefill v) cx s = (prefill v s, [])"
| "chat_handle env pf ToggleDetails cx s = (s\<lparr>ch_details := \<not> ch_details s\<rparr>, [])"
| "chat_handle env pf CloseDetails cx s = (s\<lparr>ch_details := False\<rparr>, [])"
| "chat_handle env pf CancelPressed cx s = (s, cancelLatest cx)"
| "chat_handle env pf SteerPressed cx s = steerLatest pf cx s"
| "chat_handle env pf RetryPressed cx s = retryLatest cx s"
| "chat_handle env pf (ForkPressed i) cx s = (case drop i (ch_messages s) of
      [] \<Rightarrow> (s, []) | message # _ \<Rightarrow> branchFrom cx message None None s)"
| "chat_handle env pf (EditSent i replacement) cx s = edit_message cx i replacement s"
| "chat_handle env pf (Decided approvalID approve) cx s = respond cx approvalID approve s"
| "chat_handle env pf (ReplyTo task r) cx s = replied env task r s"
| "chat_handle env pf (Resumed epoch r) cx s = (resumed r epoch s, [])"
| "chat_handle env pf (Refreshed task now fresh) cx s = refreshed task now fresh s"
| "chat_handle env pf (Outside _) cx s = (s, [])"

fun asked :: "chat_effect list \<Rightarrow> chat_task list" where
  "asked [] = []"
| "asked (Ask task _ # es) = task # asked es"
| "asked (Invalidate task _ # es) = task # asked es"
| "asked (_ # es) = asked es"

fun moved :: "chat_effect list \<Rightarrow> chat_ctx \<Rightarrow> chat_ctx" where
  "moved [] cx = cx"
| "moved (SetSession i # es) cx = moved es (cx\<lparr>cx_session := Some i\<rparr>)"
| "moved (Navigate path # es) cx = moved es (cx\<lparr>cx_pathname := path\<rparr>)"
| "moved (_ # es) cx = moved es cx"

text \<open>
  The effects of a render, in the order of the source. The first two change nothing the third reads, and
  none changes what the first two depend on.
\<close>

definition chat_after_render :: "chat_env \<Rightarrow> chat_ctx \<Rightarrow> jstring option option \<Rightarrow> (int \<times> jstring option) option \<Rightarrow> chat \<Rightarrow> chat_result" where
  "chat_after_render env cx session_dep stream_dep s =
     (let (s1, es1) = (if session_dep = Some (cx_session cx) then (s, []) else session_effect (cx_session cx) s);
          s2 = (if stream_dep = Some (last_sequence (cx_operator cx), cx_session cx) then s1 else chat_stream_effect cx s1);
          (s3, es3) = chat_queue_effect env cx s2
      in (s3, es1 @ es3))"

text \<open>What can happen: only a request that waits is settled, in the way it can be.\<close>

fun chat_can_happen :: "chat_input \<Rightarrow> chat_app \<Rightarrow> bool" where
  "chat_can_happen (ReplyTo task r) app = (task \<in> set (cp_waiting app) \<and>
     (case task of Resume _ \<Rightarrow> False | ProjectsShown _ _ _ \<Rightarrow> False | ListShown _ _ \<Rightarrow> False | _ \<Rightarrow> True))"
| "chat_can_happen (Resumed epoch r) app = (Resume epoch \<in> set (cp_waiting app))"
| "chat_can_happen (Refreshed task now fresh) app = (task \<in> set (cp_waiting app) \<and>
     (case task of ProjectsShown _ _ _ \<Rightarrow> True | ListShown _ _ \<Rightarrow> True | _ \<Rightarrow> False))"
| "chat_can_happen _ app = True"

fun settles :: "chat_input \<Rightarrow> chat_task list" where
  "settles (ReplyTo task r) = [task]"
| "settles (Resumed epoch r) = [Resume epoch]"
| "settles (Refreshed task now fresh) = [task]"
| "settles _ = []"

definition rendered :: "chat_ctx \<Rightarrow> chat \<Rightarrow> chat_task list \<Rightarrow> chat_app" where
  "rendered cx s waiting = \<lparr>cp_ctx = cx, cp_state = s, cp_session_dep = Some (cx_session cx),
     cp_stream_dep = Some (last_sequence (cx_operator cx), cx_session cx), cp_waiting = waiting\<rparr>"

definition chat_step :: "chat_env \<Rightarrow> platform \<Rightarrow> chat_input \<Rightarrow> chat_app \<Rightarrow> chat_app \<times> chat_effect list" where
  "chat_step env pf i app =
     (if \<not> chat_can_happen i app then (app, [])
      else let cx0 = (case i of Outside cx \<Rightarrow> cx | _ \<Rightarrow> cp_ctx app);
               (s1, es1) = chat_handle env pf i cx0 (cp_state app);
               cx = moved es1 cx0;
               (s2, es2) = chat_after_render env cx (cp_session_dep app) (cp_stream_dep app) s1
           in (rendered cx s2 (foldr remove1 (settles i) (cp_waiting app) @ asked (es1 @ es2)), es1 @ es2))"

definition chat_mount :: "chat_env \<Rightarrow> chat_ctx \<Rightarrow> chat_app \<times> chat_effect list" where
  "chat_mount env cx = (let (s, es) = chat_after_render env cx None None initial_chat in (rendered cx s (asked es), es))"

fun chat_run :: "chat_env \<Rightarrow> platform \<Rightarrow> chat_input list \<Rightarrow> chat_app \<Rightarrow> chat_app \<times> chat_effect list" where
  "chat_run env pf [] app = (app, [])"
| "chat_run env pf (i # ins) app =
     (let (app1, es1) = chat_step env pf i app; (app2, es2) = chat_run env pf ins app1 in (app2, es1 @ es2))"

text \<open>A browser to evaluate examples on.\<close>

definition example_chat :: chat_env where
  "example_chat = \<lparr>ce_engine = (\<lambda>_. lit ''failed''), ce_unicode = \<lparr>un_word = (\<lambda>_. True), un_upper = (\<lambda>u. [u])\<rparr>\<rparr>"

end
