(* ===== verification/ChatProperties.thy ===== *)
theory ChatProperties
  imports ChatHost OperatorInvariants
begin

text \<open>
  Properties of the chat: one request of the composer at a time, messages sent in the order they were
  typed, and the streamed transcript.
\<close>

section \<open>The composer\<close>

text \<open>The tasks during which the composer is busy, and the message a task has still to send.\<close>

fun holds_busy :: "chat_task \<Rightarrow> bool" where
  "holds_busy (Resume _) = False"
| "holds_busy Cancel = False"
| "holds_busy Respond = False"
| "holds_busy _ = True"

fun unsent :: "chat_task \<Rightarrow> jstring list" where
  "unsent (NewSession content sub) = [content]"
| "unsent (NewProject content sub session) = [content]"
| "unsent (ProjectsShown content session project) = [content]"
| "unsent _ = []"

definition chat_creating :: "chat_task list \<Rightarrow> jstring list" where
  "chat_creating ts = concat (map unsent ts)"

text \<open>The messages on the wire, in order.\<close>

fun wire_of :: "chat_effect \<Rightarrow> jstring list" where
  "wire_of (Ask (SubmitMessage content) _) = [content]"
| "wire_of _ = []"

definition chat_wire :: "chat_effect list \<Rightarrow> jstring list" where
  "chat_wire es = concat (map wire_of es)"

definition one_holds :: "chat \<Rightarrow> chat_task list \<Rightarrow> bool" where
  "one_holds s ts \<longleftrightarrow> length (filter holds_busy ts) = (if ch_busy s then 1 else 0)"

definition unfinished :: "chat \<Rightarrow> chat_task list \<Rightarrow> jstring list" where
  "unfinished s ts = chat_creating ts @ map sb_content (ch_queue s)"

text \<open>
  A result of a handler, with the tasks that wait apart from what it asks, that sends or keeps a
  subsequence of the messages \<open>xs\<close>, and all of them when nothing failed.
\<close>

definition conveys :: "bool \<Rightarrow> jstring list \<Rightarrow> chat_task list \<Rightarrow> chat_result \<Rightarrow> bool" where
  "conveys good xs ts r \<longleftrightarrow> (case r of (s, es) \<Rightarrow>
     one_holds s (ts @ asked es) \<and> subseq (chat_wire es @ unfinished s (ts @ asked es)) xs \<and>
     (good \<longrightarrow> chat_wire es @ unfinished s (ts @ asked es) = xs))"

lemma asked_append [simp]: "asked (es @ fs) = asked es @ asked fs"
  by (induction es rule: asked.induct) auto

lemma chat_wire_append [simp]: "chat_wire (es @ fs) = chat_wire es @ chat_wire fs"
  by (simp add: chat_wire_def)

lemma chat_creating_append [simp]: "chat_creating (ts @ us) = chat_creating ts @ chat_creating us"
  by (simp add: chat_creating_def)

lemma chat_simps [simp]:
  "chat_creating [] = []" "chat_creating (t # ts) = unsent t @ chat_creating ts"
  "chat_wire [] = []" "chat_wire (e # es) = wire_of e @ chat_wire es"
  by (simp_all add: chat_creating_def chat_wire_def)

lemma unsent_holds: "unsent t \<noteq> [] \<Longrightarrow> holds_busy t"
  by (cases t) auto

lemma no_holder_creates: "filter holds_busy ts = [] \<Longrightarrow> chat_creating ts = []"
proof (induction ts)
  case (Cons t ts)
  then show ?case using unsent_holds [of t] by (auto split: if_splits)
qed simp

lemma idle_creates: "one_holds s ts \<Longrightarrow> \<not> ch_busy s \<Longrightarrow> chat_creating ts = []"
  by (rule no_holder_creates) (simp add: one_holds_def)

text \<open>The task whose request is settled was the one that held the composer.\<close>

lemma settled_holder:
  assumes "one_holds s ts" "t \<in> set ts" "holds_busy t"
  shows "ch_busy s" "filter holds_busy (remove1 t ts) = []" "chat_creating (remove1 t ts) = []"
    "chat_creating ts = unsent t"
proof -
  have t: "t \<in> set (filter holds_busy ts)" using assms(2,3) by simp
  with assms(1) have h: "filter holds_busy ts = [t]"
    by (cases "filter holds_busy ts") (auto simp: one_holds_def split: if_splits)
  then show "ch_busy s" using assms(1) by (auto simp: one_holds_def split: if_splits)
  have "filter holds_busy (remove1 t ts) = remove1 t (filter holds_busy ts)" by (simp add: filter_remove1)
  then show none: "filter holds_busy (remove1 t ts) = []" using h by simp
  then show rest: "chat_creating (remove1 t ts) = []" by (rule no_holder_creates)
  obtain us vs where "ts = us @ t # vs" "t \<notin> set us" using assms(2) by (meson split_list_first)
  then show "chat_creating ts = unsent t" using rest by (simp add: remove1_append)
qed

subsection \<open>Sending\<close>

lemma send_in_conveys:
  assumes "ch_busy s" "filter holds_busy ts = []"
  shows "conveys (\<not> sb_studio sub) (content # map sb_content (ch_queue s)) ts (send_in env content sub session s)"
  using assms no_holder_creates [OF assms(2)]
  by (auto simp: conveys_def send_in_def one_holds_def unfinished_def chat_fail_def split: option.splits)

lemma chat_send_conveys:
  assumes "filter holds_busy ts = []"
  shows "conveys (\<not> sb_studio sub) (content # map sb_content (ch_queue s)) ts (chat_send env cx content sub s)"
  using assms no_holder_creates [OF assms] send_in_conveys [of "s\<lparr>ch_busy := True, ch_notice := None\<rparr>" ts sub content env]
  by (auto simp: chat_send_def conveys_def one_holds_def unfinished_def Let_def split: option.splits)

text \<open>A reply that lets the composer go on.\<close>

fun reply_ok :: "chat_task \<Rightarrow> 'a reply \<Rightarrow> bool" where
  "reply_ok (NewSession content sub) r = (\<not> sb_studio sub \<and> (\<exists>i. r = Answered (Some i)))"
| "reply_ok (NewProject content sub session) r = (\<exists>i. r = Answered (Some i))"
| "reply_ok _ r = True"

lemma identified_Inr: "identified env fallback r = Inr i \<longleftrightarrow> r = Answered (Some i)"
  by (auto simp: identified_def split: reply.splits option.splits)

lemma session_created_conveys:
  assumes "ch_busy s" "filter holds_busy ts = []"
  shows "conveys (reply_ok (NewSession content sub) r) (content # map sb_content (ch_queue s)) ts
    (session_created env content sub r s)"
proof (cases "identified env ''I could not start a new conversation.'' r")
  case (Inl m)
  then show ?thesis
    using assms(2) no_holder_creates [OF assms(2)]
    by (auto simp: session_created_def conveys_def chat_fail_def one_holds_def unfinished_def identified_def)
next
  case (Inr i)
  then have "r = Answered (Some i)" by (simp add: identified_Inr)
  then show ?thesis
    using Inr send_in_conveys [OF assms, of sub content env i]
    by (auto simp: session_created_def conveys_def split: prod.splits)
qed

lemma replied_conveys:
  assumes "ch_busy s" "filter holds_busy ts = []" "holds_busy t"
    "\<not> (case t of ProjectsShown _ _ _ \<Rightarrow> True | ListShown _ _ \<Rightarrow> True | _ \<Rightarrow> False)"
  shows "conveys (reply_ok t r) (unsent t @ map sb_content (ch_queue s)) ts (replied env t r s)"
proof (cases t)
  case (NewSession content sub)
  then show ?thesis using session_created_conveys [OF assms(1,2), of content sub r env] by simp
next
  case (NewProject content sub session)
  then show ?thesis
    using assms(1,2) no_holder_creates [OF assms(2)]
    by (cases "identified env ''The Studio project could not be created.'' r")
      (auto simp: project_created_def conveys_def chat_fail_def one_holds_def unfinished_def identified_Inr
        identified_def)
next
  case (Branch ed)
  then show ?thesis
    using assms(1,2) no_holder_creates [OF assms(2)]
    by (auto simp: branched_def conveys_def chat_fail_def one_holds_def unfinished_def Let_def
        split: sum.splits option.splits)
qed (use assms no_holder_creates [OF assms(2)] in \<open>auto simp: message_submitted_def concluded_def steered_def
  conveys_def chat_fail_def one_holds_def unfinished_def split: reply.splits\<close>)

lemma refreshed_conveys:
  assumes "ch_busy s" "filter holds_busy ts = []" "case t of ProjectsShown _ _ _ \<Rightarrow> True | ListShown _ _ \<Rightarrow> True | _ \<Rightarrow> False"
  shows "conveys True (unsent t @ map sb_content (ch_queue s)) ts (refreshed t now fresh s)"
  using assms no_holder_creates [OF assms(2)]
  by (cases t) (auto simp: projects_shown_def list_shown_def conveys_def one_holds_def unfinished_def)

subsection \<open>Handlers\<close>

text \<open>What does not touch the composer.\<close>

definition aside :: "chat \<Rightarrow> chat_result \<Rightarrow> bool" where
  "aside s r \<longleftrightarrow> (case r of (s', es) \<Rightarrow> ch_busy s' = ch_busy s \<and> ch_queue s' = ch_queue s \<and>
     filter holds_busy (asked es) = [] \<and> chat_wire es = [])"

text \<open>What takes the idle composer for a request without a message of its own.\<close>

definition seizes :: "chat \<Rightarrow> chat_result \<Rightarrow> bool" where
  "seizes s r \<longleftrightarrow> (case r of (s', es) \<Rightarrow> \<not> ch_busy s \<and> ch_busy s' \<and> ch_queue s' = ch_queue s \<and>
     length (filter holds_busy (asked es)) = 1 \<and> chat_creating (asked es) = [] \<and> chat_wire es = [])"

lemma handler_conveys: "one_holds s ts \<Longrightarrow> aside s r \<or> seizes s r \<Longrightarrow> conveys True (unfinished s ts) ts r"
  using no_holder_creates
  by (auto simp: aside_def seizes_def conveys_def one_holds_def unfinished_def split: prod.splits)

lemma branchFrom_composer: "aside s (branchFrom cx message replacement previous s) \<or> seizes s (branchFrom cx message replacement previous s)"
  by (auto simp: branchFrom_def aside_def seizes_def split: option.splits)

lemma edit_composer: "aside s (edit_message cx i replacement s) \<or> seizes s (edit_message cx i replacement s)"
  using branchFrom_composer by (auto simp: edit_message_def aside_def split: list.splits)

lemma steer_composer: "aside s (steerLatest pf cx s) \<or> seizes s (steerLatest pf cx s)"
  by (auto simp: steerLatest_def Let_def aside_def seizes_def split: list.splits option.splits)

lemma retry_composer: "aside s (retryLatest cx s) \<or> seizes s (retryLatest cx s)"
  by (auto simp: retryLatest_def aside_def seizes_def split: list.splits option.splits)

text \<open>The message a press of the submit key hands over.\<close>

definition handed_over :: "chat_input \<Rightarrow> chat \<Rightarrow> jstring list" where
  "handed_over i s = (if i = SubmitPressed \<and> trim (ch_draft s) \<noteq> [] then [trim (ch_draft s)] else [])"

lemma submit_conveys:
  assumes "one_holds s ts" "\<not> (chat_runningTurns cx = [] \<and> \<not> ch_busy s) \<or> ch_queue s = []"
  shows "conveys (\<not> cx_studio cx) (unfinished s ts @ handed_over SubmitPressed s) ts (chat_submit env cx s)"
proof (cases "trim (ch_draft s) = [] \<or> chat_runningTurns cx \<noteq> [] \<or> ch_busy s")
  case True
  then show ?thesis
    using assms(1) by (auto simp: chat_submit_def Let_def handed_over_def conveys_def one_holds_def unfinished_def submission_of_def)
next
  case False
  then have "filter holds_busy ts = []" "chat_creating ts = []" "ch_queue s = []"
    using assms idle_creates by (auto simp: one_holds_def)
  then show ?thesis
    using False chat_send_conveys [of ts "submission_of cx (trim (ch_draft s))" "trim (ch_draft s)" s env cx]
    by (simp add: chat_submit_def Let_def handed_over_def unfinished_def submission_of_def)
qed

lemma aside_simple:
  "aside s (prefill v s, [])" "aside s (resumed reply epoch s, [])" "aside s (cancelled r s, [])" "aside s (responded r s, [])"
  "aside s (s, cancelLatest cx)" "aside s (respond cx approvalID approve s)"
  by (auto simp: aside_def prefill_def resumed_def cancelled_def responded_def cancelLatest_def respond_def Let_def
      split: jsval.splits reply.splits list.splits option.splits)

fun smooth :: "chat_input \<Rightarrow> bool" where
  "smooth (ReplyTo t r) = reply_ok t r"
| "smooth (Outside cx) = (\<not> cx_studio cx)"
| "smooth _ = True"

definition queue_waits :: "chat_ctx \<Rightarrow> chat \<Rightarrow> bool" where
  "queue_waits cx s \<longleftrightarrow> chat_runningTurns cx \<noteq> [] \<or> ch_busy s \<or> ch_queue s = []"

lemma reply_handled:
  assumes "one_holds s w" "t \<in> set w" "case t of Resume _ \<Rightarrow> False | ProjectsShown _ _ _ \<Rightarrow> False | ListShown _ _ \<Rightarrow> False | _ \<Rightarrow> True"
  shows "conveys (reply_ok t r) (unfinished s w) (remove1 t w) (replied env t r s)"
proof (cases "holds_busy t")
  case True
  note h = settled_holder [OF assms(1,2) True]
  have "unfinished s w = unsent t @ map sb_content (ch_queue s)" by (simp add: unfinished_def h(4))
  then show ?thesis
    using replied_conveys [OF h(1,2) True, of r env] assms(3) by (cases t) simp_all
next
  case False
  then have "unsent t = []" using unsent_holds by blast
  then have "one_holds s (remove1 t w)" "unfinished s (remove1 t w) = unfinished s w"
    using assms(1) False split_list_first [OF assms(2)]
    by (auto simp: one_holds_def unfinished_def filter_remove1 remove1_append remove1_idem)
  moreover have "aside s (replied env t r s)" using False assms(3) aside_simple by (cases t) simp_all
  moreover have "reply_ok t r" using False by (cases t) simp_all
  ultimately show ?thesis using handler_conveys [of s "remove1 t w"] by simp
qed

lemma refresh_handled:
  assumes "one_holds s w" "t \<in> set w" "case t of ProjectsShown _ _ _ \<Rightarrow> True | ListShown _ _ \<Rightarrow> True | _ \<Rightarrow> False"
  shows "conveys True (unfinished s w) (remove1 t w) (refreshed t now fresh s)"
proof -
  have "holds_busy t" using assms(3) by (cases t) simp_all
  note h = settled_holder [OF assms(1,2) this]
  have "unfinished s w = unsent t @ map sb_content (ch_queue s)" by (simp add: unfinished_def h(4))
  then show ?thesis using refreshed_conveys [OF h(1,2) assms(3)] by simp
qed

lemma handled_composer:
  "settles i = [] \<Longrightarrow> i \<noteq> SubmitPressed \<Longrightarrow>
   aside s (chat_handle env pf i cx s) \<or> seizes s (chat_handle env pf i cx s)"
proof (cases i)
  case (ForkPressed n)
  then show ?thesis
    using branchFrom_composer [of s cx] by (cases "drop n (ch_messages s)") (simp_all add: aside_def)
qed (use aside_simple edit_composer steer_composer retry_composer in \<open>simp_all add: aside_def [of s "(_, [])"]\<close>)

lemma conveys_weaken: "conveys True xs ts r \<Longrightarrow> conveys good xs ts r"
  by (auto simp: conveys_def split: prod.splits)

lemma handle_conveys:
  assumes w: "one_holds s (cp_waiting app)" and q: "i = SubmitPressed \<Longrightarrow> queue_waits cx s" and i: "chat_can_happen i app"
  shows "conveys (smooth i \<and> \<not> cx_studio cx) (unfinished s (cp_waiting app) @ handed_over i s)
    (foldr remove1 (settles i) (cp_waiting app)) (chat_handle env pf i cx s)"
proof (cases i)
  case SubmitPressed
  then show ?thesis using submit_conveys [OF w, of cx env] q by (simp add: queue_waits_def conveys_def)
next
  case (ReplyTo t r)
  then show ?thesis
    using reply_handled [OF w, of t r env] i
    by (auto simp: handed_over_def conveys_def split: prod.splits)
next
  case (Refreshed t now fresh)
  then show ?thesis
    using refresh_handled [OF w, of t now fresh] i by (auto simp: handed_over_def intro: conveys_weaken)
next
  case (Resumed epoch r)
  then have "one_holds s (remove1 (Resume epoch) (cp_waiting app))"
    "unfinished s (remove1 (Resume epoch) (cp_waiting app)) = unfinished s (cp_waiting app)"
    using w i split_list_first [of "Resume epoch" "cp_waiting app"]
    by (auto simp: one_holds_def unfinished_def filter_remove1 remove1_append remove1_idem)
  then show ?thesis
    using Resumed handler_conveys [of s "remove1 (Resume epoch) (cp_waiting app)" "(resumed r epoch s, [])"] aside_simple
    by (simp add: handed_over_def conveys_weaken)
qed (use conveys_weaken [OF handler_conveys [OF w handled_composer [of i s env pf cx]]] in \<open>simp_all add: handed_over_def\<close>)

subsection \<open>Runs\<close>

lemma conveys_trans:
  "conveys good xs ts (s1, es1) \<Longrightarrow> conveys good' (unfinished s1 (ts @ asked es1)) (ts @ asked es1) (s2, es2) \<Longrightarrow>
   conveys (good \<and> good') xs ts (s2, es1 @ es2)"
  by (auto simp: conveys_def intro: subseq_order.trans [OF list_emb_append_mono])

lemma chat_send_queue: "ch_queue (fst (chat_send env cx content sub s)) = ch_queue s"
  by (auto simp: chat_send_def send_in_def chat_fail_def Let_def split: option.splits)

lemma send_queued_conveys:
  assumes "ch_queue s = q" "one_holds s ts"
  shows "conveys (list_all (\<lambda>sub. \<not> sb_studio sub) q) (unfinished s ts) ts (chat_send_queued env cx q s) \<and>
    queue_waits cx (fst (chat_send_queued env cx q s)) \<and>
    suffix (ch_queue (fst (chat_send_queued env cx q s))) q"
  using assms
proof (induction q arbitrary: s ts)
  case Nil
  then show ?case by (simp add: conveys_def queue_waits_def)
next
  case (Cons sub q)
  show ?case
  proof (cases "chat_runningTurns cx \<noteq> [] \<or> ch_busy s")
    case True
    then show ?thesis using Cons.prems by (auto simp: conveys_def queue_waits_def)
  next
    case False
    obtain s1 es1 where send: "chat_send env cx (sb_content sub) sub (s\<lparr>ch_queue := q\<rparr>) = (s1, es1)" by fastforce
    obtain s2 es2 where more: "chat_send_queued env cx q s1 = (s2, es2)" by fastforce
    have ts: "filter holds_busy ts = []" "chat_creating ts = []"
      using Cons.prems False idle_creates by (auto simp: one_holds_def)
    have first: "conveys (\<not> sb_studio sub) (unfinished s ts) ts (s1, es1)"
      using chat_send_conveys [OF ts(1), of sub "sb_content sub" "s\<lparr>ch_queue := q\<rparr>" env cx] Cons.prems(1) ts(2)
      by (simp add: send unfinished_def)
    have "ch_queue s1 = q" using chat_send_queue [of env cx "sb_content sub" sub "s\<lparr>ch_queue := q\<rparr>"] by (simp add: send)
    moreover have "one_holds s1 (ts @ asked es1)" using first by (simp add: conveys_def)
    ultimately have ih: "conveys (list_all (\<lambda>sub. \<not> sb_studio sub) q) (unfinished s1 (ts @ asked es1)) (ts @ asked es1) (s2, es2)"
      "queue_waits cx s2" "suffix (ch_queue s2) q"
      using Cons.IH [of s1 "ts @ asked es1"] by (simp_all add: more)
    have "chat_send_queued env cx (sub # q) s = (s2, es1 @ es2)" using False by (simp add: send more)
    then show ?thesis using conveys_trans [OF first ih(1)] ih(2,3) by (simp add: suffix_ConsI)
  qed
qed

lemma stream_event_composer:
  "ch_busy (chat_stream_event e s) = ch_busy s" "ch_queue (chat_stream_event e s) = ch_queue s" "ch_draft (chat_stream_event e s) = ch_draft s"
  by (simp_all add: chat_stream_event_def Let_def)

lemma chat_stream_effect_composer:
  "ch_busy (chat_stream_effect cx s) = ch_busy s" "ch_queue (chat_stream_effect cx s) = ch_queue s"
proof -
  have "ch_busy (fold chat_stream_event evs s) = ch_busy s \<and> ch_queue (fold chat_stream_event evs s) = ch_queue s" for evs
    by (induction evs arbitrary: s) (simp_all add: stream_event_composer)
  then show "ch_busy (chat_stream_effect cx s) = ch_busy s" "ch_queue (chat_stream_effect cx s) = ch_queue s"
    by (simp_all add: chat_stream_effect_def)
qed

lemma session_effect_aside: "aside s (session_effect session s)"
  by (simp add: session_effect_def aside_def Let_def split: option.splits)

lemma render_conveys:
  assumes "one_holds s ts"
  shows "conveys (list_all (\<lambda>sub. \<not> sb_studio sub) (ch_queue s)) (unfinished s ts) ts (chat_after_render env cx d e s) \<and>
    queue_waits cx (fst (chat_after_render env cx d e s)) \<and> suffix (ch_queue (fst (chat_after_render env cx d e s))) (ch_queue s)"
proof -
  obtain s1 es1 where first: "(if d = Some (cx_session cx) then (s, []) else session_effect (cx_session cx) s) = (s1, es1)"
    by fastforce
  have a: "aside s (s1, es1)"
    unfolding first [symmetric] using session_effect_aside by (simp add: aside_def)
  define s2 where "s2 = (if e = Some (last_sequence (cx_operator cx), cx_session cx) then s1 else chat_stream_effect cx s1)"
  have s2: "ch_busy s2 = ch_busy s" "ch_queue s2 = ch_queue s"
    using a by (simp_all add: s2_def chat_stream_effect_composer aside_def)
  obtain s3 es3 where last: "chat_send_queued env cx (ch_queue s2) s2 = (s3, es3)" by fastforce
  have "aside s (s2, es1)" using a s2 by (simp add: aside_def)
  then have c: "conveys True (unfinished s ts) ts (s2, es1)" using handler_conveys [OF assms] by blast
  then have "one_holds s2 (ts @ asked es1)" by (simp add: conveys_def)
  from send_queued_conveys [OF refl this, of env cx]
  have q: "conveys (list_all (\<lambda>sub. \<not> sb_studio sub) (ch_queue s2)) (unfinished s2 (ts @ asked es1)) (ts @ asked es1) (s3, es3)"
    "queue_waits cx s3" "suffix (ch_queue s3) (ch_queue s2)" by (simp_all add: last)
  have "chat_after_render env cx d e s = (s3, es1 @ es3)"
    unfolding chat_after_render_def Let_def first by (simp add: s2_def [symmetric] chat_queue_effect_def last)
  then show ?thesis using conveys_trans [OF c q(1)] q(2,3) s2(2) by simp
qed

lemma handle_queue:
  "ch_queue (fst (chat_handle env pf i cx s)) = ch_queue s \<or>
   (\<exists>content. ch_queue (fst (chat_handle env pf i cx s)) = ch_queue s @ [submission_of cx content])"
proof (cases "settles i = [] \<and> i \<noteq> SubmitPressed")
  case True
  then have "aside s (chat_handle env pf i cx s) \<or> seizes s (chat_handle env pf i cx s)" using handled_composer by blast
  then show ?thesis by (cases "chat_handle env pf i cx s") (auto simp: aside_def seizes_def)
next
  case False
  have replied: "ch_queue (fst (replied env t r s)) = ch_queue s" for t r
    by (cases t) (auto simp: session_created_def project_created_def message_submitted_def branched_def concluded_def
        steered_def cancelled_def responded_def send_in_def chat_fail_def Let_def
        split: sum.splits reply.splits option.splits prod.splits)
  have refreshed: "ch_queue (fst (refreshed t now fresh s)) = ch_queue s" for t now fresh
    by (cases t) (simp_all add: projects_shown_def list_shown_def)
  have "ch_queue (resumed r epoch s) = ch_queue s" for r epoch
    by (simp add: resumed_def Let_def split: reply.splits)
  with False replied refreshed show ?thesis
    by (cases i) (auto simp: chat_submit_def Let_def chat_send_queue)
qed

lemma moved_studio [simp]: "cx_studio (moved es cx) = cx_studio cx"
  by (induction es cx rule: moved.induct) auto

definition chat_ok :: "chat_app \<Rightarrow> bool" where
  "chat_ok app \<longleftrightarrow> one_holds (cp_state app) (cp_waiting app) \<and> queue_waits (cp_ctx app) (cp_state app)"

definition plain_chat :: "chat_app \<Rightarrow> bool" where
  "plain_chat app \<longleftrightarrow> \<not> cx_studio (cp_ctx app) \<and> list_all (\<lambda>sub. \<not> sb_studio sub) (ch_queue (cp_state app))"

definition chat_unfinished :: "chat_app \<Rightarrow> jstring list" where
  "chat_unfinished app = unfinished (cp_state app) (cp_waiting app)"

lemma chat_step_ok:
  assumes step: "chat_step env pf i app = (app', es)" and ok: "chat_ok app"
  shows "chat_ok app'"
    "subseq (chat_wire es @ chat_unfinished app') (chat_unfinished app @ handed_over i (cp_state app))"
    "plain_chat app \<Longrightarrow> smooth i \<Longrightarrow>
      plain_chat app' \<and> chat_wire es @ chat_unfinished app' = chat_unfinished app @ handed_over i (cp_state app)"
proof -
  have "chat_ok app' \<and>
    subseq (chat_wire es @ chat_unfinished app') (chat_unfinished app @ handed_over i (cp_state app)) \<and>
    (plain_chat app \<longrightarrow> smooth i \<longrightarrow>
      plain_chat app' \<and> chat_wire es @ chat_unfinished app' = chat_unfinished app @ handed_over i (cp_state app))"
  proof (cases "chat_can_happen i app")
    case False
    then have "handed_over i (cp_state app) = []" by (cases i) (simp_all add: handed_over_def)
    then show ?thesis using False step ok by (simp add: chat_step_def)
  next
    case True
    define cx0 where "cx0 = (case i of Outside cx \<Rightarrow> cx | _ \<Rightarrow> cp_ctx app)"
    define ts where "ts = foldr remove1 (settles i) (cp_waiting app)"
    obtain s1 es1 where h: "chat_handle env pf i cx0 (cp_state app) = (s1, es1)" by fastforce
    define cx where "cx = moved es1 cx0"
    obtain s2 es2 where r: "chat_after_render env cx (cp_session_dep app) (cp_stream_dep app) s1 = (s2, es2)" by fastforce
    have app': "app' = rendered cx s2 (ts @ asked (es1 @ es2))" "es = es1 @ es2"
      using step True unfolding chat_step_def Let_def cx0_def [symmetric] h by (auto simp: cx_def [symmetric] r ts_def)
    have q: "queue_waits cx0 (cp_state app)" if "i = SubmitPressed" using that ok by (simp add: chat_ok_def cx0_def)
    have c1: "conveys (smooth i \<and> \<not> cx_studio cx0) (chat_unfinished app @ handed_over i (cp_state app)) ts (s1, es1)"
      using handle_conveys [OF _ q True, of env pf] ok
      by (simp add: chat_ok_def chat_unfinished_def ts_def h)
    then have "one_holds s1 (ts @ asked es1)" by (simp add: conveys_def)
    from render_conveys [OF this, of env cx "cp_session_dep app" "cp_stream_dep app"]
    have c2: "conveys (list_all (\<lambda>sub. \<not> sb_studio sub) (ch_queue s1)) (unfinished s1 (ts @ asked es1)) (ts @ asked es1) (s2, es2)"
      "queue_waits cx s2" "suffix (ch_queue s2) (ch_queue s1)" by (simp_all add: r)
    have plain: "list_all (\<lambda>sub. \<not> sb_studio sub) (ch_queue s1) \<and> \<not> cx_studio cx0" if p: "plain_chat app" "smooth i"
    proof -
      have "\<not> cx_studio cx0" using p by (cases i) (simp_all add: plain_chat_def cx0_def)
      then show ?thesis
        using p(1) handle_queue [of env pf i cx0 "cp_state app"] by (auto simp: plain_chat_def h submission_of_def)
    qed
    show ?thesis
      using conveys_trans [OF c1 c2(1)] c2(2) plain set_mono_suffix [OF c2(3)]
      by (auto simp: app' chat_ok_def plain_chat_def chat_unfinished_def rendered_def conveys_def cx_def list_all_iff)
  qed
  then show "chat_ok app'"
    "subseq (chat_wire es @ chat_unfinished app') (chat_unfinished app @ handed_over i (cp_state app))"
    "plain_chat app \<Longrightarrow> smooth i \<Longrightarrow>
      plain_chat app' \<and> chat_wire es @ chat_unfinished app' = chat_unfinished app @ handed_over i (cp_state app)"
    by blast+
qed

fun chat_handed :: "chat_env \<Rightarrow> platform \<Rightarrow> chat_input list \<Rightarrow> chat_app \<Rightarrow> jstring list" where
  "chat_handed env pf [] app = []"
| "chat_handed env pf (i # ins) app =
     handed_over i (cp_state app) @ chat_handed env pf ins (fst (chat_step env pf i app))"

lemma chat_run_ok:
  "chat_run env pf ins app = (app', es) \<Longrightarrow> chat_ok app \<Longrightarrow>
   chat_ok app' \<and> subseq (chat_wire es @ chat_unfinished app') (chat_unfinished app @ chat_handed env pf ins app) \<and>
   (plain_chat app \<and> list_all smooth ins \<longrightarrow>
     chat_wire es @ chat_unfinished app' = chat_unfinished app @ chat_handed env pf ins app)"
proof (induction ins arbitrary: app es)
  case (Cons i ins)
  obtain app1 es1 where s: "chat_step env pf i app = (app1, es1)" by fastforce
  obtain es2 where r: "chat_run env pf ins app1 = (app', es2)" "es = es1 @ es2"
    using Cons.prems(1) by (auto simp: s split: prod.splits)
  note step = chat_step_ok [OF s Cons.prems(2)] and ih = Cons.IH [OF r(1) chat_step_ok(1) [OF s Cons.prems(2)]]
  let ?new = "handed_over i (cp_state app)" and ?more = "chat_handed env pf ins app1"
  have handed: "chat_handed env pf (i # ins) app = ?new @ ?more" by (simp add: s)
  have "subseq (chat_wire es1 @ (chat_wire es2 @ chat_unfinished app')) (chat_wire es1 @ (chat_unfinished app1 @ ?more))"
    using list_emb_append_mono [OF subseq_order.refl [of "chat_wire es1"] conjunct1 [OF conjunct2 [OF ih]]] by simp
  moreover have "subseq ((chat_wire es1 @ chat_unfinished app1) @ ?more) ((chat_unfinished app @ ?new) @ ?more)"
    by (rule list_emb_append_mono [OF step(2) subseq_order.refl])
  ultimately have "subseq (chat_wire es @ chat_unfinished app') (chat_unfinished app @ chat_handed env pf (i # ins) app)"
    unfolding handed using subseq_order.trans by (simp add: r(2))
  moreover have "chat_wire es @ chat_unfinished app' = chat_unfinished app @ chat_handed env pf (i # ins) app"
    if "plain_chat app" "list_all smooth (i # ins)"
  proof -
    have "plain_chat app1" "chat_wire es1 @ chat_unfinished app1 = chat_unfinished app @ ?new"
      using step(3) that by simp_all
    moreover have "chat_wire es2 @ chat_unfinished app' = chat_unfinished app1 @ ?more" using ih that calculation(1) by simp
    ultimately show ?thesis unfolding handed r(2) chat_wire_append by (metis append.assoc)
  qed
  ultimately show ?case using ih by blast
qed simp

lemma chat_mount_ok:
  "chat_ok (fst (chat_mount env cx))" "chat_unfinished (fst (chat_mount env cx)) = []"
  "plain_chat (fst (chat_mount env cx)) \<longleftrightarrow> \<not> cx_studio cx"
proof -
  have "one_holds initial_chat []" "unfinished initial_chat [] = []" "ch_queue initial_chat = []"
    by (simp_all add: one_holds_def unfinished_def initial_chat_def)
  moreover obtain s es where r: "chat_after_render env cx None None initial_chat = (s, es)" by fastforce
  ultimately have "conveys True [] [] (s, es)" "queue_waits cx s" "suffix (ch_queue s) []"
    using render_conveys [of initial_chat "[]" env cx None None] by simp_all
  then show "chat_ok (fst (chat_mount env cx))" "chat_unfinished (fst (chat_mount env cx)) = []"
    "plain_chat (fst (chat_mount env cx)) \<longleftrightarrow> \<not> cx_studio cx"
    by (simp_all add: chat_mount_def r rendered_def chat_ok_def chat_unfinished_def plain_chat_def conveys_def)
qed

text \<open>
  (C34) The composer of the chat, over any run of the component: it is busy exactly while one of its
  requests waits, never two; messages wait in the queue only while a request or a turn runs; and the
  messages on the wire, the one whose conversation or project is being created and the queue are in the
  order they were handed over, each at most once. Outside the Studio, and unless creating a conversation
  fails, none is lost.
\<close>

theorem chat_in_order:
  assumes "chat_run env pf ins (fst (chat_mount env cx)) = (app, es)"
  shows "length (filter holds_busy (cp_waiting app)) = (if ch_busy (cp_state app) then 1 else 0) \<and>
    (ch_queue (cp_state app) \<noteq> [] \<longrightarrow> ch_busy (cp_state app) \<or> chat_runningTurns (cp_ctx app) \<noteq> []) \<and>
    subseq (chat_wire es @ chat_unfinished app) (chat_handed env pf ins (fst (chat_mount env cx))) \<and>
    (\<not> cx_studio cx \<and> list_all smooth ins \<longrightarrow>
      chat_wire es @ chat_unfinished app = chat_handed env pf ins (fst (chat_mount env cx)))"
  using chat_run_ok [OF assms chat_mount_ok(1)] chat_mount_ok(2,3) [of env cx]
  by (auto simp: chat_ok_def one_holds_def queue_waits_def)

section \<open>Examples and losses\<close>

definition chat_at :: "jstring option \<Rightarrow> chat_ctx" where
  "chat_at session = \<lparr>cx_session = session, cx_operator = emptyOperatorState, cx_studio = False, cx_pathname = lit ''/chat''\<rparr>"

lemma no_events_at [simp]:
  "scopedEvents (chat_at session) = []" "chat_runningTurns (chat_at session) = []" "cx_session (chat_at session) = session"
  "chat_stream_effect (chat_at session) s = s" "cx_studio (chat_at session) = False"
  "(chat_at session)\<lparr>cx_session := Some i\<rparr> = chat_at (Some i)"
  by (simp_all add: scopedEvents_def chat_runningTurns_def chat_at_def emptyOperatorState_def chat_stream_effect_def dict_values_def)

lemmas chat_eval = chat_mount_def chat_step_def chat_after_render_def session_effect_def chat_queue_effect_def rendered_def
  initial_chat_def chat_submit_def chat_send_def send_in_def submission_of_def handed_over_def session_created_def
  identified_def chat_fail_def message_submitted_def list_shown_def Let_def

lemma trim_words [simp]: "trim (lit ''one'') = lit ''one''" "trim (lit ''two'') = lit ''two''"
  by (simp_all add: trim_def trim_start_def lit_def is_space_def)

theorem chat_in_order_witness:
  "case chat_run example_chat example_platform
       [Typed (lit ''one''), SubmitPressed, Typed (lit ''two''), SubmitPressed] (fst (chat_mount example_chat (chat_at None))) of
     (app, es) \<Rightarrow> chat_wire es @ chat_unfinished app = [lit ''one'', lit ''two'']"
proof -
  let ?ins = "[Typed (lit ''one''), SubmitPressed, Typed (lit ''two''), SubmitPressed]"
  obtain app es where run: "chat_run example_chat example_platform ?ins (fst (chat_mount example_chat (chat_at None))) = (app, es)"
    by fastforce
  have "chat_handed example_chat example_platform ?ins (fst (chat_mount example_chat (chat_at None))) = [lit ''one'', lit ''two'']"
    by (simp add: chat_eval)
  then show ?thesis unfolding run using chat_in_order [OF run] by simp
qed

text \<open>
  Text that was typed can be lost. A message that waited in the queue is gone, from the queue and
  from the composer, when creating its conversation fails; and a draft typed while a message is being
  sent is cleared when the sending ends.
\<close>

theorem chat_loses_text:
  "(case chat_run env pf [Typed (lit ''one''), SubmitPressed, Typed (lit ''two''), SubmitPressed,
       ReplyTo (NewSession (lit ''one'') (submission_of (chat_at None) (lit ''one''))) (Refused reason),
       ReplyTo (NewSession (lit ''two'') (submission_of (chat_at None) (lit ''two''))) (Refused reason)]
       (fst (chat_mount env (chat_at None))) of
     (app, es) \<Rightarrow> chat_wire es = [] \<and> chat_unfinished app = [] \<and> ch_draft (cp_state app) = [] \<and> \<not> ch_busy (cp_state app)) \<and>
   (case chat_run env pf [Typed (lit ''one''), SubmitPressed, Typed (lit ''two''),
       ReplyTo (SubmitMessage (lit ''one'')) (Answered (Some turn)), Refreshed (ListShown (lit ''one'') (Some turn)) now fresh]
       (fst (chat_mount env (chat_at (Some session)))) of
     (app, es) \<Rightarrow> chat_wire es = [lit ''one''] \<and> chat_unfinished app = [] \<and> ch_draft (cp_state app) = [])"
  by (simp add: chat_eval turn_call_def chat_unfinished_def unfinished_def)

end
