(* ===== verification/ChatStream.thy ===== *)
theory ChatStream
  imports ChatHost OperatorInvariants
begin

text \<open>
  The transcript the chat streams from the event log, and what becomes of it when a conversation is
  resumed.
\<close>

section \<open>The text of an answer\<close>





lemma message_id_inj [simp]: "message_id a = message_id b \<longleftrightarrow> a = b"
  by (simp add: message_id_def)







section \<open>Every event once\<close>














section \<open>The component\<close>



lemma chat_stream_effect_queue: "ch_queue (chat_stream_effect cx s) = ch_queue s"
proof -
  have "ch_queue (fold chat_stream_event evs s) = ch_queue s" for evs
    by (induction evs arbitrary: s) (simp_all add: chat_stream_event_def Let_def)
  then show ?thesis by (simp add: chat_stream_effect_def)
qed








section \<open>Resuming\<close>

lemma merge_from_sound:
  "distinct (map cm_id (merge_from ids contents ms)) \<and> distinct (map content_key (merge_from ids contents ms)) \<and>
   set (map cm_id (merge_from ids contents ms)) \<inter> set ids = {} \<and>
   set (map content_key (merge_from ids contents ms)) \<inter> set contents = {} \<and> subseq (merge_from ids contents ms) ms"
  by (induction ids contents ms rule: merge_from.induct) auto

lemma merge_from_complete:
  "m \<in> set ms \<Longrightarrow> cm_id m \<in> set ids \<or> content_key m \<in> set contents \<or>
   (\<exists>m'\<in>set (merge_from ids contents ms). cm_id m' = cm_id m \<or> content_key m' = content_key m)"
  by (induction ids contents ms rule: merge_from.induct) auto

text \<open>
  Resuming a conversation shows no identifier twice and leaves out a message only for one with its
  identifier or with its role and text, in the order of the stored transcript. The second reason also
  drops what was really said twice: of two stored messages of the user with one text, one is shown.
\<close>

theorem merged_transcript:
  "distinct (map cm_id (mergeMessages first second))" "subseq (mergeMessages first second) (first @ second)"
  "m \<in> set (first @ second) \<Longrightarrow>
    \<exists>m'\<in>set (mergeMessages first second). cm_id m' = cm_id m \<or> content_key m' = content_key m"
  using merge_from_sound merge_from_complete [of m "first @ second" "[]" "[]"] by (auto simp: mergeMessages_def)

theorem repeated_message_dropped:
  "mergeMessages [\<lparr>cm_id = a, cm_user = True, cm_content = c, cm_created = x, cm_turn = t\<rparr>,
      \<lparr>cm_id = b, cm_user = True, cm_content = c, cm_created = y, cm_turn = u\<rparr>] [] =
    [\<lparr>cm_id = a, cm_user = True, cm_content = c, cm_created = x, cm_turn = t\<rparr>]"
  by (simp add: mergeMessages_def content_key_def)

text \<open>A chunk of reasoning that repeats the end of the text so far is taken for a duplicate.\<close>

theorem repeated_chunk_dropped: "appendStreamText (appendStreamText [] chunk) chunk = chunk"
  by (simp add: appendStreamText_def)

text \<open>
  The notice that a conversation was forked is set together with the new session, whose effect clears it,
  so it does not stay.
\<close>

theorem fork_notice_cleared:
  assumes "Branch \<lparr>ed_replacement = None, ed_studio = studio, ed_pathname = path\<rparr> \<in> set (cp_waiting app)"
    "cp_session_dep app \<noteq> Some (Some new)" "ch_queue (cp_state app) = []"
  shows "ch_notice (cp_state (fst (chat_step env pf
    (ReplyTo (Branch \<lparr>ed_replacement = None, ed_studio = studio, ed_pathname = path\<rparr>) (Answered (Some new))) app))) = None"
proof -
  have "ch_notice (fold chat_stream_event evs s) = ch_notice s" for evs s
    by (induction evs arbitrary: s) (simp_all add: chat_stream_event_def Let_def)
  then show ?thesis
    using assms chat_stream_effect_queue
    by (simp add: chat_step_def branched_def identified_def chat_after_render_def session_effect_def Let_def
        chat_stream_effect_def chat_queue_effect_def rendered_def)
qed

end
