(* ===== verification/Computer.thy ===== *)
theory Computer
  imports ChatText OperatorInvariants
begin

text \<open>
  The Computer of the web client: when its panel opens (\<open>features/computer/visibility.ts\<close> and
  \<open>OperatorExperience\<close> in \<open>app/App.tsx\<close>), and the selection, the timeline and the
  requests of \<open>features/computer/ComputerStage.tsx\<close>.
\<close>

section \<open>Visibility\<close>

definition isComputerSurfaceTool :: "jstring option \<Rightarrow> jstring option \<Rightarrow> bool" where
  "isComputerSurfaceTool tool operation \<longleftrightarrow> list_ex (\<lambda>candidate. case candidate of
      None \<Rightarrow> False
    | Some c \<Rightarrow> (let normalized = to_lower (trim c) in
        starts_with ''browser_'' normalized \<or> starts_with ''browser.'' normalized \<or>
        starts_with ''computer_'' normalized \<or> starts_with ''computer.'' normalized)) [tool, operation]"

definition scope_field :: "jsval \<Rightarrow> string \<Rightarrow> jsval" where
  "scope_field p key = fld (fld p ''scope'') key"

definition activeComputerActivities :: "operator_state \<Rightarrow> jstring option \<Rightarrow> computer_activity list" where
  "activeComputerActivities os sessionID = filter (\<lambda>a. \<not> ca_terminal a \<and> \<not> ca_unsupported a \<and>
     (case ca_payload a of
        None \<Rightarrow> False
      | Some p \<Rightarrow> isComputerSurfaceTool (ca_tool a) (ca_operation a) \<and>
          (case sessionID of None \<Rightarrow> True | Some i \<Rightarrow> scope_field p ''session_id'' = JStr i)))
     (dict_values (computer_activities os))"

definition hasActiveComputerActivity :: "operator_state \<Rightarrow> jstring option \<Rightarrow> bool" where
  "hasActiveComputerActivity os sessionID \<longleftrightarrow> length (activeComputerActivities os sessionID) > 0"

definition activity_turn :: "computer_activity \<Rightarrow> jstring option" where
  "activity_turn a = Option.bind (ca_payload a) (\<lambda>p. as_str (scope_field p ''turn_id''))"

definition activeComputerTurnID :: "operator_state \<Rightarrow> jstring option \<Rightarrow> jstring option" where
  "activeComputerTurnID os sessionID = first_some activity_turn
     (sort_key (\<lambda>a. - ca_last_sequence a) (activeComputerActivities os sessionID))"

definition hasComputerHistory :: "operator_state \<Rightarrow> jstring option \<Rightarrow> bool" where
  "hasComputerHistory os sessionID \<longleftrightarrow> list_ex (\<lambda>e. starts_with ''tool.'' (ev_type e) \<and>
     (sessionID = None \<or> c_session_id (correlation e) = sessionID)) (recent_events os)"

section \<open>The panel\<close>

record experience =
  ex_review :: "jstring option"
  ex_auto :: "jstring option"
  ex_dismissed :: "jstring option"

text \<open>What the component reads: the location, the session and the operator state.\<close>

record place =
  pl_path :: jstring
  pl_session :: "jstring option"
  pl_operator :: operator_state

definition chatActive :: "place \<Rightarrow> bool" where
  "chatActive p \<longleftrightarrow> pl_path p = lit ''/chat'' \<or> pl_path p = lit ''/''"

definition computerRoute :: "place \<Rightarrow> bool" where
  "computerRoute p \<longleftrightarrow> pl_path p = lit ''/computer''"

definition studioActive :: "place \<Rightarrow> bool" where
  "studioActive p \<longleftrightarrow> pl_path p = lit ''/studio'' \<or> starts_with ''/studio/'' (pl_path p)"

definition computerScope :: "place \<Rightarrow> jstring" where
  "computerScope p = (case pl_session p of None \<Rightarrow> lit ''unscoped'' | Some i \<Rightarrow> i)"

definition computerWorkingTurn :: "place \<Rightarrow> jstring option" where
  "computerWorkingTurn p = (if chatActive p then activeComputerTurnID (pl_operator p) (pl_session p) else None)"

definition computerHistoryAvailable :: "place \<Rightarrow> bool" where
  "computerHistoryAvailable p \<longleftrightarrow> chatActive p \<and> hasComputerHistory (pl_operator p) (pl_session p)"

text \<open>\<open>turns[id]?.status\<close> is running or recovering.\<close>

definition turn_live :: "place \<Rightarrow> jstring \<Rightarrow> bool" where
  "turn_live p turn = (case dict_get (turns (pl_operator p)) turn of
      None \<Rightarrow> False | Some t \<Rightarrow> ts_status t = Running \<or> ts_status t = Recovering)"

definition computerReviewOpen :: "place \<Rightarrow> experience \<Rightarrow> bool" where
  "computerReviewOpen p x \<longleftrightarrow> chatActive p \<and> ex_review x = Some (computerScope p)"

definition computerAutoOpen :: "place \<Rightarrow> experience \<Rightarrow> bool" where
  "computerAutoOpen p x \<longleftrightarrow> chatActive p \<and> (case ex_auto x of
      None \<Rightarrow> False
    | Some turn \<Rightarrow> ex_dismissed x \<noteq> Some turn \<and> (computerWorkingTurn p = Some turn \<or> turn_live p turn))"

definition computerVisible :: "place \<Rightarrow> experience \<Rightarrow> bool" where
  "computerVisible p x \<longleftrightarrow> computerRoute p \<or> (chatActive p \<and> (computerAutoOpen p x \<or> computerReviewOpen p x))"

text \<open>One run of the effect: its tests read the values of the render, and the last assignment of a state counts.\<close>

definition experience_effect :: "place \<Rightarrow> experience \<Rightarrow> experience" where
  "experience_effect p x =
     (if \<not> chatActive p then x\<lparr>ex_review := None\<rparr>
      else let working = computerWorkingTurn p;
               opened = (if working \<noteq> None \<and> working \<noteq> ex_dismissed x then working else ex_auto x);
               stale = (case ex_auto x of None \<Rightarrow> False | Some turn \<Rightarrow> working \<noteq> Some turn \<and> \<not> turn_live p turn);
               over = (case ex_dismissed x of None \<Rightarrow> False | Some turn \<Rightarrow> \<not> turn_live p turn) in
        x\<lparr>ex_auto := if stale then None else opened, ex_dismissed := if over then None else ex_dismissed x\<rparr>)"

definition closeComputer :: "place \<Rightarrow> experience \<Rightarrow> experience" where
  "closeComputer p x = (let dismissed = (case ex_auto x of None \<Rightarrow> computerWorkingTurn p | Some t \<Rightarrow> Some t) in
     x\<lparr>ex_dismissed := (if dismissed \<noteq> None then dismissed else ex_dismissed x), ex_auto := None, ex_review := None\<rparr>)"

definition toggleComputer :: "place \<Rightarrow> experience \<Rightarrow> experience" where
  "toggleComputer p x = (if computerVisible p x \<and> \<not> computerRoute p then closeComputer p x
     else x\<lparr>ex_dismissed := None, ex_review := Some (computerScope p)\<rparr>)"

text \<open>
  React runs the effect again when it changed what it depends on. Three runs are enough, as
  \<open>panel_settles\<close> shows.
\<close>

definition settled_experience :: "place \<Rightarrow> experience \<Rightarrow> experience" where
  "settled_experience p x = experience_effect p (experience_effect p (experience_effect p x))"

section \<open>Selection and timeline\<close>

record position =
  po_follow :: bool
  po_event :: "jstring option"

text \<open>The chosen workspace, with \<open>aggregate\<close> for all agents, and the position in each.\<close>

record stage =
  st_workspace :: jstring
  st_positions :: "position dict"

definition initial_stage :: stage where
  "initial_stage = \<lparr>st_workspace = lit ''aggregate'', st_positions = []\<rparr>"

definition stage_scopedEvents :: "jstring option \<Rightarrow> operator_state \<Rightarrow> event_envelope list" where
  "stage_scopedEvents sessionID os = filter (\<lambda>e. starts_with ''tool.'' (ev_type e) \<and>
     (sessionID = None \<or> c_session_id (correlation e) = sessionID)) (recent_events os)"

definition computerPayload :: "platform \<Rightarrow> event_envelope \<Rightarrow> jsval option" where
  "computerPayload pf e = (if isComputerEventPayload pf (payload e) then Some (payload e) else None)"

definition stage_events :: "platform \<Rightarrow> jstring option \<Rightarrow> operator_state \<Rightarrow> stage \<Rightarrow> event_envelope list" where
  "stage_events pf sessionID os st = (let scoped = stage_scopedEvents sessionID os in
     if st_workspace st = lit ''aggregate'' then scoped
     else filter (\<lambda>e. case computerPayload pf e of
         None \<Rightarrow> False | Some p \<Rightarrow> scope_field p ''agent_id'' = JStr (st_workspace st)) scoped)"

definition followLive :: "stage \<Rightarrow> bool" where
  "followLive st = (case dict_get (st_positions st) (st_workspace st) of None \<Rightarrow> True | Some po \<Rightarrow> po_follow po)"

definition selectedEventID :: "stage \<Rightarrow> jstring option" where
  "selectedEventID st = Option.bind (dict_get (st_positions st) (st_workspace st)) po_event"

definition stage_selected :: "event_envelope list \<Rightarrow> stage \<Rightarrow> event_envelope option" where
  "stage_selected evs st = (if followLive st then at_last evs
     else case find (\<lambda>e. Some (event_id e) = selectedEventID st) evs of
         None \<Rightarrow> at_last evs | Some e \<Rightarrow> Some e)"

definition selectedIndex :: "event_envelope list \<Rightarrow> stage \<Rightarrow> int" where
  "selectedIndex evs st = (case stage_selected evs st of
      None \<Rightarrow> -1
    | Some e \<Rightarrow> (case index_of (event_id e) (map event_id evs) of None \<Rightarrow> -1 | Some i \<Rightarrow> int i))"

definition timelineWindow :: nat where
  "timelineWindow = 200"

definition windowStart :: "event_envelope list \<Rightarrow> stage \<Rightarrow> int" where
  "windowStart evs st = (let i = selectedIndex evs st in
     max 0 (min (max 0 (int (length evs) - int timelineWindow))
       (if i < 0 then 0 else i - int (timelineWindow div 2))))"

definition visibleEvents :: "event_envelope list \<Rightarrow> stage \<Rightarrow> event_envelope list" where
  "visibleEvents evs st = take timelineWindow (drop (nat (windowStart evs st)) evs)"

definition hiddenBefore :: "event_envelope list \<Rightarrow> stage \<Rightarrow> int" where
  "hiddenBefore evs st = windowStart evs st"

definition hiddenAfter :: "event_envelope list \<Rightarrow> stage \<Rightarrow> int" where
  "hiddenAfter evs st = max 0 (int (length evs) - windowStart evs st - int (length (visibleEvents evs st)))"

definition selectEvent :: "event_envelope list \<Rightarrow> event_envelope \<Rightarrow> stage \<Rightarrow> stage" where
  "selectEvent evs e st = st\<lparr>st_positions := dict_put (st_workspace st)
     \<lparr>po_follow = (Some (event_id e) = map_option event_id (at_last evs)), po_event = Some (event_id e)\<rparr> (st_positions st)\<rparr>"

definition backToLive :: "stage \<Rightarrow> stage" where
  "backToLive st = st\<lparr>st_positions := dict_put (st_workspace st) \<lparr>po_follow = True, po_event = None\<rparr> (st_positions st)\<rparr>"

definition pauseView :: "event_envelope list \<Rightarrow> stage \<Rightarrow> stage" where
  "pauseView evs st = st\<lparr>st_positions := dict_put (st_workspace st)
     \<lparr>po_follow = False, po_event = map_option event_id (at_last evs)\<rparr> (st_positions st)\<rparr>"

definition moveSelection :: "event_envelope list \<Rightarrow> string \<Rightarrow> int \<Rightarrow> stage \<Rightarrow> stage" where
  "moveSelection evs key index st =
     (let target = (if key = ''ArrowUp'' then Some (max 0 (index - 1))
        else if key = ''ArrowDown'' then Some (min (int (length evs) - 1) (index + 1))
        else if key = ''Home'' then Some 0
        else if key = ''End'' then Some (int (length evs) - 1)
        else None) in
      case Option.bind target (array_get evs) of None \<Rightarrow> st | Some e \<Rightarrow> selectEvent evs e st)"

end
