(* ===== verification/ComputerProperties.thy ===== *)
theory ComputerProperties
  imports Computer
begin

text \<open>
  Properties of the Computer: the effect that opens its panel comes to rest, and the timeline always
  shows the selected event.
\<close>

section \<open>The panel\<close>

text \<open>
  What the effect does to the two turns, for a working turn \<open>w\<close> and the test \<open>l\<close> that a turn
  is live.
\<close>

definition panel_step :: "jstring option \<Rightarrow> (jstring \<Rightarrow> bool) \<Rightarrow> jstring option \<times> jstring option \<Rightarrow> jstring option \<times> jstring option" where
  "panel_step w l ad = (case ad of (a, d) \<Rightarrow>
     (if (case a of None \<Rightarrow> False | Some t \<Rightarrow> w \<noteq> Some t \<and> \<not> l t) then None
      else if w \<noteq> None \<and> w \<noteq> d then w else a,
      if (case d of None \<Rightarrow> False | Some t \<Rightarrow> \<not> l t) then None else d))"

lemma experience_effect_panel:
  "chatActive p \<Longrightarrow> (ex_auto (experience_effect p x), ex_dismissed (experience_effect p x)) =
     panel_step (computerWorkingTurn p) (turn_live p) (ex_auto x, ex_dismissed x) \<and>
   ex_review (experience_effect p x) = ex_review x"
  by (auto simp: experience_effect_def panel_step_def Let_def split: option.splits)

lemma panel_step_settles: "panel_step w l (panel_step w l (panel_step w l (panel_step w l ad))) = panel_step w l (panel_step w l (panel_step w l ad))"
  by (cases ad) (auto simp: panel_step_def split: option.splits if_splits)

lemma settled_panel:
  assumes "chatActive p"
  defines "step \<equiv> panel_step (computerWorkingTurn p) (turn_live p)"
  shows "(ex_auto (settled_experience p x), ex_dismissed (settled_experience p x)) = step (step (step (ex_auto x, ex_dismissed x)))"
    "ex_review (settled_experience p x) = ex_review x"
  using experience_effect_panel [OF assms(1)] by (simp_all add: settled_experience_def step_def)

lemma panel_settled: "experience_effect p (settled_experience p x) = settled_experience p x"
proof (cases "chatActive p")
  case True
  note eff = experience_effect_panel [OF True]
  let ?y = "settled_experience p x"
  have "(ex_auto (experience_effect p ?y), ex_dismissed (experience_effect p ?y)) = (ex_auto ?y, ex_dismissed ?y)"
    using settled_panel(1) [OF True, of x] eff [of ?y] panel_step_settles by simp
  then show ?thesis using eff [of ?y] by (intro experience.equality) simp_all
next
  case False
  then show ?thesis by (simp add: settled_experience_def experience_effect_def)
qed

lemma auto_open_settled:
  assumes "chatActive p"
  shows "computerVisible p y \<longleftrightarrow> ex_review y = Some (computerScope p) \<or> (case ex_auto y of None \<Rightarrow> False
    | Some t \<Rightarrow> ex_dismissed y \<noteq> Some t \<and> (computerWorkingTurn p = Some t \<or> turn_live p t))"
  using assms
  by (auto simp: computerVisible_def computerAutoOpen_def computerReviewOpen_def computerRoute_def chatActive_def)

text \<open>
  (C40) The panel of the Computer comes to rest and follows the work: three runs of its effect reach a
  fixed point; there it is open for the turn that works on the Computer unless that turn was dismissed;
  and closing it keeps it closed for that turn as long as the turn runs or recovers. When the turn is not
  known to run, closing has no effect: the panel opens again by itself.
\<close>

theorem panel_follows_work:
  assumes "chatActive p" "computerWorkingTurn p = Some t"
  shows "experience_effect p (settled_experience p x) = settled_experience p x \<and>
    (ex_dismissed x \<noteq> Some t \<longrightarrow> computerVisible p (settled_experience p x)) \<and>
    (ex_auto x \<in> {None, Some t} \<longrightarrow>
      computerVisible p (settled_experience p (closeComputer p x)) = (\<not> turn_live p t))"
proof (intro conjI impI)
  show "experience_effect p (settled_experience p x) = settled_experience p x" by (rule panel_settled)
next
  assume "ex_dismissed x \<noteq> Some t"
  then show "computerVisible p (settled_experience p x)"
    using settled_panel(1) [OF assms(1), of x] assms(2)
    by (auto simp: auto_open_settled [OF assms(1)] panel_step_def split: option.splits if_splits)
next
  assume "ex_auto x \<in> {None, Some t}"
  then have "ex_auto (closeComputer p x) = None" "ex_dismissed (closeComputer p x) = Some t" "ex_review (closeComputer p x) = None"
    using assms(2) by (auto simp: closeComputer_def Let_def)
  then show "computerVisible p (settled_experience p (closeComputer p x)) = (\<not> turn_live p t)"
    using settled_panel [OF assms(1), of "closeComputer p x"] assms(2)
    by (auto simp: auto_open_settled [OF assms(1)] panel_step_def split: if_splits)
qed

definition example_activity :: computer_activity where
  "example_activity = \<lparr>ca_id = lit ''act'', ca_provider_tool_call_id = None, ca_tool = Some (lit ''browser_open''),
     ca_operation = None, ca_agent_id = None, ca_phase = lit ''started'', ca_terminal = False, ca_unsupported = False,
     ca_conflict = False, ca_first_sequence = 1, ca_last_sequence = 1, ca_latest_event_id = lit ''event'',
     ca_payload = Some (JObj [(lit ''scope'', JObj [(lit ''turn_id'', JStr (lit ''turn''))])])\<rparr>"

definition example_place :: place where
  "example_place = \<lparr>pl_path = lit ''/chat'', pl_session = None,
     pl_operator = emptyOperatorState\<lparr>computer_activities := [(lit ''act'', example_activity)]\<rparr>\<rparr>"

theorem panel_follows_work_witness:
  "computerWorkingTurn example_place = Some (lit ''turn'') \<and>
   computerVisible example_place (settled_experience example_place
     (closeComputer example_place \<lparr>ex_review = None, ex_auto = None, ex_dismissed = None\<rparr>))"
proof -
  have chat: "chatActive example_place" by (simp add: chatActive_def example_place_def)
  have "trim (lit ''browser_open'') = lit ''browser_open''"
    by (simp add: trim_def trim_start_def lit_def is_space_def)
  moreover have "to_lower (lit ''browser_open'') = lit ''browser_open''"
    by (simp add: to_lower_def lit_def lower_unit_def)
  ultimately have turn: "computerWorkingTurn example_place = Some (lit ''turn'')"
    by (simp add: computerWorkingTurn_def chatActive_def activeComputerTurnID_def activeComputerActivities_def dict_values_def
        example_place_def example_activity_def isComputerSurfaceTool_def starts_with_def activity_turn_def scope_field_def)
  have "\<not> turn_live example_place (lit ''turn'')"
    by (simp add: turn_live_def example_place_def emptyOperatorState_def dict_get_def)
  then show ?thesis
    using panel_follows_work [OF chat turn, of "\<lparr>ex_review = None, ex_auto = None, ex_dismissed = None\<rparr>"] turn by simp
qed

section \<open>The timeline\<close>

lemma stage_selected_in: "stage_selected evs st = Some e \<Longrightarrow> e \<in> set evs"
  by (auto simp: stage_selected_def at_last_def find_Some_iff split: if_splits option.splits)

lemma index_of_bound: "index_of x xs = Some i \<Longrightarrow> i < length xs \<and> xs ! i = x"
  by (induction xs arbitrary: i) (auto split: if_splits)

lemma selected_index:
  assumes "stage_selected evs st = Some e"
  obtains i where "selectedIndex evs st = int i" "i < length evs" "event_id (evs ! i) = event_id e"
proof -
  have "event_id e \<in> set (map event_id evs)" using stage_selected_in [OF assms] by simp
  then obtain i where i: "index_of (event_id e) (map event_id evs) = Some i"
    using index_of_None [of "event_id e" "map event_id evs"] by (cases "index_of (event_id e) (map event_id evs)") auto
  show thesis using that [of i] index_of_bound [OF i] by (auto simp: selectedIndex_def assms i)
qed

lemma stage_selected_exists: "evs \<noteq> [] \<Longrightarrow> \<exists>e. stage_selected evs st = Some e"
  by (auto simp: stage_selected_def at_last_def split: option.splits)

text \<open>
  The timeline shows at most two hundred events and always the selected one; together with the
  numbers of hidden events it accounts for every event.
\<close>

theorem timeline_shows_selection:
  "length (visibleEvents evs st) \<le> 200 \<and>
   hiddenBefore evs st + int (length (visibleEvents evs st)) + hiddenAfter evs st = int (length evs) \<and>
   (evs = [] \<or> (\<exists>e. stage_selected evs st = Some e \<and> event_id e \<in> event_id ` set (visibleEvents evs st)))"
proof (intro conjI)
  show "length (visibleEvents evs st) \<le> 200" by (simp add: visibleEvents_def timelineWindow_def)
  have start: "0 \<le> windowStart evs st" "windowStart evs st \<le> int (length evs)"
    by (auto simp: windowStart_def Let_def)
  then show "hiddenBefore evs st + int (length (visibleEvents evs st)) + hiddenAfter evs st = int (length evs)"
    by (auto simp: hiddenBefore_def hiddenAfter_def visibleEvents_def)
  show "evs = [] \<or> (\<exists>e. stage_selected evs st = Some e \<and> event_id e \<in> event_id ` set (visibleEvents evs st))"
  proof (cases "evs = []")
    case False
    then obtain e where e: "stage_selected evs st = Some e" using stage_selected_exists by blast
    obtain i where i: "selectedIndex evs st = int i" "i < length evs" "event_id (evs ! i) = event_id e"
      using selected_index [OF e] by blast
    define k where "k = nat (windowStart evs st)"
    have k: "k \<le> i" "i < k + 200"
      using i(2) by (auto simp: k_def windowStart_def Let_def i(1) timelineWindow_def)
    have "visibleEvents evs st ! (i - k) = evs ! i" "i - k < length (visibleEvents evs st)"
      using k i(2) by (auto simp: visibleEvents_def k_def [symmetric] timelineWindow_def)
    then have "evs ! i \<in> set (visibleEvents evs st)" by (metis nth_mem)
    then show ?thesis using e i(3) by (metis image_eqI)
  qed simp
qed

text \<open>
  Looking back is stable: an event selected in the timeline stays the selected one while new
  events arrive and others leave the retained window, as long as it is retained itself; selecting the
  newest event follows the live activity instead.
\<close>

theorem selection_stable:
  assumes "e \<in> set evs'" "e \<in> set evs"
  shows "(event_id e \<noteq> event_id (last evs) \<longrightarrow> map_option event_id (stage_selected evs' (selectEvent evs e st)) = Some (event_id e)) \<and>
    (event_id e = event_id (last evs) \<longrightarrow> stage_selected evs' (selectEvent evs e st) = Some (last evs'))"
proof -
  have po: "dict_get (st_positions (selectEvent evs e st)) (st_workspace (selectEvent evs e st)) =
      Some \<lparr>po_follow = (event_id e = event_id (last evs)), po_event = Some (event_id e)\<rparr>"
    using assms(2) by (auto simp: selectEvent_def dict_get_put at_last_def)
  have "find (\<lambda>x. Some (event_id x) = Some (event_id e)) evs' \<noteq> None"
    using assms(1) by (auto simp: find_None_iff)
  then obtain y where y: "find (\<lambda>x. event_id x = event_id e) evs' = Some y" by auto
  then have "event_id y = event_id e" by (auto simp: find_Some_iff)
  with po y assms show ?thesis
    by (auto simp: stage_selected_def followLive_def selectedEventID_def at_last_def)
qed

end
