(* ===== verification/WebControls.thy ===== *)
theory WebControls
  imports ChatText
begin

text \<open>
  Two controls of the web client: the handle between panels
  (\<open>components/PanelResizeHandle.tsx\<close>) and the command palette
  (\<open>components/CommandPalette.tsx\<close>). What the browser measures is a parameter of a handler.
\<close>

section \<open>Arithmetic\<close>

text \<open>
  The operations on numbers these controls use, with the result rounded to a double; \<open>-0\<close> is
  identified with \<open>0\<close>, so that a quotient by zero has the sign of the dividend.
\<close>

fun js_sub :: "jsnum \<Rightarrow> jsnum \<Rightarrow> jsnum" where
  "js_sub (Fin a) (Fin b) = to_double (a - b)"
| "js_sub NaN _ = NaN"
| "js_sub _ NaN = NaN"
| "js_sub PosInf PosInf = NaN"
| "js_sub NegInf NegInf = NaN"
| "js_sub PosInf _ = PosInf"
| "js_sub NegInf _ = NegInf"
| "js_sub (Fin _) PosInf = NegInf"
| "js_sub (Fin _) NegInf = PosInf"

text \<open>A number plus an integer.\<close>

definition js_plus :: "jsnum \<Rightarrow> int \<Rightarrow> jsnum" where
  "js_plus x n = js_sub x (Fin (- of_int n))"

fun js_scale :: "rat \<Rightarrow> jsnum \<Rightarrow> jsnum" where
  "js_scale c (Fin a) = to_double (a * c)"
| "js_scale c NaN = NaN"
| "js_scale c PosInf = (if c = 0 then NaN else if c < 0 then NegInf else PosInf)"
| "js_scale c NegInf = (if c = 0 then NaN else if c < 0 then PosInf else NegInf)"

text \<open>A number divided by a finite one.\<close>

fun js_over :: "jsnum \<Rightarrow> rat \<Rightarrow> jsnum" where
  "js_over (Fin a) c = (if c = 0 then (if a = 0 then NaN else if a < 0 then NegInf else PosInf) else to_double (a / c))"
| "js_over NaN c = NaN"
| "js_over PosInf c = (if c < 0 then NegInf else PosInf)"
| "js_over NegInf c = (if c < 0 then PosInf else NegInf)"

fun js_less :: "jsnum \<Rightarrow> jsnum \<Rightarrow> bool" where
  "js_less (Fin a) (Fin b) = (a < b)"
| "js_less NegInf PosInf = True"
| "js_less NegInf (Fin _) = True"
| "js_less (Fin _) PosInf = True"
| "js_less _ _ = False"

definition js_max :: "jsnum \<Rightarrow> jsnum \<Rightarrow> jsnum" where
  "js_max x y = (if x = NaN \<or> y = NaN then NaN else if js_less x y then y else x)"

definition js_min :: "jsnum \<Rightarrow> jsnum \<Rightarrow> jsnum" where
  "js_min x y = (if x = NaN \<or> y = NaN then NaN else if js_less y x then y else x)"

fun js_round :: "jsnum \<Rightarrow> jsnum" where
  "js_round (Fin a) = Fin (of_int \<lfloor>a + 1 / 2\<rfloor>)"
| "js_round x = x"

fun js_ceil :: "jsnum \<Rightarrow> jsnum" where
  "js_ceil (Fin a) = Fin (of_int \<lceil>a\<rceil>)"
| "js_ceil x = x"

section \<open>The handle between panels\<close>

datatype resize_direction = FromLeft | FromRight

record resize_props =
  rp_default :: int
  rp_direction :: resize_direction
  rp_max :: int
  rp_min :: int
  rp_opposite :: int
  rp_value :: jsnum

text \<open>The bounding rectangle of the container, when it is mounted: left, right and width.\<close>

record container =
  cn_left :: rat
  cn_right :: rat
  cn_width :: rat

datatype resize_effect =
    OnChange jsnum
  | OnResizeState bool
  | CapturePointer nat
  | ReleasePointer nat

definition num :: "int \<Rightarrow> jsnum" where
  "num n = Fin (of_int n)"

definition handleWidth :: int where
  "handleWidth = 7"

definition keyboardStep :: int where
  "keyboardStep = 24"

definition effectiveMaximum :: "resize_props \<Rightarrow> container option \<Rightarrow> jsnum" where
  "effectiveMaximum rp c = (case c of
      None \<Rightarrow> num (rp_max rp)
    | Some c \<Rightarrow> js_max (num (rp_min rp)) (js_min (num (rp_max rp))
        (js_sub (js_sub (Fin (cn_width c)) (num (rp_opposite rp))) (num handleWidth))))"

definition resize_update :: "resize_props \<Rightarrow> container option \<Rightarrow> jsnum \<Rightarrow> resize_effect" where
  "resize_update rp c next' = OnChange (js_round (js_max (num (rp_min rp)) (js_min (effectiveMaximum rp c) next')))"

definition valueFromPointer :: "resize_props \<Rightarrow> container option \<Rightarrow> rat \<Rightarrow> jsnum" where
  "valueFromPointer rp c clientX = (case c of
      None \<Rightarrow> rp_value rp
    | Some c \<Rightarrow> (case rp_direction rp of
          FromLeft \<Rightarrow> js_sub (Fin clientX) (Fin (cn_left c))
        | FromRight \<Rightarrow> js_sub (Fin (cn_right c)) (Fin clientX)))"

text \<open>The events of the handle; the third argument of an end is whether the pointer is captured.\<close>

datatype resize_input =
    PointerDown nat bool int rat
  | PointerMove nat rat
  | PointerEnd nat bool
  | LostCapture
  | KeyDown string
  | DoubleClick

definition keyDown :: "resize_props \<Rightarrow> container option \<Rightarrow> string \<Rightarrow> resize_effect list" where
  "keyDown rp c key =
     (if key = ''Home'' then [resize_update rp c (num (rp_min rp))]
      else if key = ''End'' then [resize_update rp c (effectiveMaximum rp c)]
      else if key = ''ArrowLeft'' \<or> key = ''ArrowRight'' then
        (let leftward = (key = ''ArrowLeft'');
             delta = (if (rp_direction rp = FromLeft) = leftward then - keyboardStep else keyboardStep) in
         [resize_update rp c (js_plus (rp_value rp) delta)])
      else [])"

fun resize_handle :: "resize_props \<Rightarrow> container option \<Rightarrow> resize_input \<Rightarrow> nat option \<Rightarrow> nat option \<times> resize_effect list" where
  "resize_handle rp c (PointerDown i mouse button clientX) active =
     (if mouse \<and> button \<noteq> 0 then (active, [])
      else (Some i, [CapturePointer i, OnResizeState True, resize_update rp c (valueFromPointer rp c clientX)]))"
| "resize_handle rp c (PointerMove i clientX) active =
     (if active \<noteq> Some i then (active, []) else (active, [resize_update rp c (valueFromPointer rp c clientX)]))"
| "resize_handle rp c (PointerEnd i captured) active =
     (if active \<noteq> Some i then (active, [])
      else (None, OnResizeState False # (if captured then [ReleasePointer i] else [])))"
| "resize_handle rp c LostCapture active = (None, [OnResizeState False])"
| "resize_handle rp c (KeyDown key) active = (active, keyDown rp c key)"
| "resize_handle rp c DoubleClick active = (active, [resize_update rp c (num (rp_default rp))])"

fun resize_run :: "(resize_props \<times> container option \<times> resize_input) list \<Rightarrow> nat option \<Rightarrow> nat option \<times> resize_effect list" where
  "resize_run [] active = (active, [])"
| "resize_run ((rp, c, i) # ins) active =
     (let (a1, es1) = resize_handle rp c i active; (a2, es2) = resize_run ins a1 in (a2, es1 @ es2))"

section \<open>The command palette\<close>

definition globalCommands :: "(string \<times> string) list" where
  "globalCommands = [(''Start a conversation'', ''/chat''), (''Open system overview'', ''/overview''),
     (''Manage conversations'', ''/sessions''), (''Review saved knowledge'', ''/knowledge''),
     (''Review goals and active work'', ''/work''), (''Open Software Studio'', ''/studio''),
     (''Review actions and decisions'', ''/execution''), (''Manage models and connections'', ''/extensions''),
     (''Manage availability and schedules'', ''/presence''), (''Review preferences and identity'', ''/identity''),
     (''Review safety decisions'', ''/security''), (''Check information integrity'', ''/integrity''),
     (''Check system health'', ''/diagnostics'')]"

definition studio_panels :: "(string \<times> string) list" where
  "studio_panels = [(''Plan'', ''plan''), (''Changes'', ''changes''), (''Code'', ''code''), (''Terminal'', ''terminal''),
     (''Preview'', ''preview''), (''Problems'', ''problems''), (''Tests'', ''tests''), (''Security'', ''security''),
     (''Data'', ''data''), (''Deploy'', ''deploy'')]"

text \<open>\<open>/^\\/studio\\/([0-9a-f-]+)$/\<close>, here with case.\<close>

definition studioMatch :: "jstring \<Rightarrow> jstring option" where
  "studioMatch path = (let r = drop 8 path in
     if starts_with ''/studio/'' path \<and> r \<noteq> [] \<and>
        list_all (\<lambda>u. 48 \<le> unat u \<and> unat u \<le> 57 \<or> 97 \<le> unat u \<and> unat u \<le> 102 \<or> u = 45) r
     then Some r else None)"

definition palette_commands :: "jstring \<Rightarrow> (jstring \<times> jstring) list" where
  "palette_commands path = (let global = map (\<lambda>(label, p). (lit label, lit p)) globalCommands in
     case studioMatch path of
       None \<Rightarrow> global
     | Some project \<Rightarrow> map (\<lambda>(label, panel). (lit ''Open project '' @ lit label,
         lit ''/studio/'' @ project @ (if panel = ''plan'' then [] else lit ''?panel='' @ lit panel))) studio_panels @ global)"

text \<open>\<open>lower\<close> is \<open>toLowerCase\<close> of the Unicode tables.\<close>

definition palette_filtered :: "(jstring \<Rightarrow> jstring) \<Rightarrow> jstring \<Rightarrow> jstring \<Rightarrow> (jstring \<times> jstring) list" where
  "palette_filtered lower path query = filter (\<lambda>(label, p). sublist (lower query) (lower label)) (palette_commands path)"

record palette =
  pa_open :: bool
  pa_query :: jstring

datatype palette_input =
    PaletteKey bool bool jstring
  | OpenCommand
  | QueryTyped jstring
  | OpenChanged bool
  | Chosen jstring

fun palette_handle :: "(jstring \<Rightarrow> jstring) \<Rightarrow> palette_input \<Rightarrow> palette \<Rightarrow> palette \<times> jstring option" where
  "palette_handle lower (PaletteKey ctrl meta key) s =
     (if (ctrl \<or> meta) \<and> lower key = lit ''k'' then (s\<lparr>pa_open := \<not> pa_open s\<rparr>, None) else (s, None))"
| "palette_handle lower OpenCommand s = (s\<lparr>pa_open := True\<rparr>, None)"
| "palette_handle lower (QueryTyped q) s = (s\<lparr>pa_query := q\<rparr>, None)"
| "palette_handle lower (OpenChanged b) s = (s\<lparr>pa_open := b\<rparr>, None)"
| "palette_handle lower (Chosen path) s = (s\<lparr>pa_open := False, pa_query := []\<rparr>, Some path)"

section \<open>Properties\<close>

lemma js_less_not_NaN [simp]: "\<not> js_less NaN x" "\<not> js_less x NaN"
  by (cases x, simp_all)+

text \<open>A number between two integers.\<close>

definition between :: "int \<Rightarrow> jsnum \<Rightarrow> int \<Rightarrow> bool" where
  "between a x b \<longleftrightarrow> (\<exists>q. x = Fin q \<and> of_int a \<le> q \<and> q \<le> of_int b)"

lemma js_clamp: "a \<le> b \<Longrightarrow> x \<noteq> NaN \<Longrightarrow> between a (js_max (num a) (js_min (num b) x)) b"
  by (cases x) (auto simp: between_def js_max_def js_min_def num_def)

lemma js_clamp_below: "between a y b \<Longrightarrow> x \<noteq> NaN \<Longrightarrow> between a (js_max (num a) (js_min y x)) b"
  by (cases x) (auto simp: between_def js_max_def js_min_def num_def)

lemma to_double_number: "to_double q \<noteq> NaN"
  by (simp only: to_double_def Let_def split: if_split) simp

lemma js_sub_number: "x \<noteq> NaN \<Longrightarrow> js_sub x (Fin b) \<noteq> NaN"
  by (cases x) (simp_all add: to_double_number)

lemma js_round_between: "between a x b \<Longrightarrow> \<exists>n. js_round x = num n \<and> a \<le> n \<and> n \<le> b"
proof -
  assume "between a x b"
  then obtain q where q: "x = Fin q" "of_int a \<le> q" "q \<le> of_int b" by (auto simp: between_def)
  have "a \<le> \<lfloor>q + 1 / 2\<rfloor>" using q(2) by (simp add: le_floor_iff)
  moreover have "\<lfloor>q + 1 / 2\<rfloor> \<le> b" using q(3) by (simp add: floor_le_iff)
  ultimately show ?thesis by (auto simp: q(1) num_def)
qed

lemma effectiveMaximum_between: "rp_min rp \<le> rp_max rp \<Longrightarrow> between (rp_min rp) (effectiveMaximum rp c) (rp_max rp)"
proof (cases c)
  case None
  then show "rp_min rp \<le> rp_max rp \<Longrightarrow> ?thesis" by (simp add: effectiveMaximum_def between_def num_def)
next
  case (Some r)
  have "js_sub (js_sub (Fin (cn_width r)) (num (rp_opposite rp))) (num handleWidth) \<noteq> NaN"
    by (simp add: num_def js_sub_number to_double_number)
  then show "rp_min rp \<le> rp_max rp \<Longrightarrow> ?thesis" by (simp add: Some effectiveMaximum_def js_clamp)
qed

lemma update_between:
  assumes "rp_min rp \<le> rp_max rp" "x \<noteq> NaN"
  shows "\<exists>n. resize_update rp c x = OnChange (num n) \<and> rp_min rp \<le> n \<and> n \<le> rp_max rp"
  using js_round_between [OF js_clamp_below [OF effectiveMaximum_between [OF assms(1)] assms(2)]]
  by (auto simp: resize_update_def)

lemma valueFromPointer_number: "rp_value rp \<noteq> NaN \<Longrightarrow> valueFromPointer rp c clientX \<noteq> NaN"
  by (simp add: valueFromPointer_def js_sub_number to_double_number split: option.splits resize_direction.splits)

definition resize_ok :: "resize_props \<Rightarrow> bool" where
  "resize_ok rp \<longleftrightarrow> rp_min rp \<le> rp_max rp \<and> rp_value rp \<noteq> NaN"

lemma num_number [simp]: "num n \<noteq> NaN"
  by (simp add: num_def)

lemma keyDown_cases:
  "e \<in> set (keyDown rp c key) \<Longrightarrow> e = resize_update rp c (num (rp_min rp)) \<or>
   e = resize_update rp c (effectiveMaximum rp c) \<or> e = resize_update rp c (js_plus (rp_value rp) keyboardStep) \<or>
   e = resize_update rp c (js_plus (rp_value rp) (- keyboardStep))"
  by (simp add: keyDown_def Let_def split: if_splits)

lemma handle_updates:
  assumes "resize_ok rp" "OnChange x \<in> set (snd (resize_handle rp c i active))"
  shows "\<exists>y. y \<noteq> NaN \<and> OnChange x = resize_update rp c y"
proof -
  have value_ok: "rp_value rp \<noteq> NaN" and "rp_min rp \<le> rp_max rp" using assms(1) by (simp_all add: resize_ok_def)
  then have max_ok: "effectiveMaximum rp c \<noteq> NaN" using effectiveMaximum_between [of rp c] by (auto simp: between_def)
  note pointer_ok = valueFromPointer_number [OF value_ok, of c]
  have plus_ok: "js_plus (rp_value rp) n \<noteq> NaN" for n using value_ok by (simp add: js_plus_def js_sub_number)
  show ?thesis
  proof (cases i)
    case (KeyDown key)
    then have "OnChange x \<in> set (keyDown rp c key)" using assms(2) by simp
    from keyDown_cases [OF this] show ?thesis
    proof (elim disjE)
      assume "OnChange x = resize_update rp c (num (rp_min rp))"
      then show ?thesis using num_number by (intro exI conjI)
    next
      assume "OnChange x = resize_update rp c (effectiveMaximum rp c)"
      then show ?thesis using max_ok by (intro exI conjI)
    next
      assume "OnChange x = resize_update rp c (js_plus (rp_value rp) keyboardStep)"
      then show ?thesis using plus_ok by (intro exI conjI)
    next
      assume "OnChange x = resize_update rp c (js_plus (rp_value rp) (- keyboardStep))"
      then show ?thesis using plus_ok by (intro exI conjI)
    qed
  next
    case DoubleClick
    then show ?thesis using assms(2) num_number by (intro exI [of _ "num (rp_default rp)"]) simp
  next
    case (PointerDown n mouse button clientX)
    then show ?thesis
      using assms(2) pointer_ok by (intro exI [of _ "valueFromPointer rp c clientX"]) (simp split: if_splits)
  next
    case (PointerMove n clientX)
    then show ?thesis
      using assms(2) pointer_ok by (intro exI [of _ "valueFromPointer rp c clientX"]) (simp split: if_splits)
  qed (use assms(2) in \<open>simp_all split: if_splits\<close>)
qed

lemma handle_between:
  assumes "resize_ok rp" "OnChange x \<in> set (snd (resize_handle rp c i active))"
  shows "\<exists>n. x = num n \<and> rp_min rp \<le> n \<and> n \<le> rp_max rp"
proof -
  obtain y where y: "y \<noteq> NaN" "OnChange x = resize_update rp c y" using handle_updates [OF assms] by blast
  have "rp_min rp \<le> rp_max rp" using assms(1) by (simp add: resize_ok_def)
  from update_between [OF this y(1), of c] show ?thesis using y(2) by auto
qed

fun resizing_after :: "bool \<Rightarrow> resize_effect list \<Rightarrow> bool" where
  "resizing_after b [] = b"
| "resizing_after b (OnResizeState s # es) = resizing_after s es"
| "resizing_after b (_ # es) = resizing_after b es"

lemma resizing_after_append: "resizing_after b (es @ fs) = resizing_after (resizing_after b es) fs"
  by (induction b es rule: resizing_after.induct) auto

lemma handle_resizing:
  "resizing_after (active \<noteq> None) (snd (resize_handle rp c i active)) = (fst (resize_handle rp c i active) \<noteq> None)"
  by (cases i) (auto simp: keyDown_def resize_update_def Let_def)

text \<open>
  A panel keeps its limits: over any sequence of pointer, keyboard and double-click events, with the
  container measured anew at each, every width reported is a whole number between the minimum and the
  maximum, and the panel is told that it is being resized exactly while a pointer holds the handle.
\<close>

theorem resize_bounded:
  assumes "list_all (\<lambda>(rp, c, i). resize_ok rp \<and> rp_min rp = a \<and> rp_max rp = b) ins"
  shows "(\<forall>x. OnChange x \<in> set (snd (resize_run ins active)) \<longrightarrow> (\<exists>n. x = num n \<and> a \<le> n \<and> n \<le> b)) \<and>
    resizing_after (active \<noteq> None) (snd (resize_run ins active)) = (fst (resize_run ins active) \<noteq> None)"
  using assms
proof (induction ins arbitrary: active)
  case (Cons rci ins)
  obtain rp c i where rci: "rci = (rp, c, i)" by (cases rci) auto
  obtain a1 es1 where h: "resize_handle rp c i active = (a1, es1)" by fastforce
  have rp: "resize_ok rp" "rp_min rp = a" "rp_max rp = b" using Cons.prems by (simp_all add: rci)
  have run: "resize_run (rci # ins) active = (fst (resize_run ins a1), es1 @ snd (resize_run ins a1))"
    by (simp add: rci h case_prod_beta)
  have "\<exists>n. x = num n \<and> a \<le> n \<and> n \<le> b" if "OnChange x \<in> set es1" for x
    using handle_between [OF rp(1), of x c i active] that by (simp add: h rp)
  moreover have "resizing_after (active \<noteq> None) es1 = (a1 \<noteq> None)"
    using handle_resizing [of active rp c i] by (simp add: h)
  ultimately show ?case using Cons.IH [of a1] Cons.prems by (auto simp: run resizing_after_append)
qed simp

definition example_resize :: resize_props where
  "example_resize = \<lparr>rp_default = 340, rp_direction = FromLeft, rp_max = 520, rp_min = 280, rp_opposite = 560, rp_value = num 340\<rparr>"

theorem resize_bounded_witness:
  "resizing_after (None \<noteq> (None :: nat option)) (snd (resize_run
     [(example_resize, None, PointerDown 1 False 0 10), (example_resize, None, PointerEnd 1 False)] None)) = False"
  using resize_bounded [of 280 520 "[(example_resize, None, PointerDown 1 False 0 10), (example_resize, None, PointerEnd 1 False)]" None]
  by (simp add: example_resize_def resize_ok_def num_def)

text \<open>The paths of the palette, which are the keys of its rows, are distinct.\<close>

lemma palette_paths_distinct: "distinct (map snd (palette_commands path))"
proof (cases "studioMatch path")
  case None
  then show ?thesis by (simp add: palette_commands_def globalCommands_def)
next
  case (Some project)
  then have "project \<noteq> []" by (auto simp: studioMatch_def Let_def split: if_splits)
  then show ?thesis using Some by (simp add: palette_commands_def globalCommands_def studio_panels_def lit_def)
qed

end
