(* ===== verification/Control.thy ===== *)
theory Control
  imports Computer WebControls Provider
begin

text \<open>
  Taking control: the browser lease and the workflows of \<open>features/computer/ComputerStage.tsx\<close> and
  the private desktop of \<open>features/computer/PrivateDesktop.tsx\<close>. What the periodic queries have
  last returned is a parameter of a handler, at the types the components declare for it; the results of
  the requests a handler makes arrive later.
\<close>

section \<open>Leases\<close>

datatype lease_state = Available | Active | Released | Expired

text \<open>\<open>ls_owner_value\<close> is the owner as it was received and is sent back; its revision is read.\<close>

record lease =
  ls_id :: "jstring option"
  ls_owner_value :: jsval
  ls_owner_revision :: int
  ls_state :: lease_state
  ls_by_operator :: bool
  ls_revision :: int

datatype lease_operation = Acquire | Renew | Release

fun lease_operation_name :: "lease_operation \<Rightarrow> string" where
  "lease_operation_name Acquire = ''computer.control.acquire''"
| "lease_operation_name Renew = ''computer.control.renew''"
| "lease_operation_name Release = ''computer.control.release''"

definition lease_id_value :: "lease \<Rightarrow> jsval" where
  "lease_id_value l = (case ls_id l of None \<Rightarrow> JUndef | Some i \<Rightarrow> JStr i)"

definition ttl :: "(jstring \<times> jsval) list" where
  "ttl = [(lit ''ttl_seconds'', JInt 90)]"

definition acquire_fields :: "lease \<Rightarrow> (jstring \<times> jsval) list" where
  "acquire_fields l = [(lit ''owner'', ls_owner_value l), (lit ''expected_lease_revision'', JInt (ls_revision l))] @ ttl"

definition held_fields :: "lease_operation \<Rightarrow> lease \<Rightarrow> (jstring \<times> jsval) list" where
  "held_fields operation l = [(lit ''lease_id'', lease_id_value l),
     (lit ''expected_lease_revision'', JInt (ls_revision l))] @ (if operation = Renew then ttl else [])"

section \<open>The browser\<close>

record target =
  tg_resource :: jstring
  tg_revision :: int

definition resource_fields :: "string \<Rightarrow> jstring \<Rightarrow> (jstring \<times> jsval) list" where
  "resource_fields kind resource = [(lit ''resource_kind'', JStr (lit kind)), (lit ''resource_id'', JStr resource)]"

definition browserControlTarget :: "platform \<Rightarrow> jstring option \<Rightarrow> event_envelope option \<Rightarrow> target option" where
  "browserControlTarget pf sessionID selected = (case (selected, sessionID) of
      (Some e, Some session) \<Rightarrow> (case computerPayload pf e of
          Some p \<Rightarrow> if starts_with ''browser_'' (str_of (fld p ''tool''))
            then Some \<lparr>tg_resource = session, tg_revision = sequence e\<rparr> else None
        | None \<Rightarrow> None)
    | _ \<Rightarrow> None)"

definition session_scope :: "jstring option \<Rightarrow> jsval" where
  "session_scope session = (case session of None \<Rightarrow> JUndef | Some i \<Rightarrow> JStr i)"

definition controlCommand :: "jstring option \<Rightarrow> target option \<Rightarrow> lease option \<Rightarrow> lease_operation \<Rightarrow> call option" where
  "controlCommand sessionID tg current operation = (case (tg, current) of
      (Some t, Some l) \<Rightarrow> Some (command_call (lease_operation_name operation)
        (JObj (resource_fields ''browser'' (tg_resource t) @
          (if operation = Acquire then [(lit ''target_revision'', JInt (tg_revision t))] @ acquire_fields l
           else held_fields operation l))) (session_scope sessionID))
    | _ \<Rightarrow> None)"

definition control_notice :: "lease_operation \<Rightarrow> string" where
  "control_notice operation = (case operation of
      Acquire \<Rightarrow> ''Browser control acquired. Automation is paused at the action boundary.''
    | Renew \<Rightarrow> ''Browser control renewed.''
    | Release \<Rightarrow> ''Browser control returned to the executor.'')"

datatype browser_operation = Observe | NavigateTo jstring | Interact jstring jstring | SubmitControl jstring

fun browser_operation_name :: "browser_operation \<Rightarrow> string" where
  "browser_operation_name Observe = ''computer.browser.observe''"
| "browser_operation_name (NavigateTo _) = ''computer.browser.navigate''"
| "browser_operation_name (Interact _ _) = ''computer.browser.interact''"
| "browser_operation_name (SubmitControl _) = ''computer.browser.submit''"

fun browser_extra :: "browser_operation \<Rightarrow> (jstring \<times> jsval) list" where
  "browser_extra Observe = []"
| "browser_extra (NavigateTo url) = [(lit ''url'', JStr url)]"
| "browser_extra (Interact ref text) = [(lit ''action'', JStr (lit (if text = [] then ''click'' else ''fill''))),
     (lit ''ref'', JStr ref), (lit ''value'', JStr text)]"
| "browser_extra (SubmitControl ref) = [(lit ''ref'', JStr ref)]"

definition browserControl :: "jstring option \<Rightarrow> target option \<Rightarrow> lease option \<Rightarrow> browser_operation \<Rightarrow> call option" where
  "browserControl sessionID tg current operation = (case (tg, current) of
      (Some t, Some l) \<Rightarrow> (case ls_id l of
          None \<Rightarrow> None
        | Some i \<Rightarrow> if ls_state l \<noteq> Active then None
            else Some ((if operation = Observe then query_call else command_call) (browser_operation_name operation)
              (JObj (resource_fields ''browser'' (tg_resource t) @ [(lit ''lease_id'', JStr i),
                (lit ''expected_lease_revision'', JInt (ls_revision l))] @ browser_extra operation)) (session_scope sessionID)))
    | _ \<Rightarrow> None)"

datatype workflow_operation = Pause | ResumeWorkflow | CancelWorkflow | Handoff jstring jstring

definition workflowCommand :: "jstring option \<Rightarrow> workflow_operation \<Rightarrow> jstring \<Rightarrow> call" where
  "workflowCommand sessionID operation workflowID = (let i = (lit ''workflow_id'', JStr workflowID) in
     case operation of
       Pause \<Rightarrow> command_call ''browser.workflow.pause'' (JObj [i]) (session_scope sessionID)
     | ResumeWorkflow \<Rightarrow> command_call ''browser.workflow.resume'' (JObj [i]) (session_scope sessionID)
     | CancelWorkflow \<Rightarrow> command_call ''browser.workflow.cancel'' (JObj [i]) (session_scope sessionID)
     | Handoff kind consequence \<Rightarrow> command_call ''browser.workflow.handoff''
         (JObj [i, (lit ''kind'', JStr kind), (lit ''consequence'', JStr consequence)]) (session_scope sessionID))"

section \<open>Texts of the stage\<close>

text \<open>\<open>replace(/\\b\\w/g, upper case)\<close>: the first character of every run of ASCII word characters.\<close>

definition ascii_word :: "code_unit \<Rightarrow> bool" where
  "ascii_word u \<longleftrightarrow> (let n = unat u in 48 \<le> n \<and> n \<le> 57 \<or> 65 \<le> n \<and> n \<le> 90 \<or> n = 95 \<or> 97 \<le> n \<and> n \<le> 122)"

fun title_case :: "bool \<Rightarrow> jstring \<Rightarrow> jstring" where
  "title_case inside [] = []"
| "title_case inside (u # s) = (if ascii_word u \<and> \<not> inside then upper_unit u else u) # title_case (ascii_word u) s"

definition stage_humanize :: "jstring \<Rightarrow> jstring" where
  "stage_humanize s = title_case False (underscores_to_spaces s)"

definition stageStatus :: "event_envelope option \<Rightarrow> jsval option \<Rightarrow> bool \<Rightarrow> connection_status \<Rightarrow> jstring \<times> string" where
  "stageStatus event p retention_gap conn =
     (if conn = Connecting then (lit ''Recovering live state'', ''recovering'')
      else if conn = Degraded then (lit ''Connection interrupted'', ''degraded'')
      else if retention_gap then (lit ''Live with a retention gap'', ''degraded'')
      else if event = None then (lit ''Ready'', ''empty'')
      else case p of
          None \<Rightarrow> (lit ''Unsupported retained event'', ''unsupported'')
        | Some p \<Rightarrow> (let phase = str_of (fld p ''phase'') in
            if phase = lit ''awaiting_approval'' then (lit ''Awaiting your decision'', ''waiting'')
            else if phase = lit ''outcome_unknown'' then (lit ''Outcome unknown'', ''degraded'')
            else if phase = lit ''failed'' \<or> phase = lit ''denied'' then (stage_humanize phase, ''failed'')
            else if phase = lit ''interrupted'' then (lit ''Interrupted'', ''degraded'')
            else if phase = lit ''completed'' then (lit ''Completed'', ''completed'')
            else (stage_humanize phase, ''active'')))"

definition activityTitle :: "jsval option \<Rightarrow> jstring" where
  "activityTitle p = (case p of None \<Rightarrow> lit ''Computer workspace'' | Some p \<Rightarrow> stage_humanize (str_of (fld p ''tool'')))"

definition timelineTitle :: "platform \<Rightarrow> event_envelope \<Rightarrow> jstring" where
  "timelineTitle pf e = (case computerPayload pf e of
      None \<Rightarrow> lit ''Unsupported activity'' | Some p \<Rightarrow> stage_humanize (str_of (fld p ''operation'')))"

definition timelinePhase :: "platform \<Rightarrow> event_envelope \<Rightarrow> jstring" where
  "timelinePhase pf e = stage_humanize (case computerPayload pf e of
      None \<Rightarrow> ev_type e | Some p \<Rightarrow> str_of (fld p ''phase''))"

definition StageLifecycle :: "platform \<Rightarrow> event_envelope \<Rightarrow> jstring \<times> jstring" where
  "StageLifecycle pf e = (let p = computerPayload pf e;
       phase = (case p of None \<Rightarrow> ev_type e | Some p \<Rightarrow> str_of (fld p ''phase'')) in
     (activityTitle p,
      if p \<noteq> None \<and> phase = lit ''awaiting_approval'' then lit ''This action is waiting for an explicit approval decision.''
      else if p \<noteq> None \<and> phase = lit ''progress'' then lit ''The action reported progress. No completion is claimed yet.''
      else if p \<noteq> None \<and> phase = lit ''outcome_unknown'' then lit ''Delivery may have happened, but Ion cannot verify the outcome.''
      else lit ''Lifecycle state: '' @ stage_humanize phase @ lit ''.''))"

definition StageEmpty :: "connection_status \<Rightarrow> string \<times> string" where
  "StageEmpty conn = (case conn of
      Connecting \<Rightarrow> (''Connecting to Computer'', ''Recovering the durable event stream before showing activity.'')
    | Degraded \<Rightarrow> (''Computer connection interrupted'',
        ''Live updates are temporarily unavailable. Retained history will return after reconnection.'')
    | Ready \<Rightarrow> (''No Computer activity yet'',
        ''Actions will appear here with their real status, evidence, and source attribution.''))"

section \<open>The private desktop\<close>

record desktop_status =
  ds_state :: jstring
  ds_width :: int
  ds_height :: int
  ds_stream :: bool

text \<open>
  What the component reads: whether it is shown, the session, the last status, lease and tickets. The
  query for an input ticket is keyed by the session, the lease and its revision.
\<close>

record desktop_ctx =
  dk_active :: bool
  dk_session :: "jstring option"
  dk_status :: "desktop_status option"
  dk_control :: "lease option"
  dk_view :: "jstring option"
  dk_input :: "jstring option \<times> jstring option \<times> int option \<Rightarrow> jstring option"

datatype frame_timer = NextFrame | RetryFrame nat

record desktop =
  dt_notice :: "jstring option"
  dt_nonce :: nat
  dt_ready :: bool
  dt_failures :: nat
  dt_timer :: "frame_timer option"
  dt_sent :: int

definition initial_desktop :: desktop where
  "initial_desktop = \<lparr>dt_notice = None, dt_nonce = 0, dt_ready = False, dt_failures = 0, dt_timer = None, dt_sent = 0\<rparr>"

datatype desktop_input =
    Move jsnum jsnum
  | Click jsnum jsnum string nat
  | Scroll jsnum jsnum string jsnum
  | TypeText jstring
  | PressKey string "string list"
  | Hotkey "string list"

datatype desktop_effect =
    SendInput jstring desktop_input
  | DesktopCommand lease_operation call
  | RefetchControl
  | RefetchInput
  | RefetchView

type_synonym desktop_result = "desktop \<times> desktop_effect list"

definition operatorOwnsControl :: "desktop_ctx \<Rightarrow> bool" where
  "operatorOwnsControl cx = (case dk_control cx of None \<Rightarrow> False | Some l \<Rightarrow> ls_state l = Active \<and> ls_by_operator l)"

definition input_key :: "desktop_ctx \<Rightarrow> jstring option \<times> jstring option \<times> int option" where
  "input_key cx = (dk_session cx, Option.bind (dk_control cx) ls_id, map_option ls_revision (dk_control cx))"

text \<open>The test that lets the query for an input ticket run, and the body of its request.\<close>

definition input_enabled :: "desktop_ctx \<Rightarrow> bool" where
  "input_enabled cx \<longleftrightarrow> dk_active cx \<and> dk_session cx \<noteq> None \<and> operatorOwnsControl cx \<and> Option.bind (dk_control cx) ls_id \<noteq> None"

definition ticket_body :: "string \<Rightarrow> jstring option \<Rightarrow> jstring option \<Rightarrow> int option \<Rightarrow> js_error + jsval" where
  "ticket_body kind sessionID leaseID leaseRevision = (case sessionID of
      None \<Rightarrow> Inl (Error (lit ''A conversation is required''))
    | Some session \<Rightarrow> Inr (JObj ([(lit ''kind'', JStr (lit kind)), (lit ''session_id'', JStr session)] @
        (case leaseID of None \<Rightarrow> [] | Some i \<Rightarrow> [(lit ''lease_id'', JStr i)]) @
        (case leaseRevision of None \<Rightarrow> [] | Some r \<Rightarrow> [(lit ''lease_revision'', JInt r)]))))"

definition runControl :: "desktop_ctx \<Rightarrow> lease_operation \<Rightarrow> desktop_effect list" where
  "runControl cx operation = (case (dk_session cx, dk_control cx) of
      (Some session, Some l) \<Rightarrow> [DesktopCommand operation (command_call (lease_operation_name operation)
        (JObj (resource_fields ''desktop'' session @
          [(lit ''target_revision'', JInt (if ls_owner_revision l = 0 then 1 else ls_owner_revision l))] @
          (if operation = Acquire then acquire_fields l else held_fields operation l))) (JStr session))]
    | _ \<Rightarrow> [])"

definition control_settled :: "lease_operation \<Rightarrow> jstring option \<Rightarrow> desktop \<Rightarrow> desktop_result" where
  "control_settled operation error s = (case error of
      Some m \<Rightarrow> (s\<lparr>dt_notice := Some m\<rparr>, [])
    | None \<Rightarrow> (s\<lparr>dt_notice := Some (lit (case operation of
          Acquire \<Rightarrow> ''You have control. Ion is paused at the desktop action boundary.''
        | Renew \<Rightarrow> ''Desktop control renewed.''
        | Release \<Rightarrow> ''Control returned to Ion.''))\<rparr>, [RefetchControl]))"

definition sendInput :: "desktop_ctx \<Rightarrow> desktop_input \<Rightarrow> desktop_effect list" where
  "sendInput cx input = (case dk_input cx (input_key cx) of None \<Rightarrow> [] | Some ticket \<Rightarrow> [SendInput ticket input])"

text \<open>The response to an input: its status when it is not accepted.\<close>

definition input_settled :: "nat option \<Rightarrow> desktop \<Rightarrow> desktop_result" where
  "input_settled refused s = (case refused of
      None \<Rightarrow> (s, [])
    | Some code \<Rightarrow> (s\<lparr>dt_notice := Some (lit (if code = 409
          then ''Desktop control changed. Reconnecting authority before accepting input.''
          else ''Desktop input was rejected.''))\<rparr>, [RefetchControl, RefetchInput]))"

text \<open>A point relative to the rectangle of the picture: its offset and its extent in one direction.\<close>

definition coordinate :: "int \<Rightarrow> rat \<Rightarrow> rat \<Rightarrow> rat \<Rightarrow> jsnum" where
  "coordinate pixels client start extent = js_max (num 0) (js_min (js_plus (num pixels) (- 1))
     (js_scale (of_int pixels) (js_over (js_sub (Fin client) (Fin start)) extent)))"

record picture =
  pc_left :: rat
  pc_top :: rat
  pc_width :: rat
  pc_height :: rat

definition coordinates :: "desktop_ctx \<Rightarrow> picture \<Rightarrow> rat \<Rightarrow> rat \<Rightarrow> jsnum \<times> jsnum" where
  "coordinates cx pc clientX clientY =
     (coordinate (case dk_status cx of None \<Rightarrow> 1 | Some d \<Rightarrow> ds_width d) clientX (pc_left pc) (pc_width pc),
      coordinate (case dk_status cx of None \<Rightarrow> 1 | Some d \<Rightarrow> ds_height d) clientY (pc_top pc) (pc_height pc))"

definition desktopKey :: "jstring \<Rightarrow> string option" where
  "desktopKey key = table_get [(''ArrowDown'', ''down''), (''ArrowLeft'', ''left''), (''ArrowRight'', ''right''),
     (''ArrowUp'', ''up''), (''Backspace'', ''backspace''), (''Delete'', ''delete''), (''End'', ''end''),
     (''Enter'', ''enter''), (''Escape'', ''esc''), (''Home'', ''home''), (''PageDown'', ''pagedown''),
     (''PageUp'', ''pageup''), (''Tab'', ''tab'')] key"

definition frameRetryDelay :: "nat \<Rightarrow> nat" where
  "frameRetryDelay failures = min 10000 (500 * 2 ^ min failures 5)"

record modifiers =
  md_ctrl :: bool
  md_alt :: bool
  md_shift :: bool
  md_meta :: bool

definition modifier_names :: "modifiers \<Rightarrow> string list" where
  "modifier_names m = (if md_ctrl m then [''ctrl''] else []) @ (if md_alt m then [''alt''] else []) @
     (if md_shift m then [''shift''] else []) @ (if md_meta m then [''meta''] else [])"

definition desktop_key :: "jstring \<Rightarrow> modifiers \<Rightarrow> desktop_input option" where
  "desktop_key key m = (if length key = 1 \<and> \<not> md_ctrl m \<and> \<not> md_meta m \<and> \<not> md_alt m then Some (TypeText key)
     else map_option (\<lambda>k. PressKey k (modifier_names m)) (desktopKey key))"

definition scroll_amount :: "rat \<Rightarrow> jsnum" where
  "scroll_amount delta = js_max (num 1) (js_min (num 20) (js_ceil (js_over (Fin \<bar>delta\<bar>) 40)))"

definition scroll_input :: "jsnum \<times> jsnum \<Rightarrow> rat \<Rightarrow> rat \<Rightarrow> desktop_input" where
  "scroll_input point deltaX deltaY = (let horizontal = \<bar>deltaX\<bar> > \<bar>deltaY\<bar> in
     Scroll (fst point) (snd point)
       (if horizontal then (if deltaX < 0 then ''left'' else ''right'') else (if deltaY < 0 then ''up'' else ''down''))
       (scroll_amount (if horizontal then deltaX else deltaY)))"

text \<open>
  The events of the picture. The times of pointer moves are whole milliseconds here; only their
  difference is read.
\<close>

datatype desktop_event =
    ContextMenu picture rat rat
  | DesktopKeyDown jstring modifiers
  | DesktopPointerDown picture rat rat nat nat
  | DesktopPointerMove picture rat rat int
  | Wheel picture rat rat rat rat
  | FrameLoaded
  | FrameFailed
  | TimerFired
  | ControlPressed lease_operation
  | ControlAnswered lease_operation "jstring option"
  | InputAnswered "nat option"
  | Hidden

definition click :: "jsnum \<times> jsnum \<Rightarrow> string \<Rightarrow> nat \<Rightarrow> desktop_input" where
  "click point button count = Click (fst point) (snd point) button count"

definition when_owned :: "desktop_ctx \<Rightarrow> desktop \<Rightarrow> desktop_effect list \<Rightarrow> desktop_result" where
  "when_owned cx s es = (s, if operatorOwnsControl cx then es else [])"

fun desktop_handle :: "desktop_ctx \<Rightarrow> desktop_event \<Rightarrow> desktop \<Rightarrow> desktop_result" where
  "desktop_handle cx (ContextMenu pc x y) s = when_owned cx s (sendInput cx (click (coordinates cx pc x y) ''right'' 1))"
| "desktop_handle cx (DesktopKeyDown key m) s = when_owned cx s (case desktop_key key m of
      None \<Rightarrow> [] | Some input \<Rightarrow> sendInput cx input)"
| "desktop_handle cx (DesktopPointerDown pc x y button detail) s = when_owned cx s (sendInput cx
     (click (coordinates cx pc x y) (if button = 2 then ''right'' else if button = 1 then ''middle'' else ''left'')
       (if 1 < detail then 2 else 1)))"
| "desktop_handle cx (DesktopPointerMove pc x y now) s =
     (if \<not> operatorOwnsControl cx \<or> now - dt_sent s < 50 then (s, [])
      else (s\<lparr>dt_sent := now\<rparr>, sendInput cx (Move (fst (coordinates cx pc x y)) (snd (coordinates cx pc x y)))))"
| "desktop_handle cx (Wheel pc x y deltaX deltaY) s =
     when_owned cx s (sendInput cx (scroll_input (coordinates cx pc x y) deltaX deltaY))"
| "desktop_handle cx FrameLoaded s = (s\<lparr>dt_ready := True, dt_failures := 0, dt_timer := Some NextFrame\<rparr>, [])"
| "desktop_handle cx FrameFailed s = (s\<lparr>dt_ready := False,
     dt_notice := Some (lit ''Desktop frame interrupted. Reconnecting.''),
     dt_timer := Some (RetryFrame (frameRetryDelay (dt_failures s))), dt_failures := Suc (dt_failures s)\<rparr>, [])"
| "desktop_handle cx TimerFired s = (case dt_timer s of
      None \<Rightarrow> (s, [])
    | Some NextFrame \<Rightarrow> (s\<lparr>dt_timer := None, dt_nonce := Suc (dt_nonce s)\<rparr>, [])
    | Some (RetryFrame _) \<Rightarrow> (s\<lparr>dt_timer := None\<rparr>, [RefetchView]))"
| "desktop_handle cx (ControlPressed operation) s = (s, runControl cx operation)"
| "desktop_handle cx (ControlAnswered operation error) s = control_settled operation error s"
| "desktop_handle cx (InputAnswered refused) s = input_settled refused s"
| "desktop_handle cx Hidden s = (s\<lparr>dt_ready := False, dt_notice := None, dt_failures := 0, dt_timer := None\<rparr>, [])"

end
