(* ===== verification/ControlProperties.thy ===== *)
theory ControlProperties
  imports Control
begin

text \<open>Properties of taking control: input reaches the desktop under the operator's lease only, and on the screen.\<close>

section \<open>Points\<close>

lemma js_over_number: "c \<noteq> 0 \<Longrightarrow> x \<noteq> NaN \<Longrightarrow> js_over x c \<noteq> NaN"
  by (cases x) (simp_all add: to_double_number)

lemma js_scale_number: "c \<noteq> 0 \<Longrightarrow> x \<noteq> NaN \<Longrightarrow> js_scale c x \<noteq> NaN"
  by (cases x) (simp_all add: to_double_number)

lemma coordinate_between:
  assumes "1 \<le> pixels" "pixels \<le> max_safe_integer" "extent \<noteq> 0"
  shows "between 0 (coordinate pixels client start extent) (pixels - 1)"
proof -
  have "to_double (rat_of_nat (nat (pixels - 1))) = Fin (rat_of_nat (nat (pixels - 1)))"
    using assms by (intro to_double_nat) (simp add: max_safe_integer_def)
  then have "js_plus (num pixels) (- 1) = num (pixels - 1)" using assms(1) by (simp add: js_plus_def num_def)
  moreover have "js_sub (Fin client) (Fin start) \<noteq> NaN" by (rule js_sub_number) simp
  then have "js_scale (of_int pixels) (js_over (js_sub (Fin client) (Fin start)) extent) \<noteq> NaN"
    using assms by (intro js_scale_number js_over_number) simp_all
  ultimately show ?thesis using js_clamp [of 0 "pixels - 1"] assms(1) by (simp add: coordinate_def)
qed

lemma scroll_amount_between: "between 1 (scroll_amount delta) 20"
proof -
  have "js_ceil (js_over (Fin \<bar>delta\<bar>) 40) \<noteq> NaN"
    using js_over_number [of 40 "Fin \<bar>delta\<bar>"] by (cases "js_over (Fin \<bar>delta\<bar>) 40") simp_all
  then show ?thesis unfolding scroll_amount_def by (rule js_clamp [rotated]) simp
qed

definition on_screen :: "desktop_status \<Rightarrow> jsnum \<Rightarrow> jsnum \<Rightarrow> bool" where
  "on_screen d x y \<longleftrightarrow> between 0 x (ds_width d - 1) \<and> between 0 y (ds_height d - 1)"

fun input_ok :: "desktop_status \<Rightarrow> desktop_input \<Rightarrow> bool" where
  "input_ok d (Move x y) = on_screen d x y"
| "input_ok d (Click x y button count) = (on_screen d x y \<and> count \<in> {1, 2})"
| "input_ok d (Scroll x y direction amount) = (on_screen d x y \<and> between 1 amount 20)"
| "input_ok d _ = True"

text \<open>The picture of an event, which the browser lays out with an extent.\<close>

fun event_picture :: "desktop_event \<Rightarrow> picture option" where
  "event_picture (ContextMenu pc x y) = Some pc"
| "event_picture (DesktopPointerDown pc x y button detail) = Some pc"
| "event_picture (DesktopPointerMove pc x y now) = Some pc"
| "event_picture (Wheel pc x y deltaX deltaY) = Some pc"
| "event_picture _ = None"

definition screen_ok :: "desktop_status \<Rightarrow> bool" where
  "screen_ok d \<longleftrightarrow> 1 \<le> ds_width d \<and> ds_width d \<le> max_safe_integer \<and> 1 \<le> ds_height d \<and> ds_height d \<le> max_safe_integer"

lemma coordinates_on_screen:
  assumes "dk_status cx = Some d" "screen_ok d" "pc_width pc \<noteq> 0" "pc_height pc \<noteq> 0"
  shows "on_screen d (fst (coordinates cx pc x y)) (snd (coordinates cx pc x y))"
  using assms by (simp add: on_screen_def coordinates_def screen_ok_def coordinate_between)

section \<open>The lease\<close>

lemma sendInput_effect: "SendInput ticket input \<in> set (sendInput cx i) \<longleftrightarrow> dk_input cx (input_key cx) = Some ticket \<and> input = i"
  by (auto simp: sendInput_def split: option.splits)

lemma when_owned_effect: "e \<in> set (snd (when_owned cx s es)) \<longleftrightarrow> operatorOwnsControl cx \<and> e \<in> set es"
  by (simp add: when_owned_def)

lemma key_input_ok: "desktop_key key m = Some input \<Longrightarrow> input_ok d input"
  by (cases "desktopKey key") (auto simp: desktop_key_def split: if_splits)

text \<open>
  (C19) Input reaches the private desktop only while the last lease is active and the operator's, with the
  ticket issued for this session, lease and revision; its points lie on the screen, it clicks once or
  twice, and it scrolls by one to twenty steps.
\<close>

theorem desktop_input_leased:
  assumes "dk_status cx = Some d" "screen_ok d" "\<And>pc. event_picture e = Some pc \<Longrightarrow> pc_width pc \<noteq> 0 \<and> pc_height pc \<noteq> 0"
    "SendInput ticket input \<in> set (snd (desktop_handle cx e s))"
  shows "operatorOwnsControl cx \<and> dk_input cx (input_key cx) = Some ticket \<and> input_ok d input"
proof -
  note screen = coordinates_on_screen [OF assms(1,2)] and effects = sendInput_effect when_owned_effect
  show ?thesis
  proof (cases e)
    case (ContextMenu pc x y)
    then show ?thesis using assms(3,4) screen [of pc x y] by (simp add: effects click_def)
  next
    case (DesktopKeyDown key m)
    then show ?thesis
      using assms(4) key_input_ok [of key m input d] by (auto simp: effects split: option.splits)
  next
    case (DesktopPointerDown pc x y button detail)
    then show ?thesis using assms(3,4) screen [of pc x y] by (simp add: effects click_def)
  next
    case (DesktopPointerMove pc x y now)
    then show ?thesis using assms(3,4) screen [of pc x y] by (auto simp: effects split: if_splits)
  next
    case (Wheel pc x y deltaX deltaY)
    then show ?thesis
      using assms(3,4) screen [of pc x y] by (simp add: effects scroll_input_def Let_def scroll_amount_between)
  qed (use assms(4) in \<open>auto simp: runControl_def control_settled_def input_settled_def
    split: option.splits frame_timer.splits\<close>)
qed

definition example_lease :: lease where
  "example_lease = \<lparr>ls_id = Some (lit ''lease''), ls_owner_value = JObj [], ls_owner_revision = 1, ls_state = Active,
     ls_by_operator = True, ls_revision = 4\<rparr>"

definition example_desktop :: desktop_ctx where
  "example_desktop = \<lparr>dk_active = True, dk_session = Some (lit ''talk''),
     dk_status = Some \<lparr>ds_state = lit ''ready'', ds_width = 800, ds_height = 600, ds_stream = True\<rparr>,
     dk_control = Some example_lease, dk_view = None,
     dk_input = (\<lambda>k. if k = (Some (lit ''talk''), Some (lit ''lease''), Some 4) then Some (lit ''ticket'') else None)\<rparr>"

lemma example_owned: "operatorOwnsControl example_desktop" "dk_input example_desktop (input_key example_desktop) = Some (lit ''ticket'')"
  by (simp_all add: operatorOwnsControl_def input_key_def example_desktop_def example_lease_def)

theorem desktop_input_leased_witness:
  "operatorOwnsControl example_desktop \<and> dk_input example_desktop (input_key example_desktop) = Some (lit ''ticket'') \<and>
   input_ok \<lparr>ds_state = lit ''ready'', ds_width = 800, ds_height = 600, ds_stream = True\<rparr> (TypeText (lit ''x''))"
proof (rule desktop_input_leased)
  show "dk_status example_desktop = Some \<lparr>ds_state = lit ''ready'', ds_width = 800, ds_height = 600, ds_stream = True\<rparr>"
    by (simp add: example_desktop_def)
  show "screen_ok \<lparr>ds_state = lit ''ready'', ds_width = 800, ds_height = 600, ds_stream = True\<rparr>"
    by (simp add: screen_ok_def max_safe_integer_def)
  show "SendInput (lit ''ticket'') (TypeText (lit ''x'')) \<in> set (snd (desktop_handle example_desktop
      (DesktopKeyDown (lit ''x'') \<lparr>md_ctrl = False, md_alt = False, md_shift = False, md_meta = False\<rparr>) initial_desktop))"
    using example_owned by (simp add: when_owned_effect sendInput_effect desktop_key_def)
qed simp

text \<open>
  A press of the right button arrives twice: the browser follows it with a request for the context menu,
  and both handlers send the click.
\<close>

theorem right_click_twice:
  assumes "operatorOwnsControl cx" "dk_input cx (input_key cx) = Some ticket"
  shows "snd (desktop_handle cx (DesktopPointerDown pc x y 2 1) s) @ snd (desktop_handle cx (ContextMenu pc x y) s) =
    [SendInput ticket (click (coordinates cx pc x y) ''right'' 1), SendInput ticket (click (coordinates cx pc x y) ''right'' 1)]"
  using assms by (simp add: when_owned_def sendInput_def)

text \<open>Failed frames are retried after 500 milliseconds to ten seconds, never sooner than before.\<close>

lemma frame_retry_bounds: "500 \<le> frameRetryDelay n \<and> frameRetryDelay n \<le> 10000"
  by (simp add: frameRetryDelay_def)

lemma frame_retry_mono: "m \<le> n \<Longrightarrow> frameRetryDelay m \<le> frameRetryDelay n"
proof -
  assume "m \<le> n"
  then have "(2 :: nat) ^ min m 5 \<le> 2 ^ min n 5" by (intro power_increasing) auto
  then have "500 * (2 :: nat) ^ min m 5 \<le> 500 * 2 ^ min n 5" by simp
  then show ?thesis unfolding frameRetryDelay_def by (intro min.mono order.refl)
qed

text \<open>The browser is driven under an active lease with an identifier only.\<close>

theorem browser_driven_leased:
  "browserControl sessionID tg current operation = Some c \<Longrightarrow>
   \<exists>t l i. tg = Some t \<and> current = Some l \<and> ls_id l = Some i \<and> ls_state l = Active \<and>
     fld (cl_payload c) ''lease_id'' = JStr i \<and> fld (cl_payload c) ''expected_lease_revision'' = JInt (ls_revision l)"
  by (auto simp: browserControl_def query_call_def command_call_def resource_fields_def split: option.splits if_splits)

end
