(* ===== verification/Component.thy ===== *)
theory Component
  imports ChatHost
begin

text \<open>
  How a page of the web client runs. The handlers of a page take its state and give the new state with
  effects; a request or a refetch starts a task, and the rest of the asynchronous function runs when the
  task is settled. Every page below is an instance of the same loop, \<open>component_step\<close>: the user does
  something, or a task that waits is settled. A button that is disabled or not shown is a handler that
  does nothing.
\<close>

text \<open>The elements of \<open>new Set(xs)\<close> in their order: that of their first occurrence.\<close>

definition unique_first :: "'a list \<Rightarrow> 'a list" where
  "unique_first xs = rev (remdups (rev xs))"

lemma set_unique_first [simp]: "set (unique_first xs) = set xs"
  by (simp add: unique_first_def)

lemma distinct_unique_first [simp]: "distinct (unique_first xs)"
  by (simp add: unique_first_def)

lemma unique_first_distinct: "distinct xs \<Longrightarrow> unique_first xs = xs"
  by (simp add: unique_first_def distinct_remdups_id)

section \<open>Requests of a page\<close>

text \<open>
  What a page hands to \<open>fetch\<close> itself: the method, the path, the headers and the body, which is the JSON
  text of a value or a form with a file and its title. What comes back is an error of the network, or the
  status with the JSON value of the body when it is one.
\<close>

datatype page_body = NoBody | JsonBody jsval | FormBody jstring jstring

record page_request =
  pq_method :: string
  pq_path :: jstring
  pq_headers :: "(string \<times> jstring) list"
  pq_body :: page_body

datatype http_reply = Unreachable js_error | Status nat "jsval option"

definition status_ok :: "nat \<Rightarrow> bool" where
  "status_ok n \<longleftrightarrow> 200 \<le> n \<and> n < 300"

section \<open>Effects and runs\<close>

text \<open>
  A command or a query of the client, queries awaited together, a refetch of queries by the beginning of their key, a change of
  the selected conversation, a navigation, and a text handed to the composer of the chat; a request of the
  page, or the error that preparing it throws, alone or awaited together with others, and a reload.
\<close>

datatype 't web_effect =
    Sends 't call
  | SendsAll 't "call list"
  | Refetches 't "jstring list"
  | RefetchesAll 't "jstring list list"
  | Fetches 't "js_error + page_request"
  | FetchesAll 't "(js_error + page_request) list"
  | Selects "jstring option"
  | Goes jstring
  | Prefills jstring
  | Reloads

type_synonym ('s, 't) web_result = "'s \<times> 't web_effect list"

fun started :: "'t web_effect list \<Rightarrow> 't list" where
  "started [] = []"
| "started (Sends task _ # es) = task # started es"
| "started (SendsAll task _ # es) = task # started es"
| "started (Refetches task _ # es) = task # started es"
| "started (RefetchesAll task _ # es) = task # started es"
| "started (Fetches task _ # es) = task # started es"
| "started (FetchesAll task _ # es) = task # started es"
| "started (_ # es) = started es"

fun calls :: "'t web_effect list \<Rightarrow> call list" where
  "calls [] = []"
| "calls (Sends _ c # es) = c # calls es"
| "calls (SendsAll _ cs # es) = cs @ calls es"
| "calls (_ # es) = calls es"

lemma started_append [simp]: "started (es @ fs) = started es @ started fs"
  by (induction es rule: started.induct) simp_all

lemma calls_append [simp]: "calls (es @ fs) = calls es @ calls fs"
  by (induction es rule: calls.induct) simp_all

lemma calls_started: "started es = [] \<Longrightarrow> calls es = []"
  by (induction es rule: calls.induct) simp_all

datatype ('u, 't, 'r) happening = Does 'u | Settles 't 'r

type_synonym ('u, 's, 't) handler = "'u \<Rightarrow> 's \<Rightarrow> ('s, 't) web_result"
type_synonym ('t, 'r, 's) continuation = "'t \<Rightarrow> 'r \<Rightarrow> 's \<Rightarrow> ('s, 't) web_result"

text \<open>The state of the page and the tasks that wait. A task that does not wait cannot be settled.\<close>

fun component_step ::
    "('u, 's, 't) handler \<Rightarrow> ('t, 'r, 's) continuation \<Rightarrow> ('u, 't, 'r) happening \<Rightarrow> 's \<times> 't list \<Rightarrow>
     ('s \<times> 't list) \<times> 't web_effect list" where
  "component_step react proceed (Does u) (s, waiting) =
     (let (s', es) = react u s in ((s', waiting @ started es), es))"
| "component_step react proceed (Settles task r) (s, waiting) =
     (if task \<in> set waiting
      then let (s', es) = proceed task r s in ((s', remove1 task waiting @ started es), es)
      else ((s, waiting), []))"

fun component_run ::
    "('u, 's, 't) handler \<Rightarrow> ('t, 'r, 's) continuation \<Rightarrow> ('u, 't, 'r) happening list \<Rightarrow> 's \<times> 't list \<Rightarrow>
     ('s \<times> 't list) \<times> 't web_effect list" where
  "component_run react proceed [] c = (c, [])"
| "component_run react proceed (h # hs) c =
     (let (c', es) = component_step react proceed h c; (c'', fs) = component_run react proceed hs c'
      in (c'', es @ fs))"

lemma component_run_append:
  "component_run react proceed (hs @ gs) c =
     (let (c', es) = component_run react proceed hs c; (c'', fs) = component_run react proceed gs c'
      in (c'', es @ fs))"
  by (induction hs arbitrary: c) (simp_all add: Let_def case_prod_beta)

text \<open>The histories in which only tasks that wait are settled.\<close>

fun possible ::
    "('u, 's, 't) handler \<Rightarrow> ('t, 'r, 's) continuation \<Rightarrow> ('u, 't, 'r) happening list \<Rightarrow> 's \<times> 't list \<Rightarrow> bool" where
  "possible react proceed [] c = True"
| "possible react proceed (h # hs) c =
     ((case h of Does _ \<Rightarrow> True | Settles task _ \<Rightarrow> task \<in> set (snd c)) \<and>
      possible react proceed hs (fst (component_step react proceed h c)))"

text \<open>An invariant of a page: of the state and the tasks, kept by every handler and every continuation.\<close>

lemma component_run_invariant:
  assumes "\<And>h c. I c \<Longrightarrow> I (fst (component_step react proceed h c))" and "I c"
  shows "I (fst (component_run react proceed hs c))"
  using assms(2)
proof (induction hs arbitrary: c)
  case (Cons h hs)
  then show ?case using assms(1) by (simp add: Let_def case_prod_beta)
qed simp

text \<open>Where an effect of a run comes from: one of its steps.\<close>

lemma component_run_effect:
  assumes "e \<in> set (snd (component_run react proceed hs c))"
  obtains before h after where "hs = before @ h # after"
    "e \<in> set (snd (component_step react proceed h (fst (component_run react proceed before c))))"
  using assms
proof (induction hs arbitrary: c thesis)
  case (Cons h hs)
  let ?c = "fst (component_step react proceed h c)"
  have "e \<in> set (snd (component_step react proceed h c)) \<or> e \<in> set (snd (component_run react proceed hs ?c))"
    using Cons.prems(2) by (simp add: Let_def case_prod_beta)
  then show ?case
  proof
    assume "e \<in> set (snd (component_step react proceed h c))"
    then show thesis using Cons.prems(1) [of "[]" h hs] by simp
  next
    assume "e \<in> set (snd (component_run react proceed hs ?c))"
    then obtain before h' after where "hs = before @ h' # after"
      "e \<in> set (snd (component_step react proceed h' (fst (component_run react proceed before ?c))))"
      using Cons.IH by blast
    then show thesis using Cons.prems(1) [of "h # before" h' after] by (simp add: Let_def case_prod_beta)
  qed
qed simp

text \<open>What every call of the handlers and the continuations satisfies, every call of a run satisfies.\<close>

lemma component_run_calls:
  assumes "\<And>u s. list_all P (calls (snd (react u s)))" "\<And>task r s. list_all P (calls (snd (proceed task r s)))"
  shows "list_all P (calls (snd (component_run react proceed hs c)))"
proof (induction hs arbitrary: c)
  case (Cons h hs)
  obtain s waiting where "c = (s, waiting)" by (cases c)
  then have "list_all P (calls (snd (component_step react proceed h c)))"
    using assms by (cases h) (simp_all add: Let_def case_prod_beta)
  then show ?case using Cons by (simp add: Let_def case_prod_beta)
qed simp

text \<open>A call the client does not refuse: the catalogue gives its operation the kind it is made with.\<close>

definition known_call :: "call \<Rightarrow> bool" where
  "known_call c \<longleftrightarrow> operation_kind (cl_operation c) = Some (cl_kind c)"

lemma known_command [simp]: "known_call (command_call operation v session) \<longleftrightarrow> operation_kind (lit operation) = Some Command"
  by (simp add: known_call_def command_call_def)

lemma known_query [simp]: "known_call (query_call operation v session) \<longleftrightarrow> operation_kind (lit operation) = Some Query"
  by (simp add: known_call_def query_call_def)

lemmas catalogue = operation_kind_def OPERATION_KINDS_def table_get_append operation_kinds_head_def operation_kinds_tail_def

lemma remove1_only: "task \<in> set waiting \<Longrightarrow> length waiting \<le> 1 \<Longrightarrow> remove1 task waiting = []"
  by (cases waiting) auto

text \<open>\<open>setNotice(response.error?.message ?? text)\<close>; after a rejection nothing of the function runs.\<close>

fun reply_notice :: "string \<Rightarrow> 'a reply \<Rightarrow> jstring option" where
  "reply_notice done_text (Refused m) = Some m"
| "reply_notice done_text _ = Some (lit done_text)"

fun reply_value :: "jsval reply \<Rightarrow> jsval" where
  "reply_value (Answered (Some v)) = v"
| "reply_value _ = JUndef"

fun rejected :: "'a reply \<Rightarrow> bool" where
  "rejected (Rejected _) = True"
| "rejected _ = False"

fun answered :: "'a reply \<Rightarrow> bool" where
  "answered (Answered _) = True"
| "answered _ = False"

section \<open>Pages with one request at a time\<close>

text \<open>
  What the panels with a flag \<open>busy\<close> promise: while it is set no handler starts anything, a handler
  that starts a task starts one and sets the flag, and a continuation that goes on waiting keeps it set.
\<close>

locale single_flight =
  fixes react :: "('u, 's, 't) handler" and proceed :: "('t, 'r, 's) continuation" and busy :: "'s \<Rightarrow> bool"
  assumes react_busy: "busy s \<Longrightarrow> busy (fst (react u s)) \<and> started (snd (react u s)) = []"
    and react_starts: "length (started (snd (react u s))) \<le> 1"
    and react_sets: "started (snd (react u s)) \<noteq> [] \<Longrightarrow> busy (fst (react u s))"
    and proceed_starts: "length (started (snd (proceed task r s))) \<le> 1"
    and proceed_sets: "busy s \<Longrightarrow> started (snd (proceed task r s)) \<noteq> [] \<Longrightarrow> busy (fst (proceed task r s))"
begin

definition one_flight :: "'s \<times> 't list \<Rightarrow> bool" where
  "one_flight c \<longleftrightarrow> length (snd c) \<le> 1 \<and> (snd c \<noteq> [] \<longrightarrow> busy (fst c))"

lemma one_flight_react:
  assumes "one_flight (s, waiting)"
  shows "one_flight (fst (react u s), waiting @ started (snd (react u s)))"
proof (cases "waiting = []")
  case True
  then show ?thesis using react_starts [of u s] react_sets [of u s] by (auto simp: one_flight_def)
next
  case False
  then show ?thesis using assms react_busy [of s u] by (simp add: one_flight_def)
qed

lemma one_flight_proceed:
  assumes "one_flight (s, waiting)" "task \<in> set waiting"
  shows "one_flight (fst (proceed task r s), remove1 task waiting @ started (snd (proceed task r s)))"
proof -
  have "busy s" "remove1 task waiting = []"
    using assms remove1_only [of task waiting] by (auto simp: one_flight_def)
  then show ?thesis using proceed_starts [of task r s] proceed_sets [of s task r] by (auto simp: one_flight_def)
qed

lemma one_flight_step: "one_flight c \<Longrightarrow> one_flight (fst (component_step react proceed h c))"
proof (cases c)
  fix s waiting
  assume c: "c = (s, waiting)" and "one_flight c"
  then show "one_flight (fst (component_step react proceed h c))"
    using one_flight_react [of s waiting] one_flight_proceed [of s waiting]
    by (cases h) (auto simp: Let_def case_prod_beta)
qed

lemma one_flight_run: "one_flight c \<Longrightarrow> one_flight (fst (component_run react proceed hs c))"
  by (rule component_run_invariant [where I = one_flight]) (rule one_flight_step)

text \<open>Once the flag is set and nothing waits, nothing ever happens again.\<close>

lemma locked_step:
  assumes "busy s"
  obtains s' where "busy s'" "fst (component_step react proceed h (s, [])) = (s', [])"
    "started (snd (component_step react proceed h (s, []))) = []"
  using assms react_busy [of s] that by (cases h) (auto simp: Let_def case_prod_beta)

lemma locked_run:
  "busy s \<Longrightarrow> busy (fst (fst (component_run react proceed hs (s, [])))) \<and>
     started (snd (component_run react proceed hs (s, []))) = []"
proof (induction hs arbitrary: s)
  case (Cons h hs)
  obtain s' where "busy s'" and "fst (component_step react proceed h (s, [])) = (s', [])"
    and "started (snd (component_step react proceed h (s, []))) = []"
    using locked_step [OF Cons.prems] by blast
  then show ?case using Cons.IH [of s'] by (simp add: Let_def case_prod_beta)
qed simp

end

text \<open>
  A panel whose continuations clear the flag when they end, whatever the reply, is free again as soon as
  nothing waits; one that clears it only when the request was answered stays busy after a rejection.
\<close>

locale single_flight_released = single_flight react proceed busy
  for react :: "('u, 's, 't) handler" and proceed :: "('t, 'r, 's) continuation" and busy :: "'s \<Rightarrow> bool" +
  assumes react_quiet: "started (snd (react u s)) = [] \<Longrightarrow> busy (fst (react u s)) = busy s"
    and proceed_releases: "started (snd (proceed task r s)) = [] \<Longrightarrow> \<not> busy (fst (proceed task r s))"
begin

definition busy_iff_waiting :: "'s \<times> 't list \<Rightarrow> bool" where
  "busy_iff_waiting c \<longleftrightarrow> one_flight c \<and> (busy (fst c) \<longleftrightarrow> snd c \<noteq> [])"

lemma busy_iff_waiting_step:
  assumes "busy_iff_waiting c"
  shows "busy_iff_waiting (fst (component_step react proceed h c))"
proof -
  obtain s waiting where c: "c = (s, waiting)" by (cases c)
  have one: "one_flight (fst (component_step react proceed h c))"
    using assms one_flight_step by (simp add: busy_iff_waiting_def)
  show ?thesis
  proof (cases h)
    case (Does u)
    then show ?thesis using assms c one react_quiet [of u s] react_sets [of u s] react_busy [of s u]
      by (auto simp: busy_iff_waiting_def Let_def case_prod_beta)
  next
    case (Settles task r)
    have "task \<in> set waiting \<Longrightarrow> remove1 task waiting = [] \<and> busy s"
      using assms c remove1_only [of task waiting] by (auto simp: busy_iff_waiting_def one_flight_def)
    then show ?thesis using assms c one Settles proceed_releases [of task r s] proceed_sets [of s task r]
      by (auto simp: busy_iff_waiting_def Let_def case_prod_beta)
  qed
qed

lemma busy_iff_waiting_run: "busy_iff_waiting c \<Longrightarrow> busy_iff_waiting (fst (component_run react proceed hs c))"
  by (rule component_run_invariant [where I = busy_iff_waiting]) (rule busy_iff_waiting_step)

end

section \<open>Plans that are reviewed before they are applied\<close>

text \<open>
  What a history says about a plan: the last answer to a request for one, until it is applied.
\<close>

fun reviewed :: "('t \<Rightarrow> bool) \<Rightarrow> ('t \<Rightarrow> bool) \<Rightarrow> ('u, 't, jsval reply) happening list \<Rightarrow> jsval \<Rightarrow> jsval" where
  "reviewed planning applying [] v = v"
| "reviewed planning applying (Does _ # hs) v = reviewed planning applying hs v"
| "reviewed planning applying (Settles task r # hs) v = reviewed planning applying hs
     (if planning task \<and> answered r then reply_value r else if applying task \<and> answered r then JUndef else v)"

locale plan_review =
  fixes react :: "('u, 's, 't) handler" and proceed :: "('t, jsval reply, 's) continuation"
    and plan :: "'s \<Rightarrow> jsval" and planning :: "'t \<Rightarrow> bool" and applying :: "'t \<Rightarrow> bool"
  assumes react_plan: "plan (fst (react u s)) = plan s"
    and proceed_plan: "plan (fst (proceed task r s)) =
      (if planning task \<and> answered r then reply_value r else if applying task \<and> answered r then JUndef else plan s)"
begin

lemma plan_reviewed:
  "possible react proceed hs c \<Longrightarrow> plan (fst (fst (component_run react proceed hs c))) = reviewed planning applying hs (plan (fst c))"
proof (induction hs arbitrary: c)
  case (Cons h hs)
  obtain s waiting where c: "c = (s, waiting)" by (cases c)
  let ?c = "fst (component_step react proceed h c)"
  have run: "fst (component_run react proceed (h # hs) c) = fst (component_run react proceed hs ?c)"
    by (simp add: Let_def case_prod_beta)
  have ih: "plan (fst (fst (component_run react proceed hs ?c))) = reviewed planning applying hs (plan (fst ?c))"
    using Cons by simp
  show ?case
  proof (cases h)
    case (Does u)
    then have "plan (fst ?c) = plan s" using react_plan c by (simp add: Let_def case_prod_beta)
    then show ?thesis using run ih c Does by simp
  next
    case (Settles task r)
    then have "plan (fst ?c) = (if planning task \<and> answered r then reply_value r
        else if applying task \<and> answered r then JUndef else plan s)"
      using proceed_plan [of task r s] c Cons.prems by (simp add: Let_def case_prod_beta)
    then show ?thesis using run ih c Settles by simp
  qed
qed simp

end

end
