(* ===== verification/StudioDelivery.thy ===== *)
theory StudioDelivery
  imports Component
begin

text \<open>
  The panels of \<open>ui/web/src/routes/StudioRoutes.tsx\<close> that plan and apply changes to the delivery of a
  project: data and services, and deployments. A plan is what the server answered, taken as it is; the
  sources cast it without a check. \<open>JUndef\<close> is no plan. The browser fires the submission of a form only
  when the fields marked \<open>required\<close> are not empty and match their pattern. The project is a property of
  the panel, so an input comes with the project that is shown, and a request remembers the one it was
  made for.
\<close>

record project =
  pj_id :: jstring
  pj_name :: jstring
  pj_revision :: int

definition project_field :: "project \<Rightarrow> jstring \<times> jsval" where
  "project_field p = (lit ''project_id'', JStr (pj_id p))"

definition revision_field :: "project \<Rightarrow> jstring \<times> jsval" where
  "revision_field p = (lit ''workspace_revision'', JInt (pj_revision p))"

definition str_field :: "string \<Rightarrow> jstring \<Rightarrow> jstring \<times> jsval" where
  "str_field key v = (lit key, JStr v)"

definition lit_field :: "string \<Rightarrow> string \<Rightarrow> jstring \<times> jsval" where
  "lit_field key v = (lit key, JStr (lit v))"

definition studio_command :: "string \<Rightarrow> (jstring \<times> jsval) list \<Rightarrow> call" where
  "studio_command operation ps = command_call operation (JObj ps) JUndef"

definition studio_key :: "project \<Rightarrow> string \<Rightarrow> jstring list" where
  "studio_key p part = [lit ''studio'', pj_id p, lit part]"

section \<open>Data and services\<close>

record data_panel =
  da_busy :: bool
  da_notice :: "jstring option"
  da_resourceName :: jstring
  da_resourceKind :: jstring
  da_resourceEnvironment :: jstring
  da_resourcePlan :: jsval
  da_environment :: jstring
  da_variableName :: jstring
  da_variableReference :: jstring
  da_variableKind :: jstring
  da_databasePath :: jstring
  da_migrationEnvironment :: jstring
  da_migrationSQL :: jstring
  da_migrationRollback :: jstring
  da_migrationPlan :: jsval

definition initial_data :: data_panel where
  "initial_data = \<lparr>da_busy = False, da_notice = None, da_resourceName = lit ''primary-db'',
     da_resourceKind = lit ''database'', da_resourceEnvironment = lit ''development'', da_resourcePlan = JUndef,
     da_environment = lit ''development'', da_variableName = [], da_variableReference = [],
     da_variableKind = lit ''secret_reference'', da_databasePath = [], da_migrationEnvironment = lit ''development'',
     da_migrationSQL = [], da_migrationRollback = [], da_migrationPlan = JUndef\<rparr>"

datatype data_task =
    PlanResource
  | ApplyResource project
  | SaveEnvironment project
  | PlanMigration
  | ApplyMigration project
  | RollbackMigration project
  | DataRefetch

type_synonym data_result = "(data_panel, data_task) web_result"

definition data_refresh :: "project \<Rightarrow> data_task web_effect" where
  "data_refresh p = Refetches DataRefetch (studio_key p ''delivery'')"

definition planResource :: "project \<Rightarrow> data_panel \<Rightarrow> data_result" where
  "planResource p s = (let database = (da_resourceKind s = lit ''database'') in
     (s\<lparr>da_busy := True\<rparr>, [Sends PlanResource (studio_command ''project.resource.plan''
       [project_field p, revision_field p, (lit ''desired'', JObj
         [str_field ''name'' (da_resourceName s), str_field ''kind'' (da_resourceKind s), lit_field ''provider'' ''local'',
          str_field ''environment'' (da_resourceEnvironment s),
          (lit ''capabilities'', JArr (map (\<lambda>c. JStr (lit c))
            (if database then [''schema'', ''migration'', ''backup'', ''rollback''] else [''export'']))),
          lit_field ''ownership'' ''ion_managed'',
          lit_field ''data_risk'' (if database then ''customer_data'' else ''customer_files''),
          lit_field ''engine'' (if database then ''sqlite'' else ''''),
          (lit ''monthly_cost_limit_cents'', JInt 0)])])]))"

definition resource_planned :: "jsval reply \<Rightarrow> data_panel \<Rightarrow> data_result" where
  "resource_planned r s = (if rejected r then (s, [])
     else (s\<lparr>da_notice := reply_notice ''Resource plan is ready for review.'' r,
       da_resourcePlan := (if answered r then reply_value r else da_resourcePlan s), da_busy := False\<rparr>, []))"

definition applyResource :: "project \<Rightarrow> data_panel \<Rightarrow> data_result" where
  "applyResource p s = (if da_resourcePlan s = JUndef then (s, [])
     else (s\<lparr>da_busy := True\<rparr>, [Sends (ApplyResource p) (studio_command ''project.resource.apply''
       [project_field p, (lit ''plan_id'', fld (da_resourcePlan s) ''id'')])]))"

definition resource_applied :: "project \<Rightarrow> jsval reply \<Rightarrow> data_panel \<Rightarrow> data_result" where
  "resource_applied p r s = (case r of
      Rejected _ \<Rightarrow> (s, [])
    | Refused m \<Rightarrow> (s\<lparr>da_notice := Some m, da_busy := False\<rparr>, [])
    | Answered _ \<Rightarrow> (s\<lparr>da_notice := Some (lit ''Resource provisioned with current provider evidence.''),
        da_resourcePlan := JUndef\<rparr>, [data_refresh p]))"

definition saveEnvironment :: "project \<Rightarrow> data_panel \<Rightarrow> data_result" where
  "saveEnvironment p s = (s\<lparr>da_busy := True\<rparr>, [Sends (SaveEnvironment p) (studio_command ''project.environment.put''
     [project_field p, str_field ''environment'' (da_environment s),
      (lit ''variables'', JArr (if da_variableName s = [] then [] else [JObj
        [str_field ''name'' (da_variableName s), str_field ''kind'' (da_variableKind s),
         str_field ''reference'' (da_variableReference s), (lit ''required'', JBool True)]]))])])"

definition environment_saved :: "project \<Rightarrow> jsval reply \<Rightarrow> data_panel \<Rightarrow> data_result" where
  "environment_saved p r s = (case r of
      Rejected _ \<Rightarrow> (s, [])
    | Refused m \<Rightarrow> (s\<lparr>da_notice := Some m, da_busy := False\<rparr>, [])
    | Answered _ \<Rightarrow> (s\<lparr>da_notice := Some (lit ''Versioned environment schema saved without storing a value.''),
        da_variableName := [], da_variableReference := []\<rparr>, [data_refresh p]))"

definition planMigration :: "project \<Rightarrow> data_panel \<Rightarrow> data_result" where
  "planMigration p s = (s\<lparr>da_busy := True\<rparr>, [Sends PlanMigration (studio_command ''project.migration.plan''
     [project_field p, revision_field p, str_field ''environment'' (da_migrationEnvironment s),
      str_field ''database_path'' (da_databasePath s),
      (lit ''steps'', JArr [JObj [lit_field ''id'' ''reviewed_change'', str_field ''sql'' (da_migrationSQL s),
        str_field ''rollback'' (da_migrationRollback s)]])])])"

definition migration_planned :: "jsval reply \<Rightarrow> data_panel \<Rightarrow> data_result" where
  "migration_planned r s = (if rejected r then (s, [])
     else (s\<lparr>da_notice := reply_notice ''Migration dry-run completed against an isolated database copy.'' r,
       da_migrationPlan := (if answered r then reply_value r else da_migrationPlan s), da_busy := False\<rparr>, []))"

definition applyMigration :: "project \<Rightarrow> data_panel \<Rightarrow> data_result" where
  "applyMigration p s = (if da_migrationPlan s = JUndef then (s, [])
     else (s\<lparr>da_busy := True\<rparr>, [Sends (ApplyMigration p) (studio_command ''project.migration.apply''
       [project_field p, (lit ''plan_id'', fld (da_migrationPlan s) ''id'')])]))"

definition migration_applied :: "project \<Rightarrow> jsval reply \<Rightarrow> data_panel \<Rightarrow> data_result" where
  "migration_applied p r s = (case r of
      Rejected _ \<Rightarrow> (s, [])
    | Refused m \<Rightarrow> (s\<lparr>da_notice := Some m, da_busy := False\<rparr>, [])
    | Answered _ \<Rightarrow> (s\<lparr>da_notice := Some (lit ''Migration applied with backup and rollback evidence.''),
        da_migrationPlan := JUndef\<rparr>, [data_refresh p]))"

definition rollbackMigration :: "project \<Rightarrow> jstring \<Rightarrow> data_panel \<Rightarrow> data_result" where
  "rollbackMigration p receiptID s = (s\<lparr>da_busy := True\<rparr>, [Sends (RollbackMigration p)
     (studio_command ''project.migration.rollback'' [project_field p, str_field ''receipt_id'' receiptID])])"

definition migration_rolled_back :: "project \<Rightarrow> jsval reply \<Rightarrow> data_panel \<Rightarrow> data_result" where
  "migration_rolled_back p r s = (if rejected r then (s, [])
     else (s\<lparr>da_notice := reply_notice ''Database restored from verified backup evidence.'' r\<rparr>, [data_refresh p]))"

text \<open>The pattern \<open>[a-z][a-z0-9_-]{0,62}\<close> of the name of a resource.\<close>

definition lower_letter :: "code_unit \<Rightarrow> bool" where
  "lower_letter u \<longleftrightarrow> 97 \<le> unat u \<and> unat u \<le> 122"

definition digit_unit :: "code_unit \<Rightarrow> bool" where
  "digit_unit u \<longleftrightarrow> 48 \<le> unat u \<and> unat u \<le> 57"

definition resource_name_ok :: "jstring \<Rightarrow> bool" where
  "resource_name_ok name = (case name of [] \<Rightarrow> False
     | u # us \<Rightarrow> lower_letter u \<and> length us \<le> 62 \<and> list_all (\<lambda>v. lower_letter v \<or> digit_unit v \<or> v = 95 \<or> v = 45) us)"

datatype data_field =
    ResourceName | ResourceKind | ResourceEnvironment | EnvironmentField | VariableName | VariableReference
  | VariableKind | DatabasePath | MigrationEnvironment | MigrationSQL | MigrationRollback

text \<open>The handlers of the fields; \<open>toUpperCase\<close> is taken on the letters of ASCII.\<close>

fun data_edit :: "data_field \<Rightarrow> jstring \<Rightarrow> data_panel \<Rightarrow> data_panel" where
  "data_edit ResourceName v s = s\<lparr>da_resourceName := v\<rparr>"
| "data_edit ResourceKind v s = s\<lparr>da_resourceKind := v\<rparr>"
| "data_edit ResourceEnvironment v s = s\<lparr>da_resourceEnvironment := v\<rparr>"
| "data_edit EnvironmentField v s = s\<lparr>da_environment := v\<rparr>"
| "data_edit VariableName v s = s\<lparr>da_variableName := map upper_unit v\<rparr>"
| "data_edit VariableReference v s = s\<lparr>da_variableReference := v\<rparr>"
| "data_edit VariableKind v s = s\<lparr>da_variableKind := v\<rparr>"
| "data_edit DatabasePath v s = s\<lparr>da_databasePath := v\<rparr>"
| "data_edit MigrationEnvironment v s = s\<lparr>da_migrationEnvironment := v\<rparr>"
| "data_edit MigrationSQL v s = s\<lparr>da_migrationSQL := v\<rparr>"
| "data_edit MigrationRollback v s = s\<lparr>da_migrationRollback := v\<rparr>"

datatype data_input =
    EditData data_field jstring
  | PressPlanResource
  | PressApplyResource
  | PressSaveEnvironment
  | PressPlanMigration
  | PressApplyMigration
  | PressRollbackMigration jstring

text \<open>The controls of the panel: every button is disabled while the panel is busy.\<close>

fun data_react :: "project \<times> data_input \<Rightarrow> data_panel \<Rightarrow> data_result" where
  "data_react (p, EditData field v) s = (data_edit field v s, [])"
| "data_react (p, PressPlanResource) s =
     (if da_busy s \<or> \<not> resource_name_ok (da_resourceName s) then (s, []) else planResource p s)"
| "data_react (p, PressApplyResource) s = (if da_busy s then (s, []) else applyResource p s)"
| "data_react (p, PressSaveEnvironment) s = (if da_busy s then (s, []) else saveEnvironment p s)"
| "data_react (p, PressPlanMigration) s =
     (if da_busy s \<or> da_databasePath s = [] \<or> da_migrationSQL s = [] \<or> da_migrationRollback s = [] then (s, [])
      else planMigration p s)"
| "data_react (p, PressApplyMigration) s = (if da_busy s then (s, []) else applyMigration p s)"
| "data_react (p, PressRollbackMigration receiptID) s = (if da_busy s then (s, []) else rollbackMigration p receiptID s)"

fun data_proceed :: "data_task \<Rightarrow> jsval reply \<Rightarrow> data_panel \<Rightarrow> data_result" where
  "data_proceed PlanResource r s = resource_planned r s"
| "data_proceed (ApplyResource p) r s = resource_applied p r s"
| "data_proceed (SaveEnvironment p) r s = environment_saved p r s"
| "data_proceed PlanMigration r s = migration_planned r s"
| "data_proceed (ApplyMigration p) r s = migration_applied p r s"
| "data_proceed (RollbackMigration p) r s = migration_rolled_back p r s"
| "data_proceed DataRefetch r s = (s\<lparr>da_busy := False\<rparr>, [])"

section \<open>Deployments\<close>

record deploy_panel =
  de_busy :: bool
  de_notice :: "jstring option"
  de_environment :: jstring
  de_version :: jstring
  de_healthPath :: jstring
  de_deploymentPlan :: jsval
  de_releaseNotes :: jstring
  de_changelog :: jstring

definition initial_deploy :: deploy_panel where
  "initial_deploy = \<lparr>de_busy = False, de_notice = None, de_environment = lit ''staging'', de_version = lit ''0.1.0'',
     de_healthPath = lit ''/'', de_deploymentPlan = JUndef, de_releaseNotes = [], de_changelog = []\<rparr>"

datatype deploy_task =
    PlanDeployment
  | ApplyDeployment project
  | Reconcile project
  | RollbackDeployment project
  | PrepareRelease project
  | PortableExport project
  | DeployRefetch

type_synonym deploy_result = "(deploy_panel, deploy_task) web_result"

definition deploy_refresh :: "project \<Rightarrow> deploy_task web_effect" where
  "deploy_refresh p = Refetches DeployRefetch (studio_key p ''delivery'')"

definition planDeployment :: "project \<Rightarrow> deploy_panel \<Rightarrow> deploy_result" where
  "planDeployment p s = (s\<lparr>de_busy := True\<rparr>, [Sends PlanDeployment (studio_command ''project.deployment.plan''
     [project_field p, revision_field p, str_field ''environment'' (de_environment s),
      lit_field ''provider'' ''local_staging'', str_field ''health_path'' (de_healthPath s),
      str_field ''version'' (de_version s), (lit ''cost_limit_cents'', JInt 0)])])"

definition deployment_planned :: "jsval reply \<Rightarrow> deploy_panel \<Rightarrow> deploy_result" where
  "deployment_planned r s = (if rejected r then (s, [])
     else (s\<lparr>de_notice := reply_notice ''Immutable deployment plan is ready for review.'' r,
       de_deploymentPlan := (if answered r then reply_value r else de_deploymentPlan s), de_busy := False\<rparr>, []))"

definition applyDeployment :: "project \<Rightarrow> deploy_panel \<Rightarrow> deploy_result" where
  "applyDeployment p s = (if de_deploymentPlan s = JUndef then (s, [])
     else (s\<lparr>de_busy := True\<rparr>, [Sends (ApplyDeployment p) (studio_command ''project.deployment.apply''
       [project_field p, (lit ''plan_id'', fld (de_deploymentPlan s) ''id'')])]))"

definition deployment_applied :: "project \<Rightarrow> jsval reply \<Rightarrow> deploy_panel \<Rightarrow> deploy_result" where
  "deployment_applied p r s = (case r of
      Rejected _ \<Rightarrow> (s, [])
    | Refused m \<Rightarrow> (s\<lparr>de_notice := Some m, de_busy := False\<rparr>, [])
    | Answered _ \<Rightarrow> (s\<lparr>de_notice := Some (lit ''Deployment is healthy from a direct service check.''),
        de_deploymentPlan := JUndef\<rparr>, [deploy_refresh p]))"

text \<open>The other commands end alike: the notice, the refetch, and then the panel is free.\<close>

definition deploy_concluded :: "project \<Rightarrow> string \<Rightarrow> jsval reply \<Rightarrow> deploy_panel \<Rightarrow> deploy_result" where
  "deploy_concluded p done_text r s = (if rejected r then (s, [])
     else (s\<lparr>de_notice := reply_notice done_text r\<rparr>, [deploy_refresh p]))"

definition reconcile :: "project \<Rightarrow> jstring \<Rightarrow> deploy_panel \<Rightarrow> deploy_result" where
  "reconcile p receiptID s = (s\<lparr>de_busy := True\<rparr>, [Sends (Reconcile p)
     (studio_command ''project.deployment.reconcile'' [project_field p, str_field ''receipt_id'' receiptID])])"

definition deploy_rollback :: "project \<Rightarrow> jstring \<Rightarrow> deploy_panel \<Rightarrow> deploy_result" where
  "deploy_rollback p receiptID s = (s\<lparr>de_busy := True\<rparr>, [Sends (RollbackDeployment p)
     (studio_command ''project.deployment.rollback'' [project_field p, str_field ''receipt_id'' receiptID])])"

definition prepareRelease :: "project \<Rightarrow> deploy_panel \<Rightarrow> deploy_result" where
  "prepareRelease p s = (s\<lparr>de_busy := True\<rparr>, [Sends (PrepareRelease p) (studio_command ''project.release.prepare''
     [project_field p, str_field ''release_version'' (de_version s),
      (lit ''notes'', JArr (if de_releaseNotes s = [] then [] else [JStr (de_releaseNotes s)])),
      (lit ''changelog'', JArr (if de_changelog s = [] then [] else [JStr (de_changelog s)]))])])"

definition portableExport :: "project \<Rightarrow> deploy_panel \<Rightarrow> deploy_result" where
  "portableExport p s = (s\<lparr>de_busy := True\<rparr>, [Sends (PortableExport p)
     (studio_command ''project.portable.export'' [project_field p])])"

datatype deploy_field = EnvironmentChoice | Version | HealthPath | ReleaseNotes | Changelog

fun deploy_edit :: "deploy_field \<Rightarrow> jstring \<Rightarrow> deploy_panel \<Rightarrow> deploy_panel" where
  "deploy_edit EnvironmentChoice v s = s\<lparr>de_environment := v\<rparr>"
| "deploy_edit Version v s = s\<lparr>de_version := v\<rparr>"
| "deploy_edit HealthPath v s = s\<lparr>de_healthPath := v\<rparr>"
| "deploy_edit ReleaseNotes v s = s\<lparr>de_releaseNotes := v\<rparr>"
| "deploy_edit Changelog v s = s\<lparr>de_changelog := v\<rparr>"

datatype deploy_input =
    EditDeploy deploy_field jstring
  | PressPlanDeployment
  | PressApplyDeployment
  | PressReconcile jstring
  | PressRollback jstring
  | PressPrepareRelease
  | PressExport

fun deploy_react :: "project \<times> deploy_input \<Rightarrow> deploy_panel \<Rightarrow> deploy_result" where
  "deploy_react (p, EditDeploy field v) s = (deploy_edit field v s, [])"
| "deploy_react (p, PressPlanDeployment) s =
     (if de_busy s \<or> de_version s = [] \<or> de_healthPath s = [] then (s, []) else planDeployment p s)"
| "deploy_react (p, PressApplyDeployment) s = (if de_busy s then (s, []) else applyDeployment p s)"
| "deploy_react (p, PressReconcile receiptID) s = (if de_busy s then (s, []) else reconcile p receiptID s)"
| "deploy_react (p, PressRollback receiptID) s = (if de_busy s then (s, []) else deploy_rollback p receiptID s)"
| "deploy_react (p, PressPrepareRelease) s =
     (if de_busy s \<or> de_releaseNotes s = [] \<or> de_changelog s = [] then (s, []) else prepareRelease p s)"
| "deploy_react (p, PressExport) s = (if de_busy s then (s, []) else portableExport p s)"

fun deploy_proceed :: "deploy_task \<Rightarrow> jsval reply \<Rightarrow> deploy_panel \<Rightarrow> deploy_result" where
  "deploy_proceed PlanDeployment r s = deployment_planned r s"
| "deploy_proceed (ApplyDeployment p) r s = deployment_applied p r s"
| "deploy_proceed (Reconcile p) r s = deploy_concluded p ''Deployment reconciled from provider truth.'' r s"
| "deploy_proceed (RollbackDeployment p) r s = deploy_concluded p ''Previous immutable release restored and health checked.'' r s"
| "deploy_proceed (PrepareRelease p) r s =
     deploy_concluded p ''Release readiness refreshed from deployment, verification, and DNS evidence.'' r s"
| "deploy_proceed (PortableExport p) r s =
     deploy_concluded p ''Portable source, data, config schema, and artifact export created.'' r s"
| "deploy_proceed DeployRefetch r s = (s\<lparr>de_busy := False\<rparr>, [])"

section \<open>One request at a time\<close>

lemmas data_defs = planResource_def applyResource_def saveEnvironment_def planMigration_def applyMigration_def
  rollbackMigration_def data_refresh_def

lemmas data_reply_defs = resource_planned_def resource_applied_def environment_saved_def migration_planned_def
  migration_applied_def migration_rolled_back_def data_refresh_def

lemmas deploy_defs = planDeployment_def applyDeployment_def reconcile_def deploy_rollback_def prepareRelease_def
  portableExport_def deploy_refresh_def

lemmas deploy_reply_defs = deployment_planned_def deployment_applied_def deploy_concluded_def deploy_refresh_def

lemma data_edit_keeps [simp]:
  "da_busy (data_edit field v s) = da_busy s" "da_resourcePlan (data_edit field v s) = da_resourcePlan s"
  "da_migrationPlan (data_edit field v s) = da_migrationPlan s"
  by (cases field; simp)+

lemma deploy_edit_keeps [simp]:
  "de_busy (deploy_edit field v s) = de_busy s" "de_deploymentPlan (deploy_edit field v s) = de_deploymentPlan s"
  by (cases field; simp)+

interpretation data_flight: single_flight data_react data_proceed da_busy
proof
  fix u :: "project \<times> data_input" and s
  show "da_busy s \<Longrightarrow> da_busy (fst (data_react u s)) \<and> started (snd (data_react u s)) = []"
    by (cases "(u, s)" rule: data_react.cases) auto
  show "length (started (snd (data_react u s))) \<le> 1"
    by (cases "(u, s)" rule: data_react.cases) (auto simp: data_defs Let_def)
  show "started (snd (data_react u s)) \<noteq> [] \<Longrightarrow> da_busy (fst (data_react u s))"
    by (cases "(u, s)" rule: data_react.cases) (auto simp: data_defs Let_def split: if_splits)
next
  fix task r s
  show "length (started (snd (data_proceed task r s))) \<le> 1"
    by (cases task; cases r) (auto simp: data_reply_defs)
  show "da_busy s \<Longrightarrow> started (snd (data_proceed task r s)) \<noteq> [] \<Longrightarrow> da_busy (fst (data_proceed task r s))"
    by (cases task; cases r) (auto simp: data_reply_defs)
qed

interpretation deploy_flight: single_flight deploy_react deploy_proceed de_busy
proof
  fix u :: "project \<times> deploy_input" and s
  show "de_busy s \<Longrightarrow> de_busy (fst (deploy_react u s)) \<and> started (snd (deploy_react u s)) = []"
    by (cases "(u, s)" rule: deploy_react.cases) auto
  show "length (started (snd (deploy_react u s))) \<le> 1"
    by (cases "(u, s)" rule: deploy_react.cases) (auto simp: deploy_defs)
  show "started (snd (deploy_react u s)) \<noteq> [] \<Longrightarrow> de_busy (fst (deploy_react u s))"
    by (cases "(u, s)" rule: deploy_react.cases) (auto simp: deploy_defs split: if_splits)
next
  fix task r s
  show "length (started (snd (deploy_proceed task r s))) \<le> 1"
    by (cases task; cases r) (auto simp: deploy_reply_defs)
  show "de_busy s \<Longrightarrow> started (snd (deploy_proceed task r s)) \<noteq> [] \<Longrightarrow> de_busy (fst (deploy_proceed task r s))"
    by (cases task; cases r) (auto simp: deploy_reply_defs)
qed

section \<open>Operations of the catalogue\<close>

lemma delivery_operations:
  "list_all (\<lambda>operation. operation_kind (lit operation) = Some Command)
     [''project.resource.plan'', ''project.resource.apply'', ''project.environment.put'', ''project.migration.plan'',
      ''project.migration.apply'', ''project.migration.rollback'', ''project.deployment.plan'',
      ''project.deployment.apply'', ''project.deployment.reconcile'', ''project.deployment.rollback'',
      ''project.release.prepare'', ''project.portable.export'']"
  unfolding catalogue by simp

lemma data_calls_known: "list_all known_call (calls (snd (component_run data_react data_proceed hs c)))"
proof (rule component_run_calls)
  fix u :: "project \<times> data_input" and s
  show "list_all known_call (calls (snd (data_react u s)))"
    using delivery_operations by (cases "(u, s)" rule: data_react.cases) (simp_all add: data_defs studio_command_def Let_def)
next
  fix task r s
  show "list_all known_call (calls (snd (data_proceed task r s)))"
    by (cases task; cases r) (simp_all add: data_reply_defs)
qed

lemma deploy_calls_known: "list_all known_call (calls (snd (component_run deploy_react deploy_proceed hs c)))"
proof (rule component_run_calls)
  fix u :: "project \<times> deploy_input" and s
  show "list_all known_call (calls (snd (deploy_react u s)))"
    using delivery_operations by (cases "(u, s)" rule: deploy_react.cases) (simp_all add: deploy_defs studio_command_def)
next
  fix task r s
  show "list_all known_call (calls (snd (deploy_proceed task r s)))"
    by (cases task; cases r) (simp_all add: deploy_reply_defs)
qed

section \<open>Plans\<close>

fun applies_resource :: "data_task \<Rightarrow> bool" where
  "applies_resource (ApplyResource _) = True"
| "applies_resource _ = False"

fun applies_migration :: "data_task \<Rightarrow> bool" where
  "applies_migration (ApplyMigration _) = True"
| "applies_migration _ = False"

fun applies_deployment :: "deploy_task \<Rightarrow> bool" where
  "applies_deployment (ApplyDeployment _) = True"
| "applies_deployment _ = False"

interpretation resource_review:
  plan_review data_react data_proceed da_resourcePlan "\<lambda>task. task = PlanResource" applies_resource
proof
  fix u :: "project \<times> data_input" and s
  show "da_resourcePlan (fst (data_react u s)) = da_resourcePlan s"
    by (cases "(u, s)" rule: data_react.cases) (auto simp: data_defs Let_def)
next
  fix task r s
  show "da_resourcePlan (fst (data_proceed task r s)) = (if task = PlanResource \<and> answered r then reply_value r
      else if applies_resource task \<and> answered r then JUndef else da_resourcePlan s)"
    by (cases task; cases r) (auto simp: data_reply_defs)
qed

interpretation migration_review:
  plan_review data_react data_proceed da_migrationPlan "\<lambda>task. task = PlanMigration" applies_migration
proof
  fix u :: "project \<times> data_input" and s
  show "da_migrationPlan (fst (data_react u s)) = da_migrationPlan s"
    by (cases "(u, s)" rule: data_react.cases) (auto simp: data_defs Let_def)
next
  fix task r s
  show "da_migrationPlan (fst (data_proceed task r s)) = (if task = PlanMigration \<and> answered r then reply_value r
      else if applies_migration task \<and> answered r then JUndef else da_migrationPlan s)"
    by (cases task; cases r) (auto simp: data_reply_defs)
qed

interpretation deployment_review:
  plan_review deploy_react deploy_proceed de_deploymentPlan "\<lambda>task. task = PlanDeployment" applies_deployment
proof
  fix u :: "project \<times> deploy_input" and s
  show "de_deploymentPlan (fst (deploy_react u s)) = de_deploymentPlan s"
    by (cases "(u, s)" rule: deploy_react.cases) (auto simp: deploy_defs)
next
  fix task r s
  show "de_deploymentPlan (fst (deploy_proceed task r s)) = (if task = PlanDeployment \<and> answered r then reply_value r
      else if applies_deployment task \<and> answered r then JUndef else de_deploymentPlan s)"
    by (cases task; cases r) (auto simp: deploy_reply_defs)
qed

lemma apply_deployment_effect:
  assumes "Sends (ApplyDeployment p) c \<in> set (snd (deploy_react (q, u) s))"
  shows "\<not> de_busy s \<and> p = q \<and> de_deploymentPlan s \<noteq> JUndef \<and> c = studio_command ''project.deployment.apply''
    [project_field q, (lit ''plan_id'', fld (de_deploymentPlan s) ''id'')]"
  using assms by (cases u) (auto simp: deploy_defs split: if_splits)

lemma apply_migration_effect:
  assumes "Sends (ApplyMigration p) c \<in> set (snd (data_react (q, u) s))"
  shows "\<not> da_busy s \<and> p = q \<and> da_migrationPlan s \<noteq> JUndef \<and> c = studio_command ''project.migration.apply''
    [project_field q, (lit ''plan_id'', fld (da_migrationPlan s) ''id'')]"
  using assms by (cases u) (auto simp: data_defs Let_def split: if_splits)

lemma apply_resource_effect:
  assumes "Sends (ApplyResource p) c \<in> set (snd (data_react (q, u) s))"
  shows "\<not> da_busy s \<and> p = q \<and> da_resourcePlan s \<noteq> JUndef \<and> c = studio_command ''project.resource.apply''
    [project_field q, (lit ''plan_id'', fld (da_resourcePlan s) ''id'')]"
  using assms by (cases u) (auto simp: data_defs Let_def split: if_splits)

lemma data_idle: "\<not> da_busy s \<Longrightarrow> component_run data_react data_proceed hs (initial_data, []) = ((s, waiting), es) \<Longrightarrow> waiting = []"
  using data_flight.one_flight_run [of "(initial_data, [])" hs] by (simp add: data_flight.one_flight_def)

lemma deploy_idle: "\<not> de_busy s \<Longrightarrow> component_run deploy_react deploy_proceed hs (initial_deploy, []) = ((s, waiting), es) \<Longrightarrow> waiting = []"
  using deploy_flight.one_flight_run [of "(initial_deploy, [])" hs] by (simp add: deploy_flight.one_flight_def)

text \<open>
  (C20) A deployment is applied only while nothing else waits, for the project that is shown, and it is the
  one under review: the last plan the server answered that was not applied since.
\<close>

theorem deployed_as_reviewed:
  assumes "possible deploy_react deploy_proceed hs (initial_deploy, [])"
    "component_run deploy_react deploy_proceed hs (initial_deploy, []) = ((s, waiting), es)"
    "Sends (ApplyDeployment p) c \<in> set (snd (deploy_react (q, u) s))"
  defines "plan \<equiv> reviewed (\<lambda>task. task = PlanDeployment) applies_deployment hs JUndef"
  shows "waiting = [] \<and> p = q \<and> plan \<noteq> JUndef \<and>
    c = studio_command ''project.deployment.apply'' [project_field q, (lit ''plan_id'', fld plan ''id'')]"
proof -
  have "de_deploymentPlan s = plan"
    using deployment_review.plan_reviewed [OF assms(1)] assms(2) by (simp add: plan_def initial_deploy_def)
  then show ?thesis using apply_deployment_effect [OF assms(3)] deploy_idle [OF _ assms(2)] by auto
qed

definition example_project :: project where
  "example_project = \<lparr>pj_id = lit ''p1'', pj_name = lit ''Site'', pj_revision = 7\<rparr>"

definition example_plan :: jsval where
  "example_plan = JObj [(lit ''id'', JStr (lit ''plan-1''))]"

abbreviation planned_deployment :: "(project \<times> deploy_input, deploy_task, jsval reply) happening list" where
  "planned_deployment \<equiv> [Does (example_project, PressPlanDeployment), Settles PlanDeployment (Answered (Some example_plan))]"

lemma planned_deployment_run:
  "possible deploy_react deploy_proceed planned_deployment (initial_deploy, [])"
  "fst (component_run deploy_react deploy_proceed planned_deployment (initial_deploy, [])) =
     (initial_deploy\<lparr>de_notice := Some (lit ''Immutable deployment plan is ready for review.''),
       de_deploymentPlan := example_plan\<rparr>, [])"
  by (simp_all add: planDeployment_def deployment_planned_def initial_deploy_def)

theorem deployed_as_reviewed_witness:
  "[] = ([] :: deploy_task list) \<and> example_project = example_project \<and>
   reviewed (\<lambda>task. task = PlanDeployment) applies_deployment planned_deployment JUndef \<noteq> JUndef \<and>
   studio_command ''project.deployment.apply'' [project_field example_project, (lit ''plan_id'', JStr (lit ''plan-1''))] =
   studio_command ''project.deployment.apply'' [project_field example_project, (lit ''plan_id'',
     fld (reviewed (\<lambda>task. task = PlanDeployment) applies_deployment planned_deployment JUndef) ''id'')]"
proof (rule deployed_as_reviewed [OF planned_deployment_run(1)])
  show "component_run deploy_react deploy_proceed planned_deployment (initial_deploy, []) =
      ((initial_deploy\<lparr>de_notice := Some (lit ''Immutable deployment plan is ready for review.''),
         de_deploymentPlan := example_plan\<rparr>, []),
       snd (component_run deploy_react deploy_proceed planned_deployment (initial_deploy, [])))"
    by (metis planned_deployment_run(2) prod.collapse)
  show "Sends (ApplyDeployment example_project) (studio_command ''project.deployment.apply''
      [project_field example_project, (lit ''plan_id'', JStr (lit ''plan-1''))])
    \<in> set (snd (deploy_react (example_project, PressApplyDeployment) (initial_deploy\<lparr>de_notice :=
        Some (lit ''Immutable deployment plan is ready for review.''), de_deploymentPlan := example_plan\<rparr>)))"
    by (simp add: applyDeployment_def initial_deploy_def example_plan_def)
qed

text \<open>The same for the migrations and the resources of the data panel.\<close>

theorem migrated_as_reviewed:
  assumes "possible data_react data_proceed hs (initial_data, [])"
    "component_run data_react data_proceed hs (initial_data, []) = ((s, waiting), es)"
    "Sends (ApplyMigration p) c \<in> set (snd (data_react (q, u) s))"
  defines "plan \<equiv> reviewed (\<lambda>task. task = PlanMigration) applies_migration hs JUndef"
  shows "waiting = [] \<and> p = q \<and> plan \<noteq> JUndef \<and>
    c = studio_command ''project.migration.apply'' [project_field q, (lit ''plan_id'', fld plan ''id'')]"
proof -
  have "da_migrationPlan s = plan"
    using migration_review.plan_reviewed [OF assms(1)] assms(2) by (simp add: plan_def initial_data_def)
  then show ?thesis using apply_migration_effect [OF assms(3)] data_idle [OF _ assms(2)] by auto
qed

theorem provisioned_as_reviewed:
  assumes "possible data_react data_proceed hs (initial_data, [])"
    "component_run data_react data_proceed hs (initial_data, []) = ((s, waiting), es)"
    "Sends (ApplyResource p) c \<in> set (snd (data_react (q, u) s))"
  defines "plan \<equiv> reviewed (\<lambda>task. task = PlanResource) applies_resource hs JUndef"
  shows "waiting = [] \<and> p = q \<and> plan \<noteq> JUndef \<and>
    c = studio_command ''project.resource.apply'' [project_field q, (lit ''plan_id'', fld plan ''id'')]"
proof -
  have "da_resourcePlan s = plan"
    using resource_review.plan_reviewed [OF assms(1)] assms(2) by (simp add: plan_def initial_data_def)
  then show ?thesis using apply_resource_effect [OF assms(3)] data_idle [OF _ assms(2)] by auto
qed

text \<open>
  The panel is not keyed by the project: a plan made for one project is applied to the project that is
  shown when the button is pressed.
\<close>

theorem plan_crosses_projects:
  "calls (snd (component_run deploy_react deploy_proceed
     [Does (p, PressPlanDeployment), Settles PlanDeployment (Answered (Some (JObj [(lit ''id'', JStr i)]))),
      Does (q, PressApplyDeployment)] (initial_deploy, []))) =
   [studio_command ''project.deployment.plan'' [project_field p, revision_field p, lit_field ''environment'' ''staging'',
      lit_field ''provider'' ''local_staging'', lit_field ''health_path'' ''/'', lit_field ''version'' ''0.1.0'',
      (lit ''cost_limit_cents'', JInt 0)],
    studio_command ''project.deployment.apply'' [project_field q, (lit ''plan_id'', JStr i)]]"
  by (simp add: planDeployment_def deployment_planned_def applyDeployment_def initial_deploy_def str_field_def
    lit_field_def)


end
