(* ===== verification/Studio.thy ===== *)
theory Studio
  imports StudioDelivery Control
begin

text \<open>
  The home of the Software Studio and the frame of its workspace, of
  \<open>ui/web/src/routes/StudioRoutes.tsx\<close>: how a project is created and its first request submitted, how
  a query is read, the tabs, the plan under review and the texts of the activity card.
\<close>

section \<open>Queries\<close>

text \<open>\<open>query\<close>: what the function throws, or the result.\<close>

definition studio_query :: "chat_env \<Rightarrow> string \<Rightarrow> jsval reply \<Rightarrow> jstring + jsval" where
  "studio_query env operation r = (case r of
      Rejected err \<Rightarrow> Inl (chat_error env err)
    | Refused m \<Rightarrow> Inl m
    | Answered None \<Rightarrow> Inl (lit operation @ lit '' returned no result'')
    | Answered (Some v) \<Rightarrow>
        if isRecord v \<and> (fld v ''status'' = JStr (lit ''unavailable'') \<or> fld v ''status'' = JStr (lit ''not_available''))
        then Inl (case fld v ''reason'' of JStr reason \<Rightarrow> reason | _ \<Rightarrow> lit operation @ lit '' is not available for this project'')
        else Inr v)"

section \<open>The home\<close>

datatype entry_mode = Template | Clone | Attach | Import

record home =
  ho_goal :: jstring
  ho_mode :: entry_mode
  ho_name :: jstring
  ho_template :: jstring
  ho_repositoryURL :: jstring
  ho_credentialReference :: jstring
  ho_directory :: jstring
  ho_archivePath :: jstring
  ho_busy :: bool
  ho_notice :: "jstring option"

definition initial_home :: home where
  "initial_home = \<lparr>ho_goal = [], ho_mode = Template, ho_name = [], ho_template = lit ''static-web'', ho_repositoryURL = [],
     ho_credentialReference = [], ho_directory = [], ho_archivePath = [], ho_busy = False, ho_notice = None\<rparr>"

text \<open>The steps of \<open>createProject\<close> and \<open>continuePrompt\<close>, with what their closure holds: the session and the goal.\<close>

datatype home_task =
    HomeCreate "jstring option" jstring
  | HomeListed "jstring option" jstring jstring
  | HomeSession jstring jstring
  | HomeSubmit jstring

type_synonym home_result = "(home, home_task) web_result"

definition entry_call :: "jstring \<Rightarrow> home \<Rightarrow> call" where
  "entry_call projectName s = (case ho_mode s of
      Clone \<Rightarrow> studio_command ''project.clone'' [str_field ''name'' projectName,
        str_field ''repository_url'' (trim (ho_repositoryURL s)),
        str_field ''credential_reference'' (trim (ho_credentialReference s)), (lit ''authorized'', JBool True),
        lit_field ''host'' ''direct_local'', lit_field ''trust'' ''untrusted'']
    | Attach \<Rightarrow> studio_command ''project.attach'' [str_field ''name'' projectName,
        str_field ''directory'' (trim (ho_directory s)), lit_field ''trust'' ''untrusted'']
    | Import \<Rightarrow> studio_command ''project.import'' [str_field ''name'' projectName,
        str_field ''archive_path'' (trim (ho_archivePath s)), lit_field ''host'' ''direct_local'',
        lit_field ''trust'' ''untrusted'']
    | Template \<Rightarrow> studio_command ''project.create'' [str_field ''name'' projectName, str_field ''template'' (ho_template s),
        lit_field ''host'' ''direct_local'', lit_field ''trust'' ''reviewed''])"

definition project_name :: "unicode \<Rightarrow> home \<Rightarrow> jstring" where
  "project_name un s = (let name = trim (ho_name s) in if name = [] then conciseProjectName un (ho_goal s) else name)"

definition createProject :: "unicode \<Rightarrow> jstring option \<Rightarrow> home \<Rightarrow> home_result" where
  "createProject un session s = (let projectName = project_name un s in
     if projectName = [] then (s\<lparr>ho_notice := Some (lit ''Name the project or describe what you want to build.'')\<rparr>, [])
     else (s\<lparr>ho_busy := True, ho_notice := None\<rparr>, [Sends (HomeCreate session (ho_goal s)) (entry_call projectName s)]))"

text \<open>The branches \<open>catch\<close> and \<open>finally\<close>, and the end of the function.\<close>

definition home_fail :: "jstring \<Rightarrow> home \<Rightarrow> home_result" where
  "home_fail m s = (s\<lparr>ho_notice := Some m, ho_busy := False\<rparr>, [])"

definition home_done :: "jstring \<Rightarrow> home \<Rightarrow> home_result" where
  "home_done project s = (s\<lparr>ho_busy := False\<rparr>, [Goes (lit ''/studio/'' @ project)])"

definition home_created :: "chat_env \<Rightarrow> jstring option \<Rightarrow> jstring \<Rightarrow> jstring reply \<Rightarrow> home \<Rightarrow> home_result" where
  "home_created env session goal r s = (case identified env ''The project could not be created.'' r of
      Inl m \<Rightarrow> home_fail m s
    | Inr project \<Rightarrow> (s, [Refetches (HomeListed session goal project) [lit ''studio'', lit ''projects'']]))"

definition continuePrompt :: "jstring option \<Rightarrow> jstring \<Rightarrow> jstring \<Rightarrow> home \<Rightarrow> home_result" where
  "continuePrompt session goal project s = (let content = trim goal in
     if content = [] then home_done project s
     else case session of
         None \<Rightarrow> (s, [Sends (HomeSession content project) (command_call ''session.create'' (JObj []) JUndef)])
       | Some i \<Rightarrow> (s, [Sends (HomeSubmit project) (turn_call content True (Some project) i)]))"

definition home_session :: "chat_env \<Rightarrow> jstring \<Rightarrow> jstring \<Rightarrow> jstring reply \<Rightarrow> home \<Rightarrow> home_result" where
  "home_session env content project r s = (case identified env ''A project conversation could not be started.'' r of
      Inl m \<Rightarrow> home_fail m s
    | Inr i \<Rightarrow> (s, [Selects (Some i), Sends (HomeSubmit project) (turn_call content True (Some project) i)]))"

definition home_submitted :: "chat_env \<Rightarrow> jstring \<Rightarrow> jstring reply \<Rightarrow> home \<Rightarrow> home_result" where
  "home_submitted env project r s = (case r of
      Rejected err \<Rightarrow> home_fail (chat_error env err) s
    | Refused m \<Rightarrow> home_fail m s
    | Answered _ \<Rightarrow> home_done project s)"

datatype home_field = Goal | ProjectName | TemplateField | RepositoryURL | CredentialReference | Directory | ArchivePath

fun home_edit :: "home_field \<Rightarrow> jstring \<Rightarrow> home \<Rightarrow> home" where
  "home_edit Goal v s = s\<lparr>ho_goal := v\<rparr>"
| "home_edit ProjectName v s = s\<lparr>ho_name := v\<rparr>"
| "home_edit TemplateField v s = s\<lparr>ho_template := v\<rparr>"
| "home_edit RepositoryURL v s = s\<lparr>ho_repositoryURL := v\<rparr>"
| "home_edit CredentialReference v s = s\<lparr>ho_credentialReference := v\<rparr>"
| "home_edit Directory v s = s\<lparr>ho_directory := v\<rparr>"
| "home_edit ArchivePath v s = s\<lparr>ho_archivePath := v\<rparr>"

text \<open>
  The fields the browser requires. For a repository it also asks that the text be a URL, which only
  removes submissions.
\<close>

definition home_complete :: "home \<Rightarrow> bool" where
  "home_complete s = (case ho_mode s of Template \<Rightarrow> True | Clone \<Rightarrow> ho_repositoryURL s \<noteq> [] | Attach \<Rightarrow> ho_directory s \<noteq> []
     | Import \<Rightarrow> ho_archivePath s \<noteq> [])"

datatype home_input = EditHome home_field jstring | ChooseMode entry_mode | PressStart "jstring option"

fun home_react :: "unicode \<Rightarrow> home_input \<Rightarrow> home \<Rightarrow> home_result" where
  "home_react un (EditHome field v) s = (home_edit field v s, [])"
| "home_react un (ChooseMode mode) s = (s\<lparr>ho_mode := mode\<rparr>, [])"
| "home_react un (PressStart session) s = (if ho_busy s \<or> \<not> home_complete s then (s, []) else createProject un session s)"

fun home_proceed :: "chat_env \<Rightarrow> home_task \<Rightarrow> jstring reply \<Rightarrow> home \<Rightarrow> home_result" where
  "home_proceed env (HomeCreate session goal) r s = home_created env session goal r s"
| "home_proceed env (HomeListed session goal project) r s = continuePrompt session goal project s"
| "home_proceed env (HomeSession content project) r s = home_session env content project r s"
| "home_proceed env (HomeSubmit project) r s = home_submitted env project r s"

section \<open>The tabs of the workspace\<close>

definition panels :: "(string \<times> string) list" where
  "panels = [(''plan'', ''Plan''), (''changes'', ''Changes''), (''code'', ''Code''), (''terminal'', ''Terminal''),
     (''preview'', ''Preview''), (''problems'', ''Problems''), (''tests'', ''Tests''), (''security'', ''Security''),
     (''data'', ''Data''), (''deploy'', ''Deploy'')]"

text \<open>The parameter \<open>panel\<close> of the address, and the panel it shows.\<close>

definition shown_panel :: "jstring option \<Rightarrow> jstring" where
  "shown_panel requested = (case requested of None \<Rightarrow> lit ''plan''
     | Some i \<Rightarrow> if one_of (map fst panels) i then i else lit ''plan'')"

definition setPanel :: "jstring \<Rightarrow> jstring option" where
  "setPanel i = (if i = lit ''plan'' then None else Some i)"

definition tabKeyDown :: "string \<Rightarrow> nat \<Rightarrow> nat option" where
  "tabKeyDown key index =
     (if key = ''Home'' then Some 0
      else if key = ''End'' then Some (length panels - 1)
      else if key = ''ArrowRight'' then Some (nat ((int index + 1 + int (length panels)) mod int (length panels)))
      else if key = ''ArrowLeft'' then Some (nat ((int index - 1 + int (length panels)) mod int (length panels)))
      else None)"

text \<open>The interval after which the project is read again, in milliseconds.\<close>

definition project_interval :: "jstring option \<Rightarrow> operator_state \<Rightarrow> nat" where
  "project_interval session os = (if list_ex (\<lambda>t. ts_status t = Running \<and> (session = None \<or> ts_session_id t = session))
     (dict_values (turns os)) then 1000 else 5000)"

section \<open>The plan under review\<close>

record proposal =
  pr_id :: jstring
  pr_status :: jstring
  pr_applied :: bool
  pr_rationale :: jstring
  pr_criteria :: "(jstring \<times> jstring) list"
  pr_commands :: "jstring list"

record intent =
  in_id :: jstring
  in_project :: jstring
  in_active :: "jstring option"
  in_proposals :: "proposal list"

definition active_proposal :: "intent \<Rightarrow> proposal option" where
  "active_proposal i = (case find (\<lambda>p. Some (pr_id p) = in_active i) (in_proposals i) of
      Some p \<Rightarrow> Some p | None \<Rightarrow> at_last (in_proposals i))"

definition workspace_intent :: "jstring \<Rightarrow> intent list \<Rightarrow> intent option" where
  "workspace_intent projectID intents = find (\<lambda>i. in_project i = projectID) intents"

record plan_panel =
  pp_notice :: "jstring option"
  pp_decisions :: "jstring dict"
  pp_comment :: jstring

datatype plan_task = DecideProposal bool | ApplyProposal | IntentsRefetch

type_synonym plan_result = "(plan_panel, plan_task) web_result"

definition plan_decide :: "jstring option \<Rightarrow> intent \<Rightarrow> bool \<Rightarrow> plan_panel \<Rightarrow> plan_result" where
  "plan_decide session i accept s = (case active_proposal i of
      None \<Rightarrow> (s, [])
    | Some active \<Rightarrow> (s, [Sends (DecideProposal accept) (command_call ''studio.proposal.decide''
        (JObj [str_field ''intent_id'' (in_id i), str_field ''proposal_id'' (pr_id active), (lit ''accept'', JBool accept),
          str_field ''reason'' (let comment = trim (pp_comment s) in if comment \<noteq> [] then comment
            else lit (if accept then ''Approved in the project workspace'' else ''Returned for revision in the project workspace'')),
          (lit ''assumption_decisions'', JObj (map (\<lambda>(k, v). (k, JStr v)) (pp_decisions s)))])
        (scope_of session))]))"

definition intents_refetch :: "plan_task web_effect" where
  "intents_refetch = Refetches IntentsRefetch [lit ''studio'', lit ''intents'']"

definition decided :: "bool \<Rightarrow> jsval reply \<Rightarrow> plan_panel \<Rightarrow> plan_result" where
  "decided accept r s = (case r of
      Rejected _ \<Rightarrow> (s, [])
    | Refused m \<Rightarrow> (s\<lparr>pp_notice := Some m\<rparr>, [])
    | Answered _ \<Rightarrow> (s\<lparr>pp_notice := Some (lit (if accept then ''Specification accepted.'' else ''Specification returned for revision.'')),
        pp_comment := []\<rparr>, [intents_refetch]))"

definition apply_proposal :: "jstring option \<Rightarrow> intent \<Rightarrow> plan_panel \<Rightarrow> plan_result" where
  "apply_proposal session i s = (case active_proposal i of
      None \<Rightarrow> (s, [])
    | Some active \<Rightarrow> (s, [Sends ApplyProposal (command_call ''studio.proposal.apply''
        (JObj [str_field ''intent_id'' (in_id i), str_field ''proposal_id'' (pr_id active)]) (scope_of session))]))"

definition proposal_applied :: "jsval reply \<Rightarrow> plan_panel \<Rightarrow> plan_result" where
  "proposal_applied r s = (case r of
      Rejected _ \<Rightarrow> (s, [])
    | Refused m \<Rightarrow> (s\<lparr>pp_notice := Some m\<rparr>, [])
    | Answered _ \<Rightarrow> (s\<lparr>pp_notice := Some (lit ''The accepted specification is now authoritative.'')\<rparr>, [intents_refetch]))"

text \<open>What the panel offers: which buttons it shows for the intent of the project.\<close>

datatype plan_input = PressDecide bool | PressApplyProposal | PressRevise | PressDescribe | EditComment jstring | EditDecision jstring jstring

fun plan_react :: "project \<Rightarrow> jstring option \<Rightarrow> intent option \<Rightarrow> plan_input \<Rightarrow> plan_panel \<Rightarrow> plan_result" where
  "plan_react p session (Some i) (PressDecide accept) s =
     (if map_option pr_status (active_proposal i) = Some (lit ''proposed'') then plan_decide session i accept s else (s, []))"
| "plan_react p session (Some i) PressApplyProposal s =
     (case active_proposal i of None \<Rightarrow> (s, [])
      | Some a \<Rightarrow> if pr_status a = lit ''accepted'' \<and> \<not> pr_applied a then apply_proposal session i s else (s, []))"
| "plan_react p session (Some i) PressRevise s = (if active_proposal i = None then (s, [])
     else (s, [Prefills (lit ''Revise the accepted plan for '' @ pj_name p @ lit ''. I want to change: '')]))"
| "plan_react p session None PressDescribe s =
     (s, [Prefills (lit ''Create a reviewable specification for '' @ pj_name p @ lit ''. The outcome is: '')])"
| "plan_react p session (Some i) (EditComment v) s = (s\<lparr>pp_comment := v\<rparr>, [])"
| "plan_react p session (Some i) (EditDecision assumption v) s = (s\<lparr>pp_decisions := dict_put assumption v (pp_decisions s)\<rparr>, [])"
| "plan_react p session i _ s = (s, [])"

fun plan_proceed :: "plan_task \<Rightarrow> jsval reply \<Rightarrow> plan_panel \<Rightarrow> plan_result" where
  "plan_proceed (DecideProposal accept) r s = decided accept r s"
| "plan_proceed ApplyProposal r s = proposal_applied r s"
| "plan_proceed IntentsRefetch r s = (s, [])"

section \<open>Texts\<close>

text \<open>\<open>replaceAll(/[._-]+/g, ' ')\<close>: a run of separators becomes one space.\<close>

fun join_separators :: "bool \<Rightarrow> jstring \<Rightarrow> jstring" where
  "join_separators inside [] = []"
| "join_separators inside (u # s) =
     (if u = 46 \<or> u = 95 \<or> u = 45 then (if inside then join_separators True s else 32 # join_separators True s)
      else u # join_separators False s)"

definition studio_humanize :: "jstring \<Rightarrow> jstring" where
  "studio_humanize s = title_case False (join_separators False s)"

definition shortHash :: "jstring option \<Rightarrow> jstring" where
  "shortHash v = (case v of None \<Rightarrow> lit ''No commit'' | Some h \<Rightarrow> if h = [] then lit ''No commit'' else take 8 h)"

definition engineeringActivity :: "event_envelope list \<Rightarrow> event_envelope list" where
  "engineeringActivity evs = filter (\<lambda>e. list_ex (\<lambda>p. starts_with p (ev_type e))
     [''workspace.'', ''task.'', ''agent.'', ''tool.'', ''deployment.'', ''verification.''] \<or>
     ev_type e = lit ''turn.recovery'' \<or> ev_type e = lit ''turn.incomplete'') evs"

definition activityPayloadDetails :: "jsval \<Rightarrow> (jstring \<times> jstring) list" where
  "activityPayloadDetails p = (if \<not> isRecord p then []
     else take 4 (concat (map (\<lambda>key. case fld p key of
         JStr v \<Rightarrow> if trim v = [] then [] else [(lit key, if length v > 240 then take 240 v @ ellipsis else v)]
       | _ \<Rightarrow> []) [''operation'', ''name'', ''phase'', ''status'', ''message'', ''next_action''])))"

definition activityTone :: "jstring \<Rightarrow> string" where
  "activityTone type = (if sublist (lit ''failed'') type \<or> sublist (lit ''cancelled'') type then ''danger''
     else if sublist (lit ''completed'') type then ''success'' else ''active'')"

definition activity_labels :: "(string \<times> string) list" where
  "activity_labels = [(''workspace.operation.queued'', ''Workspace action queued''),
     (''workspace.operation.started'', ''Workspace action started''),
     (''workspace.operation.progress'', ''Workspace action progressing''),
     (''workspace.operation.completed'', ''Workspace action completed''),
     (''workspace.operation.failed'', ''Workspace action failed''),
     (''workspace.operation.cancelled'', ''Workspace action cancelled''),
     (''turn.recovery'', ''Work restored after reconnect''), (''turn.incomplete'', ''Work paused with progress saved'')]"

definition activityLabel :: "jstring \<Rightarrow> jstring" where
  "activityLabel type = (case table_get activity_labels type of Some label \<Rightarrow> lit label | None \<Rightarrow> studio_humanize type)"

text \<open>The card of the activity: the last six events, the newest first.\<close>

definition ActivityCard :: "event_envelope list \<Rightarrow> (jstring \<times> string \<times> (jstring \<times> jstring) list) list" where
  "ActivityCard evs = map (\<lambda>e. (activityLabel (ev_type e), activityTone (ev_type e), activityPayloadDetails (payload e)))
     (rev (slice_last 6 evs))"

section \<open>Creating projects\<close>

lemma home_edit_busy [simp]: "ho_busy (home_edit field v s) = ho_busy s"
  by (cases field) simp_all

lemmas home_defs = createProject_def home_created_def continuePrompt_def home_session_def home_submitted_def home_fail_def
  home_done_def

interpretation home_flight: single_flight_released "home_react un" "home_proceed env" ho_busy
proof
  fix u s
  show "ho_busy s \<Longrightarrow> ho_busy (fst (home_react un u s)) \<and> started (snd (home_react un u s)) = []"
    by (cases u) simp_all
  show "length (started (snd (home_react un u s))) \<le> 1"
    by (cases u) (simp_all add: createProject_def Let_def)
  show "started (snd (home_react un u s)) \<noteq> [] \<Longrightarrow> ho_busy (fst (home_react un u s))"
    by (cases u) (auto simp: createProject_def Let_def split: if_splits)
  show "started (snd (home_react un u s)) = [] \<Longrightarrow> ho_busy (fst (home_react un u s)) = ho_busy s"
    by (cases u) (auto simp: createProject_def Let_def split: if_splits)
next
  fix task r s
  show "length (started (snd (home_proceed env task r s))) \<le> 1"
    by (cases task) (auto simp: home_defs Let_def split: sum.splits option.splits reply.splits)
  show "ho_busy s \<Longrightarrow> started (snd (home_proceed env task r s)) \<noteq> [] \<Longrightarrow> ho_busy (fst (home_proceed env task r s))"
    by (cases task) (auto simp: home_defs Let_def split: sum.splits option.splits reply.splits if_splits)
  show "started (snd (home_proceed env task r s)) = [] \<Longrightarrow> \<not> ho_busy (fst (home_proceed env task r s))"
    by (cases task) (auto simp: home_defs Let_def split: sum.splits option.splits reply.splits if_splits)
qed

text \<open>
  Over any run of the home the form is busy exactly while one step of a creation waits, and never
  two: whatever fails, the form is free again.
\<close>

theorem project_start_released:
  "case component_run (home_react un) (home_proceed env) hs (initial_home, []) of ((s, waiting), es) \<Rightarrow>
     length waiting \<le> 1 \<and> (ho_busy s \<longleftrightarrow> waiting \<noteq> [])"
proof -
  have "home_flight.busy_iff_waiting (initial_home, [])"
    by (simp add: home_flight.busy_iff_waiting_def home_flight.one_flight_def initial_home_def)
  then have "home_flight.busy_iff_waiting (fst (component_run (home_react un) (home_proceed env) hs (initial_home, [])))"
    by (rule home_flight.busy_iff_waiting_run)
  then show ?thesis by (simp add: home_flight.busy_iff_waiting_def home_flight.one_flight_def case_prod_beta)
qed






lemma entry_frame [simp]:
  "entry_call name (ho_busy_update f s) = entry_call name s" "entry_call name (ho_notice_update g s) = entry_call name s"
  "project_name un (ho_busy_update f s) = project_name un s" "project_name un (ho_notice_update g s) = project_name un s"
  "home_complete (ho_busy_update f s) = home_complete s" "home_complete (ho_notice_update g s) = home_complete s"
  by (simp_all add: entry_call_def project_name_def home_complete_def Let_def split: entry_mode.splits)

text \<open>
  A request that cannot be submitted leaves the project behind and the form as it was: starting again
  makes the project a second time.
\<close>

theorem failed_start_creates_again:
  assumes "project_name un s \<noteq> []" "trim (ho_goal s) \<noteq> []" "home_complete s" "\<not> ho_busy s"
  shows "calls (snd (component_run (home_react un) (home_proceed env)
      [Does (PressStart (Some i)), Settles (HomeCreate (Some i) (ho_goal s)) (Answered (Some project)),
       Settles (HomeListed (Some i) (ho_goal s) project) r, Settles (HomeSubmit project) (Refused m),
       Does (PressStart (Some i))] (s, []))) =
    [entry_call (project_name un s) s, turn_call (trim (ho_goal s)) True (Some project) i, entry_call (project_name un s) s]"
  using assms by (simp add: home_defs identified_def)

section \<open>Tabs\<close>

text \<open>The panel of an address is the one it was made for, and the keys move among the tabs.\<close>

lemma shown_panel_set: "one_of (map fst panels) i \<Longrightarrow> shown_panel (setPanel i) = i"
  by (simp add: setPanel_def shown_panel_def)

lemma tab_key_bounds: "tabKeyDown key index = Some next_index \<Longrightarrow> next_index < length panels"
  by (auto simp: tabKeyDown_def panels_def split: if_splits)

lemma tab_keys_inverse:
  assumes "index < length panels"
  shows "Option.bind (tabKeyDown ''ArrowRight'' index) (tabKeyDown ''ArrowLeft'') = Some index"
proof -
  have "index < 10" using assms by (simp add: panels_def)
  then have "index \<in> set [0 ..< 10]" by simp
  then show ?thesis by (simp add: tabKeyDown_def panels_def upt_rec) auto
qed

text \<open>The palette offers the panels of the workspace, each at an address that shows it.\<close>

theorem palette_reaches_panels:
  "map snd studio_panels = map fst panels \<and>
   list_all (\<lambda>(label, i). shown_panel (setPanel (lit i)) = lit i) studio_panels"
  by code_simp

end
