(* ===== verification/StudioChanges.thy ===== *)
theory StudioChanges
  imports Studio
begin

text \<open>
  The panel of the changes of a project, of \<open>ui/web/src/routes/StudioRoutes.tsx\<close>: review comments,
  staging, commits, tags and remote operations. What the queries have last returned comes with an input,
  at the types the panel declares; before a handler runs, the effects of the render have run.
\<close>

section \<open>What the panel reads\<close>

record review_file =
  rf_path :: jstring
  rf_sha :: jstring
  rf_diff :: bool
  rf_truncated :: bool

record git_projection =
  gp_head :: "jstring option"
  gp_branch :: "jstring option"
  gp_detached :: bool

text \<open>The comments with whether they are resolved, and the receipts with whether they can be rolled back.\<close>

record changes_ctx =
  cc_project :: project
  cc_git :: "git_projection option"
  cc_groups :: "review_file list list"
  cc_comments :: "(jstring \<times> bool) list"
  cc_receipts :: "(jstring \<times> bool) list"

definition cc_files :: "changes_ctx \<Rightarrow> review_file list" where
  "cc_files cx = concat (cc_groups cx)"

definition cc_head :: "changes_ctx \<Rightarrow> jstring option" where
  "cc_head cx = Option.bind (cc_git cx) gp_head"

record hunk_diff =
  hk_sha :: jstring
  hk_truncated :: bool

record changes =
  cg_commentPath :: jstring
  cg_commentBody :: jstring
  cg_notice :: "jstring option"
  cg_selectedPaths :: "jstring list"
  cg_hunkDiff :: "hunk_diff option"
  cg_hunkPatch :: jstring
  cg_branchName :: jstring
  cg_commitMessage :: jstring
  cg_tagName :: jstring
  cg_remoteName :: jstring
  cg_remoteBranch :: jstring
  cg_providerName :: jstring
  cg_repositoryName :: jstring
  cg_permissionGrant :: jstring
  cg_remoteHead :: jstring
  cg_mergeRevision :: jstring
  cg_providerProjection :: "(jsval \<times> jsval) option"
  cg_draftTitle :: jstring

definition initial_changes :: changes where
  "initial_changes = \<lparr>cg_commentPath = [], cg_commentBody = [], cg_notice = None, cg_selectedPaths = [], cg_hunkDiff = None,
     cg_hunkPatch = [], cg_branchName = [], cg_commitMessage = [], cg_tagName = [], cg_remoteName = lit ''origin'',
     cg_remoteBranch = lit ''main'', cg_providerName = lit ''github'', cg_repositoryName = [], cg_permissionGrant = [],
     cg_remoteHead = [], cg_mergeRevision = [], cg_providerProjection = None, cg_draftTitle = []\<rparr>"

section \<open>Requests\<close>

datatype remote_operation = SyncRemote | PullRemote | PushRemote | ForceWithLease

fun remote_name :: "remote_operation \<Rightarrow> string" where
  "remote_name SyncRemote = ''project.git.sync''"
| "remote_name PullRemote = ''project.git.pull''"
| "remote_name PushRemote = ''project.git.push''"
| "remote_name ForceWithLease = ''project.git.force-with-lease''"

datatype changes_task =
    AddComment project
  | ResolveComment project
  | RollbackPatch project
  | StageFile project jstring
  | PrepareHunks jstring
  | StageHunks project
  | CreateBranch project jstring
  | CommitPaths project bool nat
  | CreateTag project jstring
  | IssueGrant "string list"
  | RemoteOperation project remote_operation
  | Merge project jstring
  | LoadProvider
  | CreateDraft
  | ChangesRefetch

type_synonym changes_result = "(changes, changes_task) web_result"

text \<open>The effects of a render: a file for the comment, and no selected path that is not under review.\<close>

definition changes_after_render :: "changes_ctx \<Rightarrow> changes \<Rightarrow> changes" where
  "changes_after_render cx s =
     s\<lparr>cg_commentPath := (case cc_files cx of [] \<Rightarrow> cg_commentPath s
         | f # _ \<Rightarrow> if cg_commentPath s = [] then rf_path f else cg_commentPath s),
       cg_selectedPaths := filter (\<lambda>path. list_ex (\<lambda>f. rf_path f = path) (cc_files cx)) (cg_selectedPaths s)\<rparr>"

definition refreshGit :: "project \<Rightarrow> changes_task web_effect list" where
  "refreshGit p = [Refetches ChangesRefetch (studio_key p ''git''), Refetches ChangesRefetch (studio_key p ''review''),
     Refetches ChangesRefetch [lit ''studio'', lit ''project'', pj_id p]]"

definition expectation :: "review_file \<Rightarrow> jsval" where
  "expectation f = JObj [str_field ''path'' (rf_path f), str_field ''sha256'' (rf_sha f)]"

definition head_field :: "jstring \<Rightarrow> jstring \<times> jsval" where
  "head_field head = (lit ''expected_head'', JStr head)"

text \<open>\<open>expected_head: git.data?.head\<close>, which may be absent.\<close>

definition maybe_head_field :: "changes_ctx \<Rightarrow> jstring \<times> jsval" where
  "maybe_head_field cx = (lit ''expected_head'', case cc_head cx of None \<Rightarrow> JUndef | Some h \<Rightarrow> JStr h)"

definition author_fields :: "(jstring \<times> jsval) list" where
  "author_fields = [lit_field ''author_name'' ''Ion Operator'', lit_field ''author_email'' ''ion@localhost'']"

definition selected_files :: "changes_ctx \<Rightarrow> changes \<Rightarrow> review_file list" where
  "selected_files cx s = filter (\<lambda>f. List.member (cg_selectedPaths s) (rf_path f)) (cc_files cx)"

definition addComment :: "changes_ctx \<Rightarrow> changes \<Rightarrow> changes_result" where
  "addComment cx s = (s, [Sends (AddComment (cc_project cx)) (studio_command ''project.git.review.comment''
     [project_field (cc_project cx), str_field ''path'' (cg_commentPath s), str_field ''body'' (cg_commentBody s)])])"

definition resolveComment :: "changes_ctx \<Rightarrow> jstring \<Rightarrow> changes \<Rightarrow> changes_result" where
  "resolveComment cx commentID s = (s, [Sends (ResolveComment (cc_project cx)) (studio_command ''project.git.review.resolve''
     [project_field (cc_project cx), str_field ''comment_id'' commentID])])"

definition rollbackPatch :: "changes_ctx \<Rightarrow> jstring \<Rightarrow> changes \<Rightarrow> changes_result" where
  "rollbackPatch cx patchSetID s = (s, [Sends (RollbackPatch (cc_project cx)) (studio_command ''project.patch.rollback''
     [project_field (cc_project cx), str_field ''patch_set_id'' patchSetID, revision_field (cc_project cx)])])"

definition stageFile :: "changes_ctx \<Rightarrow> review_file \<Rightarrow> changes \<Rightarrow> changes_result" where
  "stageFile cx file s = (case cc_head cx of
      None \<Rightarrow> (s, [])
    | Some head \<Rightarrow> (s, [Sends (StageFile (cc_project cx) (rf_path file)) (studio_command ''project.git.stage''
        [project_field (cc_project cx), revision_field (cc_project cx), head_field head,
         (lit ''paths'', JArr [expectation file])])]))"

definition prepareHunks :: "changes_ctx \<Rightarrow> review_file \<Rightarrow> changes \<Rightarrow> changes_result" where
  "prepareHunks cx file s = (s, [Sends (PrepareHunks (rf_path file)) (query_call ''project.git.diff''
     (JObj [project_field (cc_project cx), (lit ''paths'', JArr [JStr (rf_path file)])]) JUndef)])"

definition stageHunks :: "changes_ctx \<Rightarrow> changes \<Rightarrow> changes_result" where
  "stageHunks cx s = (case (cc_head cx, cg_hunkDiff s) of
      (Some head, Some diff) \<Rightarrow> (s, [Sends (StageHunks (cc_project cx)) (studio_command ''project.git.stage.hunks''
        [project_field (cc_project cx), revision_field (cc_project cx), head_field head,
         str_field ''diff_sha256'' (hk_sha diff), str_field ''patch'' (cg_hunkPatch s),
         (lit ''paths'', JArr (map expectation (selected_files cx s)))])])
    | _ \<Rightarrow> (s, []))"

definition createBranch :: "changes_ctx \<Rightarrow> changes \<Rightarrow> changes_result" where
  "createBranch cx s = (s, [Sends (CreateBranch (cc_project cx) (cg_branchName s)) (studio_command ''project.git.branch.create''
     [project_field (cc_project cx), revision_field (cc_project cx), maybe_head_field cx,
      str_field ''name'' (cg_branchName s)])])"

definition commit :: "changes_ctx \<Rightarrow> bool \<Rightarrow> changes \<Rightarrow> changes_result" where
  "commit cx checkpoint s = (case cc_head cx of
      None \<Rightarrow> (s, [])
    | Some head \<Rightarrow> (let fs = selected_files cx s in
        (s, [Sends (CommitPaths (cc_project cx) checkpoint (length fs))
          (studio_command (if checkpoint then ''project.git.checkpoint'' else ''project.git.commit'')
            ([project_field (cc_project cx), revision_field (cc_project cx), head_field head,
              str_field ''message'' (cg_commitMessage s)] @ author_fields @ [(lit ''paths'', JArr (map expectation fs))]))])))"

definition createTag :: "changes_ctx \<Rightarrow> changes \<Rightarrow> changes_result" where
  "createTag cx s = (s, [Sends (CreateTag (cc_project cx) (cg_tagName s)) (studio_command ''project.git.tag.create''
     ([project_field (cc_project cx), revision_field (cc_project cx), maybe_head_field cx,
       str_field ''name'' (cg_tagName s), str_field ''message'' (lit ''Release '' @ cg_tagName s)] @ author_fields))])"

definition issueGrant :: "changes_ctx \<Rightarrow> string list \<Rightarrow> changes \<Rightarrow> changes_result" where
  "issueGrant cx actions s = (s, [Sends (IssueGrant actions) (studio_command ''project.git.provider.grant''
     [project_field (cc_project cx), str_field ''provider'' (cg_providerName s),
      str_field ''repository'' (cg_repositoryName s), (lit ''actions'', JArr (map (\<lambda>a. JStr (lit a)) actions)),
      (lit ''ttl_seconds'', JInt 600)])])"

text \<open>\<open>fresh\<close> is the identifier of \<open>crypto.randomUUID()\<close>.\<close>

definition remoteOperation :: "changes_ctx \<Rightarrow> remote_operation \<Rightarrow> jstring \<Rightarrow> changes \<Rightarrow> changes_result" where
  "remoteOperation cx operation fresh s = (case cc_head cx of
      None \<Rightarrow> (s, [])
    | Some head \<Rightarrow> (s, [Sends (RemoteOperation (cc_project cx) operation) (studio_command (remote_name operation)
        ([project_field (cc_project cx), revision_field (cc_project cx), head_field head,
          str_field ''provider'' (cg_providerName s), str_field ''remote'' (cg_remoteName s),
          str_field ''permission_grant'' (cg_permissionGrant s)] @
         (if operation = PullRemote then [str_field ''branch'' (cg_remoteBranch s)] else []) @
         (if operation = PushRemote \<or> operation = ForceWithLease then
            [str_field ''source_revision'' head, str_field ''target_branch'' (cg_remoteBranch s),
             str_field ''expected_remote_head'' (cg_remoteHead s), str_field ''idempotency_key'' fresh] else [])))]))"

definition merge_revision :: "changes_ctx \<Rightarrow> changes \<Rightarrow> changes_result" where
  "merge_revision cx s = (s, [Sends (Merge (cc_project cx) (cg_mergeRevision s)) (studio_command ''project.git.merge''
     [project_field (cc_project cx), revision_field (cc_project cx), maybe_head_field cx,
      str_field ''revision'' (cg_mergeRevision s)])])"

definition provider_base :: "changes_ctx \<Rightarrow> changes \<Rightarrow> jsval" where
  "provider_base cx s = JObj [project_field (cc_project cx), str_field ''provider'' (cg_providerName s),
     str_field ''repository'' (cg_repositoryName s), str_field ''permission_grant'' (cg_permissionGrant s)]"

definition loadProvider :: "changes_ctx \<Rightarrow> changes \<Rightarrow> changes_result" where
  "loadProvider cx s = (s, [SendsAll LoadProvider [query_call ''project.git.provider.issues'' (provider_base cx s) JUndef,
     query_call ''project.git.provider.changes'' (provider_base cx s) JUndef]])"

definition createDraft :: "changes_ctx \<Rightarrow> jstring \<Rightarrow> changes \<Rightarrow> changes_result" where
  "createDraft cx fresh s = (case cc_head cx of
      None \<Rightarrow> (s, [])
    | Some head \<Rightarrow> (s, [Sends CreateDraft (studio_command ''project.git.provider.draft''
        [project_field (cc_project cx), str_field ''provider'' (cg_providerName s),
         str_field ''repository'' (cg_repositoryName s),
         (lit ''source_branch'', case Option.bind (cc_git cx) gp_branch of None \<Rightarrow> JUndef | Some b \<Rightarrow> JStr b),
         str_field ''target_branch'' (cg_remoteBranch s), str_field ''title'' (cg_draftTitle s),
         lit_field ''body'' ''Created from reviewed Ion Software Studio changes.'', head_field head,
         str_field ''idempotency_key'' fresh, str_field ''permission_grant'' (cg_permissionGrant s)])]))"

section \<open>Replies\<close>

text \<open>The notice of a reply that was not rejected, and what follows an answer.\<close>

definition changes_reply :: "jstring \<Rightarrow> jsval reply \<Rightarrow> (changes \<Rightarrow> changes_result) \<Rightarrow> changes \<Rightarrow> changes_result" where
  "changes_reply done_text r k s = (case r of
      Rejected _ \<Rightarrow> (s, [])
    | Refused m \<Rightarrow> (s\<lparr>cg_notice := Some m\<rparr>, [])
    | Answered _ \<Rightarrow> k (s\<lparr>cg_notice := Some done_text\<rparr>))"

definition comments_refetch :: "project \<Rightarrow> changes_task web_effect list" where
  "comments_refetch p = [Refetches ChangesRefetch (studio_key p ''comments'')]"

definition comment_added :: "project \<Rightarrow> jsval reply \<Rightarrow> changes \<Rightarrow> changes_result" where
  "comment_added p r = changes_reply (lit ''Review comment saved as a durable work item.'') r
     (\<lambda>s. (s\<lparr>cg_commentBody := []\<rparr>, comments_refetch p))"

definition comment_resolved :: "project \<Rightarrow> jsval reply \<Rightarrow> changes \<Rightarrow> changes_result" where
  "comment_resolved p r = changes_reply (lit ''Review comment resolved.'') r (\<lambda>s. (s, comments_refetch p))"

definition patch_rolled_back :: "project \<Rightarrow> jsval reply \<Rightarrow> changes \<Rightarrow> changes_result" where
  "patch_rolled_back p r = changes_reply (lit ''The selected project version was restored transactionally.'') r
     (\<lambda>s. (s, refreshGit p @ [Refetches ChangesRefetch (studio_key p ''patches'')]))"

definition file_staged :: "project \<Rightarrow> jstring \<Rightarrow> jsval reply \<Rightarrow> changes \<Rightarrow> changes_result" where
  "file_staged p path r = changes_reply (path @ lit '' staged from the exact reviewed content.'') r (\<lambda>s. (s, refreshGit p))"

definition hunks_prepared :: "chat_env \<Rightarrow> jstring \<Rightarrow> jsval reply \<Rightarrow> changes \<Rightarrow> changes_result" where
  "hunks_prepared env path r s = (case studio_query env ''project.git.diff'' r of
      Inl m \<Rightarrow> (s\<lparr>cg_notice := Some m\<rparr>, [])
    | Inr v \<Rightarrow> (let truncated = (fld v ''truncated'' = JBool True) in
        (s\<lparr>cg_hunkDiff := Some \<lparr>hk_sha = str_of (fld v ''sha256''), hk_truncated = truncated\<rparr>,
           cg_hunkPatch := str_of (fld v ''patch''), cg_selectedPaths := [path],
           cg_notice := Some (lit (if truncated then ''The diff is truncated and cannot be safely staged by hunk.''
             else ''Edit the patch below to keep only reviewed hunks.''))\<rparr>, [])))"

definition hunks_staged :: "project \<Rightarrow> jsval reply \<Rightarrow> changes \<Rightarrow> changes_result" where
  "hunks_staged p r = changes_reply (lit ''Only the reviewed hunks were staged against the exact current diff.'') r
     (\<lambda>s. (s\<lparr>cg_hunkDiff := None, cg_hunkPatch := []\<rparr>, refreshGit p))"

definition branch_created :: "project \<Rightarrow> jstring \<Rightarrow> jsval reply \<Rightarrow> changes \<Rightarrow> changes_result" where
  "branch_created p name r = changes_reply (lit ''Branch '' @ name @ lit '' created without switching the active tree.'') r
     (\<lambda>s. (s\<lparr>cg_branchName := []\<rparr>, refreshGit p))"

definition committed :: "project \<Rightarrow> bool \<Rightarrow> nat \<Rightarrow> jsval reply \<Rightarrow> changes \<Rightarrow> changes_result" where
  "committed p checkpoint n r = changes_reply (lit (if checkpoint then ''Checkpoint'' else ''Commit'') @ lit '' created from '' @
       nat_text n @ lit '' exact reviewed paths.'') r
     (\<lambda>s. (s\<lparr>cg_commitMessage := [], cg_selectedPaths := []\<rparr>, refreshGit p))"

definition tag_created :: "project \<Rightarrow> jstring \<Rightarrow> jsval reply \<Rightarrow> changes \<Rightarrow> changes_result" where
  "tag_created p name r = changes_reply (lit ''Annotated tag '' @ name @ lit '' created.'') r
     (\<lambda>s. (s\<lparr>cg_tagName := []\<rparr>, refreshGit p))"

definition grant_issued :: "string list \<Rightarrow> jsval reply \<Rightarrow> changes \<Rightarrow> changes_result" where
  "grant_issued actions r = changes_reply (lit ''A 10-minute '' @ join (lit '', '') (map lit actions) @
       lit '' grant is ready for this exact repository.'') r
     (\<lambda>s. (case fld (reply_value r) ''permission_grant'' of JStr grant \<Rightarrow> s\<lparr>cg_permissionGrant := grant\<rparr> | _ \<Rightarrow> s, []))"

definition remote_done :: "project \<Rightarrow> remote_operation \<Rightarrow> jsval reply \<Rightarrow> changes \<Rightarrow> changes_result" where
  "remote_done p operation r = changes_reply (studio_humanize (last (split_on 46 (lit (remote_name operation)))) @
       lit '' completed with a durable receipt.'') r (\<lambda>s. (s, refreshGit p))"

definition merged :: "project \<Rightarrow> jstring \<Rightarrow> jsval reply \<Rightarrow> changes \<Rightarrow> changes_result" where
  "merged p revision r = changes_reply (lit ''Merged '' @ revision @ lit '' after verifying a clean working tree.'') r
     (\<lambda>s. (s\<lparr>cg_mergeRevision := []\<rparr>, refreshGit p))"

text \<open>
  The two queries are awaited together: the first that throws ends the function, else both results are
  there, as an array.
\<close>

definition provider_loaded :: "chat_env \<Rightarrow> jsval reply \<Rightarrow> changes \<Rightarrow> changes_result" where
  "provider_loaded env r s = (case r of
      Rejected err \<Rightarrow> (s\<lparr>cg_notice := Some (chat_error env err)\<rparr>, [])
    | Refused m \<Rightarrow> (s\<lparr>cg_notice := Some m\<rparr>, [])
    | Answered _ \<Rightarrow> (case elems (reply_value r) of
          [issues, found] \<Rightarrow> (s\<lparr>cg_providerProjection := Some (or_else (fld issues ''issues'') (JArr []),
              or_else (fld found ''changes'') (JArr [])),
            cg_notice := Some (lit ''Provider issues and change requests are normalized into the Studio review model.'')\<rparr>, [])
        | _ \<Rightarrow> (s, [])))"

definition draft_created :: "jsval reply \<Rightarrow> changes \<Rightarrow> changes_result" where
  "draft_created r = changes_reply (lit ''A draft change request was created exactly once and reconciled by marker.'') r
     (\<lambda>s. (s\<lparr>cg_draftTitle := []\<rparr>, []))"

fun changes_proceed :: "chat_env \<Rightarrow> changes_task \<Rightarrow> jsval reply \<Rightarrow> changes \<Rightarrow> changes_result" where
  "changes_proceed env (AddComment p) r s = comment_added p r s"
| "changes_proceed env (ResolveComment p) r s = comment_resolved p r s"
| "changes_proceed env (RollbackPatch p) r s = patch_rolled_back p r s"
| "changes_proceed env (StageFile p path) r s = file_staged p path r s"
| "changes_proceed env (PrepareHunks path) r s = hunks_prepared env path r s"
| "changes_proceed env (StageHunks p) r s = hunks_staged p r s"
| "changes_proceed env (CreateBranch p name) r s = branch_created p name r s"
| "changes_proceed env (CommitPaths p checkpoint n) r s = committed p checkpoint n r s"
| "changes_proceed env (CreateTag p name) r s = tag_created p name r s"
| "changes_proceed env (IssueGrant actions) r s = grant_issued actions r s"
| "changes_proceed env (RemoteOperation p operation) r s = remote_done p operation r s"
| "changes_proceed env (Merge p revision) r s = merged p revision r s"
| "changes_proceed env LoadProvider r s = provider_loaded env r s"
| "changes_proceed env CreateDraft r s = draft_created r s"
| "changes_proceed env ChangesRefetch r s = (s, [])"

section \<open>The controls\<close>

datatype changes_field =
    CommentPath | CommentBody | HunkPatch | BranchName | CommitMessage | TagName | RemoteName | RemoteBranch
  | ProviderName | RepositoryName | RemoteHead | MergeRevision | DraftTitle

fun changes_edit :: "changes_field \<Rightarrow> jstring \<Rightarrow> changes \<Rightarrow> changes" where
  "changes_edit CommentPath v s = s\<lparr>cg_commentPath := v\<rparr>"
| "changes_edit CommentBody v s = s\<lparr>cg_commentBody := v\<rparr>"
| "changes_edit HunkPatch v s = s\<lparr>cg_hunkPatch := v\<rparr>"
| "changes_edit BranchName v s = s\<lparr>cg_branchName := v\<rparr>"
| "changes_edit CommitMessage v s = s\<lparr>cg_commitMessage := v\<rparr>"
| "changes_edit TagName v s = s\<lparr>cg_tagName := v\<rparr>"
| "changes_edit RemoteName v s = s\<lparr>cg_remoteName := v\<rparr>"
| "changes_edit RemoteBranch v s = s\<lparr>cg_remoteBranch := v\<rparr>"
| "changes_edit ProviderName v s = s\<lparr>cg_providerName := v\<rparr>"
| "changes_edit RepositoryName v s = s\<lparr>cg_repositoryName := v\<rparr>"
| "changes_edit RemoteHead v s = s\<lparr>cg_remoteHead := v\<rparr>"
| "changes_edit MergeRevision v s = s\<lparr>cg_mergeRevision := v\<rparr>"
| "changes_edit DraftTitle v s = s\<lparr>cg_draftTitle := v\<rparr>"

datatype changes_input =
    EditChanges changes_field jstring
  | TogglePath jstring bool
  | PressAddComment
  | PressResolve jstring
  | PressRollbackPatch jstring
  | PressStage review_file
  | PressHunks review_file
  | PressStageHunks
  | CancelHunks
  | PressBranch
  | PressCommit bool
  | PressTag
  | PressMerge
  | PressGrant "string list"
  | PressRemote remote_operation jstring
  | PressLoadProvider
  | PressDraft jstring

text \<open>\<open>[...new Set([...current, path])]\<close> and its inverse.\<close>

definition toggle_path :: "jstring \<Rightarrow> bool \<Rightarrow> jstring list \<Rightarrow> jstring list" where
  "toggle_path path checked current =
     (if checked then unique_first (current @ [path]) else filter (\<lambda>p. p \<noteq> path) current)"

definition grant_actions :: "string list list" where
  "grant_actions = [[''read''], [''push''], [''force-push''], [''draft.create'']]"

text \<open>Which controls are shown and enabled, and what they do.\<close>

fun changes_handle :: "changes_ctx \<Rightarrow> changes_input \<Rightarrow> changes \<Rightarrow> changes_result" where
  "changes_handle cx (EditChanges field v) s = (changes_edit field v s, [])"
| "changes_handle cx (TogglePath path checked) s =
     (if cc_git cx = None \<or> \<not> list_ex (\<lambda>f. rf_path f = path) (cc_files cx) then (s, [])
      else (s\<lparr>cg_selectedPaths := toggle_path path checked (cg_selectedPaths s)\<rparr>, []))"
| "changes_handle cx PressAddComment s = (if cc_files cx = [] \<or> cg_commentBody s = [] then (s, []) else addComment cx s)"
| "changes_handle cx (PressResolve i) s = (if List.member (cc_comments cx) (i, False) then resolveComment cx i s else (s, []))"
| "changes_handle cx (PressRollbackPatch i) s = (if List.member (cc_receipts cx) (i, True) then rollbackPatch cx i s else (s, []))"
| "changes_handle cx (PressStage f) s =
     (if cc_git cx = None \<or> \<not> List.member (cc_files cx) f \<or> rf_sha f = [] then (s, []) else stageFile cx f s)"
| "changes_handle cx (PressHunks f) s =
     (if cc_git cx = None \<or> \<not> List.member (cc_files cx) f \<or> \<not> rf_diff f \<or> rf_truncated f then (s, []) else prepareHunks cx f s)"
| "changes_handle cx PressStageHunks s = (case cg_hunkDiff s of
      None \<Rightarrow> (s, [])
    | Some diff \<Rightarrow> if hk_truncated diff \<or> trim (cg_hunkPatch s) = [] then (s, []) else stageHunks cx s)"
| "changes_handle cx CancelHunks s = (s\<lparr>cg_hunkDiff := None\<rparr>, [])"
| "changes_handle cx PressBranch s = (if cc_git cx = None \<or> cg_branchName s = [] then (s, []) else createBranch cx s)"
| "changes_handle cx (PressCommit checkpoint) s =
     (if cc_git cx = None \<or> trim (cg_commitMessage s) = [] \<or> cg_selectedPaths s = [] then (s, []) else commit cx checkpoint s)"
| "changes_handle cx PressTag s = (if cc_git cx = None \<or> cg_tagName s = [] then (s, []) else createTag cx s)"
| "changes_handle cx PressMerge s = (if cc_git cx = None \<or> trim (cg_mergeRevision s) = [] then (s, []) else merge_revision cx s)"
| "changes_handle cx (PressGrant actions) s =
     (if cc_git cx = None \<or> trim (cg_repositoryName s) = [] \<or> \<not> List.member grant_actions actions then (s, [])
      else issueGrant cx actions s)"
| "changes_handle cx (PressRemote operation fresh) s =
     (if cc_git cx = None \<or> cg_permissionGrant s = [] \<or> (operation = ForceWithLease \<and> trim (cg_remoteHead s) = []) then (s, [])
      else remoteOperation cx operation fresh s)"
| "changes_handle cx PressLoadProvider s =
     (if cc_git cx = None \<or> cg_permissionGrant s = [] \<or> trim (cg_repositoryName s) = [] then (s, []) else loadProvider cx s)"
| "changes_handle cx (PressDraft fresh) s = (case cc_git cx of
      None \<Rightarrow> (s, [])
    | Some git \<Rightarrow> if cg_permissionGrant s = [] \<or> trim (cg_draftTitle s) = [] \<or> gp_detached git then (s, [])
        else createDraft cx fresh s)"

fun changes_react :: "changes_ctx \<times> changes_input \<Rightarrow> changes \<Rightarrow> changes_result" where
  "changes_react (cx, u) s = changes_handle cx u (changes_after_render cx s)"

section \<open>Only what was reviewed\<close>

lemmas changes_defs = addComment_def resolveComment_def rollbackPatch_def stageFile_def prepareHunks_def stageHunks_def
  createBranch_def commit_def createTag_def issueGrant_def remoteOperation_def merge_revision_def loadProvider_def
  createDraft_def

lemmas changes_reply_defs = changes_reply_def comment_added_def comment_resolved_def patch_rolled_back_def file_staged_def
  hunks_prepared_def hunks_staged_def branch_created_def committed_def tag_created_def grant_issued_def remote_done_def
  merged_def provider_loaded_def draft_created_def comments_refetch_def refreshGit_def





lemmas payload_defs = studio_command_def command_call_def project_field_def revision_field_def str_field_def lit_field_def
  head_field_def author_fields_def








definition example_review :: changes_ctx where
  "example_review = \<lparr>cc_project = example_project, cc_git = Some \<lparr>gp_head = Some (lit ''abc''), gp_branch = Some (lit ''main''),
     gp_detached = False\<rparr>, cc_groups = [[\<lparr>rf_path = lit ''a.ts'', rf_sha = lit ''11'', rf_diff = True, rf_truncated = False\<rparr>],
     [\<lparr>rf_path = lit ''b.ts'', rf_sha = lit ''22'', rf_diff = True, rf_truncated = False\<rparr>]], cc_comments = [], cc_receipts = []\<rparr>"





section \<open>Remote effects\<close>

text \<open>A remote operation carries the grant that was issued; a force push also the head it expects there.\<close>

definition granted :: "call \<Rightarrow> bool" where
  "granted c \<longleftrightarrow> (\<exists>grant. fld (cl_payload c) ''permission_grant'' = JStr grant \<and> grant \<noteq> []) \<and>
     (cl_operation c = lit ''project.git.force-with-lease'' \<longrightarrow>
       (\<exists>head. fld (cl_payload c) ''expected_remote_head'' = JStr head \<and> trim head \<noteq> []))"

definition granted_operations :: "string list" where
  "granted_operations = [''project.git.sync'', ''project.git.pull'', ''project.git.push'', ''project.git.force-with-lease'',
     ''project.git.provider.issues'', ''project.git.provider.changes'', ''project.git.provider.draft'']"

lemma granted_operations_iff:
  "one_of granted_operations operation \<longleftrightarrow> operation = lit ''project.git.sync'' \<or> operation = lit ''project.git.pull'' \<or>
     operation = lit ''project.git.push'' \<or> operation = lit ''project.git.force-with-lease'' \<or>
     operation = lit ''project.git.provider.issues'' \<or> operation = lit ''project.git.provider.changes'' \<or>
     operation = lit ''project.git.provider.draft''"
  unfolding one_of_iff granted_operations_def by auto

theorem remote_effects_granted:
  assumes "c \<in> set (calls (snd (changes_handle cx u s)))" "one_of granted_operations (cl_operation c)"
  shows "granted c"
proof (cases u)
  case (PressRemote operation fresh)
  then show ?thesis using assms(1)
    by (cases operation) (auto simp: remoteOperation_def granted_def payload_defs split: if_splits option.splits)
next
  case (PressDraft fresh)
  then show ?thesis using assms(1)
    by (auto simp: createDraft_def granted_def payload_defs split: if_splits option.splits)
next
  case PressLoadProvider
  then show ?thesis using assms(1)
    by (auto simp: loadProvider_def granted_def provider_base_def payload_defs query_call_def split: if_splits option.splits)
next
  case (PressCommit checkpoint)
  then show ?thesis using assms
    by (cases checkpoint) (auto simp: commit_def studio_command_def command_call_def granted_operations_iff Let_def
      split: if_splits option.splits)
qed (use assms in \<open>auto simp: changes_defs studio_command_def command_call_def query_call_def granted_operations_iff
  split: if_splits option.splits\<close>)

section \<open>Hunks and the selection\<close>

text \<open>
  The hunks of a file share the selection of the next commit: preparing them replaces the selection, and
  ticking other files afterwards changes the paths the patch is staged with.
\<close>

definition example_file :: "string \<Rightarrow> string \<Rightarrow> review_file" where
  "example_file path sha = \<lparr>rf_path = lit path, rf_sha = lit sha, rf_diff = True, rf_truncated = False\<rparr>"

definition example_hunks :: "(changes_ctx \<times> changes_input, changes_task, jsval reply) happening list" where
  "example_hunks = [Does (example_review, PressHunks (example_file ''a.ts'' ''11'')),
     Settles (PrepareHunks (lit ''a.ts'')) (Answered (Some (JObj [(lit ''sha256'', JStr (lit ''33'')),
       (lit ''patch'', JStr (lit ''patch of a'')), (lit ''truncated'', JBool False)]))),
     Does (example_review, TogglePath (lit ''a.ts'') False), Does (example_review, TogglePath (lit ''b.ts'') True)]"

theorem hunks_take_the_selection:
  "map (\<lambda>c. (fld (cl_payload c) ''patch'', fld (cl_payload c) ''paths''))
     (calls (snd (changes_react (example_review, PressStageHunks)
       (fst (fst (component_run changes_react (changes_proceed env) example_hunks (initial_changes, []))))))) =
   [(JStr (lit ''patch of a''), JArr [expectation (example_file ''b.ts'' ''22'')])]"
  by (simp add: example_hunks_def example_file_def example_review_def initial_changes_def changes_after_render_def cc_files_def
    cc_head_def prepareHunks_def hunks_prepared_def studio_query_def toggle_path_def unique_first_def stageHunks_def
    selected_files_def payload_defs trim_def trim_start_def lit_def is_space_def Let_def)

end
