(* ===== verification/StudioRun.thy ===== *)
theory StudioRun
  imports StudioChanges
begin

text \<open>
  The panels of \<open>ui/web/src/routes/StudioRoutes.tsx\<close> that run things in a project: the code index, the
  supervised terminal, the live preview, the problems, the verification and the security facts.
\<close>

section \<open>Code\<close>

record code_panel =
  co_search :: jstring
  co_searchKind :: jstring
  co_matches :: "jsval option"
  co_busy :: bool
  co_notice :: "jstring option"

definition initial_code :: code_panel where
  "initial_code = \<lparr>co_search = [], co_searchKind = lit ''lexical'', co_matches = None, co_busy = False, co_notice = None\<rparr>"

datatype code_task = IndexRefresh project | CodeSearch | IndexRefetch

type_synonym code_result = "(code_panel, code_task) web_result"

definition index_refresh :: "project \<Rightarrow> code_panel \<Rightarrow> code_result" where
  "index_refresh p s = (s\<lparr>co_busy := True\<rparr>,
     [Sends (IndexRefresh p) (studio_command ''project.index.refresh'' [project_field p, revision_field p])])"

definition index_refreshed :: "project \<Rightarrow> jsval reply \<Rightarrow> code_panel \<Rightarrow> code_result" where
  "index_refreshed p r s = (if rejected r then (s, [])
     else (s\<lparr>co_busy := False, co_notice := reply_notice ''The project index is current.'' r\<rparr>,
       if answered r then [Refetches IndexRefetch (studio_key p ''index'')] else []))"

text \<open>The revision of the index is absent while there is no index.\<close>

definition runSearch :: "project \<Rightarrow> int option \<Rightarrow> code_panel \<Rightarrow> code_result" where
  "runSearch p index_revision s = (case index_revision of
      None \<Rightarrow> (s, [])
    | Some revision \<Rightarrow> (s\<lparr>co_busy := True\<rparr>, [Sends CodeSearch (query_call ''project.search''
        (JObj [project_field p, revision_field p, (lit ''expected_index_revision'', JInt revision),
          str_field ''kind'' (co_searchKind s), str_field ''query'' (co_search s), (lit ''limit'', JInt 30),
          (lit ''max_result_bytes'', JInt 128000)]) JUndef)]))"

definition searched :: "chat_env \<Rightarrow> jsval reply \<Rightarrow> code_panel \<Rightarrow> code_result" where
  "searched env r s = (case studio_query env ''project.search'' r of
      Inl m \<Rightarrow> (s\<lparr>co_notice := Some m, co_busy := False\<rparr>, [])
    | Inr v \<Rightarrow> (s\<lparr>co_matches := Some v, co_notice := None, co_busy := False\<rparr>, []))"

datatype code_input = EditSearch jstring | ChooseSearchKind jstring | PressRefreshIndex | PressSearch

fun code_react :: "(project \<times> int option) \<times> code_input \<Rightarrow> code_panel \<Rightarrow> code_result" where
  "code_react (cx, EditSearch v) s = (s\<lparr>co_search := v\<rparr>, [])"
| "code_react (cx, ChooseSearchKind v) s = (s\<lparr>co_searchKind := v\<rparr>, [])"
| "code_react (cx, PressRefreshIndex) s = (if co_busy s then (s, []) else index_refresh (fst cx) s)"
| "code_react (cx, PressSearch) s = (if co_busy s \<or> co_search s = [] then (s, []) else runSearch (fst cx) (snd cx) s)"

fun code_proceed :: "chat_env \<Rightarrow> code_task \<Rightarrow> jsval reply \<Rightarrow> code_panel \<Rightarrow> code_result" where
  "code_proceed env (IndexRefresh p) r s = index_refreshed p r s"
| "code_proceed env CodeSearch r s = searched env r s"
| "code_proceed env IndexRefetch r s = (s, [])"

section \<open>The terminal\<close>

record process_state =
  ps_id :: jstring
  ps_pty :: bool
  ps_status :: jstring

record terminal =
  tm_executable :: jstring
  tm_argumentsText :: jstring
  tm_workingDirectory :: jstring
  tm_pty :: bool
  tm_terminal :: "process_state option"
  tm_terminalInput :: jstring
  tm_busy :: bool
  tm_notice :: "jstring option"

definition initial_terminal :: terminal where
  "initial_terminal = \<lparr>tm_executable = [], tm_argumentsText = [], tm_workingDirectory = [], tm_pty = False,
     tm_terminal = None, tm_terminalInput = [], tm_busy = False, tm_notice = None\<rparr>"

text \<open>The two queries are keyed by the terminal: the state it was last replayed in, and its lease.\<close>

record terminal_ctx =
  tx_project :: project
  tx_session :: "jstring option"
  tx_replay :: "jstring \<Rightarrow> process_state option"
  tx_control :: "jstring \<Rightarrow> lease option"

definition terminal_control :: "terminal_ctx \<Rightarrow> terminal \<Rightarrow> lease option" where
  "terminal_control cx s = Option.bind (tm_terminal s) (\<lambda>t. tx_control cx (ps_id t))"

definition terminal_current :: "terminal_ctx \<Rightarrow> terminal \<Rightarrow> process_state option" where
  "terminal_current cx s = (case Option.bind (tm_terminal s) (\<lambda>t. tx_replay cx (ps_id t)) of
      Some t \<Rightarrow> Some t | None \<Rightarrow> tm_terminal s)"

datatype terminal_operation = TerminalInput jstring | TerminalInterrupt | TerminalCancel

fun terminal_operation_name :: "terminal_operation \<Rightarrow> string" where
  "terminal_operation_name (TerminalInput _) = ''project.terminal.input''"
| "terminal_operation_name TerminalInterrupt = ''project.terminal.signal''"
| "terminal_operation_name TerminalCancel = ''project.terminal.cancel''"

fun terminal_extra :: "terminal_operation \<Rightarrow> (jstring \<times> jsval) list" where
  "terminal_extra (TerminalInput v) = [str_field ''input'' v]"
| "terminal_extra TerminalInterrupt = [lit_field ''signal'' ''INT'']"
| "terminal_extra TerminalCancel = []"

datatype terminal_task = StartProcess | TerminalCommand terminal_operation | ChangeControl lease_operation | TerminalRefetch

type_synonym terminal_result = "(terminal, terminal_task) web_result"

definition process_argv :: "terminal \<Rightarrow> jstring list" where
  "process_argv s = trim (tm_executable s) # filter (\<lambda>a. a \<noteq> []) (map trim (split_on 10 (tm_argumentsText s)))"

definition start_process :: "terminal_ctx \<Rightarrow> terminal \<Rightarrow> terminal_result" where
  "start_process cx s = (s\<lparr>tm_busy := True\<rparr>, [Sends StartProcess (command_call ''project.process.start''
     (JObj [project_field (tx_project cx), revision_field (tx_project cx),
       lit_field ''mode'' (if tm_pty s then ''pty'' else ''one_shot''), (lit ''argv'', JArr (map JStr (process_argv s))),
       str_field ''working_directory'' (trim (tm_workingDirectory s)), (lit ''timeout_seconds'', JInt 900),
       (lit ''output_bytes'', JInt 1048576), (lit ''columns'', JInt 120), (lit ''rows'', JInt 34)])
     (scope_of (tx_session cx)))])"

text \<open>The answer is the state of the process, at its declared type.\<close>

definition process_of :: "jsval \<Rightarrow> process_state" where
  "process_of v = \<lparr>ps_id = str_of (fld v ''id''), ps_pty = (fld v ''mode'' = JStr (lit ''pty'')),
     ps_status = str_of (fld v ''status'')\<rparr>"

definition process_started :: "jsval reply \<Rightarrow> terminal \<Rightarrow> terminal_result" where
  "process_started r s = (case r of
      Rejected _ \<Rightarrow> (s, [])
    | Refused m \<Rightarrow> (s\<lparr>tm_busy := False, tm_notice := Some m\<rparr>, [])
    | Answered None \<Rightarrow> (s\<lparr>tm_busy := False, tm_notice := Some (lit ''The supervised process could not start.'')\<rparr>, [])
    | Answered (Some v) \<Rightarrow> (s\<lparr>tm_busy := False, tm_terminal := Some (process_of v),
        tm_notice := Some (lit ''Process started in the confined project workspace.'')\<rparr>, []))"

definition terminalCommand :: "terminal_ctx \<Rightarrow> terminal_operation \<Rightarrow> terminal \<Rightarrow> terminal_result" where
  "terminalCommand cx operation s = (case tm_terminal s of
      None \<Rightarrow> (s, [])
    | Some t \<Rightarrow> (let refused = (s\<lparr>tm_notice := Some (lit ''Take terminal control before sending input or signals.'')\<rparr>, []) in
        case terminal_control cx s of
          None \<Rightarrow> refused
        | Some l \<Rightarrow> (case ls_id l of
            None \<Rightarrow> refused
          | Some i \<Rightarrow> if ls_state l \<noteq> Active then refused
              else (s, [Sends (TerminalCommand operation) (command_call (terminal_operation_name operation)
                (JObj ([str_field ''terminal_id'' (ps_id t), str_field ''lease_id'' i,
                  (lit ''lease_revision'', JInt (ls_revision l))] @ terminal_extra operation)) (scope_of (tx_session cx)))]))))"

definition terminal_commanded :: "terminal_operation \<Rightarrow> jsval reply \<Rightarrow> terminal \<Rightarrow> terminal_result" where
  "terminal_commanded operation r s = (if rejected r then (s, [])
     else (s\<lparr>tm_notice := reply_notice ''Terminal control accepted.'' r,
       tm_terminalInput := (case operation of TerminalInput _ \<Rightarrow> if answered r then [] else tm_terminalInput s
         | _ \<Rightarrow> tm_terminalInput s)\<rparr>, [Refetches TerminalRefetch [lit ''terminal'']]))"

definition changeControl :: "terminal_ctx \<Rightarrow> lease_operation \<Rightarrow> terminal \<Rightarrow> terminal_result" where
  "changeControl cx operation s = (case (tm_terminal s, terminal_control cx s) of
      (Some t, Some l) \<Rightarrow> (s, [Sends (ChangeControl operation) (command_call (lease_operation_name operation)
        (JObj (resource_fields ''terminal'' (ps_id t) @
          (if operation = Acquire then [(lit ''target_revision'', JInt (ls_owner_revision l))] @ acquire_fields l
           else held_fields operation l))) (scope_of (tx_session cx)))])
    | _ \<Rightarrow> (s, []))"

definition control_changed :: "lease_operation \<Rightarrow> jsval reply \<Rightarrow> terminal \<Rightarrow> terminal_result" where
  "control_changed operation r s = (if rejected r then (s, [])
     else (s\<lparr>tm_notice := reply_notice (case operation of Acquire \<Rightarrow> ''Terminal control acquired at the executor boundary.''
         | Renew \<Rightarrow> ''Terminal control renewed.'' | Release \<Rightarrow> ''Terminal control returned to the executor.'') r\<rparr>,
       [Refetches TerminalRefetch [lit ''terminal-control'']]))"

datatype terminal_field = Executable | ArgumentsText | WorkingDirectory | TerminalLine

fun terminal_edit :: "terminal_field \<Rightarrow> jstring \<Rightarrow> terminal \<Rightarrow> terminal" where
  "terminal_edit Executable v s = s\<lparr>tm_executable := v\<rparr>"
| "terminal_edit ArgumentsText v s = s\<lparr>tm_argumentsText := v\<rparr>"
| "terminal_edit WorkingDirectory v s = s\<lparr>tm_workingDirectory := v\<rparr>"
| "terminal_edit TerminalLine v s = s\<lparr>tm_terminalInput := v\<rparr>"

datatype terminal_input =
    EditTerminal terminal_field jstring
  | ChoosePty bool
  | PressRun
  | PressSend
  | PressInterrupt
  | PressCancelProcess
  | PressControl lease_operation

definition lease_active :: "lease option \<Rightarrow> bool" where
  "lease_active l \<longleftrightarrow> map_option ls_state l = Some Active"

definition process_running :: "terminal_ctx \<Rightarrow> terminal \<Rightarrow> bool" where
  "process_running cx s \<longleftrightarrow> map_option ps_status (terminal_current cx s) = Some (lit ''running'')"

fun terminal_react :: "terminal_ctx \<times> terminal_input \<Rightarrow> terminal \<Rightarrow> terminal_result" where
  "terminal_react (cx, EditTerminal field v) s = (terminal_edit field v s, [])"
| "terminal_react (cx, ChoosePty b) s = (s\<lparr>tm_pty := b\<rparr>, [])"
| "terminal_react (cx, PressRun) s = (if tm_busy s \<or> tm_executable s = [] then (s, []) else start_process cx s)"
| "terminal_react (cx, PressSend) s =
     (if map_option ps_pty (terminal_current cx s) = Some True \<and> process_running cx s \<and> lease_active (terminal_control cx s)
      then terminalCommand cx (TerminalInput (tm_terminalInput s @ [10])) s else (s, []))"
| "terminal_react (cx, PressInterrupt) s = (if process_running cx s \<and> lease_active (terminal_control cx s)
     then terminalCommand cx TerminalInterrupt s else (s, []))"
| "terminal_react (cx, PressCancelProcess) s = (if process_running cx s \<and> lease_active (terminal_control cx s)
     then terminalCommand cx TerminalCancel s else (s, []))"
| "terminal_react (cx, PressControl operation) s =
     (if process_running cx s \<and> (operation = Acquire \<longleftrightarrow> \<not> lease_active (terminal_control cx s))
      then changeControl cx operation s else (s, []))"

fun terminal_proceed :: "terminal_task \<Rightarrow> jsval reply \<Rightarrow> terminal \<Rightarrow> terminal_result" where
  "terminal_proceed StartProcess r s = process_started r s"
| "terminal_proceed (TerminalCommand operation) r s = terminal_commanded operation r s"
| "terminal_proceed (ChangeControl operation) r s = control_changed operation r s"
| "terminal_proceed TerminalRefetch r s = (s, [])"

section \<open>The preview\<close>

datatype viewport = Desktop | Tablet | Mobile

record runtime =
  rt_name :: jstring
  rt_status :: jstring

record runtime_plan =
  rp_default :: jstring
  rp_kinds :: "jstring list"
  rp_readiness :: jstring

text \<open>The style sheets of the index that have a hash.\<close>

record preview_ctx =
  px_project :: project
  px_plan :: "runtime_plan option"
  px_runtimes :: "runtime list"
  px_styles :: "(jstring \<times> jstring) list"

record preview =
  vw_revision :: jstring
  vw_preview :: "jstring option"
  vw_notice :: "jstring option"
  vw_busy :: bool
  vw_viewport :: viewport
  vw_dark :: bool
  vw_frameRevision :: nat
  vw_inspection :: "jstring list option"
  vw_selectedElement :: jstring
  vw_annotation :: jstring
  vw_stylePath :: jstring
  vw_styleProperty :: jstring
  vw_styleValue :: jstring
  vw_serviceName :: jstring

definition initial_preview :: preview where
  "initial_preview = \<lparr>vw_revision = lit ''HEAD'', vw_preview = None, vw_notice = None, vw_busy = False, vw_viewport = Desktop,
     vw_dark = False, vw_frameRevision = 0, vw_inspection = None, vw_selectedElement = [], vw_annotation = [],
     vw_stylePath = [], vw_styleProperty = lit ''color'', vw_styleValue = [], vw_serviceName = []\<rparr>"

definition activeService :: "preview_ctx \<Rightarrow> preview \<Rightarrow> jstring" where
  "activeService cx s = (let name = trim (vw_serviceName s); standard = (case px_plan cx of None \<Rightarrow> [] | Some p \<Rightarrow> rp_default p) in
     if name \<noteq> [] then name else if standard \<noteq> [] then standard else lit ''web'')"

text \<open>\<open>/^[a-z][a-z0-9-]{0,39}$/\<close>.\<close>

definition serviceNameValid :: "jstring \<Rightarrow> bool" where
  "serviceNameValid name = (case name of [] \<Rightarrow> False
     | u # us \<Rightarrow> lower_letter u \<and> length us \<le> 39 \<and> list_all (\<lambda>v. lower_letter v \<or> digit_unit v \<or> v = 45) us)"

definition preview_runtime :: "preview_ctx \<Rightarrow> preview \<Rightarrow> runtime option" where
  "preview_runtime cx s = find (\<lambda>r. rt_name r = activeService cx s) (px_runtimes cx)"

definition runnable :: "preview_ctx \<Rightarrow> jstring option" where
  "runnable cx = (case px_plan cx of
      None \<Rightarrow> None
    | Some p \<Rightarrow> if List.member (rp_kinds p) (lit ''dev'') then Some (lit ''dev'')
        else if List.member (rp_kinds p) (lit ''start'') then Some (lit ''start'') else None)"

text \<open>The effects of a render: the service and the style sheet that are chosen when none is.\<close>

definition preview_after_render :: "preview_ctx \<Rightarrow> preview \<Rightarrow> preview" where
  "preview_after_render cx s =
     s\<lparr>vw_serviceName := (case px_plan cx of None \<Rightarrow> vw_serviceName s
         | Some p \<Rightarrow> if vw_serviceName s = [] then rp_default p else vw_serviceName s),
       vw_stylePath := (case px_styles cx of [] \<Rightarrow> vw_stylePath s
         | (path, _) # _ \<Rightarrow> if vw_stylePath s = [] then path else vw_stylePath s)\<rparr>"

datatype runtime_operation = Reload | Restart | StopRuntime

fun runtime_operation_name :: "runtime_operation \<Rightarrow> string" where
  "runtime_operation_name Reload = ''project.runtime.reload''"
| "runtime_operation_name Restart = ''project.runtime.restart''"
| "runtime_operation_name StopRuntime = ''project.runtime.stop''"

datatype preview_task =
    RuntimeCommand project runtime_operation
  | StartRuntime project
  | Inspect project
  | InspectRefetch
  | SaveAnnotation project
  | ProposeStyle project
  | StartHistorical
  | CloseHistorical
  | PreviewRefetch

type_synonym preview_result = "(preview, preview_task) web_result"

definition runtime_field :: "preview_ctx \<Rightarrow> preview \<Rightarrow> jstring \<times> jsval" where
  "runtime_field cx s = str_field ''name'' (case preview_runtime cx s of None \<Rightarrow> lit ''web'' | Some r \<Rightarrow> rt_name r)"

definition runtimes_refetch :: "preview_task \<Rightarrow> project \<Rightarrow> preview_task web_effect" where
  "runtimes_refetch task p = Refetches task (studio_key p ''runtimes'')"

definition runtimeCommand :: "preview_ctx \<Rightarrow> runtime_operation \<Rightarrow> preview \<Rightarrow> preview_result" where
  "runtimeCommand cx operation s = (s\<lparr>vw_busy := True\<rparr>, [Sends (RuntimeCommand (px_project cx) operation)
     (studio_command (runtime_operation_name operation) [project_field (px_project cx), runtime_field cx s])])"

definition runtime_commanded :: "project \<Rightarrow> runtime_operation \<Rightarrow> jsval reply \<Rightarrow> preview \<Rightarrow> preview_result" where
  "runtime_commanded p operation r s = (case r of
      Rejected _ \<Rightarrow> (s, [])
    | Refused m \<Rightarrow> (s\<lparr>vw_busy := False, vw_notice := Some m\<rparr>, [])
    | Answered _ \<Rightarrow> (s\<lparr>vw_busy := False,
        vw_notice := Some (studio_humanize (last (split_on 46 (lit (runtime_operation_name operation)))) @ lit '' completed.''),
        vw_frameRevision := (if operation = Reload then Suc (vw_frameRevision s) else vw_frameRevision s)\<rparr>,
        [runtimes_refetch PreviewRefetch p]))"

definition startRuntime :: "preview_ctx \<Rightarrow> preview \<Rightarrow> preview_result" where
  "startRuntime cx s = (case (px_plan cx, runnable cx) of
      (Some plan, Some kind) \<Rightarrow> (s\<lparr>vw_busy := True\<rparr>, [Sends (StartRuntime (px_project cx)) (studio_command ''project.runtime.start''
        [project_field (px_project cx), revision_field (px_project cx), str_field ''name'' (activeService cx s),
         str_field ''command_kind'' kind, str_field ''readiness_path'' (rp_readiness plan),
         (lit ''readiness_seconds'', JInt 30)])])
    | _ \<Rightarrow> (s, []))"

definition runtime_started :: "project \<Rightarrow> jsval reply \<Rightarrow> preview \<Rightarrow> preview_result" where
  "runtime_started p r s = (if rejected r then (s, [])
     else (s\<lparr>vw_busy := False, vw_notice := reply_notice ''The live preview passed readiness and is running.'' r\<rparr>,
       [runtimes_refetch PreviewRefetch p]))"

fun viewport_size :: "viewport \<Rightarrow> int \<times> int" where
  "viewport_size Mobile = (390, 844)"
| "viewport_size Tablet = (820, 1180)"
| "viewport_size Desktop = (1440, 900)"

definition inspect :: "preview_ctx \<Rightarrow> preview \<Rightarrow> preview_result" where
  "inspect cx s = (case preview_runtime cx s of
      None \<Rightarrow> (s, [])
    | Some r \<Rightarrow> (s\<lparr>vw_busy := True\<rparr>, [Sends (Inspect (px_project cx)) (query_call ''project.runtime.inspect''
        (JObj [project_field (px_project cx), str_field ''name'' (rt_name r),
          (lit ''width'', JInt (fst (viewport_size (vw_viewport s)))), (lit ''height'', JInt (snd (viewport_size (vw_viewport s)))),
          (lit ''dark_mode'', JBool (vw_dark s))]) JUndef)]))"

text \<open>The elements of the inspection by their references, at their declared type.\<close>

definition inspected :: "chat_env \<Rightarrow> project \<Rightarrow> jsval reply \<Rightarrow> preview \<Rightarrow> preview_result" where
  "inspected env p r s = (case studio_query env ''project.runtime.inspect'' r of
      Inl m \<Rightarrow> (s\<lparr>vw_notice := Some m, vw_busy := False\<rparr>, [])
    | Inr v \<Rightarrow> (let refs = map (\<lambda>e. str_of (fld e ''ref'')) (elems (fld v ''elements'')) in
        (s\<lparr>vw_inspection := Some refs, vw_selectedElement := (case refs of [] \<Rightarrow> [] | i # _ \<Rightarrow> i),
           vw_notice := Some (lit ''Screenshot, DOM, accessibility, console, and network evidence were captured.'')\<rparr>,
         [runtimes_refetch InspectRefetch p])))"

definition saveAnnotation :: "preview_ctx \<Rightarrow> preview \<Rightarrow> preview_result" where
  "saveAnnotation cx s = (s, [Sends (SaveAnnotation (px_project cx)) (studio_command ''project.runtime.annotate''
     [project_field (px_project cx), runtime_field cx s, str_field ''element_ref'' (vw_selectedElement s),
      str_field ''body'' (vw_annotation s)])])"

definition annotation_saved :: "project \<Rightarrow> jsval reply \<Rightarrow> preview \<Rightarrow> preview_result" where
  "annotation_saved p r s = (if rejected r then (s, [])
     else (s\<lparr>vw_notice := reply_notice ''Visual annotation saved against the selected element.'' r,
       vw_annotation := (if answered r then [] else vw_annotation s)\<rparr>,
       if answered r then [runtimes_refetch PreviewRefetch p] else []))"

definition proposeStyle :: "preview_ctx \<Rightarrow> preview \<Rightarrow> preview_result" where
  "proposeStyle cx s = (case map_of (px_styles cx) (vw_stylePath s) of
      None \<Rightarrow> (s, [])
    | Some sha \<Rightarrow> (s, [Sends (ProposeStyle (px_project cx)) (studio_command ''project.runtime.style.propose''
        [project_field (px_project cx), runtime_field cx s, str_field ''element_ref'' (vw_selectedElement s),
         str_field ''path'' (vw_stylePath s), str_field ''expected_sha256'' sha,
         (lit ''declarations'', JObj [(vw_styleProperty s, JStr (vw_styleValue s))])])]))"

definition style_proposed :: "project \<Rightarrow> jsval reply \<Rightarrow> preview \<Rightarrow> preview_result" where
  "style_proposed p r s = (if rejected r then (s, [])
     else (s\<lparr>vw_notice := reply_notice ''A revision-bound style proposal is ready for source review; no file was changed.'' r\<rparr>,
       if answered r then [runtimes_refetch PreviewRefetch p] else []))"

definition startHistorical :: "preview_ctx \<Rightarrow> preview \<Rightarrow> preview_result" where
  "startHistorical cx s = (s, [Sends StartHistorical (studio_command ''project.git.preview.start''
     [project_field (px_project cx), str_field ''revision'' (vw_revision s)])])"

definition historical_started :: "jsval reply \<Rightarrow> preview \<Rightarrow> preview_result" where
  "historical_started r s = (case r of
      Rejected _ \<Rightarrow> (s, [])
    | Refused m \<Rightarrow> (s\<lparr>vw_notice := Some m\<rparr>, [])
    | Answered None \<Rightarrow> (s\<lparr>vw_notice := Some (lit ''Historical preview could not start.'')\<rparr>, [])
    | Answered (Some v) \<Rightarrow> (s\<lparr>vw_preview := Some (str_of (fld v ''id'')),
        vw_notice := Some (lit ''A read-only historical workspace is ready for inspection.'')\<rparr>, []))"

definition close_historical :: "preview_ctx \<Rightarrow> preview \<Rightarrow> preview_result" where
  "close_historical cx s = (case vw_preview s of
      None \<Rightarrow> (s, [])
    | Some i \<Rightarrow> (s, [Sends CloseHistorical (studio_command ''project.git.preview.close''
        [project_field (px_project cx), str_field ''preview_id'' i])]))"

definition historical_closed :: "jsval reply \<Rightarrow> preview \<Rightarrow> preview_result" where
  "historical_closed r s = (if rejected r then (s, [])
     else (s\<lparr>vw_notice := reply_notice ''Historical workspace closed without changing the active tree.'' r,
       vw_preview := (if answered r then None else vw_preview s)\<rparr>, []))"

datatype preview_field = Revision | SelectedElement | Annotation | StylePath | StyleProperty | StyleValue | ServiceName

fun preview_edit :: "preview_field \<Rightarrow> jstring \<Rightarrow> preview \<Rightarrow> preview" where
  "preview_edit Revision v s = s\<lparr>vw_revision := v\<rparr>"
| "preview_edit SelectedElement v s = s\<lparr>vw_selectedElement := v\<rparr>"
| "preview_edit Annotation v s = s\<lparr>vw_annotation := v\<rparr>"
| "preview_edit StylePath v s = s\<lparr>vw_stylePath := v\<rparr>"
| "preview_edit StyleProperty v s = s\<lparr>vw_styleProperty := v\<rparr>"
| "preview_edit StyleValue v s = s\<lparr>vw_styleValue := v\<rparr>"
| "preview_edit ServiceName v s = (if vw_busy s then s else s\<lparr>vw_serviceName := v\<rparr>)"

datatype preview_input =
    EditPreview preview_field jstring
  | ChooseViewport viewport
  | ToggleDark
  | PressRuntime runtime_operation
  | PressInspect
  | PressStartRuntime
  | PressAnnotate
  | PressStyle
  | PressHistorical
  | PressCloseHistorical

definition runtime_running :: "preview_ctx \<Rightarrow> preview \<Rightarrow> bool" where
  "runtime_running cx s \<longleftrightarrow> map_option rt_status (preview_runtime cx s) = Some (lit ''running'')"

fun preview_handle :: "preview_ctx \<Rightarrow> preview_input \<Rightarrow> preview \<Rightarrow> preview_result" where
  "preview_handle cx (EditPreview field v) s = (preview_edit field v s, [])"
| "preview_handle cx (ChooseViewport v) s = (s\<lparr>vw_viewport := v\<rparr>, [])"
| "preview_handle cx ToggleDark s = (s\<lparr>vw_dark := \<not> vw_dark s\<rparr>, [])"
| "preview_handle cx (PressRuntime operation) s =
     (if vw_busy s \<or> \<not> runtime_running cx s then (s, []) else runtimeCommand cx operation s)"
| "preview_handle cx PressInspect s = (if vw_busy s \<or> \<not> runtime_running cx s then (s, []) else inspect cx s)"
| "preview_handle cx PressStartRuntime s =
     (if vw_busy s \<or> runtime_running cx s \<or> runnable cx = None \<or> \<not> serviceNameValid (activeService cx s) then (s, [])
      else startRuntime cx s)"
| "preview_handle cx PressAnnotate s =
     (if vw_inspection s = None \<or> vw_selectedElement s = [] \<or> vw_annotation s = [] then (s, []) else saveAnnotation cx s)"
| "preview_handle cx PressStyle s =
     (if vw_inspection s = None \<or> vw_selectedElement s = [] \<or> px_styles cx = [] \<or> vw_styleProperty s = [] \<or> vw_styleValue s = []
      then (s, []) else proposeStyle cx s)"
| "preview_handle cx PressHistorical s = (if vw_preview s \<noteq> None \<or> vw_revision s = [] then (s, []) else startHistorical cx s)"
| "preview_handle cx PressCloseHistorical s = close_historical cx s"

fun preview_react :: "preview_ctx \<times> preview_input \<Rightarrow> preview \<Rightarrow> preview_result" where
  "preview_react (cx, u) s = preview_handle cx u (preview_after_render cx s)"

fun preview_proceed :: "chat_env \<Rightarrow> preview_task \<Rightarrow> jsval reply \<Rightarrow> preview \<Rightarrow> preview_result" where
  "preview_proceed env (RuntimeCommand p operation) r s = runtime_commanded p operation r s"
| "preview_proceed env (StartRuntime p) r s = runtime_started p r s"
| "preview_proceed env (Inspect p) r s = inspected env p r s"
| "preview_proceed env InspectRefetch r s = (s\<lparr>vw_busy := False\<rparr>, [])"
| "preview_proceed env (SaveAnnotation p) r s = annotation_saved p r s"
| "preview_proceed env (ProposeStyle p) r s = style_proposed p r s"
| "preview_proceed env StartHistorical r s = historical_started r s"
| "preview_proceed env CloseHistorical r s = historical_closed r s"
| "preview_proceed env PreviewRefetch r s = (s, [])"

section \<open>Problems\<close>

record diagnostic =
  dg_id :: jstring
  dg_source :: jstring
  dg_severity :: jstring
  dg_code :: "jstring option"
  dg_message :: jstring
  dg_path :: jstring
  dg_line :: int
  dg_recurrence :: int

text \<open>A problem of the index: where and what it is. A problem of the run time has an identifier of its own.\<close>

record indexed_problem =
  ip_path :: jstring
  ip_line :: int
  ip_severity :: jstring
  ip_code :: "jstring option"
  ip_message :: jstring
  ip_source :: jstring

record gate_result =
  gr_gate :: jstring
  gr_kind :: jstring
  gr_status :: jstring
  gr_signature :: "jstring option"
  gr_unavailable :: "jstring option"
  gr_logs :: "jstring option"

record verification_run =
  vr_id :: jstring
  vr_status :: jstring
  vr_results :: "gate_result list"

definition indexed_diagnostic :: "nat \<Rightarrow> indexed_problem \<Rightarrow> diagnostic" where
  "indexed_diagnostic i p = \<lparr>dg_id = ip_source p @ lit ''-'' @ ip_path p @ lit ''-'' @ int_text (ip_line p) @ lit ''-'' @ nat_text i,
     dg_source = ip_source p, dg_severity = ip_severity p, dg_code = ip_code p, dg_message = ip_message p,
     dg_path = ip_path p, dg_line = ip_line p, dg_recurrence = 1\<rparr>"

definition gate_diagnostic :: "verification_run \<Rightarrow> gate_result \<Rightarrow> diagnostic" where
  "gate_diagnostic run r = \<lparr>dg_id = (case gr_signature r of Some i \<Rightarrow> i | None \<Rightarrow> vr_id run @ lit ''-'' @ gr_gate r),
     dg_source = lit ''verification'', dg_severity = lit ''error'', dg_code = Some (gr_gate r),
     dg_message = (case gr_unavailable r of Some m \<Rightarrow> m
       | None \<Rightarrow> (case gr_logs r of Some logs \<Rightarrow> last (split_on 10 (trim logs))
         | None \<Rightarrow> studio_humanize (gr_kind r) @ lit '' verification '' @ studio_humanize (gr_status r))),
     dg_path = [], dg_line = 0, dg_recurrence = 1\<rparr>"

definition verificationDiagnostics :: "verification_run list \<Rightarrow> diagnostic list" where
  "verificationDiagnostics runs = (case at_last runs of
      None \<Rightarrow> []
    | Some run \<Rightarrow> map (gate_diagnostic run)
        (filter (\<lambda>r. gr_status r \<noteq> lit ''passed'' \<and> gr_status r \<noteq> lit ''waived'') (vr_results run)))"

definition diagnostics :: "indexed_problem list \<Rightarrow> diagnostic list \<Rightarrow> verification_run list \<Rightarrow> diagnostic list" where
  "diagnostics indexed runtime_problems runs =
     map (\<lambda>(i, p). indexed_diagnostic i p) (List.enumerate 0 indexed) @ runtime_problems @ verificationDiagnostics runs"

definition fix_request :: "project \<Rightarrow> intent option \<Rightarrow> diagnostic \<Rightarrow> jstring" where
  "fix_request p i d = lit ''Diagnose and propose a bounded fix for project '' @ pj_id p @ lit '', linked to '' @
     (case Option.bind i active_proposal of None \<Rightarrow> lit ''active project acceptance criterion''
       | Some a \<Rightarrow> (case pr_criteria a of [] \<Rightarrow> lit ''active project acceptance criterion'' | (k, _) # _ \<Rightarrow> k)) @
     lit ''. Problem signature: '' @ dg_id d @ lit ''. Evidence: ['' @ dg_severity d @ lit ''] '' @ dg_source d @
     (case dg_code d of None \<Rightarrow> [] | Some code \<Rightarrow> lit '' '' @ code) @ lit '': '' @ dg_message d @
     (if dg_path d = [] then [] else lit '' at '' @ dg_path d @ lit '':'' @ int_text (dg_line d)) @
     lit ''. Inspect current source and rerun the narrowest relevant verification; do not claim success without fresh evidence.''"

datatype problems_task = FixSession project jstring | FixSubmit

type_synonym problems_result = "(jstring option, problems_task) web_result"

definition askToFix :: "project \<Rightarrow> jstring option \<Rightarrow> intent option \<Rightarrow> diagnostic \<Rightarrow> jstring option \<Rightarrow> problems_result" where
  "askToFix p session i d notice = (let content = fix_request p i d in case session of
      None \<Rightarrow> (notice, [Sends (FixSession p content) (command_call ''session.create'' (JObj []) JUndef)])
    | Some session \<Rightarrow> (notice, [Sends FixSubmit (turn_call content True (Some (pj_id p)) session)]))"

text \<open>The state of the panel is its notice; nothing catches a rejection.\<close>

fun problems_proceed :: "problems_task \<Rightarrow> jstring reply \<Rightarrow> jstring option \<Rightarrow> problems_result" where
  "problems_proceed (FixSession p content) r notice = (case r of
      Rejected _ \<Rightarrow> (notice, [])
    | Refused m \<Rightarrow> (Some m, [])
    | Answered None \<Rightarrow> (Some (lit ''A repair conversation could not be started.''), [])
    | Answered (Some session) \<Rightarrow> (notice, [Selects (Some session),
        Sends FixSubmit (turn_call content True (Some (pj_id p)) session)]))"
| "problems_proceed FixSubmit r notice = (if rejected r then (notice, [])
     else (reply_notice ''The bounded repair request is now in the project conversation.'' r, []))"

definition severity_tone :: "jstring \<Rightarrow> string" where
  "severity_tone severity = (if to_lower severity = lit ''error'' then ''danger''
     else if to_lower severity = lit ''warning'' then ''attention'' else ''quiet'')"

section \<open>Security\<close>

record host_facts =
  hf_confined :: bool
  hf_non_root :: bool
  hf_network :: jstring

text \<open>The four facts with whether they are good, and the pill of the secret scan.\<close>

definition security_facts :: "jstring \<Rightarrow> host_facts option \<Rightarrow> (string \<times> jstring \<times> bool) list" where
  "security_facts trust host =
     [(''Repository trust'', studio_humanize trust, trust = lit ''trusted'' \<or> trust = lit ''reviewed''),
      (''Root confined'', lit (if map_option hf_confined host = Some True then ''Enforced'' else ''Unconfirmed''),
        map_option hf_confined host = Some True),
      (''Process user'', lit (if map_option hf_non_root host = Some True then ''Non-root'' else ''Unconfirmed''),
        map_option hf_non_root host = Some True),
      (''Default network'', case host of None \<Rightarrow> lit ''Unknown'' | Some h \<Rightarrow> hf_network h,
        map_option hf_network host = Some (lit ''deny''))]"

text \<open>The index as its files with the number of findings in each, absent while there is none.\<close>

definition secret_findings :: "nat list option \<Rightarrow> nat" where
  "secret_findings index = (case index of None \<Rightarrow> 0 | Some counts \<Rightarrow> sum_list counts)"

definition secret_pill :: "nat list option \<Rightarrow> string \<times> jstring" where
  "secret_pill index = (let n = secret_findings index in
     (if n = 0 then ''success'' else ''danger'', nat_text n @ lit '' '' @ lit (if n = 1 then ''finding'' else ''findings'')))"

end
