(* ===== verification/StudioTests.thy ===== *)
theory StudioTests
  imports StudioRun
begin

text \<open>
  The verification panel of \<open>ui/web/src/routes/StudioRoutes.tsx\<close>, and what holds of the panels that run
  things: gates run against the current revision only, terminals are driven under a lease, and services
  have well-formed names.
\<close>

section \<open>Times\<close>

text \<open>\<open>new Date(ms).toISOString()\<close>, for the years 0 to 9999: the proleptic Gregorian calendar.\<close>

definition civil_from_days :: "int \<Rightarrow> int \<times> int \<times> int" where
  "civil_from_days days =
     (let z = days + 719468; era = z div 146097; doe = z mod 146097;
          yoe = (doe - doe div 1460 + doe div 36524 - doe div 146096) div 365;
          doy = doe - (365 * yoe + yoe div 4 - yoe div 100); mp = (5 * doy + 2) div 153;
          d = doy - (153 * mp + 2) div 5 + 1; m = (if mp < 10 then mp + 3 else mp - 9)
      in (yoe + era * 400 + (if m \<le> 2 then 1 else 0), m, d))"

definition padded :: "nat \<Rightarrow> int \<Rightarrow> jstring" where
  "padded width n = (let digits = nat_text (nat n) in replicate (width - length digits) 48 @ digits)"

definition toISOString :: "int \<Rightarrow> jstring" where
  "toISOString ms = (case civil_from_days (ms div 86400000) of (y, m, d) \<Rightarrow> let t = ms mod 86400000 in
     padded 4 y @ lit ''-'' @ padded 2 m @ lit ''-'' @ padded 2 d @ lit ''T'' @ padded 2 (t div 3600000) @ lit '':'' @
     padded 2 (t div 60000 mod 60) @ lit '':'' @ padded 2 (t div 1000 mod 60) @ lit ''.'' @ padded 3 (t mod 1000) @ lit ''Z'')"

section \<open>The panel\<close>

record verification_gate =
  gt_id :: jstring
  gt_criteria :: "jstring list"

record manifest =
  mf_id :: jstring
  mf_revision :: int
  mf_gates :: "verification_gate list"

record tests_ctx =
  ex_project :: project
  ex_manifest :: "manifest option"
  ex_active :: "proposal option"
  ex_done_criteria :: "(jstring option \<times> jstring option) list option"

record tests =
  te_busy :: bool
  te_notice :: "jstring option"
  te_waiverGate :: jstring
  te_waiverReason :: jstring
  te_waiverRisk :: jstring


text \<open>The criteria of the active proposal, else those of the contract that have an identifier and a text.\<close>

definition tests_criteria :: "tests_ctx \<Rightarrow> (jstring \<times> jstring) list" where
  "tests_criteria cx = (case ex_active cx of
      Some a \<Rightarrow> pr_criteria a
    | None \<Rightarrow> (case ex_done_criteria cx of
        None \<Rightarrow> []
      | Some cs \<Rightarrow> concat (map (\<lambda>(i, d). case (i, d) of (Some i, Some d) \<Rightarrow> [(i, d)] | _ \<Rightarrow> []) cs)))"

definition manifestStale :: "tests_ctx \<Rightarrow> bool" where
  "manifestStale cx = (case ex_manifest cx of None \<Rightarrow> False | Some m \<Rightarrow> mf_revision m \<noteq> pj_revision (ex_project cx))"

datatype tests_task = DeriveManifest project | RunGates project | CreateWaiver project | TestsRefetch

type_synonym tests_result = "(tests, tests_task) web_result"

definition refreshVerification :: "project \<Rightarrow> tests_task web_effect" where
  "refreshVerification p = RefetchesAll TestsRefetch [studio_key p ''verification-manifest'',
     studio_key p ''verification-runs'', studio_key p ''verification-waivers'']"

definition criterion_value :: "jstring \<times> jstring \<Rightarrow> jsval" where
  "criterion_value c = JObj [str_field ''id'' (fst c), str_field ''description'' (snd c), (lit ''kinds'', JArr [])]"

definition deriveManifest :: "tests_ctx \<Rightarrow> tests \<Rightarrow> tests_result" where
  "deriveManifest cx s = (s\<lparr>te_busy := True\<rparr>, [Sends (DeriveManifest (ex_project cx))
     (studio_command ''project.verification.manifest.derive'' [project_field (ex_project cx), revision_field (ex_project cx),
       (lit ''criteria'', JArr (map criterion_value (tests_criteria cx)))])])"

definition runFull :: "tests_ctx \<Rightarrow> tests \<Rightarrow> tests_result" where
  "runFull cx s = (case ex_manifest cx of
      None \<Rightarrow> (s, [])
    | Some m \<Rightarrow> (s\<lparr>te_busy := True\<rparr>, [Sends (RunGates (ex_project cx)) (studio_command ''project.verification.run''
        [project_field (ex_project cx), str_field ''manifest_id'' (mf_id m), (lit ''full'', JBool True),
         (lit ''max_attempts'', JInt 3)])]))"

text \<open>\<open>now\<close> is \<open>Date.now()\<close>.\<close>

definition createWaiver :: "int \<Rightarrow> tests_ctx \<Rightarrow> tests \<Rightarrow> tests_result" where
  "createWaiver now cx s = (case ex_manifest cx of
      None \<Rightarrow> (s, [])
    | Some m \<Rightarrow> (case find (\<lambda>g. gt_id g = te_waiverGate s) (mf_gates m) of
        None \<Rightarrow> (s, [])
      | Some g \<Rightarrow> (s\<lparr>te_busy := True\<rparr>, [Sends (CreateWaiver (ex_project cx)) (studio_command ''project.verification.waiver.create''
          [project_field (ex_project cx), str_field ''manifest_id'' (mf_id m), (lit ''gate_ids'', JArr [JStr (gt_id g)]),
           (lit ''criteria'', JArr (map JStr (gt_criteria g))), str_field ''reason'' (te_waiverReason s),
           str_field ''risk'' (te_waiverRisk s),
           str_field ''expires_at'' (toISOString (now + 24 * 60 * 60 * 1000))])])))"

definition manifest_derived :: "project \<Rightarrow> jsval reply \<Rightarrow> tests \<Rightarrow> tests_result" where
  "manifest_derived p r s = (if rejected r then (s, [])
     else (s\<lparr>te_notice := reply_notice ''Verification manifest derived from the accepted criteria and inspected repository.'' r\<rparr>,
       [refreshVerification p]))"

definition gates_run :: "project \<Rightarrow> jsval reply \<Rightarrow> tests \<Rightarrow> tests_result" where
  "gates_run p r s = (case r of
      Rejected _ \<Rightarrow> (s, [])
    | Refused m \<Rightarrow> (s\<lparr>te_notice := Some m\<rparr>, [refreshVerification p])
    | Answered _ \<Rightarrow> (s\<lparr>te_notice := Some (lit ''Verification finished: '' @
        studio_humanize (case fld (reply_value r) ''status'' of JStr status \<Rightarrow> status | _ \<Rightarrow> lit ''unknown'') @ lit ''.'')\<rparr>,
        [refreshVerification p]))"

definition waiver_created :: "project \<Rightarrow> jsval reply \<Rightarrow> tests \<Rightarrow> tests_result" where
  "waiver_created p r s = (if rejected r then (s, [])
     else (s\<lparr>te_notice := reply_notice ''The 24-hour waiver is visible and its criteria remain uncovered.'' r,
       te_waiverReason := (if answered r then [] else te_waiverReason s),
       te_waiverRisk := (if answered r then [] else te_waiverRisk s)\<rparr>, [refreshVerification p]))"

datatype tests_input =
    ChooseGate jstring
  | EditReason jstring
  | EditRisk jstring
  | PressDerive
  | PressRunGates
  | PressWaiver int

fun tests_react :: "tests_ctx \<times> tests_input \<Rightarrow> tests \<Rightarrow> tests_result" where
  "tests_react (cx, ChooseGate v) s = (s\<lparr>te_waiverGate := v\<rparr>, [])"
| "tests_react (cx, EditReason v) s = (s\<lparr>te_waiverReason := v\<rparr>, [])"
| "tests_react (cx, EditRisk v) s = (s\<lparr>te_waiverRisk := v\<rparr>, [])"
| "tests_react (cx, PressDerive) s =
     (if te_busy s \<or> tests_criteria cx = [] \<or> (ex_manifest cx \<noteq> None \<and> \<not> manifestStale cx) then (s, []) else deriveManifest cx s)"
| "tests_react (cx, PressRunGates) s =
     (if te_busy s \<or> ex_manifest cx = None \<or> manifestStale cx then (s, []) else runFull cx s)"
| "tests_react (cx, PressWaiver now) s =
     (if te_busy s \<or> te_waiverGate s = [] \<or> te_waiverReason s = [] \<or> te_waiverRisk s = [] then (s, []) else createWaiver now cx s)"

fun tests_proceed :: "tests_task \<Rightarrow> jsval reply \<Rightarrow> tests \<Rightarrow> tests_result" where
  "tests_proceed (DeriveManifest p) r s = manifest_derived p r s"
| "tests_proceed (RunGates p) r s = gates_run p r s"
| "tests_proceed (CreateWaiver p) r s = waiver_created p r s"
| "tests_proceed TestsRefetch r s = (s\<lparr>te_busy := False\<rparr>, [])"

section \<open>Gates and waivers\<close>

lemmas tests_defs = deriveManifest_def runFull_def createWaiver_def refreshVerification_def

lemmas tests_reply_defs = manifest_derived_def gates_run_def waiver_created_def refreshVerification_def

interpretation tests_flight: single_flight tests_react tests_proceed te_busy
proof
  fix u :: "tests_ctx \<times> tests_input" and s
  show "te_busy s \<Longrightarrow> te_busy (fst (tests_react u s)) \<and> started (snd (tests_react u s)) = []"
    by (cases "(u, s)" rule: tests_react.cases) auto
  show "length (started (snd (tests_react u s))) \<le> 1"
    by (cases "(u, s)" rule: tests_react.cases) (auto simp: tests_defs split: option.splits)
  show "started (snd (tests_react u s)) \<noteq> [] \<Longrightarrow> te_busy (fst (tests_react u s))"
    by (cases "(u, s)" rule: tests_react.cases) (auto simp: tests_defs split: option.splits if_splits)
next
  fix task r s
  show "length (started (snd (tests_proceed task r s))) \<le> 1"
    by (cases task; cases r) (auto simp: tests_reply_defs)
  show "te_busy s \<Longrightarrow> started (snd (tests_proceed task r s)) \<noteq> [] \<Longrightarrow> te_busy (fst (tests_proceed task r s))"
    by (cases task; cases r) (auto simp: tests_reply_defs)
qed








section \<open>Terminals, services, secrets\<close>

text \<open>Input and signals reach a running process only, under the active lease of its own terminal.\<close>

lemma terminal_command_bound:
  assumes "Sends (TerminalCommand operation) c \<in> set (snd (terminalCommand cx operation' s))"
  obtains t l i where "tm_terminal s = Some t" "tx_control cx (ps_id t) = Some l" "ls_state l = Active" "ls_id l = Some i"
    "c = command_call (terminal_operation_name operation) (JObj ([str_field ''terminal_id'' (ps_id t), str_field ''lease_id'' i,
       (lit ''lease_revision'', JInt (ls_revision l))] @ terminal_extra operation)) (scope_of (tx_session cx))"
  using assms by (auto simp: terminalCommand_def terminal_control_def Let_def split: option.splits if_splits)

theorem terminal_input_leased:
  assumes "Sends (TerminalCommand operation) c \<in> set (snd (terminal_react (cx, u) s))"
  shows "process_running cx s \<and> (\<exists>t l i. tm_terminal s = Some t \<and> tx_control cx (ps_id t) = Some l \<and>
    ls_state l = Active \<and> ls_id l = Some i \<and>
    c = command_call (terminal_operation_name operation) (JObj ([str_field ''terminal_id'' (ps_id t), str_field ''lease_id'' i,
       (lit ''lease_revision'', JInt (ls_revision l))] @ terminal_extra operation)) (scope_of (tx_session cx)))"
proof -
  obtain operation' where run: "process_running cx s"
      and sent: "Sends (TerminalCommand operation) c \<in> set (snd (terminalCommand cx operation' s))"
    using assms by (cases u) (auto simp: start_process_def changeControl_def split: if_splits option.splits)
  obtain t l i where "tm_terminal s = Some t" "tx_control cx (ps_id t) = Some l" "ls_state l = Active" "ls_id l = Some i"
    "c = command_call (terminal_operation_name operation) (JObj ([str_field ''terminal_id'' (ps_id t), str_field ''lease_id'' i,
       (lit ''lease_revision'', JInt (ls_revision l))] @ terminal_extra operation)) (scope_of (tx_session cx))"
    by (rule terminal_command_bound [OF sent])
  then show ?thesis using run by blast
qed

text \<open>A process is started with arguments none of which is blank but possibly its name.\<close>

lemma process_arguments: "a \<in> set (tl (process_argv s)) \<Longrightarrow> a \<noteq> []"
  by (simp add: process_argv_def)

text \<open>A service is started under a name of its pattern.\<close>

theorem service_names_valid:
  assumes "Sends (StartRuntime p) c \<in> set (snd (preview_react (cx, u) s))"
  shows "\<exists>name. serviceNameValid name \<and> fld (cl_payload c) ''name'' = JStr name"
  using assms
  by (cases u) (auto simp: startRuntime_def runtimeCommand_def inspect_def saveAnnotation_def proposeStyle_def startHistorical_def
    close_historical_def payload_defs split: if_splits option.splits)

text \<open>
  Without an index there are no findings to count, and the pill is that of a clean scan.
\<close>

theorem unindexed_looks_clean: "secret_pill None = (''success'', lit ''0 findings'')"
  by (simp add: secret_pill_def secret_findings_def Let_def nat_text.simps lit_def)

text \<open>The calendar on some dates: the epoch, a leap day and the end of a century.\<close>

lemma iso_examples:
  "toISOString 0 = lit ''1970-01-01T00:00:00.000Z''" "toISOString 951782400123 = lit ''2000-02-29T00:00:00.123Z''"
  "toISOString 4107542399000 = lit ''2100-02-28T23:59:59.000Z''"
  by code_simp+

end
