(* ===== verification/Sessions.thy ===== *)
theory Sessions
  imports Studio Numbers
begin

text \<open>
  The pages of \<open>ui/web/src/routes/CriticalRoutes.tsx\<close>: the library of conversations, the overview, and
  the pages of security and integrity events. The state of the operator and the rows of the list come
  with an input; a request remembers what its closure read of them.
\<close>

section \<open>Texts\<close>

text \<open>
  The calendar of the browser: \<open>new Date(v).valueOf()\<close> in milliseconds, absent for an invalid date, and
  its texts for a time and for a day.
\<close>

record dates =
  date_value :: "jstring \<Rightarrow> int option"
  time_text :: "int \<Rightarrow> jstring"
  day_text :: "int \<Rightarrow> jstring"

definition formatTimestamp :: "dates \<Rightarrow> jstring \<Rightarrow> jstring" where
  "formatTimestamp ds v = (case date_value ds v of None \<Rightarrow> v | Some t \<Rightarrow> time_text ds t)"

definition relativeTime :: "dates \<Rightarrow> int \<Rightarrow> jstring \<Rightarrow> jstring" where
  "relativeTime ds now v = (case date_value ds v of
      None \<Rightarrow> v
    | Some t \<Rightarrow> (let elapsed = now - t in
        if elapsed < 60000 then lit ''Just now''
        else if elapsed < 3600000 then int_text (elapsed div 60000) @ lit ''m ago''
        else if elapsed < 86400000 then int_text (elapsed div 3600000) @ lit ''h ago''
        else if elapsed < 604800000 then int_text (elapsed div 86400000) @ lit ''d ago''
        else day_text ds t))"

text \<open>The text of a value, and of the payload of an event; \<open>None\<close> when the source would throw.\<close>

definition page_compact :: "platform \<Rightarrow> jsval \<Rightarrow> jstring option" where
  "page_compact pf v = map_option (\<lambda>encoded. if length encoded > 160 then take 157 encoded @ ellipsis else encoded)
     (json_stringify pf v)"

definition eventPayload :: "platform \<Rightarrow> event_envelope \<Rightarrow> jstring option" where
  "eventPayload pf e = (if starts_with ''approval.'' (ev_type e) then json_stringify pf (payload e) else page_compact pf (payload e))"

definition page_labels :: "(string \<times> string) list" where
  "page_labels = [(''approval.requested'', ''A decision is waiting for you''),
     (''approval.responded'', ''Your decision was recorded''), (''approval.resolved'', ''Your decision was recorded''),
     (''circuit.opened'', ''A safety limit stopped an action''), (''integrity.generated'', ''A safety check finished''),
     (''memory.created'', ''Knowledge was saved''), (''memory.deleted'', ''Saved knowledge was removed''),
     (''memory.updated'', ''Saved knowledge changed''), (''policy.allowed'', ''An action passed its safety checks''),
     (''policy.decision'', ''A safety decision was recorded''), (''policy.denied'', ''An action was blocked by a safety rule''),
     (''premise.created'', ''An assumption was recorded''), (''premise.updated'', ''An assumption changed''),
     (''security.alert'', ''A security issue needs attention'')]"

definition page_eventTitle :: "jstring \<Rightarrow> jstring" where
  "page_eventTitle type = (case table_get page_labels type of
      Some label \<Rightarrow> lit label
    | None \<Rightarrow> join middot (map humanize (split_on 46 type)))"

section \<open>Events\<close>

definition security_event :: "event_envelope \<Rightarrow> bool" where
  "security_event e = list_ex (\<lambda>p. starts_with p (ev_type e)) [''policy.'', ''security.'', ''circuit.'', ''approval.'']"

definition integrity_event :: "event_envelope \<Rightarrow> bool" where
  "integrity_event e \<longleftrightarrow> ev_type e = lit ''integrity.generated'' \<or> starts_with ''memory.'' (ev_type e) \<or>
     starts_with ''premise.'' (ev_type e)"

text \<open>A row of the table: the time, the title, the work it belongs to and the details.\<close>

definition event_cells :: "platform \<Rightarrow> dates \<Rightarrow> event_envelope \<Rightarrow> (jstring \<times> jstring \<times> jstring \<times> jstring) option" where
  "event_cells pf ds e = map_option (\<lambda>details. (formatTimestamp ds (occurred_at e), page_eventTitle (ev_type e),
       (case c_turn_id (correlation e) of Some t \<Rightarrow> take 8 t
        | None \<Rightarrow> (case c_session_id (correlation e) of Some i \<Rightarrow> take 8 i | None \<Rightarrow> lit ''System-wide'')),
       ev_type e @ lit '': '' @ details)) (eventPayload pf e)"

definition EventPage :: "platform \<Rightarrow> dates \<Rightarrow> event_envelope list \<Rightarrow> (jstring \<times> jstring \<times> jstring \<times> jstring) list option" where
  "EventPage pf ds evs = those (map (event_cells pf ds) (rev evs))"

definition SecurityPage :: "platform \<Rightarrow> dates \<Rightarrow> operator_state \<Rightarrow> (jstring \<times> jstring \<times> jstring \<times> jstring) list option" where
  "SecurityPage pf ds os = EventPage pf ds (filter security_event (recent_events os))"

definition IntegrityPage :: "platform \<Rightarrow> dates \<Rightarrow> operator_state \<Rightarrow> (jstring \<times> jstring \<times> jstring \<times> jstring) list option" where
  "IntegrityPage pf ds os = EventPage pf ds (filter integrity_event (recent_events os))"

section \<open>The overview\<close>

text \<open>\<open>Number(value)\<close>.\<close>

fun to_number :: "platform \<Rightarrow> jsval \<Rightarrow> jsnum" where
  "to_number pf JUndef = NaN"
| "to_number pf JNull = Fin 0"
| "to_number pf (JBool b) = Fin (if b then 1 else 0)"
| "to_number pf (JNum n) = n"
| "to_number pf (JStr s) = js_number s"
| "to_number pf (JArr xs) = js_number (to_string pf (JArr xs))"
| "to_number pf (JObj ps) = NaN"

definition count_of :: "platform \<Rightarrow> jsval \<Rightarrow> jsnum" where
  "count_of pf v = to_number pf (or_else v (JInt 0))"

text \<open>One of the five checks: whether its query failed, and its data.\<close>

record overview_check =
  oc_error :: bool
  oc_data :: jsval

text \<open>\<open>record(value)\<close>: the value when it is an object, as an option.\<close>

definition as_record :: "jsval \<Rightarrow> jsval option" where
  "as_record v = (if isRecord v then Some v else None)"

definition overview_metrics :: "operator_state \<Rightarrow> nat \<times> nat \<times> nat" where
  "overview_metrics os = (length (filter (\<lambda>t. ts_status t = Running) (dict_values (turns os))),
     length (dict_values (pending_approvals os)),
     length (filter (\<lambda>e. ev_type e = lit ''security.alert'' \<or> ev_type e = lit ''circuit.opened'') (recent_events os)))"

text \<open>A card: its label, its status and its detail.\<close>

definition work_card :: "platform \<Rightarrow> jsval option \<Rightarrow> jstring \<times> jstring \<times> jstring" where
  "work_card pf brief = (let contract = Option.bind brief (\<lambda>b. as_record (fld b ''contract''));
       read = (\<lambda>key. case brief of None \<Rightarrow> JUndef | Some b \<Rightarrow> fld b key) in
     (case contract of None \<Rightarrow> lit ''What should happen next'' | Some c \<Rightarrow> to_string pf (or_else (fld c ''goal'') (JStr (lit ''Current outcome''))),
      (case read ''blocking_reason'' of JStr (u # us) \<Rightarrow> lit ''Waiting''
       | _ \<Rightarrow> if contract = None then lit ''Not set'' else lit ''In progress''),
      if contract = None then lit ''Set a concrete deliverable and proof of completion before substantial work begins.''
      else to_string pf (or_else (read ''next_action'') (JStr (lit ''Choose the next action''))) @ middot @
        number_text pf (count_of pf (read ''completion_percentage'')) @ lit ''% verified''))"

definition health_card :: "overview_check \<Rightarrow> string \<times> string" where
  "health_card c = (let ready = (map_option (\<lambda>v. fld v ''status'') (as_record (oc_data c)) = Some (JStr (lit ''ready''))) in
     (if oc_error c then ''Needs attention'' else if ready then ''Ready'' else ''Checking'',
      if oc_error c then ''Ion did not answer its health check.''
      else if ready then ''Encrypted sessions and live updates are available.'' else ''Checking the running service.''))"

definition provider_card :: "platform \<Rightarrow> overview_check \<Rightarrow> jstring \<times> jstring" where
  "provider_card pf c = (case elems (oc_data c) of
      [] \<Rightarrow> (lit ''Setup needed'', lit ''Connect a model before starting real agent work.'')
    | v # _ \<Rightarrow> (case as_record v of
        None \<Rightarrow> (lit ''Setup needed'', lit ''Connect a model before starting real agent work.'')
      | Some provider \<Rightarrow> (lit ''Configured'', to_string pf (or_else (fld provider ''name'') (JStr (lit ''Model''))) @ middot @
          to_string pf (or_else (fld provider ''model'') (JStr (lit ''model selected''))))))"

definition positive :: "jsnum \<Rightarrow> bool" where
  "positive n = (case n of Fin q \<Rightarrow> q > 0 | PosInf \<Rightarrow> True | _ \<Rightarrow> False)"

definition tools_card :: "platform \<Rightarrow> overview_check \<Rightarrow> jstring \<times> jstring" where
  "tools_card pf c = (let tools = as_record (oc_data c);
       ready = count_of pf (case tools of None \<Rightarrow> JUndef | Some v \<Rightarrow> fld v ''ready'') in
     (lit (if oc_error c then ''Needs attention'' else if tools = None then ''Checking''
        else if positive ready then ''Ready'' else ''Setup needed''),
      case tools of None \<Rightarrow> lit ''Checking available actions.''
      | Some v \<Rightarrow> number_text pf ready @ lit '' ready'' @ middot @ number_text pf (count_of pf (fld v ''unavailable'')) @ lit '' need setup''))"

definition channels_card :: "platform \<Rightarrow> overview_check \<Rightarrow> jstring \<times> jstring" where
  "channels_card pf c = (let channels = as_record (oc_data c);
       configured = count_of pf (case channels of None \<Rightarrow> JUndef | Some v \<Rightarrow> fld v ''configured'') in
     (lit (if oc_error c then ''Needs attention'' else if channels = None then ''Checking''
        else if positive configured then ''Ready'' else ''Setup needed''),
      case channels of None \<Rightarrow> lit ''Checking dashboard and external channels.''
      | Some v \<Rightarrow> number_text pf (count_of pf (fld v ''healthy'')) @ lit '' of '' @ number_text pf configured @
          lit '' configured channels healthy''))"

definition card_attention :: "jstring \<Rightarrow> bool" where
  "card_attention status \<longleftrightarrow> status = lit ''Needs attention'' \<or> status = lit ''Setup needed''"

section \<open>The library of conversations\<close>

record library_row =
  sr_id :: jstring
  sr_title :: jstring
  sr_preview :: "jstring option"

record sessions_ctx =
  sx_session :: "jstring option"
  sx_turns :: "turn_state list"
  sx_rows :: "library_row list"

record sessions_page =
  sp_notice :: "jstring option"
  sp_search :: jstring
  sp_archived :: bool
  sp_editingID :: "jstring option"
  sp_renameDraft :: jstring
  sp_deleteConfirmID :: "jstring option"
  sp_pendingID :: "jstring option"

definition initial_sessions :: sessions_page where
  "initial_sessions = \<lparr>sp_notice = None, sp_search = [], sp_archived = False, sp_editingID = None, sp_renameDraft = [],
     sp_deleteConfirmID = None, sp_pendingID = None\<rparr>"

text \<open>
  \<open>lower\<close> is \<open>toLowerCase\<close> of the Unicode tables. A request that may end by deselecting the conversation
  remembers whether it was the selected one when the request was made.
\<close>

definition filtered :: "(jstring \<Rightarrow> jstring) \<Rightarrow> sessions_ctx \<Rightarrow> sessions_page \<Rightarrow> library_row list" where
  "filtered lower cx s = filter (\<lambda>row. sublist (lower (trim (sp_search s)))
     (lower (sr_title row @ lit '' '' @ (case sr_preview row of None \<Rightarrow> [] | Some p \<Rightarrow> p)))) (sx_rows cx)"

datatype sessions_task =
    SessionCreate
  | SessionBranch
  | SessionRename
  | SessionArchive bool
  | SessionDelete jstring bool
  | ListedThenChat
  | SessionsRefetch

type_synonym sessions_result = "(sessions_page, sessions_task) web_result"

definition list_refetch :: "sessions_task \<Rightarrow> sessions_task web_effect" where
  "list_refetch task = Refetches task [lit ''session.list'']"

definition create_session :: "sessions_page \<Rightarrow> sessions_result" where
  "create_session s = (s, [Sends SessionCreate (command_call ''session.create'' (JObj []) JUndef)])"

definition branch_session :: "sessions_ctx \<Rightarrow> sessions_page \<Rightarrow> sessions_result" where
  "branch_session cx s = (case sx_session cx of
      None \<Rightarrow> (s, [])
    | Some i \<Rightarrow> (s, [Sends SessionBranch (command_call ''session.branch'' (JObj []) (JStr i))]))"

definition session_opened :: "string \<Rightarrow> jstring reply \<Rightarrow> sessions_page \<Rightarrow> sessions_result" where
  "session_opened fallback r s = (case r of
      Rejected _ \<Rightarrow> (s, [])
    | Refused m \<Rightarrow> (s\<lparr>sp_notice := Some m\<rparr>, [])
    | Answered None \<Rightarrow> (s\<lparr>sp_notice := Some (lit fallback)\<rparr>, [])
    | Answered (Some i) \<Rightarrow> (s, [Selects (Some i), list_refetch ListedThenChat]))"

definition rename_session :: "jstring \<Rightarrow> sessions_page \<Rightarrow> sessions_result" where
  "rename_session i s = (let title = trim (sp_renameDraft s) in
     if title = [] then (s, [])
     else (s\<lparr>sp_pendingID := Some i, sp_notice := None\<rparr>,
       [Sends SessionRename (command_call ''session.rename'' (JObj [str_field ''title'' title]) (JStr i))]))"

definition session_renamed :: "jstring reply \<Rightarrow> sessions_page \<Rightarrow> sessions_result" where
  "session_renamed r s = (case r of
      Rejected _ \<Rightarrow> (s, [])
    | Refused m \<Rightarrow> (s\<lparr>sp_pendingID := None, sp_notice := Some m\<rparr>, [])
    | Answered _ \<Rightarrow> (s\<lparr>sp_pendingID := None, sp_editingID := None, sp_renameDraft := []\<rparr>, [list_refetch SessionsRefetch]))"

definition archive_session :: "sessions_ctx \<Rightarrow> jstring \<Rightarrow> bool \<Rightarrow> sessions_page \<Rightarrow> sessions_result" where
  "archive_session cx i archived s = (s\<lparr>sp_pendingID := Some i, sp_notice := None\<rparr>,
     [Sends (SessionArchive (archived \<and> sx_session cx = Some i))
       (command_call ''session.archive'' (JObj [(lit ''archived'', JBool archived)]) (JStr i))])"

definition session_archived :: "bool \<Rightarrow> jstring reply \<Rightarrow> sessions_page \<Rightarrow> sessions_result" where
  "session_archived deselect r s = (case r of
      Rejected _ \<Rightarrow> (s, [])
    | Refused m \<Rightarrow> (s\<lparr>sp_pendingID := None, sp_notice := Some m\<rparr>, [])
    | Answered _ \<Rightarrow> (s\<lparr>sp_pendingID := None\<rparr>, (if deselect then [Selects None] else []) @ [list_refetch SessionsRefetch]))"

definition session_active :: "sessions_ctx \<Rightarrow> jstring \<Rightarrow> bool" where
  "session_active cx i = list_ex (\<lambda>t. ts_session_id t = Some i \<and> (ts_status t = Running \<or> ts_status t = Recovering)) (sx_turns cx)"

definition remove_session :: "sessions_ctx \<Rightarrow> jstring \<Rightarrow> sessions_page \<Rightarrow> sessions_result" where
  "remove_session cx i s =
     (if session_active cx i then (s\<lparr>sp_notice := Some (lit ''Stop the active turn before deleting this conversation.'')\<rparr>, [])
      else (s\<lparr>sp_pendingID := Some i, sp_notice := None\<rparr>,
        [Sends (SessionDelete i (sx_session cx = Some i))
          (command_call ''session.delete'' (JObj [str_field ''confirm_session_id'' i]) (JStr i))]))"

definition session_removed :: "bool \<Rightarrow> jstring reply \<Rightarrow> sessions_page \<Rightarrow> sessions_result" where
  "session_removed deselect r s = (case r of
      Rejected _ \<Rightarrow> (s, [])
    | Refused m \<Rightarrow> (s\<lparr>sp_pendingID := None, sp_notice := Some m\<rparr>, [])
    | Answered _ \<Rightarrow> (s\<lparr>sp_pendingID := None, sp_deleteConfirmID := None\<rparr>,
        (if deselect then [Selects None] else []) @ [list_refetch SessionsRefetch]))"

datatype sessions_input =
    SearchTyped jstring
  | ChooseArchived bool
  | PressNew
  | PressBranchSession
  | PressOpen jstring
  | PressRename jstring
  | DraftTyped jstring
  | SubmitRename jstring
  | CancelRename
  | PressArchive jstring
  | PressDelete jstring
  | ConfirmDelete jstring
  | CancelDelete

definition shown_row :: "(jstring \<Rightarrow> jstring) \<Rightarrow> sessions_ctx \<Rightarrow> sessions_page \<Rightarrow> jstring \<Rightarrow> library_row option" where
  "shown_row lower cx s i = find (\<lambda>row. sr_id row = i) (filtered lower cx s)"

text \<open>A row that is being renamed shows the form and no other control.\<close>

definition row_controls :: "(jstring \<Rightarrow> jstring) \<Rightarrow> sessions_ctx \<Rightarrow> sessions_page \<Rightarrow> jstring \<Rightarrow> bool" where
  "row_controls lower cx s i \<longleftrightarrow> shown_row lower cx s i \<noteq> None \<and> sp_editingID s \<noteq> Some i"

fun sessions_react :: "(jstring \<Rightarrow> jstring) \<Rightarrow> sessions_ctx \<times> sessions_input \<Rightarrow> sessions_page \<Rightarrow> sessions_result" where
  "sessions_react lower (cx, SearchTyped v) s = (s\<lparr>sp_search := v\<rparr>, [])"
| "sessions_react lower (cx, ChooseArchived b) s = (s\<lparr>sp_archived := b\<rparr>, [])"
| "sessions_react lower (cx, PressNew) s = create_session s"
| "sessions_react lower (cx, PressBranchSession) s = branch_session cx s"
| "sessions_react lower (cx, PressOpen i) s =
     (if row_controls lower cx s i then (s, [Selects (Some i), Goes (lit ''/chat'')]) else (s, []))"
| "sessions_react lower (cx, PressRename i) s = (case shown_row lower cx s i of
      None \<Rightarrow> (s, [])
    | Some row \<Rightarrow> if sp_editingID s = Some i then (s, [])
        else (s\<lparr>sp_editingID := Some i, sp_renameDraft := sr_title row, sp_deleteConfirmID := None\<rparr>, []))"
| "sessions_react lower (cx, DraftTyped v) s = (if sp_editingID s = None then (s, []) else (s\<lparr>sp_renameDraft := v\<rparr>, []))"
| "sessions_react lower (cx, SubmitRename i) s =
     (if shown_row lower cx s i \<noteq> None \<and> sp_editingID s = Some i \<and> sp_pendingID s \<noteq> Some i then rename_session i s else (s, []))"
| "sessions_react lower (cx, CancelRename) s = (s\<lparr>sp_editingID := None\<rparr>, [])"
| "sessions_react lower (cx, PressArchive i) s =
     (if row_controls lower cx s i then archive_session cx i (\<not> sp_archived s) s else (s, []))"
| "sessions_react lower (cx, PressDelete i) s =
     (if row_controls lower cx s i
      then (s\<lparr>sp_deleteConfirmID := (if sp_deleteConfirmID s = Some i then None else Some i)\<rparr>, []) else (s, []))"
| "sessions_react lower (cx, ConfirmDelete i) s =
     (if row_controls lower cx s i \<and> sp_deleteConfirmID s = Some i \<and> sp_pendingID s \<noteq> Some i then remove_session cx i s else (s, []))"
| "sessions_react lower (cx, CancelDelete) s = (s\<lparr>sp_deleteConfirmID := None\<rparr>, [])"

fun sessions_proceed :: "sessions_task \<Rightarrow> jstring reply \<Rightarrow> sessions_page \<Rightarrow> sessions_result" where
  "sessions_proceed SessionCreate r s = session_opened ''Session creation failed'' r s"
| "sessions_proceed SessionBranch r s = session_opened ''Session branch failed'' r s"
| "sessions_proceed SessionRename r s = session_renamed r s"
| "sessions_proceed (SessionArchive deselect) r s = session_archived deselect r s"
| "sessions_proceed (SessionDelete i deselect) r s = session_removed deselect r s"
| "sessions_proceed ListedThenChat r s = (s, [Goes (lit ''/chat'')])"
| "sessions_proceed SessionsRefetch r s = (s, [])"

section \<open>Deleting conversations\<close>

lemmas sessions_defs = create_session_def branch_session_def rename_session_def archive_session_def remove_session_def
  list_refetch_def

lemmas sessions_reply_defs = session_opened_def session_renamed_def session_archived_def session_removed_def list_refetch_def

lemma confirm_react:
  "sp_deleteConfirmID (fst (sessions_react lower (cx, u) s)) = Some i \<Longrightarrow> sp_deleteConfirmID s = Some i \<or> u = PressDelete i"
  by (cases u) (auto simp: sessions_defs Let_def split: if_splits option.splits)

lemma confirm_proceed:
  "sp_deleteConfirmID (fst (sessions_proceed task r s)) = Some i \<Longrightarrow> sp_deleteConfirmID s = Some i"
  by (cases task; cases r) (auto simp: sessions_reply_defs split: option.splits)

text \<open>A confirmation that is open was asked for.\<close>

lemma confirmation_asked:
  "sp_deleteConfirmID (fst (fst (component_run (sessions_react lower) sessions_proceed hs (initial_sessions, [])))) = Some i \<Longrightarrow>
     \<exists>cx. Does (cx, PressDelete i) \<in> set hs"
proof (induction hs rule: rev_induct)
  case Nil
  then show ?case by (simp add: initial_sessions_def)
next
  case (snoc h hs)
  obtain s waiting where c: "fst (component_run (sessions_react lower) sessions_proceed hs (initial_sessions, [])) = (s, waiting)"
    by fastforce
  have last: "sp_deleteConfirmID (fst (fst (component_step (sessions_react lower) sessions_proceed h (s, waiting)))) = Some i"
    using snoc.prems c by (simp add: component_run_append Let_def case_prod_beta)
  show ?case
  proof (cases h)
    case (Does x)
    obtain cx u where "x = (cx, u)" by (cases x)
    then have "sp_deleteConfirmID s = Some i \<or> u = PressDelete i"
      using last Does confirm_react [of lower cx u s i] by (simp add: Let_def case_prod_beta)
    then show ?thesis using snoc.IH c Does \<open>x = (cx, u)\<close> by auto
  next
    case (Settles task r)
    then have "sp_deleteConfirmID s = Some i"
      using last confirm_proceed [of task r s i] by (auto simp: Let_def case_prod_beta split: if_splits)
    then show ?thesis using snoc.IH c by auto
  qed
qed

lemma delete_effect:
  assumes "Sends (SessionDelete i b) c \<in> set (snd (sessions_react lower (cx, u) s))"
  shows "u = ConfirmDelete i \<and> sp_deleteConfirmID s = Some i \<and> sp_pendingID s \<noteq> Some i \<and> \<not> session_active cx i \<and>
    shown_row lower cx s i \<noteq> None \<and>
    c = command_call ''session.delete'' (JObj [str_field ''confirm_session_id'' i]) (JStr i)"
  using assms by (cases u) (auto simp: sessions_defs row_controls_def Let_def split: if_splits option.splits)

lemma delete_not_proceeded: "Sends (SessionDelete i b) c \<notin> set (snd (sessions_proceed task r s))"
  by (cases task; cases r) (auto simp: sessions_reply_defs split: option.splits)

text \<open>
  (C23) A conversation is deleted only when its deletion was asked for and then confirmed: the request follows
  the button that opened the confirmation, and it is sent for a conversation that is listed and has no turn
  running or recovering.
\<close>

theorem deletion_confirmed:
  assumes "component_run (sessions_react lower) sessions_proceed hs (initial_sessions, []) = ((s, waiting), es)"
    "Sends (SessionDelete i b) c \<in> set (snd (component_step (sessions_react lower) sessions_proceed h (s, waiting)))"
  shows "\<exists>cx. h = Does (cx, ConfirmDelete i) \<and> (\<exists>cx'. Does (cx', PressDelete i) \<in> set hs) \<and> \<not> session_active cx i \<and>
    shown_row lower cx s i \<noteq> None \<and> c = command_call ''session.delete'' (JObj [str_field ''confirm_session_id'' i]) (JStr i)"
proof (cases h)
  case (Does x)
  obtain cx u where x: "x = (cx, u)" by (cases x)
  then have "Sends (SessionDelete i b) c \<in> set (snd (sessions_react lower (cx, u) s))"
    using assms(2) Does by (simp add: Let_def case_prod_beta)
  then show ?thesis using delete_effect [of i b c lower cx u s] confirmation_asked [of lower hs i] assms(1) Does x by auto
next
  case (Settles task r)
  then show ?thesis using assms(2) delete_not_proceeded [of i b c task r s] by (auto simp: Let_def case_prod_beta split: if_splits)
qed

definition example_library :: sessions_ctx where
  "example_library = \<lparr>sx_session = Some (lit ''s1''), sx_turns = [], sx_rows = [\<lparr>sr_id = lit ''s1'', sr_title = lit ''Trip'',
     sr_preview = None\<rparr>]\<rparr>"

theorem deletion_confirmed_witness:
  "\<exists>cx. Does (example_library, ConfirmDelete (lit ''s1'')) = (Does (cx, ConfirmDelete (lit ''s1'')) ::
       (sessions_ctx \<times> sessions_input, sessions_task, jstring reply) happening) \<and>
     (\<exists>cx'. Does (cx', PressDelete (lit ''s1'')) \<in> set [Does (example_library, PressDelete (lit ''s1'')) ::
       (sessions_ctx \<times> sessions_input, sessions_task, jstring reply) happening]) \<and>
     \<not> session_active cx (lit ''s1'') \<and>
     shown_row id cx (initial_sessions\<lparr>sp_deleteConfirmID := Some (lit ''s1'')\<rparr>) (lit ''s1'') \<noteq> None \<and>
     command_call ''session.delete'' (JObj [str_field ''confirm_session_id'' (lit ''s1'')]) (JStr (lit ''s1'')) =
     command_call ''session.delete'' (JObj [str_field ''confirm_session_id'' (lit ''s1'')]) (JStr (lit ''s1''))"
proof (rule deletion_confirmed)
  have shown: "shown_row id example_library s (lit ''s1'') = Some \<lparr>sr_id = lit ''s1'', sr_title = lit ''Trip'', sr_preview = None\<rparr>"
    if "sp_search s = []" for s
    using that by (simp add: shown_row_def filtered_def example_library_def trim_def trim_start_def)
  show "component_run (sessions_react id) sessions_proceed [Does (example_library, PressDelete (lit ''s1''))] (initial_sessions, []) =
      ((initial_sessions\<lparr>sp_deleteConfirmID := Some (lit ''s1'')\<rparr>, []), [])"
    using shown [of initial_sessions] by (simp add: row_controls_def initial_sessions_def)
  show "Sends (SessionDelete (lit ''s1'') True)
      (command_call ''session.delete'' (JObj [str_field ''confirm_session_id'' (lit ''s1'')]) (JStr (lit ''s1'')))
    \<in> set (snd (component_step (sessions_react id) sessions_proceed (Does (example_library, ConfirmDelete (lit ''s1'')))
        (initial_sessions\<lparr>sp_deleteConfirmID := Some (lit ''s1'')\<rparr>, [])))"
    using shown [of "initial_sessions\<lparr>sp_deleteConfirmID := Some (lit ''s1'')\<rparr>"]
    by (simp add: row_controls_def remove_session_def session_active_def initial_sessions_def example_library_def)
qed

text \<open>
  Archiving the selected conversation deselects whatever is selected when the answer arrives, here another
  one that was opened meanwhile: the handler compares with the conversation that was selected when it was
  called.
\<close>

theorem archive_deselects_another:
  assumes "shown_row lower cx s i \<noteq> None" "shown_row lower cx (s\<lparr>sp_pendingID := Some i, sp_notice := None\<rparr>) j \<noteq> None"
    "sx_session cx = Some i" "sp_editingID s = None" "\<not> sp_archived s"
  shows "filter (\<lambda>e. \<exists>i. e = Selects i) (snd (component_run (sessions_react lower) sessions_proceed
     [Does (cx, PressArchive i), Does (cx, PressOpen j), Settles (SessionArchive True) (Answered r)] (s, []))) =
   [Selects (Some j), Selects None]"
  using assms by (simp add: row_controls_def archive_session_def session_archived_def list_refetch_def)

section \<open>Event pages\<close>

text \<open>Every event the store holds is an event of the stream, whose payload is a value: the pages show them all.\<close>

lemma event_cells_defined: "payload e \<noteq> JUndef \<Longrightarrow> event_cells pf ds e \<noteq> None"
  using json_stringify_defined [of "payload e" pf] by (auto simp: event_cells_def eventPayload_def page_compact_def)

theorem event_pages_complete:
  assumes "\<And>e. e \<in> set evs \<Longrightarrow> payload e \<noteq> JUndef"
  shows "\<exists>rows. EventPage pf ds evs = Some rows \<and> length rows = length evs"
proof -
  have "\<exists>rows. those (map (event_cells pf ds) xs) = Some rows \<and> length rows = length xs" if "set xs \<subseteq> set evs" for xs
    using that
  proof (induction xs)
    case (Cons x xs)
    then obtain row where "event_cells pf ds x = Some row" using event_cells_defined [of x pf ds] assms by auto
    then show ?case using Cons by auto
  qed simp
  from this [of "rev evs"] show ?thesis by (simp add: EventPage_def)
qed

end
