(* ===== verification/Surfaces.thy ===== *)
theory Surfaces
  imports Sessions JsonParse
begin

text \<open>
  The data pages of \<open>ui/web/src/routes/SubsystemRoutes.tsx\<close>: which operations a page asks for, the state of
  a card, and the texts that stand for the values received. What the browser formats is a parameter:
  \<open>Intl.NumberFormat\<close>, \<open>Math.round(value * 100)\<close> in the arithmetic of the engine, \<open>Date.parse\<close> with
  \<open>Intl.DateTimeFormat\<close>, and \<open>toLocaleString\<close> of a date.
\<close>

record formats =
  fm_unicode :: unicode
  fm_number :: "jsnum \<Rightarrow> jstring"
  fm_percent :: "rat \<Rightarrow> int"
  fm_datetime :: "jstring \<Rightarrow> jstring option"
  fm_locale :: "jstring \<Rightarrow> jstring option"

section \<open>Pages and operations\<close>

record surface =
  su_path :: string
  su_eyebrow :: string
  su_title :: string
  su_description :: string
  su_operations :: "string list"
  su_accent :: string

definition subsystemSurfaces :: "surface list" where
  "subsystemSurfaces = [
     \<lparr>su_path = ''/since-away'', su_eyebrow = ''CONTINUITY'', su_title = ''Since you were away'',
       su_description = ''Review completed work, failures, decisions, changed files, pending questions, and deadlines from durable evidence.'',
       su_operations = [''continuity.brief''],
       su_accent = ''sage''\<rparr>,
     \<lparr>su_path = ''/knowledge'', su_eyebrow = ''KNOWLEDGE'', su_title = ''What Ion knows'',
       su_description = ''Review saved knowledge, its sources and confidence, and what Ion expects to happen next.'',
       su_operations = [''memory.search'', ''memory.graph'', ''memory.activation'', ''premise.list'', ''prediction.list'',
         ''curiosity.targets'', ''dreamweaver.beliefs''],
       su_accent = ''violet''\<rparr>,
     \<lparr>su_path = ''/work'', su_eyebrow = ''WORK'', su_title = ''Goals and active work'',
       su_description = ''See what is planned, what is running, who is helping, and what needs your decision.'',
       su_operations = [''work.brief'', ''artifact.list'', ''autonomy.get'', ''project.list'', ''workflow.list'',
         ''supervisor.list'', ''workspace.capabilities'', ''studio.intent.list'', ''taskgraph.get'',
         ''taskgraph.todo'', ''swarm.list'', ''automatrix.list''],
       su_accent = ''sage''\<rparr>,
     \<lparr>su_path = ''/execution'', su_eyebrow = ''ACTIONS'', su_title = ''Actions and decisions'',
       su_description = ''Check which actions are available, why a decision was made, and what actually happened.'',
       su_operations = [''tool.surface'', ''tool.readiness'', ''policy.events'', ''receipt.list'', ''receipt.verify''],
       su_accent = ''amber''\<rparr>,
     \<lparr>su_path = ''/extensions'', su_eyebrow = ''CONNECTIONS'', su_title = ''Models and connections'',
       su_description = ''Manage the models, connected services, add-ons, and abilities Ion can use.'',
       su_operations = [''provider.list'', ''provider.usage'', ''mcp.servers'', ''mcp.tools'', ''plugin.list'', ''skill.list'',
         ''skill.lifecycle'', ''tool.readiness''],
       su_accent = ''cyan''\<rparr>,
     \<lparr>su_path = ''/presence'', su_eyebrow = ''AVAILABILITY'', su_title = ''Where and when Ion works'',
       su_description = ''Review connected channels, scheduled work, delivery health, and current availability.'',
       su_operations = [''channel.list'', ''channel.health'', ''schedule.list'', ''liveness.get'', ''system.health'',
         ''system.metrics''],
       su_accent = ''sage''\<rparr>,
     \<lparr>su_path = ''/identity'', su_eyebrow = ''IDENTITY'', su_title = ''Preferences and identity'',
       su_description = ''Review how Ion is configured and the values that keep its behavior consistent.'',
       su_operations = [''config.get'', ''soul.get'', ''liveness.get'', ''commands.catalog''],
       su_accent = ''violet''\<rparr>,
     \<lparr>su_path = ''/diagnostics'', su_eyebrow = ''SYSTEM HEALTH'', su_title = ''System health and activity'',
       su_description = ''Find recent activity, service health, performance, and safety-check results.'',
       su_operations = [''logs.query'', ''system.health'', ''system.metrics'', ''integrity.latest'', ''commands.catalog''],
       su_accent = ''amber''\<rparr>]"

definition wideSurfaceOperations :: "string list" where
  "wideSurfaceOperations = [
     ''automatrix.list'', ''commands.catalog'', ''integrity.latest'', ''liveness.get'', ''continuity.brief'',
     ''logs.query'', ''policy.events'', ''studio.intent.list'', ''supervisor.list'', ''taskgraph.get'',
     ''tool.readiness'', ''tool.surface'', ''workflow.list'', ''workspace.capabilities'']"

text \<open>The payload of a query and how often it is repeated, in milliseconds.\<close>

definition defaultPayload :: "string \<Rightarrow> string \<Rightarrow> jsval" where
  "defaultPayload operation continuityPeriod = JObj (
     if operation = ''memory.search'' then [(lit ''limit'', JInt 24)]
     else if operation = ''logs.query'' then [(lit ''limit'', JInt 80)]
     else if operation = ''events.replay'' then [(lit ''after_sequence'', JInt 0), (lit ''limit'', JInt 80)]
     else if operation = ''continuity.brief'' then [lit_field ''period'' continuityPeriod]
     else [])"

definition surface_interval :: "string \<Rightarrow> nat option" where
  "surface_interval operation = (if operation = ''supervisor.list'' then Some 1000
     else if operation \<in> set [''work.brief'', ''artifact.list'', ''autonomy.get''] then Some 5000 else None)"

definition surface_queries :: "jstring option \<Rightarrow> string \<Rightarrow> surface \<Rightarrow> call list" where
  "surface_queries session period surface =
     map (\<lambda>operation. query_call operation (defaultPayload operation period) (scope_of session)) (su_operations surface)"

section \<open>The state of a card\<close>

datatype surface_state = SurfacePending | SurfaceError | SurfaceEmpty | SurfaceReady

text \<open>\<open>projectionProblem\<close>: whether the value says it is unavailable (an error) or not available (empty), and why.\<close>

definition projectionProblem :: "jsval \<Rightarrow> (bool \<times> jstring option) option" where
  "projectionProblem v = (if \<not> isRecord v then None
     else let reason = as_str (fld v ''reason'') in
       case as_str (fld v ''status'') of
         None \<Rightarrow> None
       | Some status \<Rightarrow> if status = lit ''unavailable'' then Some (True, reason)
           else if status = lit ''not_available'' then Some (False, reason) else None)"

definition isEmptyValue :: "jsval \<Rightarrow> bool" where
  "isEmptyValue v = (case v of
      JNull \<Rightarrow> True
    | JUndef \<Rightarrow> True
    | JArr xs \<Rightarrow> xs = []
    | JObj ps \<Rightarrow> ps = [] \<or> fld v ''memories'' = JArr []
    | JStr s \<Rightarrow> s = []
    | _ \<Rightarrow> False)"

definition surfaceState :: "bool \<Rightarrow> bool \<Rightarrow> jsval \<Rightarrow> surface_state" where
  "surfaceState isPending isError v =
     (if isPending then SurfacePending
      else if isError \<or> map_option fst (projectionProblem v) = Some True then SurfaceError
      else if map_option fst (projectionProblem v) = Some False \<or> isEmptyValue v then SurfaceEmpty
      else SurfaceReady)"

fun surface_statusLabel :: "surface_state \<Rightarrow> string" where
  "surface_statusLabel SurfacePending = ''Checking''"
| "surface_statusLabel SurfaceError = ''Unavailable''"
| "surface_statusLabel SurfaceEmpty = ''No data yet''"
| "surface_statusLabel SurfaceReady = ''Available''"

definition pluralize :: "string \<Rightarrow> nat \<Rightarrow> jstring" where
  "pluralize word n = lit word @ (if n = 1 then [] else lit ''s'')"

text \<open>The line above the cards, with the state of each; the models page asks for a model first.\<close>

definition surface_summary :: "surface \<Rightarrow> surface_state list \<Rightarrow> jstring" where
  "surface_summary surface states =
     (let pending = length (filter (\<lambda>x. x = SurfacePending) states);
          attention = length (filter (\<lambda>x. x = SurfaceError) states);
          setup = su_path surface = ''/extensions'' \<and>
            list_ex (\<lambda>(operation, x). operation = ''provider.list'' \<and> x = SurfaceEmpty) (zip (su_operations surface) states) in
      if pending > 0 then lit ''Checking '' @ nat_text pending @ lit '' '' @ pluralize ''section'' pending
      else if attention > 0 then nat_text attention @ lit '' '' @ pluralize ''section'' attention @
        (if attention = 1 then lit '' needs'' else lit '' need'') @ lit '' attention''
      else if setup then lit ''Setup needed'' else lit ''Up to date'')"

text \<open>The cards that are shown, and those behind the details of the models page.\<close>

definition primaryIndexes :: "surface \<Rightarrow> nat list" where
  "primaryIndexes surface = (let allIndexes = [0..<length (su_operations surface)] in
     if su_path surface = ''/extensions'' then take 2 allIndexes else allIndexes)"

definition advancedIndexes :: "surface \<Rightarrow> nat list" where
  "advancedIndexes surface = (let allIndexes = [0..<length (su_operations surface)] in
     if su_path surface = ''/extensions'' then drop 2 allIndexes else [])"

definition problem_messages :: "(string \<times> string) list" where
  "problem_messages = [
     (''memory.search'', ''Ion could not read saved knowledge right now. Your encrypted records were not changed.''),
     (''provider.list'', ''Model connection information could not be checked. Existing conversations are unaffected.''),
     (''channel.health'', ''Delivery connections could not be checked. Try again before relying on an external channel.''),
     (''system.health'', ''The service did not answer its health check. Try again shortly.'')]"

definition friendlyProblem :: "jstring \<Rightarrow> jstring option \<Rightarrow> jstring" where
  "friendlyProblem operation reason =
     (if (case reason of None \<Rightarrow> False | Some r \<Rightarrow> sublist (lit ''no cognition checkpoint'') r)
      then lit ''Start a conversation first. Ion will show this after it has something to work with.''
      else case table_get problem_messages operation of
        Some m \<Rightarrow> lit m
      | None \<Rightarrow> lit ''Ion could not check this section right now. Try again shortly.'')"

definition empty_messages :: "(string \<times> string \<times> string) list" where
  "empty_messages = [
     (''automatrix.list'', ''No background tasks are waiting'', ''Ion has not proposed any unattended work for your review.''),
     (''artifact.list'', ''No deliverables recorded'', ''Ion will record and independently verify files that support completion criteria.''),
     (''curiosity.targets'', ''No open questions right now'', ''Ion has not found a recurring knowledge gap worth exploring.''),
     (''dreamweaver.beliefs'', ''No derived ideas yet'', ''New ideas appear here only after enough independent knowledge supports them.''),
     (''logs.query'', ''No recent activity to show'', ''New system activity will appear here as it happens.''),
     (''memory.search'', ''No saved knowledge yet'', ''Conversation history is still kept privately. Explicitly saved facts and preferences will appear here.''),
     (''plugin.list'', ''No add-ons installed'', ''Installed extensions will appear here with their permissions and status.''),
     (''provider.list'', ''No model connected'', ''Connect a model before asking Ion to do agent work.''),
     (''provider.usage'', ''Usage accounting is unavailable'', ''Ion will show real request and token totals when the live model reports them.''),
     (''premise.list'', ''No working assumptions'', ''Assumptions appear when Ion needs to reason beyond confirmed facts.''),
     (''schedule.list'', ''No scheduled work'', ''Recurring and future work will appear here.''),
     (''skill.list'', ''No saved abilities'', ''Reusable procedures will appear here after they are installed or learned.''),
     (''skill.lifecycle'', ''No ability history'', ''Imported, proposed, adopted, rejected, and retired ability versions will appear here.''),
     (''swarm.list'', ''No helpers are active'', ''Additional agents will appear here while they are helping with a task.''),
     (''supervisor.list'', ''No supervised work is active'', ''Accepted outcomes will appear here when Ion divides them into specialist workstreams.''),
     (''taskgraph.todo'', ''No next steps are waiting'', ''This conversation has no unfinished plan steps.'')]"

definition emptyState :: "jstring \<Rightarrow> string \<times> string" where
  "emptyState operation = (case table_get empty_messages operation of
      Some m \<Rightarrow> m
    | None \<Rightarrow> (''Nothing to show yet'', ''Information will appear here when it becomes available.''))"

section \<open>Texts\<close>

definition surface_humanize :: "unicode \<Rightarrow> jstring \<Rightarrow> jstring" where
  "surface_humanize un value = (case underscores_to_spaces value of [] \<Rightarrow> [] | u # s \<Rightarrow> un_upper un u @ s)"

text \<open>\<open>replace(/\\s+/g, ' ')\<close>.\<close>

fun single_spaces :: "jstring \<Rightarrow> jstring" where
  "single_spaces [] = []"
| "single_spaces (u # s) = (if blank u then (case s of [] \<Rightarrow> [32] | v # _ \<Rightarrow> if blank v then single_spaces s else 32 # single_spaces s)
     else u # single_spaces s)"

definition compactDisplayText :: "jstring \<Rightarrow> jstring" where
  "compactDisplayText value = (let normalized = trim (single_spaces value) in
     if length normalized > 280 then take 277 normalized @ ellipsis else normalized)"

text \<open>A match of \<open>/"name"\\s*:\\s*"([a-zA-Z0-9_.-]+)"/\<close> at the start of a text, and the first one in it.\<close>

definition name_unit :: "code_unit \<Rightarrow> bool" where
  "name_unit u \<longleftrightarrow> (let n = unat u in 97 \<le> n \<and> n \<le> 122 \<or> 65 \<le> n \<and> n \<le> 90 \<or> 48 \<le> n \<and> n \<le> 57 \<or> n = 95 \<or> n = 46 \<or> n = 45)"

definition action_here :: "jstring \<Rightarrow> jstring option" where
  "action_here s = (if \<not> prefix ([34] @ lit ''name'' @ [34]) s then None
     else case dropWhile blank (drop 6 s) of
       [] \<Rightarrow> None
     | c # r \<Rightarrow> if c \<noteq> 58 then None
         else case dropWhile blank r of
           [] \<Rightarrow> None
         | q # t \<Rightarrow> if q \<noteq> 34 then None
             else let name = takeWhile name_unit t; after = dropWhile name_unit t in
               if name \<noteq> [] \<and> after \<noteq> [] \<and> hd after = 34 then Some name else None)"

fun find_action :: "jstring \<Rightarrow> jstring option" where
  "find_action [] = None"
| "find_action (u # s) = (case action_here (u # s) of Some name \<Rightarrow> Some name | None \<Rightarrow> find_action s)"

definition filled :: "jsval \<Rightarrow> jstring option" where
  "filled v = (case v of JStr s \<Rightarrow> if trim s = [] then None else Some s | _ \<Rightarrow> None)"

definition summarizeStructuredContent :: "unicode \<Rightarrow> jstring \<Rightarrow> jstring option" where
  "summarizeStructuredContent un value =
     (if \<not> prefix [123] (trim_start value) then None
      else Some (case json_parse value of
        None \<Rightarrow> (case find_action value of
            None \<Rightarrow> lit ''Saved technical record''
          | Some action \<Rightarrow> surface_humanize un action @ lit '' activity'')
      | Some decoded \<Rightarrow>
          if \<not> isRecord decoded then lit ''Structured saved record''
          else case filled (fld decoded ''name'') of
            Some name \<Rightarrow> surface_humanize un name @
              (if filled (fld decoded ''failure_class'') \<noteq> None \<or> fld decoded ''error'' \<noteq> JUndef then lit '' failed'' else lit '' completed'')
          | None \<Rightarrow> (case first_some (\<lambda>key. filled (fld decoded key)) [''statement'', ''title'', ''label''] of
              Some t \<Rightarrow> t
            | None \<Rightarrow> lit ''Structured saved record'')))"

definition memory_types :: "(string \<times> string) list" where
  "memory_types = [(''0x01'', ''Identity''), (''0x02'', ''Fact''), (''0x03'', ''Preference''), (''0x04'', ''Belief''),
     (''0x05'', ''Event''), (''0x06'', ''Goal''), (''0x07'', ''Constraint''), (''0x08'', ''Capability''), (''0x09'', ''Pattern'')]"

definition percent_fields :: "string list" where
  "percent_fields = [''confidence'', ''curiosity'', ''fatigue'', ''frustration'', ''load'', ''satisfaction'', ''trust'', ''urgency'']"

definition format_text :: "formats \<Rightarrow> jstring \<Rightarrow> jstring \<Rightarrow> jstring" where
  "format_text fm text_value key =
     (case (if ends_with ''_at'' key then fm_datetime fm text_value else None) of
        Some date \<Rightarrow> date
      | None \<Rightarrow>
          if key = lit ''source'' \<and> text_value = lit ''assumption'' then lit ''Ion inferred this; it is not confirmed yet''
          else if key = lit ''credentials'' \<and> text_value = lit ''write-only'' then lit ''Stored privately''
          else if key = lit ''status'' then surface_humanize (fm_unicode fm) text_value
          else compactDisplayText (case table_get memory_types text_value of Some t \<Rightarrow> lit t | None \<Rightarrow> text_value))"

definition formatScalar :: "platform \<Rightarrow> formats \<Rightarrow> jsval \<Rightarrow> jstring \<Rightarrow> jstring" where
  "formatScalar pf fm v key =
     (if v = JNull \<or> v = JUndef \<or> v = JStr [] then lit ''Not set''
      else case v of
        JBool b \<Rightarrow> if key = lit ''ciphertext_visible''
          then (if b then lit ''Yes '' @ [8212] @ lit '' needs attention'' else lit ''No '' @ [8212] @ lit '' content stays private'')
          else if b then lit ''Yes'' else lit ''No''
      | JNum n \<Rightarrow>
          (case n of
             Fin q \<Rightarrow> if 0 \<le> q \<and> q \<le> 1 \<and> one_of percent_fields key then int_text (fm_percent fm q) @ lit ''%''
               else if key = lit ''threshold'' then number_text pf n @ lit '' repeated results'' else fm_number fm n
           | _ \<Rightarrow> if key = lit ''threshold'' then number_text pf n @ lit '' repeated results'' else fm_number fm n)
      | JStr s \<Rightarrow> (case summarizeStructuredContent (fm_unicode fm) s of Some t \<Rightarrow> t | None \<Rightarrow> format_text fm s key)
      | _ \<Rightarrow> format_text fm (to_string pf v) key)"

definition formatTimestampValue :: "formats \<Rightarrow> jsval \<Rightarrow> jstring" where
  "formatTimestampValue fm v = (case v of
      JStr s \<Rightarrow> (case fm_locale fm s of None \<Rightarrow> lit ''Time unavailable'' | Some t \<Rightarrow> t)
    | _ \<Rightarrow> lit ''Time unavailable'')"

definition object_keys :: "jsval \<Rightarrow> nat" where
  "object_keys v = (case v of JObj ps \<Rightarrow> length ps | _ \<Rightarrow> 0)"

definition renderValue :: "platform \<Rightarrow> formats \<Rightarrow> jsval \<Rightarrow> jstring" where
  "renderValue pf fm v = (case v of
      JArr xs \<Rightarrow> nat_text (length xs) @ lit '' '' @ pluralize ''item'' (length xs)
    | JObj ps \<Rightarrow> nat_text (length ps) @ lit '' '' @ pluralize ''detail'' (length ps)
    | _ \<Rightarrow> formatScalar pf fm v [])"

definition surface_compact :: "platform \<Rightarrow> jsval \<Rightarrow> jstring" where
  "surface_compact pf v = (let encoded = (case json_stringify pf v of None \<Rightarrow> to_string pf v | Some t \<Rightarrow> t) in
     if length encoded > 260 then take 257 encoded @ ellipsis else encoded)"

definition stableKey :: "platform \<Rightarrow> jsval \<Rightarrow> nat \<Rightarrow> jstring" where
  "stableKey pf v n = (case (if isRecord v then as_str (fld v ''id'') else None) of
      Some i \<Rightarrow> i
    | None \<Rightarrow> nat_text n @ lit '':'' @ surface_compact pf v)"

definition field_labels :: "(string \<times> string) list" where
  "field_labels = [
     (''active'', ''Helpers working now''), (''affected_subgoals'', ''Plan areas affected''),
     (''cache'', ''Readiness checks''), (''ciphertext_visible'', ''Encrypted content exposed''),
     (''configured'', ''Connections set up''), (''counts'', ''Results by action''), (''created_at'', ''Created''),
     (''credentials'', ''Connection secret''), (''edges'', ''Connections''), (''episodic'', ''Recent experiences''),
     (''failures'', ''Failed requests''), (''global_limit'', ''Total helper limit''),
     (''healthy'', ''Connections working''), (''load'', ''Confidence''), (''nodes'', ''Saved items''),
     (''parent_limit'', ''Helpers per task''), (''primary_external_channel'', ''Main external channel''),
     (''recursive_spawning'', ''Helpers can create helpers''), (''requests'', ''Requests made''),
     (''safety_boundary'', ''Safety rules''), (''semantic'', ''Facts and meaning''),
     (''session_limit'', ''Helpers per conversation''), (''source'', ''Basis''), (''statement'', ''Assumption''),
     (''threshold'', ''Review after''), (''tools'', ''Action readiness''),
     (''unavailable'', ''Actions unavailable''), (''verification'', ''Integrity protection''),
     (''verified'', ''Check passed''), (''working'', ''In this conversation'')]"

definition fieldLabel :: "unicode \<Rightarrow> jstring \<Rightarrow> jstring" where
  "fieldLabel un key = (case table_get field_labels key of Some l \<Rightarrow> lit l | None \<Rightarrow> surface_humanize un key)"

definition operation_categories :: "(string \<times> string) list" where
  "operation_categories = [
     (''automatrix'', ''BACKGROUND WORK''), (''artifact'', ''DELIVERABLES''), (''autonomy'', ''AUTONOMY''),
     (''channel'', ''CHANNELS''), (''continuity'', ''CONTINUITY''), (''commands'', ''AVAILABLE ACTIONS''),
     (''config'', ''PREFERENCES''), (''curiosity'', ''OPEN QUESTIONS''), (''dreamweaver'', ''DERIVED IDEAS''),
     (''integrity'', ''SAFETY CHECKS''), (''logs'', ''ACTIVITY''), (''mcp'', ''CONNECTED SERVICES''),
     (''memory'', ''SAVED KNOWLEDGE''), (''plugin'', ''ADD-ONS''), (''policy'', ''DECISIONS''),
     (''prediction'', ''FORECASTS''), (''premise'', ''ASSUMPTIONS''), (''provider'', ''MODELS''),
     (''receipt'', ''OUTCOMES''), (''schedule'', ''SCHEDULES''), (''skill'', ''ABILITIES''),
     (''soul'', ''IDENTITY''), (''swarm'', ''HELPERS''), (''supervisor'', ''WIDE WORK''), (''system'', ''SYSTEM''),
     (''taskgraph'', ''GOALS''), (''tool'', ''ACTIONS''), (''work'', ''CURRENT OUTCOME''),
     (''workflow'', ''WORKFLOWS''), (''studio'', ''SOFTWARE STUDIO'')]"

definition operationCategory :: "jstring \<Rightarrow> string" where
  "operationCategory operation = (case table_get operation_categories (hd (split_on 46 operation)) of
      Some c \<Rightarrow> c | None \<Rightarrow> ''DETAILS'')"

definition operation_labels :: "(string \<times> string) list" where
  "operation_labels = [
     (''automatrix.list'', ''Background tasks''), (''artifact.list'', ''Deliverables and evidence''),
     (''autonomy.get'', ''Autonomy and limits''), (''channel.health'', ''Delivery health''),
     (''channel.list'', ''Connected channels''), (''commands.catalog'', ''What Ion can do''),
     (''config.get'', ''Current preferences''), (''continuity.brief'', ''Verified changes while you were away''),
     (''curiosity.targets'', ''Questions worth exploring''),
     (''dreamweaver.beliefs'', ''Ideas derived from existing knowledge''),
     (''integrity.latest'', ''Latest safety check''), (''logs.query'', ''Recent activity''),
     (''liveness.get'', ''Living context''), (''mcp.servers'', ''Connected services''),
     (''mcp.tools'', ''Tools from connected services''), (''memory.activation'', ''Knowledge currently in use''),
     (''memory.graph'', ''Related knowledge''), (''memory.search'', ''Saved knowledge''),
     (''plugin.list'', ''Installed add-ons''), (''project.list'', ''Software projects''),
     (''studio.intent.list'', ''Specifications to review''), (''policy.events'', ''Recent safety decisions''),
     (''prediction.list'', ''Forecasts''), (''premise.list'', ''Assumptions''),
     (''provider.list'', ''Connected model''), (''provider.usage'', ''Model usage''),
     (''receipt.list'', ''Recent outcomes''), (''receipt.verify'', ''Outcome verification''),
     (''schedule.list'', ''Scheduled work''), (''skill.list'', ''Available abilities''),
     (''skill.lifecycle'', ''Ability history''), (''soul.get'', ''Identity and guiding values''),
     (''swarm.list'', ''Active helpers''), (''supervisor.list'', ''Agent supervisor''),
     (''supervisor.get'', ''Supervised outcome''), (''system.health'', ''Service health''),
     (''system.metrics'', ''Performance''), (''taskgraph.get'', ''Goal map''), (''taskgraph.todo'', ''Next steps''),
     (''tool.readiness'', ''Actions ready to use''), (''tool.surface'', ''Available actions''),
     (''work.brief'', ''Current outcome and next action''), (''workflow.list'', ''Reusable workflows''),
     (''workspace.capabilities'', ''Workspace hosts'')]"

definition operationTitle :: "unicode \<Rightarrow> jstring \<Rightarrow> jstring" where
  "operationTitle un operation = (case table_get operation_labels operation of
      Some l \<Rightarrow> lit l
    | None \<Rightarrow> join middot (map (surface_humanize un) (split_on 46 operation)))"

definition operation_descriptions :: "(string \<times> string) list" where
  "operation_descriptions = [
     (''automatrix.list'', ''Work Ion has proposed doing in the background.''),
     (''artifact.list'', ''Deliverables recorded against completion criteria and their verification state.''),
     (''autonomy.get'', ''Whether background initiative is off, suggest-only, paused, or limited to approved plans.''),
     (''channel.health'', ''Whether messages can be delivered through each connection.''),
     (''channel.list'', ''Places where you can talk with Ion.''),
     (''commands.catalog'', ''Actions supported by this version of Ion.''),
     (''config.get'', ''Non-secret settings that shape how Ion runs.''),
     (''continuity.brief'', ''Completed work, failures, decisions, changed files, pending questions, discoveries, repairs, proposals, incomplete work, and deadlines from allowlisted durable evidence.''),
     (''curiosity.targets'', ''Knowledge gaps Ion has noticed more than once.''),
     (''dreamweaver.beliefs'', ''Carefully derived ideas supported by several saved sources.''),
     (''integrity.latest'', ''The result of the most recent record-integrity check.''),
     (''logs.query'', ''Recent operational activity, with private values removed.''),
     (''liveness.get'', ''Current workload, timing, relationship, and communication signals.''),
     (''mcp.servers'', ''External tool services available to Ion.''),
     (''mcp.tools'', ''Actions supplied by connected tool services.''),
     (''memory.activation'', ''Knowledge selected to help with the current conversation.''),
     (''memory.graph'', ''How saved knowledge is connected and protected.''),
     (''memory.search'', ''Facts, preferences, and other items explicitly saved for later.''),
     (''plugin.list'', ''Optional add-ons installed for this Ion instance.''),
     (''project.list'', ''Engineering projects attached to this account and their real workspace state.''),
     (''studio.intent.list'', ''What Ion understood, visible assumptions, proposed behavior, risks, criteria, and approval state.''),
     (''policy.events'', ''Recent allow, deny, and approval decisions.''),
     (''prediction.list'', ''Expected results Ion will compare with what actually happens.''),
     (''premise.list'', ''Unconfirmed ideas Ion is currently using while reasoning.''),
     (''provider.list'', ''The AI model used for conversations, planning, and agent work.''),
     (''provider.usage'', ''Recent model requests and failures.''),
     (''receipt.list'', ''Recorded evidence for completed actions.''),
     (''receipt.verify'', ''Whether recorded action evidence still matches.''),
     (''schedule.list'', ''Recurring work and future checks.''),
     (''skill.list'', ''Reusable procedures Ion can follow.''),
     (''skill.lifecycle'', ''Active abilities, validation decisions, and retained versions available for rollback.''),
     (''soul.get'', ''The stable values and behavior rules Ion follows.''),
     (''swarm.list'', ''Additional agents currently helping with work.''),
     (''supervisor.list'', ''Durable outcome plans, live per-specialist progress, budgets, retries, conflicts, and restart reconciliation.''),
     (''supervisor.get'', ''One authoritative supervisor run with every specialist packet, attempt, lease, budget, and finding.''),
     (''system.health'', ''Whether the main service is ready to accept work.''),
     (''system.metrics'', ''Bounded service and event-stream performance information.''),
     (''taskgraph.get'', ''The current plan and recent recovery state.''),
     (''taskgraph.todo'', ''Plan steps that still need work.''),
     (''tool.readiness'', ''Which actions can run now and which need setup.''),
     (''tool.surface'', ''Actions currently available to the model.''),
     (''work.brief'', ''The durable definition of success, next action, blockers, and verified completion coverage.''),
     (''workflow.list'', ''Curated staged procedures with entry conditions, evidence, and human gates.''),
     (''workspace.capabilities'', ''Local, container, and remote workspace capabilities negotiated with this runtime.'')]"

definition operationDescription :: "jstring \<Rightarrow> string" where
  "operationDescription operation = (case table_get operation_descriptions operation of
      Some d \<Rightarrow> d | None \<Rightarrow> ''Current information from the running Ion service.'')"

section \<open>Values\<close>

definition isTechnicalField :: "jstring \<Rightarrow> bool" where
  "isTechnicalField key \<longleftrightarrow> one_of [''id'', ''hash'', ''soul_hash'', ''checkpoint'', ''revision'', ''sequence''] key \<or>
     ends_with ''_id'' key \<or> ends_with ''_ids'' key \<or> ends_with ''_hash'' key"

definition primaryRecordField :: "jsval \<Rightarrow> (jstring \<times> jsval) option" where
  "primaryRecordField v = (case find (\<lambda>key. filled (fld v key) \<noteq> None)
        [''statement'', ''content'', ''title'', ''name'', ''label'', ''description'', ''operation''] of
      Some key \<Rightarrow> Some (lit key, fld v key)
    | None \<Rightarrow> (case fld v ''status'' of JStr s \<Rightarrow> Some (lit ''status'', JStr s) | _ \<Rightarrow> None))"

text \<open>The text of a value two levels down, where nothing is expanded any more.\<close>

definition friendly_text :: "platform \<Rightarrow> formats \<Rightarrow> jsval \<Rightarrow> jstring \<Rightarrow> jstring" where
  "friendly_text pf fm v key = (case v of
      JArr xs \<Rightarrow> if xs = [] then lit ''None''
        else if key = lit ''affected_subgoals'' then nat_text (length xs) @ lit '' '' @ pluralize ''plan area'' (length xs)
        else nat_text (length xs) @ lit '' '' @ pluralize ''item'' (length xs)
    | JObj ps \<Rightarrow> nat_text (length ps) @ lit '' '' @ pluralize ''detail'' (length ps)
    | _ \<Rightarrow> formatScalar pf fm v key)"

text \<open>
  A list shows at most six items, each with its title and at most four facts, and the number of items
  when there are more. An item that is no object has no facts.
\<close>

record readable_item =
  ri_title :: jstring
  ri_facts :: "(jstring \<times> jstring) list"

definition item_facts :: "jsval \<Rightarrow> (jstring \<times> jsval) list" where
  "item_facts v = (case v of
      JObj ps \<Rightarrow> take 4 (filter (\<lambda>(key, x). Some key \<noteq> map_option fst (primaryRecordField v) \<and> \<not> isTechnicalField key) ps)
    | _ \<Rightarrow> [])"

definition readable_record :: "platform \<Rightarrow> formats \<Rightarrow> jstring \<Rightarrow> jsval \<Rightarrow> readable_item" where
  "readable_record pf fm operation v =
     (if \<not> isRecord v then \<lparr>ri_title = formatScalar pf fm v [], ri_facts = []\<rparr>
      else \<lparr>ri_title = (case primaryRecordField v of
           None \<Rightarrow> operationTitle (fm_unicode fm) operation @ lit '' item''
         | Some (key, x) \<Rightarrow> formatScalar pf fm x key),
         ri_facts = map (\<lambda>(key, x). (fieldLabel (fm_unicode fm) key, friendly_text pf fm x key)) (item_facts v)\<rparr>)"

record readable_list =
  rl_items :: "readable_item list"
  rl_more :: "nat option"

definition ReadableList :: "platform \<Rightarrow> formats \<Rightarrow> jstring option \<Rightarrow> jsval list \<Rightarrow> readable_list" where
  "ReadableList pf fm operation vs =
     \<lparr>rl_items = map (readable_record pf fm (case operation of None \<Rightarrow> lit ''details'' | Some op \<Rightarrow> op)) (take 6 vs),
      rl_more = (if length vs > 6 then Some (length vs) else None)\<rparr>"

text \<open>The fields of an object; \<open>friendlyValue\<close> at the first level, where lists and objects are still expanded.\<close>

definition shown_fields :: "jsval \<Rightarrow> (jstring \<times> jsval) list" where
  "shown_fields v = (case v of JObj ps \<Rightarrow> take 14 (filter (\<lambda>(key, x). \<not> isTechnicalField key) ps) | _ \<Rightarrow> [])"

datatype friendly = Text jstring | Entries readable_list | Fields "(jstring \<times> jstring) list"

definition friendlyValue :: "platform \<Rightarrow> formats \<Rightarrow> jstring option \<Rightarrow> jsval \<Rightarrow> jstring \<Rightarrow> friendly" where
  "friendlyValue pf fm operation v key = (case v of
      JArr xs \<Rightarrow>
        if xs = [] then Text (lit ''None'')
        else if key = lit ''affected_subgoals'' then Text (nat_text (length xs) @ lit '' '' @ pluralize ''plan area'' (length xs))
        else if list_all (\<lambda>x. \<not> isRecord x) xs
          then (let visible = map (\<lambda>x. formatScalar pf fm x key) (take 4 xs) in
            Text (join (lit '', '') visible @
              (if length xs > length visible then middot @ nat_text (length xs - length visible) @ lit '' more'' else [])))
        else Entries (ReadableList pf fm operation xs)
    | JObj ps \<Rightarrow> Fields (map (\<lambda>(k, x). (fieldLabel (fm_unicode fm) k, friendly_text pf fm x k)) (shown_fields v))
    | _ \<Rightarrow> Text (formatScalar pf fm v key))"

definition ReadableRecord :: "platform \<Rightarrow> formats \<Rightarrow> jstring option \<Rightarrow> jsval \<Rightarrow> (jstring \<times> friendly) list" where
  "ReadableRecord pf fm operation v =
     map (\<lambda>(key, x). (fieldLabel (fm_unicode fm) key, friendlyValue pf fm operation x key)) (shown_fields v)"

section \<open>What is shown\<close>

lemma surfaceState_ready:
  "surfaceState isPending isError v = SurfaceReady \<longleftrightarrow> \<not> isPending \<and> \<not> isError \<and> projectionProblem v = None \<and> \<not> isEmptyValue v"
  by (cases "projectionProblem v") (auto simp: surfaceState_def)

lemma take_filter_subset: "set (take n (filter P xs)) \<subseteq> {x \<in> set xs. P x}"
  using set_take_subset [of n "filter P xs"] by auto

lemma item_facts_shown: "(key, x) \<in> set (item_facts v) \<Longrightarrow> \<not> isTechnicalField key"
  using take_filter_subset by (fastforce simp: item_facts_def split: jsval.splits)

lemma shown_fields_shown: "(key, x) \<in> set (shown_fields v) \<Longrightarrow> \<not> isTechnicalField key"
  using take_filter_subset by (fastforce simp: shown_fields_def split: jsval.splits)

lemma length_item_facts: "length (item_facts v) \<le> 4"
  by (simp add: item_facts_def split: jsval.splits)

lemma length_shown_fields: "length (shown_fields v) \<le> 14"
  by (simp add: shown_fields_def split: jsval.splits)

text \<open>
  A page shows a bounded part of a value: at most six items of a list with four facts each, at most fourteen
  fields of an object, and says how many items there are when it leaves some out. Identifiers, hashes and
  revisions are never among them.
\<close>

theorem shown_value_bounded:
  "length (rl_items (ReadableList pf fm operation vs)) = min 6 (length vs) \<and>
   (rl_more (ReadableList pf fm operation vs) = None \<longleftrightarrow> length vs \<le> 6) \<and>
   list_all (\<lambda>item. length (ri_facts item) \<le> 4) (rl_items (ReadableList pf fm operation vs)) \<and>
   length (ReadableRecord pf fm operation v) \<le> 14 \<and>
   list_all (\<lambda>(key, x). \<not> isTechnicalField key) (item_facts v @ shown_fields v)"
  using length_item_facts length_shown_fields item_facts_shown shown_fields_shown
  by (auto simp: ReadableList_def ReadableRecord_def readable_record_def list_all_iff)

lemma length_compactDisplayText: "length (compactDisplayText s) \<le> 280"
  by (simp add: compactDisplayText_def Let_def ellipsis_def)

lemma length_format_text:
  "\<lbrakk>\<not> ends_with ''_at'' key; key \<noteq> lit ''status''\<rbrakk> \<Longrightarrow> length (format_text fm t key) \<le> 280"
  using length_compactDisplayText by (auto simp: format_text_def lit_def split: option.splits)

text \<open>A record saved as JSON is not shortened: its statement is shown whole, however long it is.\<close>

lemma summary_statement:
  assumes "json_parse s = Some (JObj [(lit ''statement'', JStr t)])" "prefix [123] (trim_start s)" "trim t \<noteq> []"
  shows "formatScalar pf fm (JStr s) key = t"
proof -
  have "s \<noteq> []" using assms(2) by (auto simp: trim_start_def)
  moreover have "filled (fld (JObj [(lit ''statement'', JStr t)]) ''name'') = None"
    "filled (fld (JObj [(lit ''statement'', JStr t)]) ''statement'') = Some t"
    using assms(3) by (auto simp: filled_def lit_def)
  ultimately show ?thesis using assms by (simp add: formatScalar_def summarizeStructuredContent_def)
qed

end
