(* ===== verification/SurfaceControls.thy ===== *)
theory SurfaceControls
  imports Surfaces
begin

text \<open>
  The controls on the data pages of \<open>ui/web/src/routes/SubsystemRoutes.tsx\<close>: the safety check, the guidance
  of supervised work, the limits of background work, the decisions on specifications and proposals, and the
  preferences. The values shown come with an input; the buttons a value does not show do nothing.
\<close>

section \<open>The action of a page\<close>

record subsystem =
  sb_notice :: "jstring option"
  sb_period :: string

definition initial_subsystem :: subsystem where
  "initial_subsystem = \<lparr>sb_notice = None, sb_period = ''24h''\<rparr>"

text \<open>The operation and the label of the action of a page.\<close>

definition mutationForSurface :: "string \<Rightarrow> (string \<times> string) option" where
  "mutationForSurface path = (if path = ''/diagnostics'' then Some (''integrity.run'', ''Run a safety check'') else None)"

datatype subsystem_task = RunMutation string | SubsystemRefetch
datatype subsystem_input = ChoosePeriod string | PressMutation

fun subsystem_react :: "(jstring option \<times> surface) \<times> subsystem_input \<Rightarrow> subsystem \<Rightarrow> (subsystem, subsystem_task) web_result" where
  "subsystem_react ((session, surface), ChoosePeriod period) s =
     (if su_path surface = ''/since-away'' \<and> period \<in> set [''24h'', ''7d'', ''30d''] then (s\<lparr>sb_period := period\<rparr>, []) else (s, []))"
| "subsystem_react ((session, surface), PressMutation) s = (case mutationForSurface (su_path surface) of
      None \<Rightarrow> (s, [])
    | Some (operation, label) \<Rightarrow> (s, [Sends (RunMutation label) (command_call operation (JObj []) (scope_of session))]))"

fun subsystem_proceed :: "subsystem_task \<Rightarrow> jsval reply \<Rightarrow> subsystem \<Rightarrow> (subsystem, subsystem_task) web_result" where
  "subsystem_proceed (RunMutation label) r s = (case r of
      Rejected _ \<Rightarrow> (s, [])
    | Refused m \<Rightarrow> (s\<lparr>sb_notice := Some m\<rparr>, [])
    | Answered _ \<Rightarrow> (s\<lparr>sb_notice := Some (lit label @ lit '' completed.'')\<rparr>, [Refetches SubsystemRefetch [lit ''surface'']]))"
| "subsystem_proceed SubsystemRefetch r s = (s, [])"

section \<open>Supervised work\<close>

definition record_elems :: "jsval \<Rightarrow> jsval list" where
  "record_elems v = filter isRecord (elems v)"

definition runID :: "jsval \<Rightarrow> jstring" where
  "runID v = (case fld v ''id'' of JStr i \<Rightarrow> i | _ \<Rightarrow> [])"

definition run_active :: "platform \<Rightarrow> jsval \<Rightarrow> bool" where
  "run_active pf v = (\<not> one_of [''cancelled'', ''completed''] (to_string pf (or_else (fld v ''status'') (JStr (lit ''waiting'')))))"

text \<open>How many workstreams run, are completed, and need attention.\<close>

definition run_counts :: "jsval \<Rightarrow> nat \<times> nat \<times> nat" where
  "run_counts v = (let n = (\<lambda>names. length (filter (\<lambda>t. case fld t ''status'' of JStr s \<Rightarrow> one_of names s | _ \<Rightarrow> False)
       (record_elems (fld v ''tasks'')))) in
     (n [''running''], n [''completed''], n [''blocked'', ''outcome_unknown'', ''waiting_evidence'']))"

definition task_progress :: "platform \<Rightarrow> jsval \<Rightarrow> jsnum" where
  "task_progress pf task = (case count_of pf (fld task ''progress'') of
      Fin q \<Rightarrow> Fin (max 0 (min 100 q))
    | PosInf \<Rightarrow> Fin 100
    | NegInf \<Rightarrow> Fin 0
    | NaN \<Rightarrow> NaN)"

record supervised =
  sv_instruction :: jstring
  sv_error :: "jstring option"
  sv_pending :: bool
  sv_notice :: "jstring option"

definition initial_supervised :: supervised where
  "initial_supervised = \<lparr>sv_instruction = [], sv_error = None, sv_pending = False, sv_notice = None\<rparr>"

datatype supervised_task = Supervise bool | SupervisedRefetch bool
datatype supervised_input = TypeInstruction jstring | PressGuidance | PressCancelRun

definition supervise :: "jstring option \<Rightarrow> jsval \<Rightarrow> bool \<Rightarrow> supervised \<Rightarrow> (supervised, supervised_task) web_result" where
  "supervise session run steer s = (s\<lparr>sv_pending := True, sv_error := None\<rparr>,
     [Sends (Supervise steer) (command_call (if steer then ''supervisor.steer'' else ''supervisor.cancel'')
       (JObj ([str_field ''run_id'' (runID run)] @ (if steer then [str_field ''instruction'' (trim (sv_instruction s))] else [])))
       (scope_of session))])"

fun supervised_react ::
    "platform \<Rightarrow> (jstring option \<times> jsval) \<times> supervised_input \<Rightarrow> supervised \<Rightarrow> (supervised, supervised_task) web_result" where
  "supervised_react pf ((session, run), TypeInstruction v) s =
     (if run_active pf run \<and> runID run \<noteq> [] then (s\<lparr>sv_instruction := v\<rparr>, []) else (s, []))"
| "supervised_react pf ((session, run), PressGuidance) s =
     (if run_active pf run \<and> runID run \<noteq> [] \<and> \<not> sv_pending s \<and> trim (sv_instruction s) \<noteq> [] then supervise session run True s
      else (s, []))"
| "supervised_react pf ((session, run), PressCancelRun) s =
     (if run_active pf run \<and> runID run \<noteq> [] \<and> \<not> sv_pending s then supervise session run False s else (s, []))"

fun supervised_proceed ::
    "chat_env \<Rightarrow> supervised_task \<Rightarrow> jsval reply \<Rightarrow> supervised \<Rightarrow> (supervised, supervised_task) web_result" where
  "supervised_proceed env (Supervise steer) r s = (case r of
      Rejected err \<Rightarrow> (s\<lparr>sv_error := Some (chat_error env err), sv_pending := False\<rparr>, [])
    | Refused m \<Rightarrow> (s\<lparr>sv_error := Some m, sv_pending := False\<rparr>, [])
    | Answered _ \<Rightarrow> (s\<lparr>sv_notice := Some (lit (if steer then ''Guidance added to the active supervised outcome.''
          else ''Supervised work cancelled.''))\<rparr>,
        [Refetches (SupervisedRefetch steer) [lit ''surface'', lit ''supervisor.list'']]))"
| "supervised_proceed env (SupervisedRefetch steer) r s =
     (s\<lparr>sv_instruction := (if steer then [] else sv_instruction s), sv_pending := False\<rparr>, [])"

section \<open>Background work\<close>

record autonomy =
  ay_notice :: "jstring option"

datatype autonomy_task = AutonomyUpdate jstring bool | AutonomyRefetch | BriefRefetch
datatype autonomy_input = PressSuggest | PressApproved | PressPause | PressOff

definition autonomy_mode :: "jsval \<Rightarrow> jstring" where
  "autonomy_mode v = (case fld v ''mode'' of
      JStr m \<Rightarrow> if one_of [''off'', ''approved''] m then m else lit ''suggest''
    | _ \<Rightarrow> lit ''suggest'')"

definition autonomy_limits :: "(string \<times> int) list" where
  "autonomy_limits = [(''max_tool_calls'', 20), (''max_tokens'', 64000), (''max_elapsed_seconds'', 1800), (''max_errors'', 3),
     (''cooldown_seconds'', 300)]"

definition autonomy_update ::
    "platform \<Rightarrow> jstring option \<Rightarrow> jsval \<Rightarrow> jstring \<Rightarrow> bool \<Rightarrow> autonomy \<Rightarrow> (autonomy, autonomy_task) web_result" where
  "autonomy_update pf session v mode paused s = (s, [Sends (AutonomyUpdate mode paused) (command_call ''autonomy.update''
     (JObj ([str_field ''mode'' mode, (lit ''paused'', JBool paused)] @
       map (\<lambda>(name, n). (lit name, JNum (to_number pf (or_else (fld v name) (JInt n))))) autonomy_limits))
     (scope_of session))])"

fun autonomy_react ::
    "platform \<Rightarrow> (jstring option \<times> jsval) \<times> autonomy_input \<Rightarrow> autonomy \<Rightarrow> (autonomy, autonomy_task) web_result" where
  "autonomy_react pf ((session, v), PressSuggest) s = autonomy_update pf session v (lit ''suggest'') False s"
| "autonomy_react pf ((session, v), PressApproved) s = autonomy_update pf session v (lit ''approved'') False s"
| "autonomy_react pf ((session, v), PressPause) s =
     autonomy_update pf session v (autonomy_mode v) (fld v ''paused'' \<noteq> JBool True) s"
| "autonomy_react pf ((session, v), PressOff) s = autonomy_update pf session v (lit ''off'') False s"

fun autonomy_proceed :: "autonomy_task \<Rightarrow> jsval reply \<Rightarrow> autonomy \<Rightarrow> (autonomy, autonomy_task) web_result" where
  "autonomy_proceed (AutonomyUpdate mode paused) r s = (case r of
      Rejected _ \<Rightarrow> (s, [])
    | Refused m \<Rightarrow> (s\<lparr>ay_notice := Some m\<rparr>, [])
    | Answered _ \<Rightarrow> (s\<lparr>ay_notice := Some (if paused then lit ''Background work paused.''
          else lit ''Autonomy set to '' @ mode @ lit ''.'')\<rparr>,
        [Refetches AutonomyRefetch [lit ''surface'', lit ''autonomy.get'']]))"
| "autonomy_proceed AutonomyRefetch r s = (s, [Refetches BriefRefetch [lit ''surface'', lit ''work.brief'']])"
| "autonomy_proceed BriefRefetch r s = (s, [])"

text \<open>The limits the page shows.\<close>

definition shown_limits :: "platform \<Rightarrow> jsval \<Rightarrow> jsnum list" where
  "shown_limits pf v = map (\<lambda>name. count_of pf (fld v name)) [''max_tool_calls'', ''max_tokens'', ''max_elapsed_seconds'', ''max_errors'']"

section \<open>Specifications\<close>

record intents_view =
  iv_notice :: "jstring option"
  iv_decisions :: "jstring dict"

datatype intents_task = IntentDecide bool | IntentApply | IntentRefetch
datatype intents_input = TypeDecision jsval jstring | PressDecide jsval jsval bool | PressApplyProposal jsval jsval

definition listed_proposal :: "jsval \<Rightarrow> jsval \<Rightarrow> jsval \<Rightarrow> bool" where
  "listed_proposal v intent proposal \<longleftrightarrow> intent \<in> set (record_elems (fld v ''intents'')) \<and>
     proposal \<in> set (record_elems (fld intent ''proposals''))"

definition proposal_status :: "platform \<Rightarrow> jsval \<Rightarrow> jstring" where
  "proposal_status pf proposal = to_string pf (or_else (fld proposal ''status'') (JStr (lit ''proposed'')))"

definition open_assumption :: "jsval \<Rightarrow> jsval \<Rightarrow> bool" where
  "open_assumption v a \<longleftrightarrow> list_ex (\<lambda>intent. a \<in> set (record_elems (fld intent ''assumptions''))) (record_elems (fld v ''intents'')) \<and>
     fld a ''material'' = JBool True \<and> fld a ''resolution'' = JUndef"

definition intent_fields :: "platform \<Rightarrow> jsval \<Rightarrow> jsval \<Rightarrow> (jstring \<times> jsval) list" where
  "intent_fields pf intent proposal =
     [str_field ''intent_id'' (to_string pf (fld intent ''id'')), str_field ''proposal_id'' (to_string pf (fld proposal ''id''))]"

fun intents_react ::
    "platform \<Rightarrow> (jstring option \<times> jsval) \<times> intents_input \<Rightarrow> intents_view \<Rightarrow> (intents_view, intents_task) web_result" where
  "intents_react pf ((session, v), TypeDecision a t) s =
     (if open_assumption v a then (s\<lparr>iv_decisions := dict_put (to_string pf (fld a ''id'')) t (iv_decisions s)\<rparr>, []) else (s, []))"
| "intents_react pf ((session, v), PressDecide intent proposal accept) s =
     (if listed_proposal v intent proposal \<and> proposal_status pf proposal = lit ''proposed''
      then (s, [Sends (IntentDecide accept) (command_call ''studio.proposal.decide''
        (JObj (intent_fields pf intent proposal @ [(lit ''accept'', JBool accept),
          lit_field ''reason'' (if accept then ''Approved in Software Studio'' else ''Rejected in Software Studio''),
          (lit ''assumption_decisions'', JObj (map (\<lambda>(k, t). (k, JStr t)) (iv_decisions s)))]))
        (scope_of session))])
      else (s, []))"
| "intents_react pf ((session, v), PressApplyProposal intent proposal) s =
     (if listed_proposal v intent proposal \<and> proposal_status pf proposal = lit ''accepted'' \<and> fld proposal ''applied_at'' = JUndef
      then (s, [Sends IntentApply (command_call ''studio.proposal.apply'' (JObj (intent_fields pf intent proposal)) (scope_of session))])
      else (s, []))"

fun intents_proceed :: "intents_task \<Rightarrow> jsval reply \<Rightarrow> intents_view \<Rightarrow> (intents_view, intents_task) web_result" where
  "intents_proceed IntentRefetch r s = (s, [])"
| "intents_proceed task r s = (case r of
      Rejected _ \<Rightarrow> (s, [])
    | Refused m \<Rightarrow> (s\<lparr>iv_notice := Some m\<rparr>, [])
    | Answered _ \<Rightarrow> (s\<lparr>iv_notice := Some (lit (case task of
          IntentDecide True \<Rightarrow> ''Specification accepted. Review application before implementation.''
        | IntentDecide False \<Rightarrow> ''Specification rejected. No project files were changed.''
        | _ \<Rightarrow> ''The accepted change was written to the authoritative specification and generated views were refreshed.''))\<rparr>,
        [Refetches IntentRefetch [lit ''surface'', lit ''studio.intent.list'']]))"

section \<open>Proposals for background work\<close>

record automatrix =
  ax_notice :: "jstring option"

datatype automatrix_task = AutomatrixDecide bool | AutomatrixRefetch
datatype automatrix_input = PressApproveItem jsval | PressDismissItem jsval

definition shown_item :: "jsval list \<Rightarrow> jsval \<Rightarrow> bool" where
  "shown_item vs item \<longleftrightarrow> item \<in> set (take 8 (filter isRecord vs))"

definition automatrix_decide ::
    "jstring option \<Rightarrow> jsval \<Rightarrow> bool \<Rightarrow> automatrix \<Rightarrow> (automatrix, automatrix_task) web_result" where
  "automatrix_decide session item approve s = (case fld item ''id'' of
      JStr i \<Rightarrow> (s, [Sends (AutomatrixDecide approve) (command_call (if approve then ''automatrix.approve'' else ''automatrix.reject'')
        (JObj ([str_field ''item_id'' i] @ (if approve then [(lit ''actions'', JArr (elems (fld item ''actions'')))] else [])))
        (scope_of session))])
    | _ \<Rightarrow> (s, []))"

fun automatrix_react ::
    "(jstring option \<times> jsval list) \<times> automatrix_input \<Rightarrow> automatrix \<Rightarrow> (automatrix, automatrix_task) web_result" where
  "automatrix_react ((session, vs), PressApproveItem item) s =
     (if shown_item vs item \<and> elems (fld item ''actions'') \<noteq> [] then automatrix_decide session item True s else (s, []))"
| "automatrix_react ((session, vs), PressDismissItem item) s =
     (if shown_item vs item then automatrix_decide session item False s else (s, []))"

fun automatrix_proceed :: "automatrix_task \<Rightarrow> jsval reply \<Rightarrow> automatrix \<Rightarrow> (automatrix, automatrix_task) web_result" where
  "automatrix_proceed (AutomatrixDecide approve) r s = (case r of
      Rejected _ \<Rightarrow> (s, [])
    | Refused m \<Rightarrow> (s\<lparr>ax_notice := Some m\<rparr>, [])
    | Answered _ \<Rightarrow> (s\<lparr>ax_notice := Some (lit (if approve then ''Background investigation approved.''
          else ''Background proposal dismissed.''))\<rparr>,
        [Refetches AutomatrixRefetch [lit ''surface'', lit ''automatrix.list'']]))"
| "automatrix_proceed AutomatrixRefetch r s = (s, [])"

section \<open>Preferences\<close>

record relationship =
  rp_domain :: jstring
  rp_notice :: "jstring option"

definition initial_relationship :: "jsval list \<Rightarrow> relationship" where
  "initial_relationship vs = \<lparr>rp_domain = (case vs of [] \<Rightarrow> lit ''general''
      | v # _ \<Rightarrow> (case fld v ''domain'' of JStr d \<Rightarrow> d | _ \<Rightarrow> lit ''general'')), rp_notice = None\<rparr>"

text \<open>\<open>split(/[\\n,]/)\<close>, trimmed and without empty parts.\<close>

fun split_items :: "jstring \<Rightarrow> jstring list" where
  "split_items [] = [[]]"
| "split_items (u # s) = (if u = 10 \<or> u = 44 then [] # split_items s
     else case split_items s of [] \<Rightarrow> [[u]] | w # ws \<Rightarrow> (u # w) # ws)"

definition list_items :: "jstring \<Rightarrow> jstring list" where
  "list_items s = filter (\<lambda>w. w \<noteq> []) (map trim (split_items s))"

definition text_preferences :: "string list" where
  "text_preferences = [''response_length'', ''directness'', ''domain_expertise'', ''risk_tolerance'', ''notification_cadence'']"

definition switch_preferences :: "string list" where
  "switch_preferences = [''conclusion_first'', ''proactive_suggestions'']"

definition list_preferences :: "string list" where
  "list_preferences = [''preferred_tools'', ''dislikes'', ''constraints'', ''project_principles'']"

text \<open>What the form holds is a function from the names of its fields.\<close>

definition preference_patch :: "(string \<Rightarrow> jstring) \<Rightarrow> (string \<times> jsval) list" where
  "preference_patch form =
     map (\<lambda>name. (name, JStr (trim (form name)))) (filter (\<lambda>name. trim (form name) \<noteq> []) text_preferences) @
     map (\<lambda>name. (name, JBool (form name = lit ''true'')))
       (filter (\<lambda>name. form name = lit ''true'' \<or> form name = lit ''false'') switch_preferences) @
     map (\<lambda>name. (name, JArr (map JStr (list_items (form name))))) (filter (\<lambda>name. list_items (form name) \<noteq> []) list_preferences)"

datatype relationship_task = RelationshipUpdate string | RelationshipRefetch
datatype relationship_input =
    ChooseDomain jstring
  | SavePreferences "string \<Rightarrow> jstring"
  | RemovePreference jstring
  | PressPin
  | PressPropose

definition relationship_send ::
    "jstring option \<Rightarrow> (jstring \<times> jsval) list \<Rightarrow> string \<Rightarrow> relationship \<Rightarrow> (relationship, relationship_task) web_result" where
  "relationship_send session ps success s = (s, [Sends (RelationshipUpdate success)
     (command_call ''relationship.update'' (JObj ([str_field ''domain'' (rp_domain s)] @ ps)) (scope_of session))])"

fun relationship_react ::
    "jstring option \<times> relationship_input \<Rightarrow> relationship \<Rightarrow> (relationship, relationship_task) web_result" where
  "relationship_react (session, ChooseDomain d) s = (s\<lparr>rp_domain := d\<rparr>, [])"
| "relationship_react (session, SavePreferences form) s = relationship_send session
     [lit_field ''action'' ''correct'', (lit ''patch'', JObj (map (\<lambda>(name, v). (lit name, v)) (preference_patch form)))]
     ''Relationship preferences saved.'' s"
| "relationship_react (session, RemovePreference field) s = relationship_send session
     [lit_field ''action'' ''remove'', (lit ''fields'', JArr [JStr field])] ''Preference removed.'' s"
| "relationship_react (session, PressPin) s = relationship_send session
     [lit_field ''action'' ''pin'', (lit ''fields'', JArr [JStr (lit ''response_length''), JStr (lit ''project_principles'')])]
     ''Important preferences pinned.'' s"
| "relationship_react (session, PressPropose) s = relationship_send session [lit_field ''action'' ''propose_soul_v2'']
     ''SOUL v2 proposal created for review. Nothing was applied.'' s"

fun relationship_proceed :: "relationship_task \<Rightarrow> jsval reply \<Rightarrow> relationship \<Rightarrow> (relationship, relationship_task) web_result" where
  "relationship_proceed (RelationshipUpdate success) r s = (case r of
      Rejected _ \<Rightarrow> (s, [])
    | Refused m \<Rightarrow> (s\<lparr>rp_notice := Some m\<rparr>, [])
    | Answered _ \<Rightarrow> (s\<lparr>rp_notice := Some (lit success)\<rparr>, [Refetches RelationshipRefetch [lit ''surface'', lit ''liveness.get'']]))"
| "relationship_proceed RelationshipRefetch r s = (s, [])"

section \<open>One command of a run at a time\<close>

interpretation supervised_flight: single_flight_released "supervised_react pf" "supervised_proceed env" sv_pending
proof (unfold_locales, goal_cases)
  case (1 s u)
  then show ?case by (cases "(pf, u, s)" rule: supervised_react.cases) (auto simp: supervise_def)
next
  case (2 u s)
  then show ?case by (cases "(pf, u, s)" rule: supervised_react.cases) (auto simp: supervise_def)
next
  case (3 u s)
  then show ?case by (cases "(pf, u, s)" rule: supervised_react.cases) (auto simp: supervise_def split: if_splits)
next
  case (4 task r s)
  then show ?case by (cases task; cases r) auto
next
  case (5 s task r)
  then show ?case by (cases task; cases r) auto
next
  case (6 u s)
  then show ?case by (cases "(pf, u, s)" rule: supervised_react.cases) (auto simp: supervise_def split: if_splits)
next
  case (7 task r s)
  then show ?case by (cases task; cases r) auto
qed

text \<open>Guidance typed while the previous one is sent is erased when the answer arrives.\<close>

lemma guidance_erased:
  "fst (supervised_proceed env (SupervisedRefetch True) r (s\<lparr>sv_instruction := v\<rparr>)) =
     s\<lparr>sv_instruction := [], sv_pending := False\<rparr>"
  by simp

section \<open>Decisions\<close>

text \<open>
  (C29) Background work is approved only for an item that is shown, with its own identifier and exactly the
  actions that are listed on it, of which there is at least one.
\<close>

theorem approved_actions_listed:
  assumes "c \<in> set (calls (snd (automatrix_react ((session, vs), u) s)))" "cl_operation c = lit ''automatrix.approve''"
  shows "\<exists>item i actions. u = PressApproveItem item \<and> item \<in> set vs \<and> fld item ''id'' = JStr i \<and>
    fld item ''actions'' = JArr actions \<and> actions \<noteq> [] \<and>
    cl_payload c = JObj [str_field ''item_id'' i, (lit ''actions'', JArr actions)]"
proof (cases u)
  case (PressApproveItem item)
  have "shown_item vs item" "elems (fld item ''actions'') \<noteq> []" using assms(1) PressApproveItem by (auto split: if_splits)
  then have "item \<in> set vs" by (auto simp: shown_item_def dest: in_set_takeD)
  moreover obtain actions where "fld item ''actions'' = JArr actions" "actions \<noteq> []"
    using \<open>elems (fld item ''actions'') \<noteq> []\<close> by (cases "fld item ''actions''") auto
  ultimately show ?thesis
    using assms(1) PressApproveItem
    by (auto simp: automatrix_decide_def command_call_def split: if_splits jsval.splits)
next
  case (PressDismissItem item)
  then have "cl_operation c = lit ''automatrix.reject''"
    using assms(1) by (auto simp: automatrix_decide_def command_call_def split: if_splits jsval.splits)
  then show ?thesis using assms(2) by (simp add: lit_def)
qed

definition example_proposal :: jsval where
  "example_proposal = JObj [str_field ''id'' (lit ''p1''), (lit ''actions'', JArr [JStr (lit ''search'')])]"

theorem approved_actions_listed_witness:
  "\<exists>item i actions. PressApproveItem example_proposal = PressApproveItem item \<and> item \<in> set [example_proposal] \<and>
    fld item ''id'' = JStr i \<and> fld item ''actions'' = JArr actions \<and> actions \<noteq> [] \<and>
    JObj [str_field ''item_id'' (lit ''p1''), (lit ''actions'', JArr [JStr (lit ''search'')])] =
      JObj [str_field ''item_id'' i, (lit ''actions'', JArr actions)]"
  using approved_actions_listed [of "command_call ''automatrix.approve''
      (JObj [str_field ''item_id'' (lit ''p1''), (lit ''actions'', JArr [JStr (lit ''search'')])]) (scope_of None)"
      None "[example_proposal]" "PressApproveItem example_proposal" "\<lparr>ax_notice = None\<rparr>"]
  by (simp add: automatrix_decide_def shown_item_def example_proposal_def command_call_def str_field_def lit_def)

text \<open>The mode of background work changes to approved plans only by its own button.\<close>

lemma autonomy_approved_explicit:
  assumes "c \<in> set (calls (snd (autonomy_react pf ((session, v), u) s)))" "fld (cl_payload c) ''mode'' = JStr (lit ''approved'')"
  shows "u = PressApproved \<or> u = PressPause \<and> fld v ''mode'' = JStr (lit ''approved'')"
  using assms
  by (cases u) (auto simp: autonomy_update_def command_call_def str_field_def autonomy_mode_def lit_def
      split: jsval.splits if_splits)

text \<open>The page shows a limit of zero where the value has none, and the update sends another number.\<close>

lemma missing_limit_shown_as_zero:
  "shown_limits pf (JObj []) = [Fin 0, Fin 0, Fin 0, Fin 0] \<and>
   fld (cl_payload (hd (calls (snd (autonomy_react pf ((session, JObj []), PressSuggest) s))))) ''max_tool_calls'' = JInt 20"
  by (simp add: shown_limits_def count_of_def autonomy_update_def command_call_def autonomy_limits_def or_else_def nullish_def
      str_field_def lit_def)

text \<open>
  The decisions typed for the assumptions of one specification are sent with the decision on any other.
\<close>

theorem decisions_cross_specifications:
  assumes "open_assumption v a" "listed_proposal v intent proposal" "proposal_status pf proposal = lit ''proposed''"
  shows "\<exists>c. calls (snd (component_run (intents_react pf) intents_proceed
      [Does ((session, v), TypeDecision a t), Does ((session, v), PressDecide intent proposal accept)]
      (\<lparr>iv_notice = None, iv_decisions = []\<rparr>, []))) = [c] \<and>
    fld (cl_payload c) ''assumption_decisions'' = JObj [(to_string pf (fld a ''id''), JStr t)]"
  using assms by (auto simp: command_call_def lit_def str_field_def lit_field_def intent_fields_def dict_put_def dict_keys_def)

section \<open>Preferences\<close>

lemma split_items_parts: "w \<in> set (split_items s) \<Longrightarrow> 10 \<notin> set w \<and> 44 \<notin> set w"
  by (induction s arbitrary: w) (auto split: list.splits if_splits)

lemma set_trim: "set (trim s) \<subseteq> set s"
  by (auto simp: trim_def trim_start_def dest!: set_dropWhileD)

lemma list_items_clean: "w \<in> set (list_items s) \<Longrightarrow> w \<noteq> [] \<and> 10 \<notin> set w \<and> 44 \<notin> set w"
  using split_items_parts set_trim by (fastforce simp: list_items_def)

text \<open>The values the server may get for a preference.\<close>

definition preference_ok :: "string \<times> jsval \<Rightarrow> bool" where
  "preference_ok p = (case p of (name, v) \<Rightarrow>
     name \<in> set text_preferences \<and> (\<exists>t. v = JStr t \<and> t \<noteq> []) \<or>
     name \<in> set switch_preferences \<and> (\<exists>b. v = JBool b) \<or>
     name \<in> set list_preferences \<and> (\<exists>ws. v = JArr (map JStr ws) \<and> ws \<noteq> [] \<and>
       list_all (\<lambda>w. w \<noteq> [] \<and> 10 \<notin> set w \<and> 44 \<notin> set w) ws))"

lemma preference_names: "map fst (preference_patch form) =
    filter (\<lambda>name. trim (form name) \<noteq> []) text_preferences @
    filter (\<lambda>name. form name = lit ''true'' \<or> form name = lit ''false'') switch_preferences @
    filter (\<lambda>name. list_items (form name) \<noteq> []) list_preferences"
  by (simp add: preference_patch_def comp_def)

text \<open>
  Whatever the form holds, the correction that is sent names each preference at most once and gives it a
  value of its kind: a text that is not empty, a yes or no, or a list of texts without separators; a field
  that was left empty is not sent.
\<close>

theorem preferences_well_formed:
  "list_all preference_ok (preference_patch form) \<and> distinct (map fst (preference_patch form))"
proof
  show "list_all preference_ok (preference_patch form)"
    by (auto simp: preference_patch_def preference_ok_def list_all_iff dest: list_items_clean intro!: exI [of _ "list_items _"])
  have "distinct (text_preferences @ switch_preferences @ list_preferences)"
    by (simp add: text_preferences_def switch_preferences_def list_preferences_def)
  then show "distinct (map fst (preference_patch form))"
    by (auto simp: preference_names)
qed

end
