(* ===== verification/Shell.thy ===== *)
theory Shell
  imports SurfaceControls
begin

text \<open>
  The frame of the web client: the form that signs in (\<open>ui/web/src/app/AuthScreen.tsx\<close>), the side bar with the
  navigation and the sign-out (\<open>ui/web/src/components/OperatorLayout.tsx\<close>), and the routes
  (\<open>ui/web/src/app/App.tsx\<close>).
\<close>

section \<open>Signing in\<close>

text \<open>The message is \<open>payload?.error\<close> as the server sent it, whatever it is.\<close>

record auth =
  au_username :: jstring
  au_password :: jstring
  au_submitting :: bool
  au_message :: jsval
  au_active :: bool

definition initial_auth :: auth where
  "initial_auth = \<lparr>au_username = [], au_password = [], au_submitting = False, au_message = JStr [], au_active = False\<rparr>"

datatype auth_task = AuthStatus | AuthLogin
datatype auth_input = MountAuth | UnmountAuth | TypeUsername jstring | TypePassword jstring | SubmitSignIn

definition accept_json :: "string \<times> jstring" where
  "accept_json = (''Accept'', lit ''application/json'')"

definition status_request :: page_request where
  "status_request = \<lparr>pq_method = ''GET'', pq_path = lit ''/v1/auth/status'', pq_headers = [accept_json], pq_body = NoBody\<rparr>"

definition login_request :: "auth \<Rightarrow> page_request" where
  "login_request s = \<lparr>pq_method = ''POST'', pq_path = lit ''/v1/auth/login'',
     pq_headers = [accept_json, (''Content-Type'', lit ''application/json'')],
     pq_body = JsonBody (JObj [str_field ''username'' (au_username s), str_field ''password'' (au_password s)])\<rparr>"

fun auth_react :: "auth_input \<Rightarrow> auth \<Rightarrow> (auth, auth_task) web_result" where
  "auth_react MountAuth s = (s\<lparr>au_active := True\<rparr>, [Fetches AuthStatus (Inr status_request)])"
| "auth_react UnmountAuth s = (s\<lparr>au_active := False\<rparr>, [])"
| "auth_react (TypeUsername v) s = (s\<lparr>au_username := v\<rparr>, [])"
| "auth_react (TypePassword v) s = (s\<lparr>au_password := v\<rparr>, [])"
| "auth_react SubmitSignIn s =
     (if au_submitting s \<or> au_username s = [] \<or> au_password s = [] then (s, [])
      else (s\<lparr>au_submitting := True, au_message := JStr []\<rparr>, [Fetches AuthLogin (Inr (login_request s))]))"

definition auth_say :: "string \<Rightarrow> auth \<Rightarrow> auth" where
  "auth_say m s = s\<lparr>au_message := JStr (lit m)\<rparr>"

definition auth_checked :: "http_reply \<Rightarrow> auth \<Rightarrow> (auth, auth_task) web_result" where
  "auth_checked r s = (let failed = (if au_active s then auth_say ''Ion is unavailable. Check the deployment and try again.'' s else s) in
     case r of
       Unreachable _ \<Rightarrow> (failed, [])
     | Status n body \<Rightarrow>
         if \<not> status_ok n then (s, [])
         else case body of
           None \<Rightarrow> (failed, [])
         | Some v \<Rightarrow>
             if \<not> au_active s then (s, [])
             else if v = JNull then (failed, [])
             else if truthy (fld v ''authenticated'') then (s, [Reloads])
             else if \<not> truthy (fld v ''required'')
               then (auth_say ''The local operator session is unavailable. Restart Ion and try again.'' s, [])
             else (s, []))"

definition signed_in :: "http_reply \<Rightarrow> auth \<Rightarrow> (auth, auth_task) web_result" where
  "signed_in r s = (let s = s\<lparr>au_submitting := False\<rparr> in
     case r of
       Unreachable _ \<Rightarrow> (auth_say ''Ion is unavailable. Check your connection and try again.'' s, [])
     | Status n body \<Rightarrow>
         if status_ok n then (s, [Goes (lit ''/chat'')])
         else (s\<lparr>au_message := (if n = 429 then JStr (lit ''Too many attempts. Wait before trying again.'')
             else or_else (case body of None \<Rightarrow> JUndef | Some v \<Rightarrow> fld v ''error'') (JStr (lit ''Username or password is incorrect.''))),
           au_password := []\<rparr>, []))"

fun auth_proceed :: "auth_task \<Rightarrow> http_reply \<Rightarrow> auth \<Rightarrow> (auth, auth_task) web_result" where
  "auth_proceed AuthStatus r s = auth_checked r s"
| "auth_proceed AuthLogin r s = signed_in r s"

section \<open>The side bar\<close>

definition conversationNavigation :: "(string \<times> string) list" where
  "conversationNavigation = [(''/chat'', ''Chat''), (''/sessions'', ''Conversations'')]"

definition workspaceNavigation :: "(string \<times> string) list" where
  "workspaceNavigation = [(''/computer'', ''Computer''), (''/media'', ''Media Studio''), (''/office'', ''Office Studio''),
     (''/studio'', ''Software Studio''), (''/work'', ''Projects & tasks''), (''/knowledge'', ''Knowledge'')]"

definition controlNavigation :: "(string \<times> string) list" where
  "controlNavigation = [(''/overview'', ''Overview''), (''/extensions'', ''Models & connections''),
     (''/execution'', ''Actions & decisions''), (''/presence'', ''Schedules & availability''), (''/identity'', ''Personalization''),
     (''/security'', ''Safety''), (''/integrity'', ''Trust & sources''), (''/diagnostics'', ''System'')]"

definition mainNavigation :: "(string \<times> string) list" where
  "mainNavigation = conversationNavigation @ workspaceNavigation"

definition pageTitles :: "(string \<times> string) list" where
  "pageTitles = [(''/chat'', ''Ion''), (''/sessions'', ''Conversations''), (''/work'', ''Projects & tasks''),
     (''/projects'', ''Software Studio''), (''/studio'', ''Software Studio''), (''/knowledge'', ''Knowledge''),
     (''/computer'', ''Computer''), (''/media'', ''Image & Video Studio''), (''/office'', ''Office Studio''),
     (''/extensions'', ''Models & connections''), (''/execution'', ''Actions & decisions''),
     (''/presence'', ''Schedules & availability''), (''/identity'', ''Personalization''), (''/security'', ''Safety''),
     (''/integrity'', ''Trust & sources''), (''/diagnostics'', ''System''), (''/overview'', ''Overview'')]"

definition pageTitle :: "jstring \<Rightarrow> string" where
  "pageTitle path = (if starts_with ''/studio/'' path then ''Software Studio''
     else case table_get pageTitles path of Some t \<Rightarrow> t | None \<Rightarrow> ''Ion'')"

definition topbar_context :: "jstring \<Rightarrow> string" where
  "topbar_context path =
     (if path = lit ''/chat'' then ''Agent workspace''
      else if path = lit ''/computer'' then ''Live private desktop''
      else if path = lit ''/media'' then ''Creative generation workspace''
      else if path = lit ''/office'' then ''Documents, sheets, and presentations''
      else if starts_with ''/studio'' path then ''Embedded project workspace''
      else ''Ion workspace'')"

record layout =
  ly_mobileOpen :: bool
  ly_sidebarCollapsed :: bool
  ly_controlsOpen :: bool
  ly_signingOut :: bool
  ly_signOutFailed :: bool

definition control_path :: "jstring \<Rightarrow> bool" where
  "control_path path = one_of (map fst controlNavigation) path"

definition initial_layout :: "jstring \<Rightarrow> layout" where
  "initial_layout path = \<lparr>ly_mobileOpen = False, ly_sidebarCollapsed = False, ly_controlsOpen = control_path path,
     ly_signingOut = False, ly_signOutFailed = False\<rparr>"

datatype layout_task = SignOut
datatype layout_input =
    RouteChanged jstring
  | OpenMobile
  | CloseMobile
  | ToggleSidebar
  | ToggleControls
  | NewConversation
  | OpenConversation jstring
  | PressSignOut

definition logout_request :: "js_error + jstring \<Rightarrow> js_error + page_request" where
  "logout_request token = (case token of
      Inl err \<Rightarrow> Inl err
    | Inr t \<Rightarrow> Inr \<lparr>pq_method = ''POST'', pq_path = lit ''/v1/auth/logout'', pq_headers = [accept_json, (''X-Ion-CSRF'', t)],
        pq_body = NoBody\<rparr>)"

text \<open>\<open>token\<close> is what reading the cookie gives, and \<open>required\<close> whether the status asks for signing in.\<close>

fun layout_react :: "(js_error + jstring) \<times> bool \<Rightarrow> layout_input \<Rightarrow> layout \<Rightarrow> (layout, layout_task) web_result" where
  "layout_react cx (RouteChanged path) s =
     (s\<lparr>ly_mobileOpen := False, ly_controlsOpen := (control_path path \<or> ly_controlsOpen s)\<rparr>, [])"
| "layout_react cx OpenMobile s = (s\<lparr>ly_mobileOpen := True\<rparr>, [])"
| "layout_react cx CloseMobile s = (s\<lparr>ly_mobileOpen := False\<rparr>, [])"
| "layout_react cx ToggleSidebar s = (s\<lparr>ly_sidebarCollapsed := \<not> ly_sidebarCollapsed s\<rparr>, [])"
| "layout_react cx ToggleControls s =
     (if ly_sidebarCollapsed s then (s\<lparr>ly_sidebarCollapsed := False, ly_controlsOpen := True\<rparr>, [])
      else (s\<lparr>ly_controlsOpen := \<not> ly_controlsOpen s\<rparr>, []))"
| "layout_react cx NewConversation s = (s, [Selects None, Goes (lit ''/chat'')])"
| "layout_react cx (OpenConversation i) s = (s, [Selects (Some i), Goes (lit ''/chat'')])"
| "layout_react (token, required) PressSignOut s =
     (if \<not> required \<or> ly_signingOut s then (s, [])
      else (s\<lparr>ly_signingOut := True, ly_signOutFailed := False\<rparr>, [Fetches SignOut (logout_request token)]))"

fun layout_proceed :: "layout_task \<Rightarrow> http_reply \<Rightarrow> layout \<Rightarrow> (layout, layout_task) web_result" where
  "layout_proceed SignOut r s = (case r of
      Unreachable _ \<Rightarrow> (s\<lparr>ly_signOutFailed := True, ly_signingOut := False\<rparr>, [])
    | Status n body \<Rightarrow>
        if \<not> status_ok n \<and> n \<noteq> 401 then (s\<lparr>ly_signOutFailed := True, ly_signingOut := False\<rparr>, [])
        else (s\<lparr>ly_signingOut := False\<rparr>, [Goes (lit ''/'')]))"

definition sign_out_label :: "layout \<Rightarrow> jstring" where
  "sign_out_label s = (if ly_signingOut s then lit ''Signing out'' @ ellipsis
     else if ly_signOutFailed s then lit ''Try again'' else lit ''Sign out'')"

section \<open>Routes\<close>

datatype page =
    ChatPage | ComputerPage | MediaPage | OfficePage | OverviewPage | SessionsRoute | SecurityRoute | IntegrityRoute | ProjectsRoute
  | WorkspacePage jstring | SurfacePage string | Redirect string

definition fixed_routes :: "(string \<times> page) list" where
  "fixed_routes = [(''/'', Redirect ''/chat''), (''/chat'', ChatPage), (''/computer'', ComputerPage), (''/media'', MediaPage),
     (''/office'', OfficePage), (''/overview'', OverviewPage), (''/sessions'', SessionsRoute), (''/security'', SecurityRoute),
     (''/integrity'', IntegrityRoute), (''/projects'', ProjectsRoute), (''/studio'', ProjectsRoute)]"

text \<open>\<open>/studio/:projectID\<close> matches one segment that is not empty.\<close>

definition route :: "jstring \<Rightarrow> page" where
  "route path = (case table_get fixed_routes path of
      Some p \<Rightarrow> p
    | None \<Rightarrow> (case find (\<lambda>su. path = lit (su_path su)) subsystemSurfaces of
        Some su \<Rightarrow> SurfacePage (su_path su)
      | None \<Rightarrow> (let project = drop 8 path in
          if starts_with ''/studio/'' path \<and> project \<noteq> [] \<and> 47 \<notin> set project then WorkspacePage project else Redirect ''/'')))"

section \<open>Requests that end\<close>

definition login_pending :: "auth \<times> auth_task list \<Rightarrow> bool" where
  "login_pending c \<longleftrightarrow> count_list (snd c) AuthLogin = (if au_submitting (fst c) then 1 else 0)"

lemma count_list_remove1: "count_list (remove1 x xs) y = (if x = y then count_list xs y - 1 else count_list xs y)"
  by (induction xs) (auto simp: count_list_0_iff split: if_splits)

lemma login_pending_step: "login_pending c \<Longrightarrow> login_pending (fst (component_step auth_react auth_proceed h c))"
proof (cases c)
  case (Pair s waiting)
  assume I: "login_pending c"
  show ?thesis
  proof (cases h)
    case (Does u)
    then show ?thesis using I Pair by (cases u) (auto simp: login_pending_def)
  next
    case (Settles task r)
    have keeps: "au_submitting (fst (auth_checked r s)) = au_submitting s" "started (snd (auth_checked r s)) = []"
      "\<not> au_submitting (fst (signed_in r s))" "started (snd (signed_in r s)) = []"
      by (auto simp: auth_checked_def signed_in_def auth_say_def Let_def split: http_reply.splits option.splits)
    show ?thesis
      using I Pair Settles keeps
      by (cases task) (auto simp: login_pending_def count_list_remove1 Let_def case_prod_beta)
  qed
qed

text \<open>
  The form is busy exactly while one request to sign in waits, so it is free again after every answer and
  after every failure; what was typed is sent to the login address only, and nothing else the page sends has
  a body.
\<close>

theorem sign_in_released:
  "case component_run auth_react auth_proceed hs (initial_auth, []) of ((s, waiting), es) \<Rightarrow>
     count_list waiting AuthLogin = (if au_submitting s then 1 else 0) \<and>
     list_all (\<lambda>e. case e of Fetches task (Inr q) \<Rightarrow> task = AuthStatus \<and> q = status_request \<or>
       task = AuthLogin \<and> (\<exists>s. q = login_request s \<and> au_username s \<noteq> [] \<and> au_password s \<noteq> [])
     | Goes path \<Rightarrow> path = lit ''/chat'' | _ \<Rightarrow> e = Reloads) es"
proof -
  let ?ok = "\<lambda>e. case e of Fetches task (Inr q) \<Rightarrow> task = AuthStatus \<and> q = status_request \<or>
       task = AuthLogin \<and> (\<exists>s. q = login_request s \<and> au_username s \<noteq> [] \<and> au_password s \<noteq> [])
     | Goes path \<Rightarrow> path = lit ''/chat'' | _ \<Rightarrow> e = Reloads"
  have "login_pending (fst (component_run auth_react auth_proceed hs (initial_auth, [])))"
    by (rule component_run_invariant [where I = login_pending], erule login_pending_step)
      (simp add: login_pending_def initial_auth_def)
  moreover have "list_all ?ok (snd (component_run auth_react auth_proceed hs c))" for c
  proof (induction hs arbitrary: c)
    case (Cons h hs)
    have "list_all ?ok (snd (component_step auth_react auth_proceed h c))"
    proof (cases h)
      case (Does u)
      then show ?thesis by (cases c; cases u) auto
    next
      case (Settles task r)
      then show ?thesis
        by (cases c; cases task) (auto simp: auth_checked_def signed_in_def Let_def case_prod_beta split: http_reply.splits option.splits)
    qed
    then show ?case using Cons by (simp add: Let_def case_prod_beta)
  qed simp
  ultimately show ?thesis by (auto simp: login_pending_def case_prod_beta split: prod.splits)
qed

text \<open>A refused password is forgotten; nothing but the answer to a login forgets it.\<close>

lemma refused_password_forgotten:
  "\<not> status_ok n \<Longrightarrow> au_password (fst (auth_proceed AuthLogin (Status n body) s)) = []"
  by (simp add: signed_in_def)

interpretation sign_out_flight: single_flight_released "\<lambda>(cx, u). layout_react cx u" layout_proceed ly_signingOut
proof (unfold_locales, goal_cases)
  case (1 s u)
  then show ?case by (cases "(fst u, snd u, s)" rule: layout_react.cases) (auto simp: case_prod_beta)
next
  case (2 u s)
  then show ?case by (cases "(fst u, snd u, s)" rule: layout_react.cases) (auto simp: case_prod_beta)
next
  case (3 u s)
  then show ?case by (cases "(fst u, snd u, s)" rule: layout_react.cases) (auto simp: case_prod_beta split: if_splits)
next
  case (4 task r s)
  then show ?case by (cases task; cases r) auto
next
  case (5 s task r)
  then show ?case by (cases task; cases r) auto
next
  case (6 u s)
  then show ?case by (cases "(fst u, snd u, s)" rule: layout_react.cases) (auto simp: case_prod_beta split: if_splits)
next
  case (7 task r s)
  then show ?case by (cases task; cases r) auto
qed

section \<open>Links\<close>

definition links :: "string list" where
  "links = map fst mainNavigation @ map fst controlNavigation @ map snd globalCommands"

text \<open>
  Every link of the navigation and of the command palette leads to a page and not to the redirection, and
  the page has a title of its own.
\<close>

theorem links_lead_to_pages:
  "list_all (\<lambda>path. (case route (lit path) of Redirect _ \<Rightarrow> False | _ \<Rightarrow> True) \<and> table_get pageTitles (lit path) \<noteq> None) links"
  unfolding route_def fixed_routes_def pageTitles_def links_def
  by (simp add: mainNavigation_def conversationNavigation_def workspaceNavigation_def controlNavigation_def
      globalCommands_def subsystemSurfaces_def lit_def)

text \<open>The page of what happened while one was away is a route that no link leads to; it has no title of its own.\<close>

theorem since_away_unlinked:
  "route (lit ''/since-away'') = SurfacePage ''/since-away'' \<and> ''/since-away'' \<notin> set links \<and> pageTitle (lit ''/since-away'') = ''Ion''"
  unfolding route_def fixed_routes_def pageTitle_def pageTitles_def links_def
  by (simp add: mainNavigation_def conversationNavigation_def workspaceNavigation_def controlNavigation_def
      globalCommands_def subsystemSurfaces_def lit_def starts_with_def)

end
