(* ===== verification/Media.thy ===== *)
theory Media
  imports Shell
begin

text \<open>
  The studio for images and videos, \<open>ui/web/src/routes/MediaStudio.tsx\<close>: the form with its controls, the jobs, and
  the two requests that change them. The query library keeps the list of jobs and the state of the two
  mutations: a mutation is pending from its start until its callbacks have ended, and has failed until it is
  started again.
\<close>

section \<open>Kinds and forms\<close>

datatype media_kind =
    TextToImage | ImageToImage | TextToVideo | ImageToVideo | Inpainting | Cleanup | RemoveBackground | ReplaceBackground
  | RemoveText | MergeFace | Upscale

fun kind_name :: "media_kind \<Rightarrow> string" where
  "kind_name TextToImage = ''text-to-image''"
| "kind_name ImageToImage = ''image-to-image''"
| "kind_name TextToVideo = ''text-to-video''"
| "kind_name ImageToVideo = ''image-to-video''"
| "kind_name Inpainting = ''inpainting''"
| "kind_name Cleanup = ''cleanup''"
| "kind_name RemoveBackground = ''remove-background''"
| "kind_name ReplaceBackground = ''replace-background''"
| "kind_name RemoveText = ''remove-text''"
| "kind_name MergeFace = ''merge-face''"
| "kind_name Upscale = ''upscale''"

definition workflows :: "(string \<times> (media_kind \<times> string \<times> string) list) list" where
  "workflows = [
     (''Create images'', [(TextToImage, ''Text to image'', ''Create from a written direction''),
        (ImageToImage, ''Image to image'', ''Restyle or transform a source''), (Inpainting, ''Inpaint'', ''Replace a masked region'')]),
     (''Create video'', [(TextToVideo, ''Text to video'', ''Generate a short motion sequence''),
        (ImageToVideo, ''Image to video'', ''Animate a still image'')]),
     (''Edit images'', [(Cleanup, ''Clean up'', ''Erase a masked object''),
        (RemoveBackground, ''Remove background'', ''Create a clean cutout''),
        (ReplaceBackground, ''Replace background'', ''Generate a new setting''), (RemoveText, ''Remove text'', ''Clear detected lettering''),
        (MergeFace, ''Merge face'', ''Apply a face reference''), (Upscale, ''Upscale'', ''Increase image resolution'')])]"

definition workflowByKind :: "media_kind \<Rightarrow> (string \<times> string) option" where
  "workflowByKind = map_of (concat (map snd workflows))"

datatype number_field = Width | Height | Steps | Guidance | Seed | ImageCount | Strength | Frames | Fps | Scale

fun number_name :: "number_field \<Rightarrow> string" where
  "number_name Width = ''width''"
| "number_name Height = ''height''"
| "number_name Steps = ''steps''"
| "number_name Guidance = ''guidance''"
| "number_name Seed = ''seed''"
| "number_name ImageCount = ''image_count''"
| "number_name Strength = ''strength''"
| "number_name Frames = ''frames''"
| "number_name Fps = ''fps''"
| "number_name Scale = ''scale''"

definition number_fields :: "number_field list" where
  "number_fields = [Width, Height, Steps, Guidance, Seed, ImageCount, Strength, Frames, Fps, Scale]"

text \<open>A source image: its content in base 64 and its name.\<close>

record media_form =
  fo_kind :: media_kind
  fo_prompt :: jstring
  fo_negative_prompt :: jstring
  fo_model :: jstring
  fo_sampler :: jstring
  fo_number :: "number_field \<Rightarrow> jsnum"
  fo_resize_mode :: jstring
  fo_image :: "jstring \<times> jstring"
  fo_mask :: "jstring \<times> jstring"
  fo_face :: "jstring \<times> jstring"

fun default_model :: "media_kind \<Rightarrow> string" where
  "default_model TextToVideo = ''darkSushiMixMix_225D_64380.safetensors''"
| "default_model ImageToVideo = ''SVD-XT''"
| "default_model Upscale = ''RealESRNet_x4plus''"
| "default_model Inpainting = ''realisticVisionV51_v51VAE-inpainting_94324.safetensors''"
| "default_model _ = ''sd_xl_base_1.0.safetensors''"

definition is_video :: "media_kind \<Rightarrow> bool" where
  "is_video kind \<longleftrightarrow> kind = TextToVideo \<or> kind = ImageToVideo"

fun default_number :: "media_kind \<Rightarrow> number_field \<Rightarrow> jsnum" where
  "default_number kind Width = Fin (if is_video kind then 640 else 1024)"
| "default_number kind Height = Fin (if is_video kind then 480 else 1024)"
| "default_number kind Steps = Fin 20"
| "default_number kind Guidance = Fin (15 / 2)"
| "default_number kind Seed = Fin (- 1)"
| "default_number kind ImageCount = Fin 1"
| "default_number kind Strength = Fin (7 / 10)"
| "default_number kind Frames = Fin (if kind = ImageToVideo then 25 else 16)"
| "default_number kind Fps = Fin 6"
| "default_number kind Scale = Fin 2"

definition defaultForm :: "media_kind \<Rightarrow> media_form" where
  "defaultForm kind = \<lparr>fo_kind = kind, fo_prompt = [], fo_negative_prompt = [], fo_model = lit (default_model kind),
     fo_sampler = lit ''DPM++ 2M Karras'', fo_number = default_number kind, fo_resize_mode = lit ''ORIGINAL_RESOLUTION'',
     fo_image = ([], []), fo_mask = ([], []), fo_face = ([], [])\<rparr>"

definition form_value :: "media_form \<Rightarrow> jsval" where
  "form_value form = JObj ([lit_field ''kind'' (kind_name (fo_kind form)), str_field ''prompt'' (fo_prompt form),
       str_field ''negative_prompt'' (fo_negative_prompt form), str_field ''model'' (fo_model form),
       str_field ''sampler'' (fo_sampler form)] @
     map (\<lambda>f. (lit (number_name f), JNum (fo_number form f))) number_fields @
     [str_field ''resize_mode'' (fo_resize_mode form), str_field ''image_base64'' (fst (fo_image form)),
       str_field ''mask_base64'' (fst (fo_mask form)), str_field ''face_base64'' (fst (fo_face form)),
       str_field ''image_name'' (snd (fo_image form)), str_field ''mask_name'' (snd (fo_mask form)),
       str_field ''face_name'' (snd (fo_face form))])"

section \<open>Controls\<close>

definition needsImage :: "media_kind \<Rightarrow> bool" where
  "needsImage kind \<longleftrightarrow> kind \<noteq> TextToImage \<and> kind \<noteq> TextToVideo"

definition needsMask :: "media_kind \<Rightarrow> bool" where
  "needsMask kind \<longleftrightarrow> kind = Cleanup \<or> kind = Inpainting"

definition needsPrompt :: "media_kind \<Rightarrow> bool" where
  "needsPrompt kind \<longleftrightarrow> kind \<in> set [TextToImage, ImageToImage, TextToVideo, ReplaceBackground, Inpainting]"

definition advancedGeneration :: "media_kind \<Rightarrow> bool" where
  "advancedGeneration kind \<longleftrightarrow> kind \<in> set [TextToImage, ImageToImage, TextToVideo, ImageToVideo, Inpainting]"

definition imageGeneration :: "media_kind \<Rightarrow> bool" where
  "imageGeneration kind \<longleftrightarrow> kind \<in> set [TextToImage, ImageToImage, Inpainting]"

text \<open>The number fields a form shows, with their smallest and largest value.\<close>

definition shown_numbers :: "media_form \<Rightarrow> (number_field \<times> jsnum \<times> jsnum) list" where
  "shown_numbers form = (let kind = fo_kind form; frames = fo_number form Frames; fixed = kind = ImageToVideo in
     (if advancedGeneration kind then [(Width, Fin 128, Fin 2048), (Height, Fin 128, Fin 2048), (Steps, Fin 1, Fin 100),
        (Guidance, Fin 1, Fin 30), (Seed, Fin (- 1), Fin 2147483647)] else []) @
     (if imageGeneration kind then [(ImageCount, Fin 1, Fin 4)] else []) @
     (if imageGeneration kind \<and> kind \<noteq> TextToImage then [(Strength, Fin (1 / 20), Fin 1)] else []) @
     (if is_video kind then [(Frames, if fixed then frames else Fin 8, if fixed then frames else Fin 64),
        (Fps, if fixed then Fin 6 else Fin 1, if fixed then Fin 6 else Fin 24)] else []) @
     (if kind = Upscale then [(Scale, Fin (11 / 10), Fin 4)] else []))"

text \<open>
  The validation of the browser before it submits: the required texts are there and the numbers lie in
  their range. That they are a whole number of steps from the smallest is left out.
\<close>

definition in_range :: "jsnum \<Rightarrow> jsnum \<Rightarrow> jsnum \<Rightarrow> bool" where
  "in_range least most n = (case (least, most, n) of (Fin a, Fin b, Fin q) \<Rightarrow> a \<le> q \<and> q \<le> b | _ \<Rightarrow> False)"

definition form_valid :: "media_form \<Rightarrow> bool" where
  "form_valid form \<longleftrightarrow> (needsPrompt (fo_kind form) \<longrightarrow> fo_prompt form \<noteq> []) \<and>
     (advancedGeneration (fo_kind form) \<or> fo_kind form = Upscale \<longrightarrow> fo_model form \<noteq> []) \<and>
     list_all (\<lambda>(f, least, most). in_range least most (fo_number form f)) (shown_numbers form)"

datatype form_edit =
    EditPrompt jstring
  | EditNegative jstring
  | EditModel jstring
  | EditSampler jstring
  | EditNumber number_field jstring
  | EditResize jstring
  | ImageRead "jstring \<times> jstring"
  | MaskRead "jstring \<times> jstring"
  | FaceRead "jstring \<times> jstring"

fun edit_form :: "form_edit \<Rightarrow> media_form \<Rightarrow> media_form" where
  "edit_form (EditPrompt v) form = form\<lparr>fo_prompt := v\<rparr>"
| "edit_form (EditNegative v) form = form\<lparr>fo_negative_prompt := v\<rparr>"
| "edit_form (EditModel v) form = (if fo_kind form = ImageToVideo
     then form\<lparr>fo_model := v, fo_number := (fo_number form)(Frames := Fin (if v = lit ''SVD'' then 14 else 25))\<rparr>
     else form\<lparr>fo_model := v\<rparr>)"
| "edit_form (EditSampler v) form = form\<lparr>fo_sampler := v\<rparr>"
| "edit_form (EditNumber f v) form = form\<lparr>fo_number := (fo_number form)(f := js_number v)\<rparr>"
| "edit_form (EditResize v) form = form\<lparr>fo_resize_mode := v\<rparr>"
| "edit_form (ImageRead p) form = form\<lparr>fo_image := p\<rparr>"
| "edit_form (MaskRead p) form = form\<lparr>fo_mask := p\<rparr>"
| "edit_form (FaceRead p) form = form\<lparr>fo_face := p\<rparr>"

text \<open>
  Reading a file: its type, its size, and the address \<open>FileReader\<close> gives for its content, absent when it
  fails. The encoded content is what follows the first comma.
\<close>

definition readImage :: "jstring \<Rightarrow> nat \<Rightarrow> jstring option \<Rightarrow> js_error + (jstring \<times> jstring)" where
  "readImage type n content =
     (if \<not> one_of [''image/jpeg'', ''image/png'', ''image/webp''] type then Inl (Error (lit ''Choose a PNG, JPEG, or WebP image.''))
      else if n > 30 * 1024 * 1024 then Inl (Error (lit ''The image must be 30 MB or smaller.''))
      else case content of
        None \<Rightarrow> Inl (Error (lit ''The image could not be read.''))
      | Some url \<Rightarrow> Inr (if 44 \<in> set url then drop 1 (dropWhile (\<lambda>u. u \<noteq> 44) url) else url, url))"

section \<open>Jobs\<close>

datatype media_status = JobQueued | JobSubmitting | JobRunning | JobSucceeded | JobFailed

record media_settings =
  mr_prompt :: "jstring option"
  mr_negative_prompt :: "jstring option"
  mr_model :: "jstring option"
  mr_sampler :: "jstring option"
  mr_number :: "number_field \<Rightarrow> jsnum option"
  mr_resize_mode :: "jstring option"
  mr_has_image :: bool

record media_job =
  mj_id :: jstring
  mj_kind :: media_kind
  mj_status :: media_status
  mj_progress :: int
  mj_error :: "jstring option"
  mj_request :: media_settings
  mj_assets :: nat

definition activeStatus :: "media_status \<Rightarrow> bool" where
  "activeStatus status \<longleftrightarrow> status \<in> set [JobQueued, JobSubmitting, JobRunning]"

definition media_statusLabel :: "media_job \<Rightarrow> jstring" where
  "media_statusLabel job = (case mj_status job of
      JobQueued \<Rightarrow> lit ''Queued''
    | JobSubmitting \<Rightarrow> lit ''Sending to Novita''
    | JobRunning \<Rightarrow> if mj_progress job > 5 then lit ''Generating'' @ middot @ int_text (mj_progress job) @ lit ''%'' else lit ''Generating''
    | JobSucceeded \<Rightarrow> lit ''Ready''
    | JobFailed \<Rightarrow> lit ''Failed'')"

definition actionLabel :: "media_kind \<Rightarrow> string" where
  "actionLabel kind = (if is_video kind then ''Generate video''
     else if kind \<in> set [Cleanup, RemoveBackground, ReplaceBackground, RemoveText, MergeFace, Upscale, Inpainting] then ''Apply edit''
     else ''Generate images'')"

text \<open>\<open>(value / unit).toFixed(1)\<close> of an integer, the unit a power of two.\<close>

definition to_fixed :: "nat \<Rightarrow> nat \<Rightarrow> jstring" where
  "to_fixed unit value = (let tenths = (20 * value + unit) div (2 * unit) in nat_text (tenths div 10) @ lit ''.'' @ nat_text (tenths mod 10))"

definition formatBytes :: "nat \<Rightarrow> jstring" where
  "formatBytes value = (if value < 1024 then nat_text value @ lit '' B''
     else if value < 1024 * 1024 then to_fixed 1024 value @ lit '' KB''
     else to_fixed (1024 * 1024) value @ lit '' MB'')"

text \<open>What the stage shows of a job: a text, or its outputs.\<close>

datatype canvas = Instruction | Stopped jstring | Working jstring | Outputs nat

definition MediaCanvas :: "media_job option \<Rightarrow> canvas" where
  "MediaCanvas job = (case job of
      None \<Rightarrow> Instruction
    | Some j \<Rightarrow> if mj_status j = JobFailed
        then Stopped (case mj_error j of None \<Rightarrow> lit ''The provider could not complete this media job.'' | Some m \<Rightarrow> m)
        else if mj_assets j = 0 then Working (media_statusLabel j) else Outputs (mj_assets j))"

section \<open>Requests\<close>

definition media_post :: "js_error + jstring \<Rightarrow> jstring \<Rightarrow> media_form \<Rightarrow> js_error + page_request" where
  "media_post token key form = (case token of
      Inl err \<Rightarrow> Inl err
    | Inr t \<Rightarrow> Inr \<lparr>pq_method = ''POST'', pq_path = lit ''/v1/media/jobs'',
        pq_headers = [accept_json, (''Content-Type'', lit ''application/json''), (''X-Ion-CSRF'', t), (''X-Ion-Idempotency-Key'', key)],
        pq_body = JsonBody (form_value form)\<rparr>)"

definition media_delete :: "js_error + jstring \<Rightarrow> jstring \<Rightarrow> js_error + page_request" where
  "media_delete token jobID = (case token of
      Inl err \<Rightarrow> Inl err
    | Inr t \<Rightarrow> Inr \<lparr>pq_method = ''DELETE'', pq_path = lit ''/v1/media/jobs/'' @ jobID,
        pq_headers = [accept_json, (''X-Ion-CSRF'', t)], pq_body = NoBody\<rparr>)"

text \<open>What \<open>mediaMutation\<close> returns or throws; the body of 204 is not read.\<close>

definition media_result :: "platform \<Rightarrow> http_reply \<Rightarrow> js_error + jsval" where
  "media_result pf r = (case r of
      Unreachable err \<Rightarrow> Inl err
    | Status n body \<Rightarrow>
        if n = 204 then Inr JUndef
        else case body of
          None \<Rightarrow> Inl SyntaxError
        | Some v \<Rightarrow> if status_ok n then Inr v
            else if v = JNull then Inl (TypeError [])
            else Inl (Error (to_string pf (or_else (fld v ''error'') (JStr (lit ''The media request could not be completed.''))))))"

record media_ctx =
  mc_token :: "js_error + jstring"
  mc_configured :: bool
  mc_jobs :: "media_job list"

record media_page =
  md_form :: media_form
  md_selectedID :: "jstring option"
  md_deleteArmedID :: "jstring option"
  md_notice :: jstring
  md_creating :: bool
  md_removing :: bool
  md_create_failed :: bool
  md_remove_failed :: bool

definition initial_media :: media_page where
  "initial_media = \<lparr>md_form = defaultForm TextToImage, md_selectedID = None, md_deleteArmedID = None, md_notice = [],
     md_creating = False, md_removing = False, md_create_failed = False, md_remove_failed = False\<rparr>"

definition media_selected :: "media_ctx \<Rightarrow> media_page \<Rightarrow> media_job option" where
  "media_selected cx s = (case find (\<lambda>job. Some (mj_id job) = md_selectedID s) (mc_jobs cx) of
      Some job \<Rightarrow> Some job
    | None \<Rightarrow> (case mc_jobs cx of [] \<Rightarrow> None | job # _ \<Rightarrow> Some job))"

text \<open>The effect that selects the first job while none is selected.\<close>

definition media_after_render :: "media_ctx \<Rightarrow> media_page \<Rightarrow> media_page" where
  "media_after_render cx s = (case (md_selectedID s, mc_jobs cx) of
      (None, job # _) \<Rightarrow> s\<lparr>md_selectedID := Some (mj_id job)\<rparr>
    | _ \<Rightarrow> s)"

definition chooseWorkflow :: "media_kind \<Rightarrow> media_page \<Rightarrow> media_page" where
  "chooseWorkflow kind s = s\<lparr>md_form := defaultForm kind, md_notice := []\<rparr>"

fun given :: "'a option \<Rightarrow> 'a \<Rightarrow> 'a" where
  "given (Some x) d = x"
| "given None d = d"

definition useSettings :: "media_job \<Rightarrow> media_page \<Rightarrow> media_page" where
  "useSettings job s = (let new = defaultForm (mj_kind job); request = mj_request job in
     s\<lparr>md_form := new\<lparr>fo_prompt := given (mr_prompt request) [], fo_negative_prompt := given (mr_negative_prompt request) [],
         fo_model := given (mr_model request) (fo_model new), fo_sampler := given (mr_sampler request) (fo_sampler new),
         fo_number := (\<lambda>f. given (mr_number request f) (fo_number new f)),
         fo_resize_mode := given (mr_resize_mode request) (fo_resize_mode new)\<rparr>,
       md_notice := (if mr_has_image request then lit ''Settings restored. Re-add source images before generating.''
         else lit ''Settings restored and ready to generate again.'')\<rparr>)"

datatype media_task = CreateJob | RemoveJob jstring | CreatedRefetch | RemovedRefetch
datatype media_input =
    ChooseWorkflow media_kind
  | EditForm form_edit
  | SubmitForm jstring
  | SelectJob jstring
  | PressUseSettings
  | PressDeleteJob

fun media_react :: "media_ctx \<times> media_input \<Rightarrow> media_page \<Rightarrow> (media_page, media_task) web_result" where
  "media_react (cx, ChooseWorkflow kind) s = (chooseWorkflow kind s, [])"
| "media_react (cx, EditForm e) s = (s\<lparr>md_form := edit_form e (md_form s)\<rparr>, [])"
| "media_react (cx, SubmitForm key) s =
     (if md_creating s \<or> \<not> mc_configured cx \<or> \<not> form_valid (md_form s) then (s, [])
      else (s\<lparr>md_notice := [], md_creating := True, md_create_failed := False\<rparr>,
        [Fetches CreateJob (media_post (mc_token cx) key (md_form s))]))"
| "media_react (cx, SelectJob i) s =
     (if i \<in> set (map mj_id (mc_jobs cx)) then (s\<lparr>md_selectedID := Some i\<rparr>, []) else (s, []))"
| "media_react (cx, PressUseSettings) s = (case media_selected cx s of None \<Rightarrow> (s, []) | Some job \<Rightarrow> (useSettings job s, []))"
| "media_react (cx, PressDeleteJob) s = (case media_selected cx s of
      None \<Rightarrow> (s, [])
    | Some job \<Rightarrow>
        if activeStatus (mj_status job) \<or> md_removing s then (s, [])
        else if md_deleteArmedID s = Some (mj_id job)
          then (s\<lparr>md_removing := True, md_remove_failed := False\<rparr>,
            [Fetches (RemoveJob (mj_id job)) (media_delete (mc_token cx) (mj_id job))])
        else (s\<lparr>md_deleteArmedID := Some (mj_id job),
            md_notice := lit ''Select Confirm delete to permanently remove this job and its stored outputs.''\<rparr>, []))"

definition jobs_refetch :: "media_task \<Rightarrow> media_task web_effect" where
  "jobs_refetch task = Refetches task [lit ''media.jobs'']"

fun media_proceed :: "platform \<Rightarrow> chat_env \<Rightarrow> media_task \<Rightarrow> http_reply \<Rightarrow> media_page \<Rightarrow> (media_page, media_task) web_result" where
  "media_proceed pf env CreateJob r s = (case media_result pf r of
      Inl err \<Rightarrow> (s\<lparr>md_notice := chat_error env err, md_creating := False, md_create_failed := True\<rparr>, [])
    | Inr v \<Rightarrow> if nullish v then (s\<lparr>md_notice := chat_error env (TypeError []), md_creating := False, md_create_failed := True\<rparr>, [])
        else (s\<lparr>md_selectedID := as_str (fld v ''id''),
          md_notice := lit ''Generation started. You can leave this page while Ion keeps the job running.''\<rparr>, [jobs_refetch CreatedRefetch]))"
| "media_proceed pf env CreatedRefetch r s = (s\<lparr>md_creating := False\<rparr>, [])"
| "media_proceed pf env (RemoveJob i) r s = (case media_result pf r of
      Inl err \<Rightarrow> (s\<lparr>md_notice := chat_error env err, md_removing := False, md_remove_failed := True\<rparr>, [])
    | Inr v \<Rightarrow> (s\<lparr>md_selectedID := None, md_deleteArmedID := None,
        md_notice := lit ''The generation and its stored outputs were removed.''\<rparr>, [jobs_refetch RemovedRefetch]))"
| "media_proceed pf env RemovedRefetch r s = (s\<lparr>md_removing := False\<rparr>, [])"

text \<open>Whether the notice is shown as an error.\<close>

definition notice_danger :: "media_page \<Rightarrow> bool" where
  "notice_danger s \<longleftrightarrow> md_create_failed s \<or> md_remove_failed s"

section \<open>The form\<close>

text \<open>
  A form whose controls are untouched is accepted as soon as the prompt it asks for is there.
\<close>

lemma default_form_valid: "form_valid ((defaultForm kind)\<lparr>fo_prompt := p\<rparr>) \<longleftrightarrow> p \<noteq> [] \<or> \<not> needsPrompt kind"
  by (cases kind; simp add: form_valid_def defaultForm_def shown_numbers_def needsPrompt_def advancedGeneration_def
      imageGeneration_def is_video_def in_range_def lit_def Let_def)

text \<open>The settings a server keeps of a form: all but the images.\<close>

definition settings_of :: "media_form \<Rightarrow> media_settings" where
  "settings_of form = \<lparr>mr_prompt = Some (fo_prompt form), mr_negative_prompt = Some (fo_negative_prompt form),
     mr_model = Some (fo_model form), mr_sampler = Some (fo_sampler form), mr_number = (\<lambda>f. Some (fo_number form f)),
     mr_resize_mode = Some (fo_resize_mode form), mr_has_image = (fst (fo_image form) \<noteq> [])\<rparr>"

text \<open>
  The settings of a job give back the form it was made from, without the images, whose absence the
  notice tells.
\<close>

theorem settings_restored:
  "md_form (useSettings (job\<lparr>mj_kind := fo_kind form, mj_request := settings_of form\<rparr>) s) =
     form\<lparr>fo_image := ([], []), fo_mask := ([], []), fo_face := ([], [])\<rparr> \<and>
   md_notice (useSettings (job\<lparr>mj_kind := fo_kind form, mj_request := settings_of form\<rparr>) s) =
     (if fst (fo_image form) \<noteq> [] then lit ''Settings restored. Re-add source images before generating.''
      else lit ''Settings restored and ready to generate again.'')"
  by (simp add: useSettings_def settings_of_def defaultForm_def Let_def)

section \<open>Deleting a job\<close>

lemma armed_react:
  "md_deleteArmedID (fst (media_react (cx, u) s)) = Some i \<Longrightarrow> md_deleteArmedID s = Some i \<or>
     u = PressDeleteJob \<and> map_option mj_id (media_selected cx s) = Some i"
  by (cases u) (auto simp: chooseWorkflow_def useSettings_def Let_def split: if_splits option.splits)

lemma armed_proceed: "md_deleteArmedID (fst (media_proceed pf env task r s)) = Some i \<Longrightarrow> md_deleteArmedID s = Some i"
  by (cases task) (auto split: sum.splits if_splits)

text \<open>A job that is armed was armed by pressing the button while it was the selected one.\<close>

lemma armed_by_press:
  "md_deleteArmedID (fst (fst (component_run media_react (media_proceed pf env) hs (initial_media, [])))) = Some i \<Longrightarrow>
     \<exists>before cx after. hs = before @ Does (cx, PressDeleteJob) # after \<and> map_option mj_id (media_selected cx
       (fst (fst (component_run media_react (media_proceed pf env) before (initial_media, []))))) = Some i"
proof (induction hs rule: rev_induct)
  case Nil
  then show ?case by (simp add: initial_media_def)
next
  case (snoc h hs)
  obtain s waiting where c: "fst (component_run media_react (media_proceed pf env) hs (initial_media, [])) = (s, waiting)"
    by fastforce
  have last: "md_deleteArmedID (fst (fst (component_step media_react (media_proceed pf env) h (s, waiting)))) = Some i"
    using snoc.prems c by (simp add: component_run_append Let_def case_prod_beta)
  consider "md_deleteArmedID s = Some i"
    | cx where "h = Does (cx, PressDeleteJob)" "map_option mj_id (media_selected cx s) = Some i"
  proof (cases h)
    case (Does x)
    then show thesis
      using last that armed_react [of "fst x" "snd x" s i] by (cases x) (auto simp: Let_def case_prod_beta)
  next
    case (Settles task r)
    then show thesis
      using last that(1) armed_proceed [of pf env task r s i] by (auto simp: Let_def case_prod_beta split: if_splits)
  qed
  then show ?case
  proof cases
    case 1
    then show ?thesis using snoc.IH c by fastforce
  next
    case (2 cx)
    then show ?thesis using c by fastforce
  qed
qed

text \<open>
  A job is deleted only by the second press: the button was pressed before while this job was the selected
  one, it is the selected one now, no work on it is active, no other deletion waits, and the request names it
  and carries the token of the session.
\<close>

theorem media_deletion_confirmed:
  assumes "component_run media_react (media_proceed pf env) hs (initial_media, []) = ((s, waiting), es)"
    "Fetches (RemoveJob i) q \<in> set (snd (media_react (cx, u) s))"
  shows "u = PressDeleteJob \<and> \<not> md_removing s \<and> q = media_delete (mc_token cx) i \<and>
    (\<exists>job. media_selected cx s = Some job \<and> mj_id job = i \<and> \<not> activeStatus (mj_status job)) \<and>
    (\<exists>before cx' after. hs = before @ Does (cx', PressDeleteJob) # after \<and> map_option mj_id (media_selected cx'
       (fst (fst (component_run media_react (media_proceed pf env) before (initial_media, []))))) = Some i)"
proof -
  have "u = PressDeleteJob \<and> \<not> md_removing s \<and> md_deleteArmedID s = Some i \<and> q = media_delete (mc_token cx) i \<and>
    (\<exists>job. media_selected cx s = Some job \<and> mj_id job = i \<and> \<not> activeStatus (mj_status job))"
    using assms(2) by (cases u) (auto split: if_splits option.splits)
  then show ?thesis using armed_by_press [of pf env hs i] assms(1) by simp
qed

definition example_job :: media_job where
  "example_job = \<lparr>mj_id = lit ''j1'', mj_kind = TextToImage, mj_status = JobSucceeded, mj_progress = 100, mj_error = None,
     mj_request = settings_of (defaultForm TextToImage), mj_assets = 1\<rparr>"

definition example_media :: media_ctx where
  "example_media = \<lparr>mc_token = Inr (lit ''t''), mc_configured = True, mc_jobs = [example_job]\<rparr>"

lemma example_selected: "media_selected example_media s = Some example_job"
  by (simp add: media_selected_def example_media_def)

theorem media_deletion_confirmed_witness:
  "PressDeleteJob = PressDeleteJob \<and> \<not> md_removing (fst (media_react (example_media, PressDeleteJob) initial_media)) \<and>
   media_delete (mc_token example_media) (lit ''j1'') = media_delete (mc_token example_media) (lit ''j1'') \<and>
   (\<exists>job. media_selected example_media (fst (media_react (example_media, PressDeleteJob) initial_media)) = Some job \<and>
      mj_id job = lit ''j1'' \<and> \<not> activeStatus (mj_status job)) \<and>
   (\<exists>before cx' after. [Does (example_media, PressDeleteJob)] = before @ Does (cx', PressDeleteJob) # after \<and>
      map_option mj_id (media_selected cx' (fst (fst (component_run media_react
        (media_proceed example_platform example_chat) before (initial_media, []))))) = Some (lit ''j1''))"
  by (rule media_deletion_confirmed [of example_platform example_chat _ _ "[]" "[]"])
    (simp_all add: example_selected initial_media_def activeStatus_def example_job_def)

text \<open>A job stays armed when another one is looked at: one press deletes it afterwards.\<close>

lemma deletion_stays_armed:
  "md_deleteArmedID (fst (media_react (cx, SelectJob j) s)) = md_deleteArmedID s \<and>
   md_deleteArmedID (fst (media_react (cx, ChooseWorkflow kind) s)) = md_deleteArmedID s"
  by (simp add: chooseWorkflow_def)

text \<open>After a failed generation the notice of a successful deletion is shown as an error.\<close>

lemma removal_shown_as_error:
  "notice_danger (fst (media_proceed pf env (RemoveJob i) (Status 204 None) (s\<lparr>md_create_failed := True\<rparr>)))"
  by (simp add: media_result_def notice_danger_def)

section \<open>Sizes\<close>

text \<open>The number shown is the nearest tenth of the unit.\<close>

lemma to_fixed_nearest:
  assumes "0 < unit"
  shows "\<bar>of_int (int ((20 * value + unit) div (2 * unit))) / 10 - (of_nat value / of_nat unit :: rat)\<bar> \<le> 1 / 20"
proof -
  define n m where "n = (20 * value + unit) div (2 * unit)" and "m = (20 * value + unit) mod (2 * unit)"
  have "n * (2 * unit) + m = 20 * value + unit" unfolding n_def m_def by (rule div_mult_mod_eq)
  then have sum: "of_nat n * (2 * of_nat unit) + of_nat m = 20 * of_nat value + (of_nat unit :: rat)"
    by (metis of_nat_add of_nat_mult of_nat_numeral)
  have "m < 2 * unit" using assms unfolding m_def by simp
  then have m: "(of_nat m :: rat) \<le> 2 * of_nat unit" by (metis less_imp_le of_nat_le_iff of_nat_mult of_nat_numeral)
  have quotient: "(of_nat n :: rat) = (20 * of_nat value + of_nat unit - of_nat m) / (2 * of_nat unit)"
    using sum assms by (simp add: eq_divide_eq)
  have "of_nat n / 10 - (of_nat value / of_nat unit :: rat) = (of_nat unit - of_nat m) / (20 * of_nat unit)"
    unfolding quotient using assms by (simp add: field_simps)
  moreover have "\<bar>(of_nat unit - of_nat m) / (20 * of_nat unit :: rat)\<bar> \<le> 1 / 20"
    using m assms by (simp add: abs_le_iff field_simps)
  ultimately show ?thesis unfolding n_def by simp
qed

end
