(* ===== verification/UriText.thy ===== *)
theory UriText
  imports Browser ChatText
begin

text \<open>
  \<open>encodeURIComponent\<close> of the language, which the client uses to put tickets and identifiers into addresses
  (\<open>PrivateDesktop.tsx\<close>, \<open>ComputerStage.tsx\<close>, \<open>OfficeStudio.tsx\<close>), and that decoding gives the text back.
\<close>

section \<open>Encoding\<close>

definition unreserved :: "code_unit \<Rightarrow> bool" where
  "unreserved u \<longleftrightarrow> (let n = unat u in 48 \<le> n \<and> n \<le> 57 \<or> 65 \<le> n \<and> n \<le> 90 \<or> 97 \<le> n \<and> n \<le> 122 \<or>
     n = 45 \<or> n = 95 \<or> n = 46 \<or> n = 33 \<or> n = 126 \<or> n = 42 \<or> n = 39 \<or> n = 40 \<or> n = 41)"

definition hex_digit :: "nat \<Rightarrow> code_unit" where
  "hex_digit n = word_of_nat (if n < 10 then 48 + n else 55 + n)"

definition percent :: "nat \<Rightarrow> jstring" where
  "percent b = [37, hex_digit (b div 16), hex_digit (b mod 16)]"

definition utf8_bytes :: "nat \<Rightarrow> nat list" where
  "utf8_bytes c =
     (if c < 128 then [c]
      else if c < 2048 then [192 + c div 64, 128 + c mod 64]
      else if c < 65536 then [224 + c div 4096, 128 + c div 64 mod 64, 128 + c mod 64]
      else [240 + c div 262144, 128 + c div 4096 mod 64, 128 + c div 64 mod 64, 128 + c mod 64])"

definition escape_point :: "nat \<Rightarrow> jstring" where
  "escape_point c = concat (map percent (utf8_bytes c))"

definition pair_point :: "code_unit \<Rightarrow> code_unit \<Rightarrow> nat" where
  "pair_point u v = 65536 + (unat u - 55296) * 1024 + (unat v - 56320)"

text \<open>\<open>None\<close> for the \<open>URIError\<close> of a surrogate without its partner.\<close>

fun encode_uri :: "jstring \<Rightarrow> jstring option" where
  "encode_uri [] = Some []"
| "encode_uri (u # s) =
     (if unreserved u then map_option (\<lambda>t. u # t) (encode_uri s)
      else if is_trail u then None
      else if is_lead u then
        (case s of
           [] \<Rightarrow> None
         | v # r \<Rightarrow> if is_trail v then map_option (\<lambda>t. escape_point (pair_point u v) @ t) (encode_uri r) else None)
      else map_option (\<lambda>t. escape_point (unat u) @ t) (encode_uri s))"

definition encodeURIComponent :: "jstring \<Rightarrow> js_error + jstring" where
  "encodeURIComponent s = (case encode_uri s of None \<Rightarrow> Inl (Error (lit ''URI malformed'')) | Some t \<Rightarrow> Inr t)"

text \<open>A text whose surrogates come in pairs.\<close>

fun well_formed_text :: "jstring \<Rightarrow> bool" where
  "well_formed_text [] = True"
| "well_formed_text (u # s) =
     (if is_trail u then False
      else if is_lead u then (case s of [] \<Rightarrow> False | v # r \<Rightarrow> is_trail v \<and> well_formed_text r)
      else well_formed_text s)"

section \<open>Decoding what was encoded\<close>

lemma hex_value_upper: "n < 16 \<Longrightarrow> hex_value (hex_digit n) = Some n"
proof -
  have "\<forall>n \<in> set [0..<16]. hex_value (hex_digit n) = Some n" by code_simp
  then show "n < 16 \<Longrightarrow> hex_value (hex_digit n) = Some n" by simp
qed

lemma hex_byte_percent: "b < 256 \<Longrightarrow> hex_byte (percent b @ r) = Some (b, r)"
  by (simp add: hex_byte_def percent_def hex_value_upper less_mult_imp_div_less)

lemma continuation_percent:
  "c < 64 \<Longrightarrow> continuation_bytes (Suc n) acc (percent (128 + c) @ r) = continuation_bytes n (64 * acc + c) r"
  by (simp add: hex_byte_percent)

lemma split_64: "64 * (c div 64) + c mod 64 = (c :: nat)"
  by simp

lemma split_4096: "64 * (64 * (c div 4096) + c div 64 mod 64) + c mod 64 = (c :: nat)"
proof -
  have "c div 4096 = c div 64 div 64" by (simp flip: div_mult2_eq)
  then show ?thesis by (metis split_64)
qed

lemma split_262144: "64 * (64 * (64 * (c div 262144) + c div 4096 mod 64) + c div 64 mod 64) + c mod 64 = (c :: nat)"
proof -
  have "c div 262144 = c div 64 div 4096" "c div 4096 = c div 64 div 64" by (simp_all flip: div_mult2_eq)
  then show ?thesis using split_4096 [of "c div 64"] by (metis split_64)
qed

lemma decode_escape_point:
  assumes "c < 1114112" "\<not> (55296 \<le> c \<and> c < 57344)"
  shows "decode_escape (escape_point c @ r) = Some (utf16 c, r)"
proof -
  consider "c < 128" | "128 \<le> c" "c < 2048" | "2048 \<le> c" "c < 65536" | "65536 \<le> c" by linarith
  then show ?thesis
  proof cases
    case 1
    then show ?thesis
      by (simp add: escape_point_def utf8_bytes_def decode_escape_def hex_byte_percent utf16_def)
  next
    case 2
    then have "c div 64 < 32" by (simp add: less_mult_imp_div_less)
    then show ?thesis using 2 split_64 [of c]
      by (simp add: escape_point_def utf8_bytes_def decode_escape_def hex_byte_percent continuation_percent del: continuation_bytes.simps(2))
  next
    case 3
    then have "c div 4096 < 16" by (simp add: less_mult_imp_div_less)
    then show ?thesis using 3 assms(2) split_4096 [of c]
      by (simp add: escape_point_def utf8_bytes_def decode_escape_def hex_byte_percent continuation_percent
          numeral_2_eq_2 del: continuation_bytes.simps(2))
  next
    case 4
    then have "c div 262144 < 8" using assms(1) by (simp add: less_mult_imp_div_less)
    then show ?thesis using 4 assms(1) split_262144 [of c]
      by (simp add: escape_point_def utf8_bytes_def decode_escape_def hex_byte_percent continuation_percent
          numeral_3_eq_3 del: continuation_bytes.simps(2))
  qed
qed

lemma percent_escape: "\<exists>t. escape_point c = 37 # t"
  by (auto simp: escape_point_def utf8_bytes_def percent_def)

lemma unat_unit: "unat (u :: code_unit) < 65536"
  using unsigned_less [of u] by simp

lemma utf16_unit: "utf16 (unat u) = [u]"
  using unat_unit [of u] by (simp add: utf16_def)

lemma utf16_pair:
  assumes "is_lead u" "is_trail v"
  shows "utf16 (pair_point u v) = [u, v]" "pair_point u v < 1114112" "65536 \<le> pair_point u v"
proof -
  have u: "55296 \<le> unat u" "unat u < 56320" and v: "56320 \<le> unat v" "unat v < 57344"
    using assms by (auto simp: is_lead_def is_trail_def)
  have low: "unat v - 56320 < 1024" using v by simp
  have div: "(pair_point u v - 65536) div 1024 = unat u - 55296" "(pair_point u v - 65536) mod 1024 = unat v - 56320"
    using low by (simp_all add: pair_point_def)
  show "utf16 (pair_point u v) = [u, v]"
    using u v by (simp add: utf16_def div) (simp add: pair_point_def)
  have "(unat u - 55296) * 1024 \<le> 1023 * 1024" using u by simp
  then show "pair_point u v < 1114112" "65536 \<le> pair_point u v" using low by (simp_all add: pair_point_def)
qed

lemma decode_step:
  assumes "c < 1114112" "\<not> (55296 \<le> c \<and> c < 57344)" "length (escape_point c @ t) \<le> n"
    "\<And>m. length t \<le> m \<Longrightarrow> decode_uri m t = Some s"
  shows "decode_uri n (escape_point c @ t) = Some (utf16 c @ s)"
proof -
  obtain x where x: "escape_point c = 37 # x" using percent_escape by blast
  then obtain m where "n = Suc m" "length t \<le> m" using assms(3) by (cases n) auto
  moreover have "decode_escape (37 # x @ t) = Some (utf16 c, t)" using decode_escape_point [OF assms(1, 2), of t] x by simp
  ultimately show ?thesis using x assms(4) by simp
qed

lemma unreserved_percent: "unreserved u \<Longrightarrow> u \<noteq> 37"
  by (auto simp: unreserved_def)

lemma decode_encode: "encode_uri s = Some t \<Longrightarrow> length t \<le> n \<Longrightarrow> decode_uri n t = Some s"
proof (induction s arbitrary: t n rule: encode_uri.induct)
  case (2 u s)
  consider (plain) "unreserved u" | (pair) v r where "\<not> unreserved u" "\<not> is_trail u" "is_lead u" "s = v # r" "is_trail v"
    | (unit) "\<not> unreserved u" "\<not> is_trail u" "\<not> is_lead u"
    using "2.prems" by (auto split: if_splits list.splits)
  then show ?case
  proof cases
    case plain
    then obtain x where "encode_uri s = Some x" "t = u # x" using "2.prems" by auto
    then show ?thesis using "2.IH"(1) plain "2.prems"(2) unreserved_percent by (cases n) auto
  next
    case pair
    then obtain x where x: "encode_uri r = Some x" "t = escape_point (pair_point u v) @ x" using "2.prems" by auto
    have "decode_uri m x = Some r" if "length x \<le> m" for m using "2.IH"(2) pair x that by auto
    then show ?thesis using decode_step [of "pair_point u v" x n r] utf16_pair [OF pair(3, 5)] x "2.prems"(2) pair by auto
  next
    case unit
    then obtain x where x: "encode_uri s = Some x" "t = escape_point (unat u) @ x" using "2.prems" by auto
    have "decode_uri m x = Some s" if "length x \<le> m" for m using "2.IH"(3) unit x that by auto
    moreover have "\<not> (55296 \<le> unat u \<and> unat u < 57344)" using unit by (auto simp: is_lead_def is_trail_def)
    ultimately show ?thesis using decode_step [of "unat u" x n s] unat_unit [of u] x "2.prems"(2) utf16_unit by auto
  qed
qed simp

lemma encode_defined: "encode_uri s \<noteq> None \<longleftrightarrow> well_formed_text s"
proof (induction s rule: encode_uri.induct)
  case (2 u s)
  have plain: "unreserved u \<Longrightarrow> \<not> is_trail u \<and> \<not> is_lead u" by (auto simp: unreserved_def is_trail_def is_lead_def Let_def)
  show ?case using 2 plain by (cases s) auto
qed simp

definition address_unit :: "code_unit \<Rightarrow> bool" where
  "address_unit u \<longleftrightarrow> unreserved u \<or> u = 37"

lemma percent_units: "b < 256 \<Longrightarrow> list_all address_unit (percent b)"
proof -
  have "\<forall>n \<in> set [0..<16]. unreserved (hex_digit n)" by code_simp
  then show "b < 256 \<Longrightarrow> list_all address_unit (percent b)" by (simp add: percent_def address_unit_def less_mult_imp_div_less)
qed

lemma utf8_bytes_small: "c < 1114112 \<Longrightarrow> b \<in> set (utf8_bytes c) \<Longrightarrow> b < 256"
proof -
  assume "c < 1114112"
  then have "c div 262144 < 8" by (simp add: less_mult_imp_div_less)
  moreover have "c < 2048 \<Longrightarrow> c div 64 < 32" "c < 65536 \<Longrightarrow> c div 4096 < 16" by (simp_all add: less_mult_imp_div_less)
  moreover have "c mod 64 < 64" "c div 64 mod 64 < 64" "c div 4096 mod 64 < 64" by simp_all
  ultimately show "b \<in> set (utf8_bytes c) \<Longrightarrow> b < 256" by (auto simp: utf8_bytes_def split: if_splits)
qed

lemma escape_units: "c < 1114112 \<Longrightarrow> list_all address_unit (escape_point c)"
  using percent_units utf8_bytes_small by (fastforce simp: escape_point_def list_all_iff)

lemma encode_units: "encode_uri s = Some t \<Longrightarrow> list_all address_unit t"
proof (induction s arbitrary: t rule: encode_uri.induct)
  case (2 u s)
  have "unat u < 1114112" using unat_unit [of u] by simp
  moreover have "unreserved u \<Longrightarrow> address_unit u" by (simp add: address_unit_def)
  ultimately show ?case
    using 2 escape_units [of "unat u"] escape_units utf16_pair(2) [of u] by (auto split: if_splits list.splits)
qed simp

text \<open>
  Encoding fails exactly on a text with a surrogate that has no partner. What it gives is made of letters,
  digits, percent signs and a few marks, so it cannot end the value it is put into an address as, and
  decoding it gives the text back.
\<close>

theorem uri_component_round_trip:
  "case encodeURIComponent s of
     Inl _ \<Rightarrow> \<not> well_formed_text s
   | Inr t \<Rightarrow> well_formed_text s \<and> decodeURIComponent t = Inr s \<and> list_all address_unit t"
proof (cases "encode_uri s")
  case None
  then show ?thesis using encode_defined [of s] by (simp add: encodeURIComponent_def)
next
  case (Some t)
  then show ?thesis
    using encode_defined [of s] encode_units [OF Some] decode_encode [OF Some, of "length t"]
    by (simp add: encodeURIComponent_def decodeURIComponent_def)
qed

section \<open>Addresses with a parameter\<close>

text \<open>
  The picture of the desktop, where its input goes, and where a credential is stored: the ticket or the
  conversation is the first parameter of the address.
\<close>

definition frameURL :: "jstring option \<Rightarrow> nat \<Rightarrow> js_error + jstring option" where
  "frameURL ticket frameNonce = (case ticket of
      None \<Rightarrow> Inr None
    | Some t \<Rightarrow> (case encodeURIComponent t of
        Inl err \<Rightarrow> Inl err
      | Inr x \<Rightarrow> Inr (Some (lit ''/v1/computer/frame?ticket='' @ x @ lit ''&frame='' @ nat_text frameNonce))))"

definition inputURL :: "jstring \<Rightarrow> js_error + jstring" where
  "inputURL ticket = (case encodeURIComponent ticket of
      Inl err \<Rightarrow> Inl err
    | Inr x \<Rightarrow> Inr (lit ''/v1/computer/input?ticket='' @ x))"

definition credentialURL :: "jstring \<Rightarrow> js_error + jstring" where
  "credentialURL sessionID = (case encodeURIComponent sessionID of
      Inl err \<Rightarrow> Inl err
    | Inr x \<Rightarrow> Inr (lit ''/v1/browser-credentials?session_id='' @ x))"

text \<open>What the server reads as the value of the first parameter: up to an ampersand.\<close>

definition first_parameter :: "jstring \<Rightarrow> jstring" where
  "first_parameter a = takeWhile (\<lambda>u. u \<noteq> 38) (drop 1 (dropWhile (\<lambda>u. u \<noteq> 61) a))"

lemma first_parameter_value:
  assumes "61 \<notin> set pre" "38 \<notin> set x" "post = [] \<or> hd post = 38"
  shows "first_parameter (pre @ 61 # x @ post) = x"
proof -
  have "dropWhile (\<lambda>u. u \<noteq> 61) (pre @ 61 # x @ post) = 61 # x @ post"
    using assms(1) by (subst dropWhile_append2) auto
  moreover have "takeWhile (\<lambda>u. u \<noteq> 38) post = []" using assms(3) by (cases post) auto
  moreover have "takeWhile (\<lambda>u. u \<noteq> 38) (x @ post) = x @ takeWhile (\<lambda>u. u \<noteq> 38) post"
    using assms(2) by (subst takeWhile_append2) auto
  ultimately show ?thesis by (simp add: first_parameter_def)
qed

lemma address_unit_ampersand: "list_all address_unit x \<Longrightarrow> 38 \<notin> set x"
  by (auto simp: list_all_iff address_unit_def unreserved_def Let_def)

lemma encoded_parameter:
  assumes "encodeURIComponent t = Inr x" "61 \<notin> set pre" "post = [] \<or> hd post = 38"
  shows "well_formed_text t \<and> decodeURIComponent (first_parameter (pre @ 61 # x @ post)) = Inr t"
  using uri_component_round_trip [of t] assms first_parameter_value [OF assms(2) address_unit_ampersand assms(3)] by simp

lemma encoding_fails: "encodeURIComponent t = Inl err \<Longrightarrow> \<not> well_formed_text t"
  using uri_component_round_trip [of t] by simp

text \<open>
  (C26) Whatever the ticket or the conversation is called, the server reads it back from the address: no text
  can end its parameter early or add another one. The only texts without an address are the ones with a
  surrogate that has no partner.
\<close>

theorem addresses_carry_values:
  "(case frameURL (Some t) n of
      Inl _ \<Rightarrow> \<not> well_formed_text t
    | Inr a \<Rightarrow> well_formed_text t \<and> (case a of None \<Rightarrow> False | Some u \<Rightarrow> decodeURIComponent (first_parameter u) = Inr t)) \<and>
   (case inputURL t of
      Inl _ \<Rightarrow> \<not> well_formed_text t
    | Inr u \<Rightarrow> well_formed_text t \<and> decodeURIComponent (first_parameter u) = Inr t) \<and>
   (case credentialURL t of
      Inl _ \<Rightarrow> \<not> well_formed_text t
    | Inr u \<Rightarrow> well_formed_text t \<and> decodeURIComponent (first_parameter u) = Inr t)"
proof (cases "encodeURIComponent t")
  case (Inl err)
  then show ?thesis using encoding_fails [OF Inl] by (simp add: frameURL_def inputURL_def credentialURL_def)
next
  case (Inr x)
  have "lit ''/v1/computer/frame?ticket='' @ y = lit ''/v1/computer/frame?ticket'' @ 61 # y"
    "lit ''/v1/computer/input?ticket='' @ y = lit ''/v1/computer/input?ticket'' @ 61 # y"
    "lit ''/v1/browser-credentials?session_id='' @ y = lit ''/v1/browser-credentials?session_id'' @ 61 # y" for y
    by (simp_all add: lit_def)
  moreover have "61 \<notin> set (lit ''/v1/computer/frame?ticket'')" "61 \<notin> set (lit ''/v1/computer/input?ticket'')"
    "61 \<notin> set (lit ''/v1/browser-credentials?session_id'')" "hd (lit ''&frame='' @ nat_text n) = 38"
    by (simp_all add: lit_def)
  ultimately show ?thesis
    using Inr encoded_parameter [OF Inr, of "lit ''/v1/computer/frame?ticket''" "lit ''&frame='' @ nat_text n"]
      encoded_parameter [OF Inr, of "lit ''/v1/computer/input?ticket''" "[]"]
      encoded_parameter [OF Inr, of "lit ''/v1/browser-credentials?session_id''" "[]"]
    by (simp add: frameURL_def inputURL_def credentialURL_def del: nat_text.simps)
qed

end
