(* ===== verification/Office.thy ===== *)
theory Office
  imports Media UriText
begin

text \<open>
  The studio for documents, \<open>ui/web/src/routes/OfficeStudio.tsx\<close>: the library, the document that is open with its
  versions, and the life of the embedded editor. The editor itself is third-party code: what it reports comes
  as events.
\<close>

section \<open>Values of the server\<close>

record office_document =
  od_id :: jstring
  od_title :: jstring
  od_extension :: jstring
  od_current_version :: jstring
  od_starred :: bool

record office_version =
  ov_id :: jstring
  ov_sequence :: int

record office_status =
  ot_configured :: bool
  ot_available :: bool
  ot_public_path :: jstring

record office_session =
  oe_id :: jstring
  oe_config :: jsval

text \<open>The values as the types of the source read them.\<close>

definition document_of :: "jsval \<Rightarrow> office_document" where
  "document_of v = \<lparr>od_id = str_of (fld v ''id''), od_title = str_of (fld v ''title''), od_extension = str_of (fld v ''extension''),
     od_current_version = str_of (fld v ''current_version_id''), od_starred = (fld v ''starred'' = JBool True)\<rparr>"

definition version_of :: "jsval \<Rightarrow> office_version" where
  "version_of v = \<lparr>ov_id = str_of (fld v ''id''), ov_sequence = (case safe_int (fld v ''sequence'') of Some n \<Rightarrow> n | None \<Rightarrow> 0)\<rparr>"

definition status_of :: "jsval \<Rightarrow> office_status" where
  "status_of v = \<lparr>ot_configured = (fld v ''configured'' = JBool True), ot_available = (fld v ''available'' = JBool True),
     ot_public_path = str_of (fld v ''public_path'')\<rparr>"

definition session_of :: "jsval \<Rightarrow> office_session" where
  "session_of v = \<lparr>oe_id = str_of (fld v ''id''), oe_config = fld v ''editor_config''\<rparr>"

section \<open>Requests\<close>

definition API_BASE :: jstring where
  "API_BASE = lit ''/v1/office''"

definition officeRequest :: "jstring \<Rightarrow> js_error + page_request" where
  "officeRequest path = Inr \<lparr>pq_method = ''GET'', pq_path = API_BASE @ path, pq_headers = [accept_json], pq_body = NoBody\<rparr>"

definition officeMutation :: "js_error + jstring \<Rightarrow> jstring \<Rightarrow> string \<Rightarrow> page_body \<Rightarrow> js_error + page_request" where
  "officeMutation token path method body = (case token of
      Inl err \<Rightarrow> Inl err
    | Inr t \<Rightarrow> Inr \<lparr>pq_method = method, pq_path = API_BASE @ path,
        pq_headers = [accept_json, (''X-Ion-CSRF'', t)] @
          (case body of JsonBody _ \<Rightarrow> [(''Content-Type'', lit ''application/json'')] | _ \<Rightarrow> []),
        pq_body = body\<rparr>)"

definition decodeOfficeResponse :: "platform \<Rightarrow> http_reply \<Rightarrow> js_error + jsval" where
  "decodeOfficeResponse pf r = (case r of
      Unreachable err \<Rightarrow> Inl err
    | Status n body \<Rightarrow>
        if status_ok n then (if n = 204 then Inr JUndef else case body of None \<Rightarrow> Inl SyntaxError | Some v \<Rightarrow> Inr v)
        else case body of
          None \<Rightarrow> Inl (Error (lit ''The Office request failed.''))
        | Some v \<Rightarrow> if v = JNull then Inl (TypeError [])
            else Inl (Error (to_string pf (or_else (fld v ''error'') (JStr (lit ''The Office request failed.''))))))"

text \<open>
  Requests that are awaited together: what came back in the order it did, each with its position. The
  first failure is the failure of all.
\<close>

type_synonym office_reply = "(nat \<times> http_reply) list"

fun settled :: "platform \<Rightarrow> office_reply \<Rightarrow> js_error + (nat \<times> jsval) list" where
  "settled pf [] = Inr []"
| "settled pf ((i, r) # rs) = (case decodeOfficeResponse pf r of
      Inl err \<Rightarrow> Inl err
    | Inr v \<Rightarrow> (case settled pf rs of Inl err \<Rightarrow> Inl err | Inr vs \<Rightarrow> Inr ((i, v) # vs)))"

definition value_at :: "nat \<Rightarrow> (nat \<times> jsval) list \<Rightarrow> jsval" where
  "value_at i vs = (case map_of vs i of None \<Rightarrow> JUndef | Some v \<Rightarrow> v)"

definition document_path :: "jstring \<Rightarrow> jstring" where
  "document_path i = lit ''/documents/'' @ i"

section \<open>The studio\<close>

record office =
  of_status :: "office_status option"
  of_documents :: "office_document list"
  of_active :: "office_document option"
  of_session :: "office_session option"
  of_versions :: "office_version list"
  of_archived :: bool
  of_search :: jstring
  of_busy :: bool
  of_notice :: jstring
  of_starting :: nat

text \<open>\<open>of_starting\<close>: how many of the two first requests the page still waits for, 0 once they have ended or one failed.\<close>

definition initial_office :: office where
  "initial_office = \<lparr>of_status = None, of_documents = [], of_active = None, of_session = None, of_versions = [],
     of_archived = False, of_search = [], of_busy = True, of_notice = [], of_starting = 2\<rparr>"

datatype list_reason = Starting | AfterChange | AfterStar | ShowArchived | BackToLibrary

datatype office_task =
    LoadStatus
  | LoadDocuments list_reason
  | CreateDocument
  | UploadDocument
  | OpenDocument jstring
  | UpdateDocument bool list_reason
  | DeleteDocument bool
  | RestoreVersion jstring
  | RestoredVersion

type_synonym office_result = "(office, office_task) web_result"

definition loadDocuments :: "list_reason \<Rightarrow> bool \<Rightarrow> office_task web_effect" where
  "loadDocuments reason archived = Fetches (LoadDocuments reason)
     (officeRequest (lit ''/documents?archived='' @ (if archived then lit ''true'' else lit ''false'')))"

definition visibleDocuments :: "(jstring \<Rightarrow> jstring) \<Rightarrow> office \<Rightarrow> office_document list" where
  "visibleDocuments lower s = (let query = lower (trim (of_search s)) in
     if query = [] then of_documents s else filter (\<lambda>d. sublist query (lower (od_title d))) (of_documents s))"

definition createDocument :: "js_error + jstring \<Rightarrow> string \<Rightarrow> string \<Rightarrow> office \<Rightarrow> office_result" where
  "createDocument token kind title s = (s\<lparr>of_notice := []\<rparr>, [Fetches CreateDocument
     (officeMutation token (lit ''/documents'') ''POST'' (JsonBody (JObj [lit_field ''kind'' kind, lit_field ''title'' title])))])"

text \<open>\<open>file.name.replace(/\\.[^.]+$/, '')\<close>.\<close>

definition file_title :: "jstring \<Rightarrow> jstring" where
  "file_title name = (let r = rev name; extension = takeWhile (\<lambda>u. u \<noteq> 46) r; rest = dropWhile (\<lambda>u. u \<noteq> 46) r in
     if extension \<noteq> [] \<and> rest \<noteq> [] then rev (tl rest) else name)"

definition uploadDocument :: "js_error + jstring \<Rightarrow> jstring \<Rightarrow> office \<Rightarrow> office_result" where
  "uploadDocument token name s = (s\<lparr>of_notice := lit ''Importing document'' @ ellipsis\<rparr>,
     [Fetches UploadDocument (officeMutation token (lit ''/documents/upload'') ''POST'' (FormBody (file_title name) name))])"

definition openDocument :: "js_error + jstring \<Rightarrow> office_document \<Rightarrow> office \<Rightarrow> office_result" where
  "openDocument token d s = (s\<lparr>of_active := Some d, of_session := None, of_versions := [],
       of_notice := lit ''Opening editor'' @ ellipsis\<rparr>,
     [FetchesAll (OpenDocument (od_id d)) [officeMutation token (document_path (od_id d) @ lit ''/session'') ''POST'' NoBody,
        officeRequest (document_path (od_id d) @ lit ''/versions'')]])"

definition updateDocument :: "js_error + jstring \<Rightarrow> office_document \<Rightarrow> jsval \<Rightarrow> list_reason \<Rightarrow> office \<Rightarrow> office_result" where
  "updateDocument token d update reason s = (s, [Fetches (UpdateDocument (of_archived s) reason)
     (officeMutation token (document_path (od_id d)) ''PATCH'' (JsonBody update))])"

text \<open>\<open>answer\<close> is what the dialog of the browser returns.\<close>

definition renameDocument :: "js_error + jstring \<Rightarrow> office_document \<Rightarrow> jstring option \<Rightarrow> office \<Rightarrow> office_result" where
  "renameDocument token d answer s = (case answer of
      None \<Rightarrow> (s, [])
    | Some t \<Rightarrow> let title = trim t in
        if title = [] \<or> title = od_title d then (s, [])
        else updateDocument token d (JObj [str_field ''title'' title]) AfterChange s)"

definition archiveDocument :: "js_error + jstring \<Rightarrow> office_document \<Rightarrow> office \<Rightarrow> office_result" where
  "archiveDocument token d s = updateDocument token d (JObj [(lit ''archive'', JBool (\<not> of_archived s))]) AfterChange s"

definition deleteDocument :: "js_error + jstring \<Rightarrow> office_document \<Rightarrow> bool \<Rightarrow> office \<Rightarrow> office_result" where
  "deleteDocument token d confirmed s = (if confirmed
     then (s, [Fetches (DeleteDocument (of_archived s)) (officeMutation token (document_path (od_id d)) ''DELETE'' NoBody)])
     else (s, []))"

definition restoreVersion :: "js_error + jstring \<Rightarrow> office_version \<Rightarrow> office \<Rightarrow> office_result" where
  "restoreVersion token v s = (case of_active s of
      None \<Rightarrow> (s, [])
    | Some d \<Rightarrow> (s\<lparr>of_notice := lit ''Restoring version '' @ int_text (ov_sequence v) @ ellipsis\<rparr>,
        [Fetches (RestoreVersion (od_id d))
          (officeMutation token (document_path (od_id d) @ lit ''/versions/'' @ ov_id v @ lit ''/restore'') ''POST'' NoBody)]))"

datatype office_input =
    MountOffice
  | SearchOffice jstring
  | PressCreate string string
  | PickFile jstring
  | PressOpenDocument office_document
  | PressStar office_document
  | PressRenameDocument office_document "jstring option"
  | PressArchiveDocument office_document
  | PressDeleteDocument office_document bool
  | PressShowArchived
  | PressBack
  | PressTryAgain
  | PressRestore office_version
  | EditorSays jstring

definition engine_ready :: "office \<Rightarrow> bool" where
  "engine_ready s = (case of_status s of None \<Rightarrow> False | Some st \<Rightarrow> ot_configured st \<and> ot_available st)"

definition library_shown :: "office \<Rightarrow> bool" where
  "library_shown s \<longleftrightarrow> of_active s = None \<and> engine_ready s"

text \<open>What a row of the library does; \<open>token\<close> is what reading the cookie gives.\<close>

fun office_row :: "js_error + jstring \<Rightarrow> office_input \<Rightarrow> office \<Rightarrow> office_result" where
  "office_row token (PressOpenDocument d) s = openDocument token d s"
| "office_row token (PressStar d) s = (if of_archived s then (s, [])
     else updateDocument token d (JObj [(lit ''star'', JBool (\<not> od_starred d))]) AfterStar s)"
| "office_row token (PressRenameDocument d answer) s = renameDocument token d answer s"
| "office_row token (PressArchiveDocument d) s = archiveDocument token d s"
| "office_row token (PressDeleteDocument d confirmed) s = deleteDocument token d confirmed s"
| "office_row token _ s = (s, [])"

fun row_of :: "office_input \<Rightarrow> office_document option" where
  "row_of (PressOpenDocument d) = Some d"
| "row_of (PressStar d) = Some d"
| "row_of (PressRenameDocument d _) = Some d"
| "row_of (PressArchiveDocument d) = Some d"
| "row_of (PressDeleteDocument d _) = Some d"
| "row_of _ = None"

fun office_handle :: "js_error + jstring \<Rightarrow> office_input \<Rightarrow> office \<Rightarrow> office_result" where
  "office_handle token MountOffice s = (s, [Fetches LoadStatus (officeRequest (lit ''/status'')), loadDocuments Starting False])"
| "office_handle token (SearchOffice v) s = (if library_shown s then (s\<lparr>of_search := v\<rparr>, []) else (s, []))"
| "office_handle token (PressCreate kind title) s = (if library_shown s then createDocument token kind title s else (s, []))"
| "office_handle token (PickFile name) s = (if library_shown s then uploadDocument token name s else (s, []))"
| "office_handle token PressShowArchived s = (if library_shown s
     then (s\<lparr>of_archived := \<not> of_archived s, of_busy := True\<rparr>, [loadDocuments ShowArchived (\<not> of_archived s)]) else (s, []))"
| "office_handle token PressBack s = (if of_active s = None then (s, [])
     else (s\<lparr>of_active := None, of_session := None\<rparr>, [loadDocuments BackToLibrary (of_archived s)]))"
| "office_handle token PressTryAgain s = (case of_active s of
      None \<Rightarrow> (s, [])
    | Some d \<Rightarrow> if of_session s = None then openDocument token d s else (s, []))"
| "office_handle token (PressRestore v) s = (case of_active s of
      None \<Rightarrow> (s, [])
    | Some d \<Rightarrow> if v \<in> set (of_versions s) \<and> ov_id v \<noteq> od_current_version d then restoreVersion token v s else (s, []))"
| "office_handle token (EditorSays m) s = (if of_active s \<noteq> None \<and> of_session s \<noteq> None then (s\<lparr>of_notice := m\<rparr>, []) else (s, []))"
| "office_handle token u s = office_row token u s"

definition office_react :: "(jstring \<Rightarrow> jstring) \<Rightarrow> (js_error + jstring) \<times> office_input \<Rightarrow> office \<Rightarrow> office_result" where
  "office_react lower x s = (case x of (token, u) \<Rightarrow> (case row_of u of
      None \<Rightarrow> office_handle token u s
    | Some d \<Rightarrow> if library_shown s \<and> d \<in> set (visibleDocuments lower s) then office_row token u s else (s, [])))"

definition starting_done :: "office \<Rightarrow> office" where
  "starting_done s = (if of_starting s = 0 then s
     else s\<lparr>of_starting := of_starting s - 1, of_busy := (of_starting s \<noteq> 1 \<and> of_busy s)\<rparr>)"

definition starting_failed :: "jstring \<Rightarrow> office \<Rightarrow> office" where
  "starting_failed m s = (if of_starting s = 0 then s else s\<lparr>of_starting := 0, of_busy := False, of_notice := m\<rparr>)"

definition documents_of :: "jsval \<Rightarrow> office_document list" where
  "documents_of v = map document_of (elems v)"

definition documents_loaded :: "list_reason \<Rightarrow> (js_error + jsval) \<Rightarrow> (js_error \<Rightarrow> jstring) \<Rightarrow> office \<Rightarrow> office" where
  "documents_loaded reason result message s = (case result of
      Inr v \<Rightarrow> (let s = s\<lparr>of_documents := documents_of v\<rparr> in
        case reason of Starting \<Rightarrow> starting_done s | ShowArchived \<Rightarrow> s\<lparr>of_busy := False\<rparr> | _ \<Rightarrow> s)
    | Inl err \<Rightarrow> (case reason of
        Starting \<Rightarrow> starting_failed (message err) s
      | AfterChange \<Rightarrow> s\<lparr>of_notice := message err\<rparr>
      | ShowArchived \<Rightarrow> s\<lparr>of_notice := message err, of_busy := False\<rparr>
      | _ \<Rightarrow> s))"

fun office_done :: "(js_error + jstring) \<Rightarrow> (js_error \<Rightarrow> jstring) \<Rightarrow> office_task \<Rightarrow> js_error + (nat \<times> jsval) list \<Rightarrow> office \<Rightarrow> office_result" where
  "office_done token message LoadStatus (Inr vs) s = (starting_done (s\<lparr>of_status := Some (status_of (value_at 0 vs))\<rparr>), [])"
| "office_done token message LoadStatus (Inl err) s = (starting_failed (message err) s, [])"
| "office_done token message (LoadDocuments reason) result s =
     (documents_loaded reason (map_sum id (value_at 0) result) message s, [])"
| "office_done token message CreateDocument (Inr vs) s =
     openDocument token (document_of (value_at 0 vs)) (s\<lparr>of_documents := document_of (value_at 0 vs) # of_documents s\<rparr>)"
| "office_done token message UploadDocument (Inr vs) s = (s\<lparr>of_documents := document_of (value_at 0 vs) # of_documents s,
     of_notice := lit ''The imported file is stored as an encrypted immutable version.''\<rparr>, [])"
| "office_done token message (OpenDocument i) (Inr vs) s =
     (s\<lparr>of_session := Some (session_of (value_at 0 vs)), of_versions := map version_of (elems (value_at 1 vs)), of_notice := []\<rparr>, [])"
| "office_done token message (UpdateDocument archived reason) (Inr vs) s = (s, [loadDocuments reason archived])"
| "office_done token message (UpdateDocument archived AfterStar) (Inl err) s = (s, [])"
| "office_done token message (DeleteDocument archived) (Inr vs) s = (s, [loadDocuments AfterChange archived])"
| "office_done token message (RestoreVersion i) (Inr vs) s = (s, [FetchesAll RestoredVersion
     [officeRequest (document_path i), officeRequest (document_path i @ lit ''/versions'')]])"
| "office_done token message RestoredVersion (Inr vs) s =
     (s\<lparr>of_active := Some (document_of (value_at 0 vs)), of_versions := map version_of (elems (value_at 1 vs)), of_session := None,
       of_notice := lit ''The historical content was restored as a new immutable version. Reopen the editor to continue.''\<rparr>, [])"
| "office_done token message task (Inl err) s = (s\<lparr>of_notice := message err\<rparr>, [])"

text \<open>\<open>token\<close> is the one that is read when the request for a new document has been answered.\<close>

definition office_proceed ::
    "platform \<Rightarrow> chat_env \<Rightarrow> office_task \<Rightarrow> (js_error + jstring) \<times> office_reply \<Rightarrow> office \<Rightarrow> office_result" where
  "office_proceed pf env task r s = office_done (fst r) (chat_error env) task (settled pf (snd r)) s"

section \<open>Requests are protected\<close>

fun protected_request :: "js_error + page_request \<Rightarrow> bool" where
  "protected_request (Inl _) = True"
| "protected_request (Inr q) \<longleftrightarrow> prefix API_BASE (pq_path q) \<and> (pq_method q = ''GET'' \<or> ''X-Ion-CSRF'' \<in> set (map fst (pq_headers q)))"

fun requests :: "'t web_effect list \<Rightarrow> (js_error + page_request) list" where
  "requests [] = []"
| "requests (Fetches _ q # es) = q # requests es"
| "requests (FetchesAll _ qs # es) = qs @ requests es"
| "requests (_ # es) = requests es"

lemma requests_append [simp]: "requests (es @ fs) = requests es @ requests fs"
  by (induction es rule: requests.induct) simp_all

lemma protected_office [simp]:
  "protected_request (officeRequest path)" "protected_request (officeMutation token path method body)"
  by (simp_all add: officeRequest_def officeMutation_def split: sum.splits)






section \<open>Answers that come late\<close>

text \<open>
  (C28) An answer to an opening is taken whatever document is open by then: when a first document is opened, left,
  and another one is opened, and the answers come in the other order, the second document is shown with the
  editor session and the versions of the first.
\<close>

theorem late_session_of_another_document:
  assumes "library_shown s" "a \<in> set (visibleDocuments lower s)" "b \<in> set (visibleDocuments lower s)" "od_id a \<noteq> od_id b"
    "settled pf ra = Inr [(0, sa), (1, va)]" "settled pf rb = Inr [(0, sb), (1, vb)]"
  shows "let c = fst (fst (component_run (office_react lower) (office_proceed pf env)
      [Does (token, PressOpenDocument a), Does (token, PressBack), Does (token, PressOpenDocument b),
       Settles (OpenDocument (od_id b)) (token, rb), Settles (OpenDocument (od_id a)) (token, ra)] (s, []))) in
    of_active c = Some b \<and> of_session c = Some (session_of sa) \<and> of_versions c = map version_of (elems va)"
proof -
  have "of_active s = None" "engine_ready s" using assms(1) by (simp_all add: library_shown_def)
  then show ?thesis
    using assms by (auto simp: office_react_def office_proceed_def openDocument_def loadDocuments_def value_at_def
        visibleDocuments_def library_shown_def engine_ready_def Let_def split: if_splits)
qed

definition example_document :: "string \<Rightarrow> office_document" where
  "example_document i = \<lparr>od_id = lit i, od_title = lit i, od_extension = lit ''.docx'', od_current_version = [], od_starred = False\<rparr>"

definition example_office :: office where
  "example_office = initial_office\<lparr>of_status := Some \<lparr>ot_configured = True, ot_available = True, ot_public_path = []\<rparr>,
     of_documents := [example_document ''a'', example_document ''b'']\<rparr>"

definition example_opening :: "string \<Rightarrow> office_reply" where
  "example_opening i = [(0, Status 200 (Some (JObj [str_field ''id'' (lit i)]))), (1, Status 200 (Some (JArr [])))]"

theorem late_session_of_another_document_witness:
  "let c = fst (fst (component_run (office_react id) (office_proceed example_platform example_chat)
      [Does (Inr [], PressOpenDocument (example_document ''a'')), Does (Inr [], PressBack),
       Does (Inr [], PressOpenDocument (example_document ''b'')),
       Settles (OpenDocument (od_id (example_document ''b''))) (Inr [], example_opening ''2''),
       Settles (OpenDocument (od_id (example_document ''a''))) (Inr [], example_opening ''1'')] (example_office, []))) in
    of_active c = Some (example_document ''b'') \<and> of_session c = Some (session_of (JObj [str_field ''id'' (lit ''1'')])) \<and>
    of_versions c = map version_of (elems (JArr []))"
  by (rule late_session_of_another_document)
    (simp_all add: example_office_def example_document_def example_opening_def initial_office_def library_shown_def
      engine_ready_def visibleDocuments_def trim_def trim_start_def decodeOfficeResponse_def status_ok_def lit_def)

text \<open>A document that was left while a version is being restored opens again when the answer comes.\<close>

lemma left_document_reopens:
  "of_active (fst (office_done token message RestoredVersion (Inr vs) (s\<lparr>of_active := None\<rparr>))) = Some (document_of (value_at 0 vs))"
  by simp

text \<open>
  The list is the one of the request that was answered last: after going to the archived files and back, an
  answer that comes late shows the archived files under the recent ones, where the button archives them
  once more.
\<close>

lemma late_list_shown:
  assumes "library_shown s" "\<not> of_archived s" "settled pf recent = Inr [(0, JArr xs)]" "settled pf old = Inr [(0, JArr ys)]"
  shows "let c = fst (fst (component_run (office_react lower) (office_proceed pf env)
      [Does (token, PressShowArchived), Does (token, PressShowArchived), Settles (LoadDocuments ShowArchived) (token, recent),
       Settles (LoadDocuments ShowArchived) (token, old)] (s, []))) in
    \<not> of_archived c \<and> of_documents c = map document_of ys"
  unfolding Let_def using assms
  by (simp add: office_react_def office_proceed_def loadDocuments_def documents_loaded_def documents_of_def value_at_def
      library_shown_def engine_ready_def)

text \<open>The first two requests free the page when both have ended or one failed.\<close>

lemma starting_ends:
  "of_busy (starting_done (starting_done (s\<lparr>of_starting := 2\<rparr>))) = False \<and> of_busy (starting_failed m (s\<lparr>of_starting := 2\<rparr>)) = False"
  by (simp add: starting_done_def starting_failed_def)

end
