(* ===== verification/Spec2Isabelle.thy ===== *)
theory Spec2Isabelle
  imports DisplayProperties LocalProperties TuiProperties TuiRender CliProperties ChatProperties ChatStream
    ComputerProperties ControlProperties StudioTests Office
begin

text \<open>
  A verification of the operator clients of Ion Agent.
\<close>

end
